(* ===== verification/AgenID_Prelude.thy ===== *)
theory AgenID_Prelude
  imports Main "HOL-Library.Word" "HOL-Library.List_Lexorder" "HOL-Library.Multiset"
begin

section \<open>Prelude: strings, bytes, results and the generic lemmas the components share\<close>

text \<open>
  The types every component uses and the automation they share.

  A JavaScript string is a list of UTF-16 code units, here 16-bit words; a byte array
  (\<open>Uint8Array\<close>, \<open>Buffer\<close>) is a list of 8-bit words.  String literals of the source are
  written \<open>js ''...''\<close>.  The order of \<open>HOL-Library.List_Lexorder\<close> on such lists is the
  order of the operator \<open><\<close> of ECMAScript on strings: lexicographic by code unit, a proper
  prefix first.

  A function that may throw returns a sum: \<open>Inl\<close> the error, \<open>Inr\<close> the value.
\<close>

type_synonym code_unit = "16 word"
type_synonym jstr = "code_unit list"
type_synonym byte = "8 word"
type_synonym bytes = "byte list"

named_theorems obj_defs "the objects the typed records stand for"
named_theorems code_text "fixed texts and codes, unfolded to compare them"
named_theorems wf_rules "rules that establish well-formedness of values"

subsection \<open>String literals and character classes\<close>

definition js :: "string \<Rightarrow> jstr" where
  "js s = map of_char s"

definition jc :: "char \<Rightarrow> code_unit" where
  "jc c = of_char c"

lemma js_simps [simp]: "js [] = []" "js (c # cs) = of_char c # js cs"
  by (simp_all add: js_def)

lemma js_append [simp]: "js (s @ t) = js s @ js t"
  by (simp add: js_def)

lemma length_js [simp]: "length (js s) = length s"
  by (simp add: js_def)

lemma jc_simp [simp]: "jc c = of_char c"
  by (simp add: jc_def)

lemma unat_of_char_cu: "unat (of_char e :: code_unit) = of_char e"
proof -
  have "(of_char e :: nat) mod 256 < 256" by simp
  then have "(of_char e :: nat) < 65536" by (simp only: of_char_mod_256)
  then have "unat (of_nat (of_char e) :: code_unit) = of_char e" by (subst unat_of_nat) simp
  then show ?thesis by (simp only: of_nat_of_char)
qed

lemma of_char_cu_inject: "(of_char c :: code_unit) = of_char d \<longleftrightarrow> c = d"
  by (metis unat_of_char_cu of_char_eq_iff)

lemma js_inject: "js s = js t \<longleftrightarrow> s = t"
  unfolding js_def by (rule inj_map_eq_map) (simp add: inj_def of_char_cu_inject)

definition in_range :: "char \<Rightarrow> char \<Rightarrow> code_unit \<Rightarrow> bool" where
  "in_range a b c \<longleftrightarrow> of_char a \<le> c \<and> c \<le> of_char b"

definition is_digit :: "code_unit \<Rightarrow> bool" where
  "is_digit c \<longleftrightarrow> in_range CHR ''0'' CHR ''9'' c"

definition is_lower :: "code_unit \<Rightarrow> bool" where
  "is_lower c \<longleftrightarrow> in_range CHR ''a'' CHR ''z'' c"

definition is_upper :: "code_unit \<Rightarrow> bool" where
  "is_upper c \<longleftrightarrow> in_range CHR ''A'' CHR ''Z'' c"

definition is_alnum :: "code_unit \<Rightarrow> bool" where
  "is_alnum c \<longleftrightarrow> is_digit c \<or> is_lower c \<or> is_upper c"

lemmas class_defs = in_range_def is_digit_def is_lower_def is_upper_def is_alnum_def

text \<open>A prefix test that returns the rest, the shape of every \<open>^literal...\<close> pattern here.\<close>

fun strip_prefix :: "jstr \<Rightarrow> jstr \<Rightarrow> jstr option" where
  "strip_prefix [] s = Some s"
| "strip_prefix (p # ps) [] = None"
| "strip_prefix (p # ps) (c # cs) = (if p = c then strip_prefix ps cs else None)"

lemma strip_prefix_append [simp]: "strip_prefix p (p @ s) = Some s"
  by (induction p) auto

lemma strip_prefix_Some_iff: "strip_prefix p s = Some r \<longleftrightarrow> s = p @ r"
  by (induction p s rule: strip_prefix.induct) auto

definition after_prefix :: "jstr \<Rightarrow> (jstr \<Rightarrow> bool) \<Rightarrow> jstr \<Rightarrow> bool" where
  "after_prefix p P s = (case strip_prefix p s of None \<Rightarrow> False | Some r \<Rightarrow> P r)"

lemma after_prefix_iff: "after_prefix p P s \<longleftrightarrow> (\<exists>r. s = p @ r \<and> P r)"
  by (auto simp: after_prefix_def strip_prefix_Some_iff split: option.splits)

lemma after_prefix_append [simp]: "after_prefix p P (p @ r) = P r"
  by (simp add: after_prefix_def)

lemma unat_cu_less: "unat (c :: code_unit) < 65536"
  using unsigned_less [of c] by simp

lemma unat_byte_less: "unat (b :: byte) < 256"
  using unsigned_less [of b] by simp

subsection \<open>Splitting, joining and searching strings\<close>

text \<open>\<open>s.split(c)\<close> for a one-character separator; never the empty list.\<close>

fun split_on :: "code_unit \<Rightarrow> jstr \<Rightarrow> jstr list" where
  "split_on c [] = [[]]"
| "split_on c (x # xs) =
     (if x = c then [] # split_on c xs
      else (case split_on c xs of [] \<Rightarrow> [[x]] | y # ys \<Rightarrow> (x # y) # ys))"

fun join_with :: "jstr \<Rightarrow> jstr list \<Rightarrow> jstr" where
  "join_with sep [] = []"
| "join_with sep [x] = x"
| "join_with sep (x # y # ys) = x @ sep @ join_with sep (y # ys)"

lemma split_on_not_Nil [simp]: "split_on c s \<noteq> []"
  by (induction s) (auto split: list.splits)

lemma split_on_no_sep: "c \<notin> set s \<Longrightarrow> split_on c s = [s]"
  by (induction s) auto

lemma split_on_append: "c \<notin> set s \<Longrightarrow> split_on c (s @ c # t) = s # split_on c t"
  by (induction s) auto

lemma split_on_parts_no_sep: "p \<in> set (split_on c s) \<Longrightarrow> c \<notin> set p"
proof (induction s arbitrary: p)
  case (Cons x xs)
  then show ?case by (cases "split_on c xs") (auto split: if_splits)
qed auto

lemma join_split_on: "join_with [c] (split_on c s) = s"
proof (induction s)
  case (Cons x xs)
  then show ?case
    by (cases "split_on c xs"; cases "tl (split_on c xs)") auto
qed simp

lemma join_with_Cons: "join_with sep (x # xs) = x @ concat (map (\<lambda>y. sep @ y) xs)"
  by (induction xs arbitrary: x) auto

text \<open>
  A list joined with separators, its items written by a prefix-cancelling \<open>f\<close>, can be read
  back up to its closing unit \<open>c\<close>.
\<close>

lemma concat_cancel:
  assumes "\<And>x y r r'. x \<in> set xs \<Longrightarrow> y \<in> set ys \<Longrightarrow> D r \<Longrightarrow> D r' \<Longrightarrow> f x @ r = f y @ r' \<Longrightarrow> x = y \<and> r = r'"
    and "\<And>r. D (sep # r)" "D (c # r)" "D (c # r')" "c \<noteq> sep"
    and "concat (map (\<lambda>x. [sep] @ f x) xs) @ c # r = concat (map (\<lambda>x. [sep] @ f x) ys) @ c # r'"
  shows "xs = ys \<and> r = r'"
  using assms
proof (induction xs arbitrary: ys)
  case Nil
  then show ?case by (cases ys) auto
next
  case (Cons x xs zs)
  from Cons.prems obtain y ys where ys: "zs = y # ys" by (cases zs) auto
  have D: "D (concat (map (\<lambda>x. [sep] @ f x) us) @ c # q)" if "D (c # q)" for us q
    using that Cons.prems(2) by (cases us) auto
  have "f x @ concat (map (\<lambda>x. [sep] @ f x) xs) @ c # r = f y @ concat (map (\<lambda>x. [sep] @ f x) ys) @ c # r'"
    using Cons.prems(6) ys by simp
  from Cons.prems(1) [OF _ _ D [OF Cons.prems(3)] D [OF Cons.prems(4)] this] ys
  have eq: "x = y" "concat (map (\<lambda>x. [sep] @ f x) xs) @ c # r = concat (map (\<lambda>x. [sep] @ f x) ys) @ c # r'"
    by auto
  have "xs = ys \<and> r = r'"
    by (rule Cons.IH [OF _ Cons.prems(2-5) eq(2)]) (use Cons.prems(1) ys in auto)
  with eq ys show ?case by simp
qed

lemma join_cancel:
  assumes item: "\<And>x y r r'. x \<in> set xs \<Longrightarrow> y \<in> set ys \<Longrightarrow> D r \<Longrightarrow> D r' \<Longrightarrow> f x @ r = f y @ r' \<Longrightarrow> x = y \<and> r = r'"
    and D: "\<And>r. D (sep # r)" "\<And>r. D (c # r)" and c: "c \<noteq> sep"
    and hd: "\<And>x. x \<in> set xs \<union> set ys \<Longrightarrow> f x \<noteq> [] \<and> hd (f x) \<noteq> c"
    and eq: "join_with [sep] (map f xs) @ c # r = join_with [sep] (map f ys) @ c # r'"
  shows "xs = ys \<and> r = r'"
proof (cases xs)
  have no: False if "x \<in> set xs \<union> set ys" "f x @ t = c # q" for x t q
    using hd [OF that(1)] that(2) by (cases "f x") auto
  case Nil
  with eq no [of "hd ys"] show ?thesis by (cases ys) (auto simp: join_with_Cons eq_commute)
next
  have no: False if "x \<in> set xs \<union> set ys" "f x @ t = c # q" for x t q
    using hd [OF that(1)] that(2) by (cases "f x") auto
  case (Cons x us)
  with eq no [of x] obtain y vs where ys: "ys = y # vs" by (cases ys) (auto simp: join_with_Cons)
  have "concat (map (\<lambda>x. [sep] @ f x) xs) @ c # r = concat (map (\<lambda>x. [sep] @ f x) ys) @ c # r'"
    using eq by (simp add: Cons ys join_with_Cons comp_def)
  then show ?thesis using item D c by (intro concat_cancel [where D = D and f = f]) auto
qed

text \<open>\<open>s.indexOf(c)\<close>: the position of the first occurrence.\<close>

fun index_of :: "code_unit \<Rightarrow> jstr \<Rightarrow> nat option" where
  "index_of c [] = None"
| "index_of c (x # xs) = (if x = c then Some 0 else map_option Suc (index_of c xs))"

lemma index_of_None_iff: "index_of c s = None \<longleftrightarrow> c \<notin> set s"
  by (induction s) auto

lemma index_of_append: "c \<notin> set s \<Longrightarrow> index_of c (s @ c # t) = Some (length s)"
  by (induction s) auto

lemma index_of_Some: "index_of c s = Some n \<Longrightarrow> n < length s \<and> s ! n = c \<and> c \<notin> set (take n s)"
  by (induction s arbitrary: n) (auto split: if_splits)

subsection \<open>Decimal numerals\<close>

text \<open>\<open>String(n)\<close> of a natural number.\<close>

definition digit_unit :: "nat \<Rightarrow> code_unit" where
  "digit_unit d = of_nat (48 + d)"

fun dec :: "nat \<Rightarrow> jstr" where
  "dec n = (if n < 10 then [digit_unit n] else dec (n div 10) @ [digit_unit (n mod 10)])"

declare dec.simps [simp del]

definition dec_int :: "int \<Rightarrow> jstr" where
  "dec_int i = (if i < 0 then of_char CHR ''-'' # dec (nat (- i)) else dec (nat i))"

definition digit_value :: "code_unit \<Rightarrow> nat" where
  "digit_value c = unat c - 48"

definition digits_value :: "jstr \<Rightarrow> nat" where
  "digits_value = foldl (\<lambda>n c. 10 * n + digit_value c) 0"

lemma digits_value_Nil [simp]: "digits_value [] = 0"
  by (simp add: digits_value_def)

lemma digits_value_snoc [simp]: "digits_value (s @ [c]) = 10 * digits_value s + digit_value c"
  by (simp add: digits_value_def)

lemma unat_digit_unit: "d < 10 \<Longrightarrow> unat (digit_unit d) = 48 + d"
  unfolding digit_unit_def by (subst unat_of_nat) simp

lemma is_digit_iff: "is_digit c \<longleftrightarrow> 48 \<le> unat c \<and> unat c \<le> 57"
  by (simp add: class_defs word_le_nat_alt)

lemma digit_value_digit_unit [simp]: "d < 10 \<Longrightarrow> digit_value (digit_unit d) = d"
  by (simp add: digit_value_def unat_digit_unit)

lemma is_digit_digit_unit [simp]: "d < 10 \<Longrightarrow> is_digit (digit_unit d)"
  by (simp add: is_digit_iff unat_digit_unit)

lemma digit_unit_digit_value: "is_digit c \<Longrightarrow> digit_unit (digit_value c) = c"
  by (simp add: digit_unit_def digit_value_def is_digit_iff)

lemma digit_value_less: "is_digit c \<Longrightarrow> digit_value c < 10"
  unfolding digit_value_def is_digit_iff by arith

lemma digits_value_dec [simp]: "digits_value (dec n) = n"
proof (induction n rule: dec.induct)
  case (1 n)
  then show ?case
    by (cases "n < 10") (auto simp: dec.simps [of n] digits_value_def)
qed

lemma dec_not_Nil [simp]: "dec n \<noteq> []"
  by (subst dec.simps) simp

lemma dec_digits: "list_all is_digit (dec n)"
proof (induction n rule: dec.induct)
  case (1 n)
  then show ?case by (cases "n < 10") (auto simp: dec.simps [of n])
qed

lemma dec_inject [simp]: "dec m = dec n \<longleftrightarrow> m = n"
  by (metis digits_value_dec)

subsection \<open>Results\<close>

text \<open>Sequencing of functions that may throw, in the order the source calls them.\<close>

definition rbind :: "'e + 'a \<Rightarrow> ('a \<Rightarrow> 'e + 'b) \<Rightarrow> 'e + 'b" where
  "rbind r f = (case r of Inl e \<Rightarrow> Inl e | Inr x \<Rightarrow> f x)"

lemma rbind_simps [simp]: "rbind (Inl e) f = Inl e" "rbind (Inr x) f = f x"
  by (simp_all add: rbind_def)

lemma rbind_Inr_iff: "rbind r f = Inr y \<longleftrightarrow> (\<exists>x. r = Inr x \<and> f x = Inr y)"
  by (cases r) auto

lemma rbind_Inl_iff: "rbind r f = Inl e \<longleftrightarrow> r = Inl e \<or> (\<exists>x. r = Inr x \<and> f x = Inl e)"
  by (cases r) auto

definition of_option :: "'e \<Rightarrow> 'a option \<Rightarrow> 'e + 'a" where
  "of_option e x = (case x of None \<Rightarrow> Inl e | Some y \<Rightarrow> Inr y)"

lemma of_option_simps [simp]: "of_option e None = Inl e" "of_option e (Some x) = Inr x"
  by (simp_all add: of_option_def)

definition is_ok :: "'e + 'a \<Rightarrow> bool" where
  "is_ok r = (case r of Inl _ \<Rightarrow> False | Inr _ \<Rightarrow> True)"

lemma is_ok_simps [simp]: "is_ok (Inl e) = False" "is_ok (Inr x) = True"
  by (simp_all add: is_ok_def)

text \<open>\<open>xs.map(f)\<close> for a callback that may throw: the first error stops the walk.\<close>

fun map_result :: "('a \<Rightarrow> 'e + 'b) \<Rightarrow> 'a list \<Rightarrow> 'e + 'b list" where
  "map_result f [] = Inr []"
| "map_result f (x # xs) = rbind (f x) (\<lambda>y. rbind (map_result f xs) (\<lambda>ys. Inr (y # ys)))"

lemma map_result_cong [fundef_cong]:
  "xs = ys \<Longrightarrow> (\<And>x. x \<in> set ys \<Longrightarrow> f x = g x) \<Longrightarrow> map_result f xs = map_result g ys"
  by (induction xs arbitrary: ys) auto

lemma map_result_all_Inr: "(\<And>x. x \<in> set xs \<Longrightarrow> f x = Inr (g x)) \<Longrightarrow> map_result f xs = Inr (map g xs)"
  by (induction xs) auto

lemma map_result_Inr_iff:
  "map_result f xs = Inr ys \<longleftrightarrow> list_all2 (\<lambda>x y. f x = Inr y) xs ys"
  by (induction xs arbitrary: ys) (auto simp: rbind_Inr_iff list_all2_Cons1)

subsection \<open>Generic list lemmas\<close>

lemma distinct_map_fst_inj:
  "distinct (map fst xs) \<Longrightarrow> (k, v) \<in> set xs \<Longrightarrow> (k, w) \<in> set xs \<Longrightarrow> v = w"
  by (metis map_of_eq_Some_iff option.inject)

lemma sort_key_perm_eq:
  assumes "mset xs = mset ys" and "distinct (map f xs)"
  shows "sort_key f xs = sort_key f ys"
proof (rule map_sorted_distinct_set_unique)
  have sets: "set xs = set ys" using assms(1) by (rule mset_eq_setD)
  show "inj_on f (set (sort_key f xs) \<union> set (sort_key f ys))"
    using assms(2) sets by (simp add: distinct_map)
  show "distinct (map f (sort_key f xs))" "distinct (map f (sort_key f ys))"
    using assms by (metis mset_eq_imp_distinct_iff mset_map mset_sort)+
  show "set (sort_key f xs) = set (sort_key f ys)" using sets by simp
qed simp_all

end
