(* ===== verification/JS_Value.thy ===== *)
theory JS_Value
  imports Complex_Main AgenID_Prelude
begin

section \<open>JavaScript values and their JSON text\<close>

text \<open>
  The values the program passes around as \<open>unknown\<close>, and the two ECMAScript primitives the
  canonicalization of \<open>packages/core/src/jcs.ts\<close> is built on: \<open>JSON.stringify\<close> of a string
  (\<open>quote\<close>, with the escapes of QuoteJSONString, lone surrogates included) and of a number
  (\<open>num_token\<close>, the algorithm of Number::toString).

  A finite number is given by the data Number::toString itself computes from a double: the
  sign, the shortest decimal significand \<open>s\<close> (of \<open>k\<close> digits, the last not 0) and the exponent
  \<open>n\<close>, so that the number is the double nearest to \<open>s * 10 powi (n - k)\<close>.  The map from
  doubles to these triples is injective, so the triple stands for the double.

  The last part proves that the JSON text determines the value: \<open>json_text\<close> is injective on
  plain values, whatever delimiter and text follow it (\<open>json_text_cancel\<close>).
\<close>

datatype jsnum =
    NumNaN
  | NumInf bool \<comment> \<open>negative?\<close>
  | NumFin bool nat int \<comment> \<open>negative?, significand \<open>s\<close>, exponent \<open>n\<close>\<close>

datatype jsval =
    JNull
  | JUndefined
  | JBool bool
  | JNum jsnum
  | JStr jstr
  | JBigInt int
  | JSymbol
  | JFunction
  | JArr "jsval list"
  | JObj "(jstr \<times> jsval) list" \<comment> \<open>a plain object: its own properties, in order\<close>
  | JInstance jstr "(jstr \<times> jsval) list" \<comment> \<open>an object with another prototype: its constructor's name, its own members\<close>

text \<open>\<open>v[k]\<close>, with \<open>undefined\<close> for an absent member.\<close>

definition get_member :: "jstr \<Rightarrow> jsval \<Rightarrow> jsval" where
  "get_member k v = (case v of JObj ms \<Rightarrow> (case map_of ms k of None \<Rightarrow> JUndefined | Some w \<Rightarrow> w) | _ \<Rightarrow> JUndefined)"

definition object_keys :: "jsval \<Rightarrow> jstr list" where
  "object_keys v = (case v of JObj ms \<Rightarrow> map fst ms | _ \<Rightarrow> [])"

text \<open>
  The finite numbers in normal form: a significand that does not end in 0, and one zero
  (the sign of \<open>-0\<close> is lost by every operation of the program: \<open>JSON.stringify(-0)\<close> is \<open>"0"\<close>).
\<close>

fun num_wf :: "jsnum \<Rightarrow> bool" where
  "num_wf (NumFin neg s n) = (if s = 0 then \<not> neg \<and> n = 0 else s mod 10 \<noteq> 0)"
| "num_wf _ = False"

text \<open>
  Documents: what \<open>JSON.parse\<close> returns (no \<open>undefined\<close>, no functions, one value per key), with
  the numbers in normal form.
\<close>

fun plain :: "jsval \<Rightarrow> bool" where
  "plain JNull = True"
| "plain (JBool b) = True"
| "plain (JNum n) = num_wf n"
| "plain (JStr s) = True"
| "plain (JArr vs) = list_all plain vs"
| "plain (JObj ms) = (distinct (map fst ms) \<and> list_all (\<lambda>(k, v). plain v) ms)"
| "plain _ = False"

text \<open>The same without the condition on numbers.\<close>

fun json_doc :: "jsval \<Rightarrow> bool" where
  "json_doc JNull = True"
| "json_doc (JBool b) = True"
| "json_doc (JNum n) = True"
| "json_doc (JStr s) = True"
| "json_doc (JArr vs) = list_all json_doc vs"
| "json_doc (JObj ms) = (distinct (map fst ms) \<and> list_all (\<lambda>(k, v). json_doc v) ms)"
| "json_doc _ = False"

lemma plain_json_doc: "plain v \<Longrightarrow> json_doc v"
  by (induction v) (auto simp: list_all_iff)

text \<open>The same value with the members of every object in key order.\<close>

fun jnorm :: "jsval \<Rightarrow> jsval" where
  "jnorm (JArr vs) = JArr (map jnorm vs)"
| "jnorm (JObj ms) = JObj (sort_key fst (map (\<lambda>(k, v). (k, jnorm v)) ms))"
| "jnorm v = v"

lemma insort_key_fst_map:
  "insort_key fst (k, g k v) (map (\<lambda>(k, v). (k, g k v)) xs) = map (\<lambda>(k, v). (k, g k v)) (insort_key fst (k, v) xs)"
  by (induction xs) auto

lemma sort_key_fst_map:
  "sort_key fst (map (\<lambda>(k, v). (k, g k v)) xs) = map (\<lambda>(k, v). (k, g k v)) (sort_key fst xs)"
  by (induction xs) (auto simp: insort_key_fst_map)

lemma jnorm_obj: "jnorm (JObj ms) = JObj (map (\<lambda>(k, v). (k, jnorm v)) (sort_key fst ms))"
  using sort_key_fst_map [of "\<lambda>k. jnorm"] by simp

lemma plain_jnorm: "plain v \<Longrightarrow> plain (jnorm v)"
proof (induction v)
  case (JObj ms)
  then have "plain (jnorm v)" if "(k, v) \<in> set ms" for k v
    using that by (fastforce simp: list_all_iff)
  moreover have "distinct (map fst (sort_key fst ms))" using JObj.prems by (simp add: distinct_map)
  ultimately show ?case
    unfolding jnorm_obj plain.simps by (auto simp: list_all_iff comp_def case_prod_unfold)
qed (simp_all add: list_all_iff)

text \<open>Equal up to the order of members: the same document.\<close>

definition same_json :: "jsval \<Rightarrow> jsval \<Rightarrow> bool" where
  "same_json v w \<longleftrightarrow> jnorm v = jnorm w"

lemma same_json_refl [simp]: "same_json v v"
  by (simp add: same_json_def)

lemma same_json_sym: "same_json v w \<Longrightarrow> same_json w v"
  by (simp add: same_json_def)

lemma same_json_trans: "same_json u v \<Longrightarrow> same_json v w \<Longrightarrow> same_json u w"
  by (simp add: same_json_def)

text \<open>Members of equal documents are equal: sorting is stable.\<close>

lemma map_of_filter:
  "map_of ms k = (case filter (\<lambda>m. fst m = k) ms of [] \<Rightarrow> None | m # _ \<Rightarrow> Some (snd m))"
  by (induction ms) auto

lemma map_of_sort: "map_of (sort_key fst ms) k = map_of ms k"
  unfolding map_of_filter by (simp add: sort_key_stable)

lemma get_member_jnorm: "get_member k (jnorm v) = jnorm (get_member k v)"
proof (cases v)
  case (JObj ms)
  have "map_of (map (\<lambda>(k, v). (k, jnorm v)) ms) k = map_option jnorm (map_of ms k)" for ms
    by (induction ms) auto
  then show ?thesis
    by (simp add: JObj get_member_def jnorm_obj map_of_sort split: option.split del: jnorm.simps) simp
qed (simp_all add: get_member_def)

lemma same_json_member: "same_json v w \<Longrightarrow> same_json (get_member k v) (get_member k w)"
  by (metis get_member_jnorm same_json_def)

lemma same_json_scalars [simp]:
  "same_json (JStr s) (JStr t) = (s = t)" "same_json (JBool b) (JBool c) = (b = c)"
  "same_json JNull (JStr s) = False" "same_json (JStr s) JNull = False"
  "same_json JUndefined (JStr s) = False" "same_json (JStr s) JUndefined = False"
  by (simp_all add: same_json_def)

lemma get_member_nth:
  "distinct (map fst ms) \<Longrightarrow> i < length ms \<Longrightarrow> get_member (fst (ms ! i)) (JObj ms) = snd (ms ! i)"
proof -
  assume "distinct (map fst ms)" "i < length ms"
  then have "map_of ms (fst (ms ! i)) = Some (snd (ms ! i))" by (simp add: map_of_eq_Some_iff)
  then show ?thesis by (simp add: get_member_def)
qed

text \<open>Equal documents with the same keys in the same positions have equal values there.\<close>

lemma same_json_values:
  assumes "same_json (JObj ms) (JObj ns)" "plain (JObj ms)" "map fst ms = map fst ns"
  shows "list_all2 same_json (map snd ms) (map snd ns)"
proof (rule list_all2_all_nthI)
  show "length (map snd ms) = length (map snd ns)" using assms(3) by (metis length_map)
  fix i assume i: "i < length (map snd ms)"
  have len: "length ns = length ms" using assms(3) by (metis length_map)
  have "fst (ms ! i) = fst (ns ! i)" using assms(3) i len by (metis length_map nth_map)
  moreover have "get_member (fst (ms ! i)) (JObj ms) = snd (ms ! i)" "get_member (fst (ns ! i)) (JObj ns) = snd (ns ! i)"
    using assms(2,3) i len by (auto intro!: get_member_nth)
  ultimately have "same_json (snd (ms ! i)) (snd (ns ! i))"
    using same_json_member [OF assms(1), of "fst (ms ! i)"] by simp
  then show "same_json (map snd ms ! i) (map snd ns ! i)" using i len by simp
qed

lemma same_json_arrays: "same_json (JArr vs) (JArr ws) = list_all2 same_json vs ws"
  unfolding same_json_def by (simp add: list_eq_iff_nth_eq list_all2_conv_all_nth) (metis nth_map)

subsection \<open>Strings\<close>

definition is_high_surrogate :: "code_unit \<Rightarrow> bool" where
  "is_high_surrogate c \<longleftrightarrow> 0xD800 \<le> c \<and> c \<le> 0xDBFF"

definition is_low_surrogate :: "code_unit \<Rightarrow> bool" where
  "is_low_surrogate c \<longleftrightarrow> 0xDC00 \<le> c \<and> c \<le> 0xDFFF"

definition hex_digit :: "nat \<Rightarrow> code_unit" where
  "hex_digit d = (if d < 10 then of_nat (48 + d) else of_nat (87 + d))"

definition hex_value :: "code_unit \<Rightarrow> nat" where
  "hex_value c = (if unat c < 58 then unat c - 48 else if unat c < 97 then unat c - 55 else unat c - 87)"

lemma unat_hex_digit: "d < 16 \<Longrightarrow> unat (hex_digit d) = (if d < 10 then 48 + d else 87 + d)"
  unfolding hex_digit_def by (auto simp only: unat_of_nat if_split split: if_splits) simp_all

lemma hex_value_digit [simp]: "d < 16 \<Longrightarrow> hex_value (hex_digit d) = d"
  by (simp add: hex_value_def unat_hex_digit)

definition hex4 :: "code_unit \<Rightarrow> jstr" where
  "hex4 c = [hex_digit (unat c div 4096), hex_digit (unat c div 256 mod 16),
             hex_digit (unat c div 16 mod 16), hex_digit (unat c mod 16)]"

definition escape_unit :: "code_unit \<Rightarrow> jstr" where
  "escape_unit c =
     (if c = 0x22 then js [CHR 0x5C, CHR 0x22]
      else if c = 0x5C then js [CHR 0x5C, CHR 0x5C]
      else if c = 0x08 then js [CHR 0x5C, CHR ''b'']
      else if c = 0x0C then js [CHR 0x5C, CHR ''f'']
      else if c = 0x0A then js [CHR 0x5C, CHR ''n'']
      else if c = 0x0D then js [CHR 0x5C, CHR ''r'']
      else if c = 0x09 then js [CHR 0x5C, CHR ''t'']
      else if c < 0x20 \<or> is_high_surrogate c \<or> is_low_surrogate c
      then js [CHR 0x5C, CHR ''u''] @ hex4 c
      else [c])"

fun quote_units :: "jstr \<Rightarrow> jstr" where
  "quote_units [] = []"
| "quote_units [c] = escape_unit c"
| "quote_units (c # d # cs) =
     (if is_high_surrogate c \<and> is_low_surrogate d then c # d # quote_units cs
      else escape_unit c @ quote_units (d # cs))"

definition quote :: "jstr \<Rightarrow> jstr" where
  "quote s = 0x22 # quote_units s @ [0x22]"

text \<open>The inverse: read the units of a quoted string up to its closing quote.\<close>

definition unescape :: "code_unit \<Rightarrow> code_unit" where
  "unescape e =
     (if e = of_char CHR ''b'' then 0x08 else if e = of_char CHR ''f'' then 0x0C
      else if e = of_char CHR ''n'' then 0x0A else if e = of_char CHR ''r'' then 0x0D
      else if e = of_char CHR ''t'' then 0x09 else e)"

definition of_hex4 :: "code_unit \<Rightarrow> code_unit \<Rightarrow> code_unit \<Rightarrow> code_unit \<Rightarrow> code_unit" where
  "of_hex4 h1 h2 h3 h4 =
     of_nat (hex_value h1 * 4096 + hex_value h2 * 256 + hex_value h3 * 16 + hex_value h4)"

fun unquote_units :: "jstr \<Rightarrow> (jstr \<times> jstr) option" where
  "unquote_units [] = None"
| "unquote_units (c # cs) =
     (if c = 0x22 then Some ([], cs)
      else if c = 0x5C then
        (case cs of
           [] \<Rightarrow> None
         | e # r \<Rightarrow>
             if e = of_char CHR ''u'' then
               (case r of
                  h1 # h2 # h3 # h4 # r' \<Rightarrow>
                    map_option (apfst (Cons (of_hex4 h1 h2 h3 h4))) (unquote_units r')
                | _ \<Rightarrow> None)
             else map_option (apfst (Cons (unescape e))) (unquote_units r))
      else map_option (apfst (Cons c)) (unquote_units cs))"

lemma nibbles: "n div 4096 * 4096 + n div 256 mod 16 * 256 + n div 16 mod 16 * 16 + n mod 16 = (n :: nat)"
proof -
  have a: "n div 256 = n div 16 div 16" using div_mult2_eq [of n 16 16] by simp
  have b: "n div 4096 = n div 256 div 16" using div_mult2_eq [of n 256 16] by simp
  have "n = 16 * (n div 16) + n mod 16" by simp
  moreover have "n div 16 = 16 * (n div 256) + n div 16 mod 16" unfolding a by simp
  moreover have "n div 256 = 16 * (n div 4096) + n div 256 mod 16" unfolding b by simp
  ultimately show ?thesis by linarith
qed

lemma of_hex4_hex_digits [simp]:
  "of_hex4 (hex_digit (unat c div 4096)) (hex_digit (unat c div 256 mod 16))
     (hex_digit (unat c div 16 mod 16)) (hex_digit (unat c mod 16)) = c"
proof -
  have "unat c div 4096 < 16" using unat_cu_less [of c] by simp
  then show ?thesis unfolding of_hex4_def by (simp only: hex_value_digit mod_less_divisor nibbles) simp
qed

lemma unquote_escape: "unquote_units (escape_unit c @ t) = map_option (apfst (Cons c)) (unquote_units t)"
  by (simp add: escape_unit_def unescape_def hex4_def)

lemma unquote_quote_units: "unquote_units (quote_units s @ 0x22 # r) = Some (s, r)"
proof (induction s rule: quote_units.induct)
  case (3 c d cs)
  show ?case
  proof (cases "is_high_surrogate c \<and> is_low_surrogate d")
    case True
    then have "c \<noteq> 0x22" "c \<noteq> 0x5C" "d \<noteq> 0x22" "d \<noteq> 0x5C"
      by (auto simp: is_high_surrogate_def is_low_surrogate_def)
    with True 3 show ?thesis by simp
  next
    case False
    then have "quote_units (c # d # cs) = escape_unit c @ quote_units (d # cs)" by auto
    with False 3 show ?thesis by (simp only: append_assoc unquote_escape) simp
  qed
qed (simp_all add: unquote_escape)

lemma quote_append_inject: "quote s @ r = quote t @ r' \<longleftrightarrow> s = t \<and> r = r'"
proof
  assume "quote s @ r = quote t @ r'"
  then have "quote_units s @ 0x22 # r = quote_units t @ 0x22 # r'"
    by (simp add: quote_def)
  then show "s = t \<and> r = r'"
    by (metis unquote_quote_units option.inject prod.inject)
qed simp

lemma quote_inject [simp]: "quote s = quote t \<longleftrightarrow> s = t"
  using quote_append_inject [of s "[]" t "[]"] by simp

subsection \<open>Numbers\<close>

text \<open>Number::toString of ECMAScript for radix 10, from the sign, the significand and the exponent.\<close>

definition exponent_text :: "int \<Rightarrow> jstr" where
  "exponent_text e = jc CHR ''e'' # (if 0 \<le> e then jc CHR ''+'' # dec (nat e) else jc CHR ''-'' # dec (nat (- e)))"

definition magnitude_text :: "nat \<Rightarrow> int \<Rightarrow> jstr" where
  "magnitude_text s n =
     (let ds = dec s; k = int (length ds) in
      if s = 0 then js ''0''
      else if k \<le> n \<and> n \<le> 21 then ds @ replicate (nat (n - k)) (jc CHR ''0'')
      else if 0 < n \<and> n \<le> 21 then take (nat n) ds @ jc CHR ''.'' # drop (nat n) ds
      else if -6 < n \<and> n \<le> 0 then js ''0.'' @ replicate (nat (- n)) (jc CHR ''0'') @ ds
      else if k = 1 then ds @ exponent_text (n - 1)
      else take 1 ds @ jc CHR ''.'' # drop 1 ds @ exponent_text (n - 1))"

fun num_string :: "jsnum \<Rightarrow> jstr" where
  "num_string NumNaN = js ''NaN''"
| "num_string (NumInf neg) = (if neg then js ''-Infinity'' else js ''Infinity'')"
| "num_string (NumFin neg s n) = (if neg \<and> s \<noteq> 0 then jc CHR ''-'' # magnitude_text s n else magnitude_text s n)"

text \<open>\<open>JSON.stringify\<close> of a number.\<close>

fun num_token :: "jsnum \<Rightarrow> jstr" where
  "num_token (NumFin neg s n) = num_string (NumFin neg s n)"
| "num_token _ = js ''null''"

text \<open>\<open>JSON.stringify\<close> of a plain value, without indentation.\<close>

fun json_text :: "jsval \<Rightarrow> jstr" where
  "json_text JNull = js ''null''"
| "json_text (JBool b) = (if b then js ''true'' else js ''false'')"
| "json_text (JNum n) = num_token n"
| "json_text (JStr s) = quote s"
| "json_text (JArr vs) = jc CHR ''['' # join_with (js '','') (map json_text vs) @ js '']''"
| "json_text (JObj ms) =
     jc CHR ''{'' # join_with (js '','') (map (\<lambda>(k, v). quote k @ jc CHR '':'' # json_text v) ms) @ js ''}''"
| "json_text _ = js ''null''"

subsection \<open>A number token determines the number\<close>

text \<open>
  Reading a token back: the digits before and after the point as one numeral, and the power of
  ten it is scaled by.  \<open>decimal_value\<close> is the rational number the token denotes.
\<close>

definition read_exponent :: "jstr \<Rightarrow> int" where
  "read_exponent t = (case t of [] \<Rightarrow> 0 | c # ds \<Rightarrow> (if c = jc CHR ''+'' then int (digits_value ds) else - int (digits_value ds)))"

definition read_magnitude :: "jstr \<Rightarrow> nat \<times> int" where
  "read_magnitude t =
     (let m = takeWhile (\<lambda>c. c \<noteq> jc CHR ''e'') t; e = drop 1 (dropWhile (\<lambda>c. c \<noteq> jc CHR ''e'') t);
          ip = takeWhile (\<lambda>c. c \<noteq> jc CHR ''.'') m; fp = drop 1 (dropWhile (\<lambda>c. c \<noteq> jc CHR ''.'') m)
      in (digits_value (ip @ fp), read_exponent e - int (length fp)))"

definition decimal_value :: "nat \<times> int \<Rightarrow> rat" where
  "decimal_value m = of_nat (fst m) * 10 powi snd m"

lemma digits_value_append: "digits_value (s @ t) = digits_value s * 10 ^ length t + digits_value t"
proof (induction t rule: rev_induct)
  case (snoc c t)
  then show ?case by (simp add: append.assoc [symmetric] algebra_simps del: append.assoc append_assoc)
qed simp

lemma digits_value_Cons: "digits_value (c # t) = digit_value c * 10 ^ length t + digits_value t"
  using digits_value_append [of "[c]" t] digits_value_snoc [of "[]" c] by simp

lemma digits_value_zeros [simp]: "digits_value (replicate m 48) = 0"
  by (induction m) (simp_all add: digits_value_Cons digit_value_def)

lemma not_digit_mark [simp]: "\<not> is_digit 101" "\<not> is_digit 46" "\<not> is_digit 45" "\<not> is_digit 43"
  by (simp_all add: is_digit_iff)

lemma takeWhile_digits:
  assumes "list_all is_digit ds" and "x \<in> {46, 101}"
  shows "takeWhile (\<lambda>c. c \<noteq> x) (ds @ t) = ds @ takeWhile (\<lambda>c. c \<noteq> x) t"
    and "dropWhile (\<lambda>c. c \<noteq> x) (ds @ t) = dropWhile (\<lambda>c. c \<noteq> x) t"
    and "takeWhile (\<lambda>c. c \<noteq> x) ds = ds" and "dropWhile (\<lambda>c. c \<noteq> x) ds = []"
proof -
  have "c \<noteq> x" if "c \<in> set ds" for c
    using that assms not_digit_mark(1,2) unfolding list_all_iff by blast
  then show "takeWhile (\<lambda>c. c \<noteq> x) (ds @ t) = ds @ takeWhile (\<lambda>c. c \<noteq> x) t"
    "dropWhile (\<lambda>c. c \<noteq> x) (ds @ t) = dropWhile (\<lambda>c. c \<noteq> x) t"
    "takeWhile (\<lambda>c. c \<noteq> x) ds = ds" "dropWhile (\<lambda>c. c \<noteq> x) ds = []"
    by (simp_all add: takeWhile_append2 dropWhile_append2 takeWhile_eq_all_conv)
qed

lemma read_exponent_text: "read_exponent (drop 1 (exponent_text e)) = e"
  by (simp add: read_exponent_def exponent_text_def)

lemma exponent_text_cases: "\<exists>t. exponent_text e = 101 # t"
  by (simp add: exponent_text_def)

lemma read_decimal:
  assumes "list_all is_digit ip" and "list_all is_digit fp"
  shows "read_magnitude ip = (digits_value ip, 0)"
    and "read_magnitude (ip @ 46 # fp) = (digits_value (ip @ fp), - int (length fp))"
    and "read_magnitude (ip @ exponent_text e) = (digits_value ip, e)"
    and "read_magnitude (ip @ 46 # fp @ exponent_text e) = (digits_value (ip @ fp), e - int (length fp))"
proof -
  note tw = takeWhile_digits [OF assms(1)] takeWhile_digits [OF assms(2)]
  obtain t where t: "exponent_text e = 101 # t" using exponent_text_cases by blast
  then have "read_exponent t = e" using read_exponent_text [of e] by simp
  then show "read_magnitude ip = (digits_value ip, 0)"
    "read_magnitude (ip @ 46 # fp) = (digits_value (ip @ fp), - int (length fp))"
    "read_magnitude (ip @ exponent_text e) = (digits_value ip, e)"
    "read_magnitude (ip @ 46 # fp @ exponent_text e) = (digits_value (ip @ fp), e - int (length fp))"
    by (simp_all add: read_magnitude_def Let_def t tw read_exponent_def [of "[]"])
qed

lemma list_all_take_drop: "list_all P xs \<Longrightarrow> list_all P (take m xs)" "list_all P xs \<Longrightarrow> list_all P (drop m xs)"
  by (auto simp: list_all_iff dest: in_set_takeD in_set_dropD)

lemma list_all_zeros [simp]: "list_all is_digit (replicate m 48)"
  by (simp add: list_all_iff is_digit_iff)

lemma read_magnitude_text:
  assumes "s \<noteq> 0"
  shows "decimal_value (read_magnitude (magnitude_text s n)) = of_nat s * 10 powi (n - int (length (dec s)))"
proof -
  let ?ds = "dec s" and ?k = "int (length (dec s))"
  note ds = dec_digits [of s] and tk = list_all_take_drop [OF dec_digits [of s]]
  have z: "list_all is_digit [48]" by (simp add: is_digit_iff)
  consider (int) "?k \<le> n" "n \<le> 21" | (point) "n < ?k" "0 < n" "n \<le> 21" | (small) "-6 < n" "n \<le> 0"
    | (one) "\<not> (-6 < n \<and> n \<le> 21)" "?k = 1" | (exp) "\<not> (-6 < n \<and> n \<le> 21)" "?k \<noteq> 1"
    by linarith
  then show ?thesis
  proof cases
    case int
    have "list_all is_digit (?ds @ replicate (nat (n - ?k)) 48)" using ds by simp
    note rd = read_decimal(1) [OF this ds]
    from int show ?thesis
      by (simp add: magnitude_text_def Let_def assms decimal_value_def rd digits_value_append power_int_def)
  next
    case point
    note rd = read_decimal(2) [OF tk(1) tk(2), of "nat n" "nat n"]
    from point show ?thesis
      by (simp add: magnitude_text_def Let_def assms decimal_value_def rd)
  next
    case small
    have "list_all is_digit (replicate (nat (- n)) 48 @ ?ds)" using ds by simp
    note rd = read_decimal(2) [OF z this, simplified]
    have "length ?ds \<noteq> 0" by simp
    then have "\<not> ?k \<le> n" using small by linarith
    with small show ?thesis
      by (simp add: magnitude_text_def Let_def assms decimal_value_def rd digits_value_append digits_value_Cons digit_value_def)
  next
    case one
    then show ?thesis using read_decimal(3) [OF ds ds, of "n - 1"]
      by (auto simp: magnitude_text_def Let_def assms decimal_value_def)
  next
    case exp
    have "length ?ds \<noteq> 0" by simp
    then have "int (length ?ds - 1) = ?k - 1" by linarith
    with read_decimal(4) [OF tk(1) tk(2), of 1 1 "n - 1"] exp show ?thesis
      by (auto simp: magnitude_text_def Let_def assms decimal_value_def)
  qed
qed

lemma scaled_inject:
  assumes "of_nat s * 10 powi a = (of_nat t * 10 powi b :: rat)" and "s mod 10 \<noteq> 0" and "t mod 10 \<noteq> 0"
  shows "s = t \<and> a = b"
proof -
  have step: "x = y \<and> c = d" if "of_nat x * 10 powi c = (of_nat y * 10 powi d :: rat)" "x mod 10 \<noteq> 0" "c \<le> d" for x y c d
  proof -
    obtain k where d: "d = c + int k" using \<open>c \<le> d\<close> zle_iff_zadd by blast
    with that(1) have "(of_nat x :: rat) * 10 powi c = of_nat (y * 10 ^ k) * 10 powi c"
      by (simp add: power_int_add mult_ac)
    then have "(of_nat x :: rat) = of_nat (y * 10 ^ k)" by simp
    then have "x = y * 10 ^ k" by (simp only: of_nat_eq_iff)
    with that(2) d show ?thesis by (cases k) auto
  qed
  show ?thesis
  proof (cases "a \<le> b")
    case True
    then show ?thesis by (rule step [OF assms(1,2)])
  next
    case False
    then show ?thesis using step [OF assms(1) [symmetric] assms(3)] by simp
  qed
qed

lemma magnitude_text_inject:
  assumes "magnitude_text s m = magnitude_text t n" and "s mod 10 \<noteq> 0" and "t mod 10 \<noteq> 0"
  shows "s = t \<and> m = n"
proof -
  have nz: "s \<noteq> 0" "t \<noteq> 0" using assms by (metis mod_0)+
  from read_magnitude_text [OF nz(1), of m] read_magnitude_text [OF nz(2), of n] assms(1)
  have "of_nat s * 10 powi (m - int (length (dec s))) = (of_nat t * 10 powi (n - int (length (dec t))) :: rat)"
    by simp
  from scaled_inject [OF this assms(2,3)] show ?thesis by auto
qed

lemma magnitude_text_head: "\<exists>c t. magnitude_text s n = c # t \<and> is_digit c"
proof -
  obtain d ds where d: "dec s = d # ds" "is_digit d" using dec_digits [of s] by (cases "dec s") auto
  then show ?thesis by (cases "nat n") (auto simp: magnitude_text_def Let_def is_digit_iff)
qed

lemma num_string_inject:
  assumes "num_wf m" and "num_wf n" and "num_string m = num_string n"
  shows "m = n"
proof -
  obtain b s i where m: "m = NumFin b s i" using assms(1) by (cases m) auto
  obtain c t j where n: "n = NumFin c t j" using assms(2) by (cases n) auto
  have head: "magnitude_text s i \<noteq> 45 # u" for s i u
    using magnitude_text_head [of s i] by (auto dest: sym)
  have zero: "magnitude_text s i \<noteq> [48]" if "s \<noteq> 0" for s i
    using read_magnitude_text [OF that, of i] that
    by (auto simp: decimal_value_def read_magnitude_def digits_value_def digit_value_def)
  have zero_text: "magnitude_text 0 i = [48]" for i by (simp add: magnitude_text_def)
  from assms m n show ?thesis
    by (auto simp: zero zero_text head head [symmetric] zero [symmetric] dest: magnitude_text_inject split: if_splits)
qed

definition number_unit :: "code_unit \<Rightarrow> bool" where
  "number_unit c \<longleftrightarrow> is_digit c \<or> c \<in> {43, 45, 46, 101}"

definition delimited :: "jstr \<Rightarrow> bool" where
  "delimited r \<longleftrightarrow> r = [] \<or> \<not> number_unit (hd r)"

lemma magnitude_text_units: "list_all number_unit (magnitude_text s n)"
proof -
  have ds: "list_all number_unit (dec m)" for m
    using dec_digits [of m] by (auto simp: list_all_iff number_unit_def)
  have zs: "list_all number_unit (replicate m 48)" for m
    by (simp add: list_all_iff number_unit_def is_digit_iff)
  have one: "number_unit 48" "number_unit 46" "number_unit 101" "number_unit 43" "number_unit 45"
    by (simp_all add: number_unit_def is_digit_iff)
  show ?thesis
    by (simp add: magnitude_text_def Let_def exponent_text_def ds zs one list_all_take_drop [OF ds])
qed

lemma num_token_cancel:
  assumes "num_wf m" "num_wf n" "delimited r" "delimited r'" and eq: "num_token m @ r = num_token n @ r'"
  shows "m = n \<and> r = r'"
proof -
  have units: "list_all number_unit (num_token k) \<and> num_token k = num_string k" if "num_wf k" for k
    using that magnitude_text_units by (cases k) (auto simp: number_unit_def)
  have tw: "takeWhile number_unit (num_token k @ q) = num_token k" if "num_wf k" "delimited q" for k q
    using units [OF that(1)] that(2)
    by (cases q) (auto simp: takeWhile_append2 list_all_iff delimited_def)
  have "num_token m = num_token n" using tw assms by metis
  with eq units assms(1,2) show ?thesis by (metis num_string_inject same_append_eq)
qed

text \<open>The first unit of a value's text tells its kind.\<close>

fun json_kind :: "jsval \<Rightarrow> code_unit" where
  "json_kind JNull = 110"
| "json_kind (JBool b) = (if b then 116 else 102)"
| "json_kind (JStr s) = 34"
| "json_kind (JArr vs) = 91"
| "json_kind (JObj ms) = 123"
| "json_kind _ = 48"

definition head_kind :: "jstr \<Rightarrow> code_unit" where
  "head_kind t = (if is_digit (hd t) \<or> hd t = 45 then 48 else hd t)"

lemma json_text_head: "plain v \<Longrightarrow> json_text v \<noteq> [] \<and> head_kind (json_text v) = json_kind v"
proof (cases v)
  case (JNum n)
  assume "plain v"
  with JNum obtain b s i where "n = NumFin b s i" by (cases n) auto
  then show ?thesis using JNum magnitude_text_head [of s i] by (auto simp: head_kind_def)
qed (auto simp: quote_def head_kind_def is_digit_iff)

lemma json_text_same_kind:
  assumes "plain v" "plain w" "json_text v @ r = json_text w @ r'"
  shows "json_kind v = json_kind w"
proof -
  have "hd (json_text v) = hd (json_text w)"
    using json_text_head assms by (metis hd_append)
  then have "head_kind (json_text v) = head_kind (json_text w)" by (simp add: head_kind_def)
  then show ?thesis using json_text_head assms(1,2) by metis
qed

lemma delimited_simps [simp]: "delimited []" "delimited (44 # r)" "delimited (93 # r)" "delimited (125 # r)"
  by (simp_all add: delimited_def number_unit_def is_digit_iff)

theorem json_text_cancel:
  "plain v \<Longrightarrow> plain w \<Longrightarrow> delimited r \<Longrightarrow> delimited r' \<Longrightarrow> json_text v @ r = json_text w @ r' \<Longrightarrow> v = w \<and> r = r'"
proof (induction v arbitrary: w r r')
  case (JNum n)
  with json_text_same_kind [OF JNum.prems(1,2,5)] obtain m where "w = JNum m"
    by (cases w) (auto split: if_splits)
  with JNum show ?case using num_token_cancel by auto
next
  case (JArr vs)
  with json_text_same_kind [OF JArr.prems(1,2,5)] obtain ws where w: "w = JArr ws"
    by (cases w) (auto split: if_splits)
  have "vs = ws \<and> r = r'"
  proof (rule join_cancel [where D = delimited and f = json_text and sep = 44 and c = 93])
    show "join_with [44] (map json_text vs) @ 93 # r = join_with [44] (map json_text ws) @ 93 # r'"
      using JArr.prems(5) w by simp
    show "x = y \<and> r = r'" if "x \<in> set vs" "y \<in> set ws" "delimited r" "delimited r'" "json_text x @ r = json_text y @ r'" for x y r r'
    proof (rule JArr.IH [OF that(1) _ _ that(3-5)])
      show "plain x" "plain y" using that(1,2) JArr.prems w by (auto simp: list_all_iff)
    qed
    show "json_text x \<noteq> [] \<and> hd (json_text x) \<noteq> 93" if "x \<in> set vs \<union> set ws" for x
    proof -
      have "plain x" using that JArr.prems w by (auto simp: list_all_iff)
      from json_text_head [OF this] show ?thesis
        by (cases x) (auto simp: head_kind_def is_digit_iff split: if_splits)
    qed
  qed simp_all
  then show ?case using w by simp
next
  case (JObj ms)
  with json_text_same_kind [OF JObj.prems(1,2,5)] obtain ws where w: "w = JObj ws"
    by (cases w) (auto split: if_splits)
  let ?f = "\<lambda>(k, v). quote k @ 58 # json_text v"
  have "ms = ws \<and> r = r'"
  proof (rule join_cancel [where D = delimited and f = ?f and sep = 44 and c = 125])
    show "join_with [44] (map ?f ms) @ 125 # r = join_with [44] (map ?f ws) @ 125 # r'"
      using JObj.prems(5) w by simp
    show "x = y \<and> r = r'" if "x \<in> set ms" "y \<in> set ws" "delimited r" "delimited r'" "?f x @ r = ?f y @ r'" for x y r r'
    proof (cases x; cases y)
      fix k v l u assume x: "x = (k, v)" and y: "y = (l, u)"
      have kv: "k = l" "json_text v @ r = json_text u @ r'"
        using that(5) by (simp_all add: x y quote_append_inject)
      have "plain v" "plain u" using that(1,2) JObj.prems w by (auto simp: x y list_all_iff)
      with JObj.IH [OF that(1) [unfolded x], of v] kv(2) that(3,4) kv(1) show ?thesis by (simp add: x y)
    qed
    show "?f x \<noteq> [] \<and> hd (?f x) \<noteq> 125" if "x \<in> set ms \<union> set ws" for x
      by (cases x) (simp add: quote_def)
  qed simp_all
  then show ?case using w by simp
next
  case JNull
  with json_text_same_kind [OF JNull.prems(1,2,5)] show ?case
    by (cases w) (auto split: if_splits)
next
  case (JBool b)
  with json_text_same_kind [OF JBool.prems(1,2,5)] show ?case
    by (cases w) (auto split: if_splits)
next
  case (JStr s)
  with json_text_same_kind [OF JStr.prems(1,2,5)] show ?case
    by (cases w) (auto simp: quote_append_inject split: if_splits)
qed simp_all

corollary json_text_inject: "plain v \<Longrightarrow> plain w \<Longrightarrow> json_text v = json_text w \<longleftrightarrow> v = w"
  using json_text_cancel [of v w "[]" "[]"] by auto

end
