(* ===== verification/Errors.thy ===== *)
theory Errors
  imports JS_Value
begin

section \<open>Protocol errors\<close>

text \<open>
  The error classes of \<open>packages/core/src/errors.ts\<close>, one constructor per class.  A thrown
  error is the left value of a sum; \<open>error_code\<close> is the stable \<open>code\<close> its constructor passes
  to \<open>super\<close>.  \<open>TypeError\<close> stands for the errors of the ECMAScript library the code does not
  catch.
\<close>

datatype agenid_error =
    AgenIdError jstr jstr \<comment> \<open>code and message\<close>
  | InvalidNumberDomainError jstr
  | UnserializableValueError jstr
  | InvalidIdentifierError jstr
  | InvalidKeyIdError jstr
  | KeyRoleError jstr
  | SchemaValidationError jstr "(jstr list \<times> jstr) list" \<comment> \<open>message and issues\<close>
  | TypeError jstr

fun error_code :: "agenid_error \<Rightarrow> jstr" where
  "error_code (AgenIdError c m) = c"
| "error_code (InvalidNumberDomainError m) = js ''invalid_number_domain''"
| "error_code (UnserializableValueError m) = js ''unserializable_value''"
| "error_code (InvalidIdentifierError m) = js ''invalid_identifier''"
| "error_code (InvalidKeyIdError m) = js ''invalid_key_id''"
| "error_code (KeyRoleError m) = js ''key_role_mismatch''"
| "error_code (SchemaValidationError m i) = js ''schema_validation_failed''"
| "error_code (TypeError m) = js ''TypeError''"

fun error_message :: "agenid_error \<Rightarrow> jstr" where
  "error_message (AgenIdError c m) = m"
| "error_message (InvalidNumberDomainError m) = m"
| "error_message (UnserializableValueError m) = m"
| "error_message (InvalidIdentifierError m) = m"
| "error_message (InvalidKeyIdError m) = m"
| "error_message (KeyRoleError m) = m"
| "error_message (SchemaValidationError m i) = m"
| "error_message (TypeError m) = m"

end
