(* ===== verification/Encodings.thy ===== *)
theory Encodings
  imports Errors
begin

section \<open>Byte encodings\<close>

text \<open>
  The encodings of the platform the code calls: \<open>TextEncoder\<close> (UTF-8 of a UTF-16 string, a
  lone surrogate becoming U+FFFD), and the \<open>hex\<close> and \<open>base64url\<close> codecs of Node's \<open>Buffer\<close>
  that \<open>packages/core/src/crypto.ts\<close> wraps as \<open>hex\<close>, \<open>fromHex\<close>, \<open>b64uEncode\<close> and \<open>b64uDecode\<close>.
  Each has its round trip.
\<close>

subsection \<open>UTF-8\<close>

definition utf8_char :: "nat \<Rightarrow> bytes" where
  "utf8_char n =
     (if n < 0x80 then [of_nat n]
      else if n < 0x800 then [of_nat (0xC0 + n div 64), of_nat (0x80 + n mod 64)]
      else if n < 0x10000 then
        [of_nat (0xE0 + n div 4096), of_nat (0x80 + n div 64 mod 64), of_nat (0x80 + n mod 64)]
      else [of_nat (0xF0 + n div 262144), of_nat (0x80 + n div 4096 mod 64),
            of_nat (0x80 + n div 64 mod 64), of_nat (0x80 + n mod 64)])"

definition pair_value :: "code_unit \<Rightarrow> code_unit \<Rightarrow> nat" where
  "pair_value h l = 0x10000 + (unat h - 0xD800) * 0x400 + (unat l - 0xDC00)"

fun code_points :: "jstr \<Rightarrow> nat list" where
  "code_points [] = []"
| "code_points [c] = [if is_high_surrogate c \<or> is_low_surrogate c then 0xFFFD else unat c]"
| "code_points (c # d # cs) =
     (if is_high_surrogate c \<and> is_low_surrogate d then pair_value c d # code_points cs
      else if is_high_surrogate c \<or> is_low_surrogate c then 0xFFFD # code_points (d # cs)
      else unat c # code_points (d # cs))"

definition utf8_encode :: "jstr \<Rightarrow> bytes" where
  "utf8_encode s = concat (map utf8_char (code_points s))"

text \<open>Well-formed UTF-16: every surrogate in a pair.  These strings survive the encoding.\<close>

fun wf_utf16 :: "jstr \<Rightarrow> bool" where
  "wf_utf16 [] = True"
| "wf_utf16 [c] = (\<not> is_high_surrogate c \<and> \<not> is_low_surrogate c)"
| "wf_utf16 (c # d # cs) =
     (if is_high_surrogate c \<and> is_low_surrogate d then wf_utf16 cs
      else \<not> is_high_surrogate c \<and> \<not> is_low_surrogate c \<and> wf_utf16 (d # cs))"

lemma surrogate_iff:
  "is_high_surrogate c \<longleftrightarrow> 0xD800 \<le> unat c \<and> unat c \<le> 0xDBFF"
  "is_low_surrogate c \<longleftrightarrow> 0xDC00 \<le> unat c \<and> unat c \<le> 0xDFFF"
  by (simp_all add: is_high_surrogate_def is_low_surrogate_def word_le_nat_alt)

lemma pair_value_bounds:
  assumes "is_high_surrogate h" "is_low_surrogate l"
  shows "0x10000 \<le> pair_value h l" "pair_value h l < 0x110000"
  using assms unfolding surrogate_iff pair_value_def by linarith+

lemma code_points_bound: "n \<in> set (code_points s) \<Longrightarrow> n < 0x110000"
proof (induction s rule: code_points.induct)
  case (2 c)
  then show ?case using unat_cu_less [of c] by (auto split: if_splits)
next
  case (3 c d cs)
  then show ?case using unat_cu_less [of c] pair_value_bounds [of c d] by (auto split: if_splits)
qed simp

text \<open>The way back.\<close>

definition point_units :: "nat \<Rightarrow> jstr" where
  "point_units n = (if n < 0x10000 then [of_nat n]
     else [of_nat (0xD800 + (n - 0x10000) div 0x400), of_nat (0xDC00 + (n - 0x10000) mod 0x400)])"

lemma point_units_pair:
  assumes "is_high_surrogate h" "is_low_surrogate l"
  shows "point_units (pair_value h l) = [h, l]"
proof -
  define b where "b = unat l - 0xDC00"
  have "b < 0x400" using assms(2) unfolding surrogate_iff b_def by linarith
  have "pair_value h l - 0x10000 = (unat h - 0xD800) * 0x400 + b"
    unfolding pair_value_def b_def by linarith
  with \<open>b < 0x400\<close> have "(pair_value h l - 0x10000) div 0x400 = unat h - 0xD800" "(pair_value h l - 0x10000) mod 0x400 = b"
    by simp_all
  moreover have "0xD800 + (unat h - 0xD800) = unat h" "0xDC00 + b = unat l"
    using assms unfolding surrogate_iff b_def by linarith+
  moreover have "\<not> pair_value h l < 0x10000" using pair_value_bounds [OF assms] by linarith
  ultimately show ?thesis by (simp only: point_units_def if_False) simp
qed

lemma code_points_units: "wf_utf16 s \<Longrightarrow> concat (map point_units (code_points s)) = s"
proof (induction s rule: code_points.induct)
  case (2 c)
  then show ?case using unat_cu_less [of c] by (simp add: point_units_def)
next
  case (3 c d cs)
  then show ?case using unat_cu_less [of c] by (auto simp: point_units_pair) (simp_all add: point_units_def)
qed simp

fun utf8_points :: "bytes \<Rightarrow> nat list" where
  "utf8_points [] = []"
| "utf8_points (b # bs) =
     (if unat b < 0x80 then unat b # utf8_points bs
      else (case bs of
         [] \<Rightarrow> []
       | c # cs \<Rightarrow>
         if unat b < 0xE0 then ((unat b - 0xC0) * 64 + (unat c - 0x80)) # utf8_points cs
         else (case cs of
            [] \<Rightarrow> []
          | d # ds \<Rightarrow>
            if unat b < 0xF0 then ((unat b - 0xE0) * 4096 + (unat c - 0x80) * 64 + (unat d - 0x80)) # utf8_points ds
            else (case ds of
               [] \<Rightarrow> []
             | e # es \<Rightarrow>
               ((unat b - 0xF0) * 262144 + (unat c - 0x80) * 4096 + (unat d - 0x80) * 64 + (unat e - 0x80)) # utf8_points es))))"

lemma unat_of_nat_byte: "n < 256 \<Longrightarrow> unat (of_nat n :: byte) = n"
  by (subst unat_of_nat) simp

lemma base64_digits:
  fixes n :: nat
  shows "n div 64 * 64 + n mod 64 = n"
    and "n div 4096 * 4096 + n div 64 mod 64 * 64 + n mod 64 = n"
    and "n div 262144 * 262144 + n div 4096 mod 64 * 4096 + n div 64 mod 64 * 64 + n mod 64 = n"
proof -
  have a: "n div 4096 = n div 64 div 64" using div_mult2_eq [of n 64 64] by simp
  have b: "n div 262144 = n div 4096 div 64" using div_mult2_eq [of n 4096 64] by simp
  have 1: "n div 64 * 64 + n mod 64 = n" by simp
  have 2: "n div 4096 * 64 + n div 64 mod 64 = n div 64" unfolding a by simp
  have 3: "n div 262144 * 64 + n div 4096 mod 64 = n div 4096" unfolding b by simp
  from 1 show "n div 64 * 64 + n mod 64 = n" .
  from 1 2 show "n div 4096 * 4096 + n div 64 mod 64 * 64 + n mod 64 = n" by linarith
  from 1 2 3 show "n div 262144 * 262144 + n div 4096 mod 64 * 4096 + n div 64 mod 64 * 64 + n mod 64 = n"
    by linarith
qed

lemma utf8_points_char: "n < 0x110000 \<Longrightarrow> utf8_points (utf8_char n @ bs) = n # utf8_points bs"
proof -
  assume n: "n < 0x110000"
  have d: "n < 0x800 \<Longrightarrow> n div 64 < 32" "n < 0x10000 \<Longrightarrow> n div 4096 < 16" "n div 262144 < 5" "n div 4096 mod 64 < 64"
    "n div 64 mod 64 < 64" "n mod 64 < 64" using n by (auto simp: div_less_iff_less_mult)
  have big: "n < 0x80 \<or> 2 \<le> n div 64" by auto
  consider (one) "n < 0x80" | (two) "0x80 \<le> n" "n < 0x800" | (three) "0x800 \<le> n" "n < 0x10000" | (four) "0x10000 \<le> n"
    by linarith
  then show ?thesis
  proof cases
    case one
    then show ?thesis by (simp add: utf8_char_def unat_of_nat_byte)
  next
    case two
    then have "unat (of_nat (0xC0 + n div 64) :: byte) = 0xC0 + n div 64" "unat (of_nat (0x80 + n mod 64) :: byte) = 0x80 + n mod 64"
      using d by (simp_all only: unat_of_nat_byte)
    with two base64_digits(1) [of n] show ?thesis
      by (simp add: utf8_char_def del: of_nat_add) (use d(1) [OF two(2)] in blast)
  next
    case three
    then have "unat (of_nat (0xE0 + n div 4096) :: byte) = 0xE0 + n div 4096"
      "unat (of_nat (0x80 + n div 64 mod 64) :: byte) = 0x80 + n div 64 mod 64"
      "unat (of_nat (0x80 + n mod 64) :: byte) = 0x80 + n mod 64"
      using d by (simp_all only: unat_of_nat_byte)
    with three d(2) [OF three(2)] base64_digits(2) [of n] show ?thesis by (simp add: utf8_char_def del: of_nat_add)
  next
    case four
    have "unat (of_nat (0xF0 + n div 262144) :: byte) = 0xF0 + n div 262144"
      "unat (of_nat (0x80 + n div 4096 mod 64) :: byte) = 0x80 + n div 4096 mod 64"
      "unat (of_nat (0x80 + n div 64 mod 64) :: byte) = 0x80 + n div 64 mod 64"
      "unat (of_nat (0x80 + n mod 64) :: byte) = 0x80 + n mod 64"
      using d by (simp_all only: unat_of_nat_byte)
    with four base64_digits(3) [of n] show ?thesis by (simp add: utf8_char_def del: of_nat_add)
  qed
qed

lemma utf8_points_encode: "list_all (\<lambda>n. n < 0x110000) ps \<Longrightarrow> utf8_points (concat (map utf8_char ps)) = ps"
  by (induction ps) (simp_all add: utf8_points_char)

theorem utf8_roundtrip: "wf_utf16 s \<Longrightarrow> concat (map point_units (utf8_points (utf8_encode s))) = s"
  using code_points_bound [of _ s] by (simp add: utf8_encode_def utf8_points_encode list_all_iff code_points_units)

corollary utf8_inject: "wf_utf16 s \<Longrightarrow> wf_utf16 t \<Longrightarrow> utf8_encode s = utf8_encode t \<Longrightarrow> s = t"
  by (metis utf8_roundtrip)

subsection \<open>Well-formed text\<close>

lemma wf_utf16_Cons: "\<not> is_high_surrogate c \<Longrightarrow> \<not> is_low_surrogate c \<Longrightarrow> wf_utf16 (c # s) = wf_utf16 s"
  by (cases s) auto

lemma wf_utf16_append: "wf_utf16 s \<Longrightarrow> wf_utf16 t \<Longrightarrow> wf_utf16 (s @ t)"
  by (induction s rule: wf_utf16.induct) (auto simp: wf_utf16_Cons)

definition ascii :: "code_unit \<Rightarrow> bool" where
  "ascii c \<longleftrightarrow> c < 128"

lemma ascii_not_surrogate: "ascii c \<Longrightarrow> \<not> is_high_surrogate c \<and> \<not> is_low_surrogate c"
  by (simp add: ascii_def surrogate_iff word_less_nat_alt)

lemma wf_utf16_ascii: "list_all ascii s \<Longrightarrow> wf_utf16 s"
  by (induction s) (simp_all add: wf_utf16_Cons ascii_not_surrogate)

lemma wf_utf16_join: "list_all wf_utf16 ts \<Longrightarrow> wf_utf16 sep \<Longrightarrow> wf_utf16 (join_with sep ts)"
  by (induction sep ts rule: join_with.induct) (auto intro: wf_utf16_append)

lemma hex_digit_ascii: "n < 16 \<Longrightarrow> ascii (hex_digit n)"
  by (simp add: ascii_def word_less_nat_alt unat_hex_digit)

lemma ascii_hex4: "list_all ascii (hex4 c)"
proof -
  have "unat c div 4096 < 16" using unat_cu_less [of c] by simp
  then show ?thesis by (simp add: hex4_def hex_digit_ascii)
qed

lemma escape_unit_ascii: "escape_unit c = [c] \<or> list_all ascii (escape_unit c)"
  by (simp add: escape_unit_def ascii_hex4 ascii_def)

lemma escape_unit_surrogate: "is_high_surrogate c \<or> is_low_surrogate c \<Longrightarrow> escape_unit c \<noteq> [c]"
  by (auto simp: escape_unit_def hex4_def)

lemma wf_escape_unit: "wf_utf16 (escape_unit c)"
  using escape_unit_ascii [of c] escape_unit_surrogate [of c]
  by (cases "escape_unit c = [c]") (auto intro: wf_utf16_ascii)

lemma wf_quote_units: "wf_utf16 (quote_units s)"
  by (induction s rule: quote_units.induct) (auto intro: wf_utf16_append wf_escape_unit)

lemma wf_quote: "wf_utf16 (quote s)"
  unfolding quote_def
  by (auto intro!: wf_utf16_append wf_quote_units simp: wf_utf16_Cons ascii_not_surrogate ascii_def)

lemma number_unit_ascii: "number_unit c \<Longrightarrow> ascii c"
  by (auto simp: number_unit_def ascii_def is_digit_iff word_less_nat_alt)

lemma wf_num_token: "wf_utf16 (num_token n)"
proof (rule wf_utf16_ascii, cases n)
  case (NumFin b s i)
  have "list_all ascii (magnitude_text s i)"
    using magnitude_text_units [of s i] number_unit_ascii by (auto simp: list_all_iff)
  with NumFin show "list_all ascii (num_token n)" by (simp add: ascii_def)
qed (simp_all add: ascii_def)

lemma wf_utf16_bracketed:
  "ascii a \<Longrightarrow> ascii c \<Longrightarrow> list_all wf_utf16 ts \<Longrightarrow> wf_utf16 (a # join_with [44] ts @ [c])"
  by (simp add: wf_utf16_Cons ascii_not_surrogate wf_utf16_append wf_utf16_join ascii_def)

lemma wf_json_text: "wf_utf16 (json_text v)"
proof (induction v)
  case (JArr vs)
  then show ?case
    using wf_utf16_bracketed [of 91 93 "map json_text vs"] by (simp add: ascii_def list_all_iff)
next
  case (JObj ms)
  then have "list_all wf_utf16 (map (\<lambda>(k, v). quote k @ 58 # json_text v) ms)"
    by (auto intro!: wf_utf16_append wf_quote simp: wf_utf16_Cons ascii_not_surrogate ascii_def list_all_iff)
  then show ?case
    using wf_utf16_bracketed [of 123 125 "map (\<lambda>(k, v). quote k @ 58 # json_text v) ms"] by (simp add: ascii_def)
qed (simp_all add: wf_quote wf_num_token wf_utf16_ascii ascii_def del: wf_utf16.simps)

subsection \<open>Hexadecimal\<close>

definition hex :: "bytes \<Rightarrow> jstr" where
  "hex bs = concat (map (\<lambda>b. [hex_digit (unat b div 16), hex_digit (unat b mod 16)]) bs)"

definition is_hex :: "code_unit \<Rightarrow> bool" where
  "is_hex c \<longleftrightarrow> is_digit c \<or> in_range CHR ''a'' CHR ''f'' c \<or> in_range CHR ''A'' CHR ''F'' c"

text \<open>\<open>Buffer.from(h, "hex")\<close> stops at the first pair that is not hexadecimal.\<close>

fun fromHex :: "jstr \<Rightarrow> bytes" where
  "fromHex (a # b # r) = (if is_hex a \<and> is_hex b then of_nat (hex_value a * 16 + hex_value b) # fromHex r else [])"
| "fromHex _ = []"

lemma is_hex_digit: "n < 16 \<Longrightarrow> is_hex (hex_digit n)"
  by (auto simp: is_hex_def is_digit_iff in_range_def word_le_nat_alt unat_hex_digit)

lemma fromHex_hex [simp]: "fromHex (hex bs) = bs"
proof (induction bs)
  case (Cons b bs)
  have "unat b div 16 < 16" using unat_byte_less [of b] by simp
  then show ?case using Cons by (simp add: hex_def is_hex_digit)
qed (simp add: hex_def)

lemma length_hex [simp]: "length (hex bs) = 2 * length bs"
  by (induction bs) (simp_all add: hex_def)

subsection \<open>base64url without padding\<close>

definition sextet_char :: "nat \<Rightarrow> code_unit" where
  "sextet_char n = (if n < 26 then of_nat (65 + n) else if n < 52 then of_nat (71 + n)
     else if n < 62 then of_nat (n - 4) else if n = 62 then jc CHR ''-'' else jc CHR ''_'')"

definition sextet_value :: "code_unit \<Rightarrow> nat" where
  "sextet_value c = (if is_upper c then unat c - 65 else if is_lower c then unat c - 71
     else if is_digit c then unat c + 4 else if c \<in> {jc CHR ''-'', jc CHR ''+''} then 62 else 63)"

definition is_base64 :: "code_unit \<Rightarrow> bool" where
  "is_base64 c \<longleftrightarrow> is_alnum c \<or> c \<in> {jc CHR ''-'', jc CHR ''+'', jc CHR ''_'', jc CHR ''/''}"

definition is_base64url :: "code_unit \<Rightarrow> bool" where
  "is_base64url c \<longleftrightarrow> is_alnum c \<or> c = jc CHR ''-'' \<or> c = jc CHR ''_''"

fun bytes_sextets :: "bytes \<Rightarrow> nat list" where
  "bytes_sextets [] = []"
| "bytes_sextets [a] = [unat a div 4, unat a mod 4 * 16]"
| "bytes_sextets [a, b] = [unat a div 4, unat a mod 4 * 16 + unat b div 16, unat b mod 16 * 4]"
| "bytes_sextets (a # b # c # r) =
     [unat a div 4, unat a mod 4 * 16 + unat b div 16, unat b mod 16 * 4 + unat c div 64, unat c mod 64] @ bytes_sextets r"

fun sextets_bytes :: "nat list \<Rightarrow> bytes" where
  "sextets_bytes (p # q # s # t # r) =
     [of_nat (p * 4 + q div 16), of_nat (q mod 16 * 16 + s div 4), of_nat (s mod 4 * 64 + t)] @ sextets_bytes r"
| "sextets_bytes [p, q, s] = [of_nat (p * 4 + q div 16), of_nat (q mod 16 * 16 + s div 4)]"
| "sextets_bytes [p, q] = [of_nat (p * 4 + q div 16)]"
| "sextets_bytes _ = []"

definition b64uEncode :: "bytes \<Rightarrow> jstr" where
  "b64uEncode bs = map sextet_char (bytes_sextets bs)"

text \<open>\<open>Buffer.from(s, "base64url")\<close> accepts both alphabets, skips other characters and stops at \<open>=\<close>.\<close>

definition b64uDecode :: "jstr \<Rightarrow> bytes" where
  "b64uDecode s = sextets_bytes (map sextet_value (filter is_base64 (takeWhile (\<lambda>c. c \<noteq> jc CHR ''='') s)))"

lemma sextet_table: "list_all (\<lambda>n. sextet_value (sextet_char n) = n \<and> is_base64url (sextet_char n)) [0..<64]"
  by code_simp

lemma sextet_value_char [simp]: "n < 64 \<Longrightarrow> sextet_value (sextet_char n) = n"
  and sextet_char_base64url: "n < 64 \<Longrightarrow> is_base64url (sextet_char n)"
  using sextet_table by (simp_all add: list_all_iff)

lemma base64url_is_base64: "is_base64url c \<Longrightarrow> is_base64 c \<and> c \<noteq> 61"
  by (auto simp: is_base64url_def is_base64_def class_defs word_le_nat_alt)

lemma bytes_sextets_bound: "n \<in> set (bytes_sextets bs) \<Longrightarrow> n < 64"
proof (induction bs rule: bytes_sextets.induct)
  case (2 a)
  then show ?case using unat_byte_less [of a] by auto
next
  case (3 a b)
  then show ?case using unat_byte_less [of a] unat_byte_less [of b] by auto
next
  case (4 a b c r)
  then show ?case using unat_byte_less [of a] unat_byte_less [of b] unat_byte_less [of c] by auto
qed simp

lemma sextet_bits:
  fixes a b c :: nat
  assumes "b < 256" "c < 256"
  shows "a div 4 * 4 + a mod 4 * 16 div 16 = a"
    and "a div 4 * 4 + (a mod 4 * 16 + b div 16) div 16 = a"
    and "(a mod 4 * 16 + b div 16) mod 16 * 16 + b mod 16 * 4 div 4 = b"
    and "(a mod 4 * 16 + b div 16) mod 16 * 16 + (b mod 16 * 4 + c div 64) div 4 = b"
    and "(b mod 16 * 4 + c div 64) mod 4 * 64 + c mod 64 = c"
proof -
  have "b div 16 < 16" "c div 64 < 4" using assms by auto
  then show "a div 4 * 4 + a mod 4 * 16 div 16 = a"
    "a div 4 * 4 + (a mod 4 * 16 + b div 16) div 16 = a"
    "(a mod 4 * 16 + b div 16) mod 16 * 16 + b mod 16 * 4 div 4 = b"
    "(a mod 4 * 16 + b div 16) mod 16 * 16 + (b mod 16 * 4 + c div 64) div 4 = b"
    "(b mod 16 * 4 + c div 64) mod 4 * 64 + c mod 64 = c" by simp_all
qed

lemma sextets_bytes_sextets [simp]: "sextets_bytes (bytes_sextets bs) = bs"
proof (induction bs rule: bytes_sextets.induct)
  case (2 a)
  then show ?case using sextet_bits(1) by simp
next
  case (3 a b)
  have "unat b < 256" by (rule unat_byte_less)
  note this2 = this this
  show ?case using sextet_bits(2) [OF this2, of "unat a"] sextet_bits(3) [OF this2, of "unat a"]
    by (simp only: bytes_sextets.simps sextets_bytes.simps) simp
next
  case (4 a b c r)
  have bc: "unat b < 256" "unat c < 256" by (rule unat_byte_less)+
  from sextet_bits(2) [OF bc, of "unat a"] sextet_bits(4) [OF bc, of "unat a"] sextet_bits(5) [OF bc] 4 show ?case
    by (simp only: bytes_sextets.simps sextets_bytes.simps append_Cons append_Nil) simp
qed simp

lemma b64uEncode_chars: "list_all is_base64url (b64uEncode bs)"
  using bytes_sextets_bound [of _ bs] by (auto simp: b64uEncode_def list_all_iff intro: sextet_char_base64url)

theorem b64uDecode_encode [simp]: "b64uDecode (b64uEncode bs) = bs"
proof -
  have ok: "is_base64 c \<and> c \<noteq> 61" if "c \<in> set (b64uEncode bs)" for c
    using b64uEncode_chars [of bs] that base64url_is_base64 by (auto simp: list_all_iff)
  have "takeWhile (\<lambda>c. c \<noteq> jc CHR ''='') (b64uEncode bs) = b64uEncode bs"
    using ok by (simp only: takeWhile_eq_all_conv) simp
  moreover have "filter is_base64 (b64uEncode bs) = b64uEncode bs"
    using ok by (simp only: filter_id_conv) simp
  moreover have "map sextet_value (b64uEncode bs) = bytes_sextets bs"
    using bytes_sextets_bound [of _ bs] by (simp add: b64uEncode_def map_idI)
  ultimately show ?thesis by (simp only: b64uDecode_def sextets_bytes_sextets)
qed

lemma length_bytes_sextets: "length (bytes_sextets bs) = (4 * length bs + 2) div 3"
  by (induction bs rule: bytes_sextets.induct) simp_all

lemma length_b64uEncode: "length (b64uEncode bs) = (4 * length bs + 2) div 3"
  by (simp add: b64uEncode_def length_bytes_sextets)

lemma length_sextets_bytes: "length (sextets_bytes ns) = 3 * length ns div 4"
  by (induction ns rule: sextets_bytes.induct) simp_all

end
