(* ===== verification/JCS.thy ===== *)
theory JCS
  imports Encodings
begin

section \<open>Canonicalization\<close>

text \<open>
  \<open>packages/core/src/jcs.ts\<close>: \<open>assertNumberDomain\<close>, \<open>validateNumberDomain\<close>, \<open>serialize\<close>
  (here returning the text its \<open>out\<close> array joins to), \<open>canonicalize\<close>, \<open>canonicalizeToBytes\<close>
  and \<open>canonicalizeJsonText\<close>, whose call of \<open>JSON.parse\<close> is a parameter that returns the
  value with the source text of its numbers.

  The abstract view: a value is canonicalizable when \<open>canonicalizable\<close> holds, and its
  canonical text is the compact JSON text of the value with sorted members
  (\<open>canonicalize_iff\<close>).  Hence the canonical bytes depend on the document only, not on the
  order of its members, and determine it.
\<close>

subsection \<open>Numbers\<close>

definition MAX_SAFE :: nat where
  "MAX_SAFE = 2 ^ 53 - 1"

text \<open>
  \<open>Math.abs(n) > MAX_SAFE\<close>.  The doubles up to \<open>2 ^ 53\<close> have their exact integer as shortest
  decimal and \<open>Number::toString\<close> is monotone, so the comparison may read the decimal.
\<close>

definition exceeds_safe :: "nat \<Rightarrow> int \<Rightarrow> bool" where
  "exceeds_safe s n =
     (let k = int (length (dec s))
      in if k \<le> n then MAX_SAFE < s * 10 ^ nat (n - k) else MAX_SAFE * 10 ^ nat (k - n) < s)"

definition is_integer_literal :: "jstr \<Rightarrow> bool" where
  "is_integer_literal token \<longleftrightarrow> jc CHR ''.'' \<notin> set token \<and> jc CHR ''e'' \<notin> set token"

fun assertNumberDomain :: "jsnum \<Rightarrow> jstr \<Rightarrow> agenid_error + jstr" where
  "assertNumberDomain (NumFin neg s n) path =
     (let token = num_token (NumFin neg s n)
      in if is_integer_literal token \<and> exceeds_safe s n
         then Inl (InvalidNumberDomainError
           (path @ js '': integer literal '' @ token @ js '' exceeds the safe integer domain (|n| must be <= 2^53-1)''))
         else Inr token)"
| "assertNumberDomain n path =
     Inl (InvalidNumberDomainError (path @ js '': '' @ num_string n @ js '' is not representable in JCS''))"

definition index_path :: "jstr \<Rightarrow> nat \<Rightarrow> jstr" where
  "index_path path i = path @ js ''['' @ dec i @ js '']''"

definition member_path :: "jstr \<Rightarrow> jstr \<Rightarrow> jstr" where
  "member_path path k = path @ js ''.'' @ k"

fun validateNumberDomain :: "jsval \<Rightarrow> jstr \<Rightarrow> agenid_error + unit"
and validate_items :: "jsval list \<Rightarrow> jstr \<Rightarrow> nat \<Rightarrow> agenid_error + unit"
and validate_members :: "(jstr \<times> jsval) list \<Rightarrow> jstr \<Rightarrow> agenid_error + unit" where
  "validateNumberDomain (JNum n) path = rbind (assertNumberDomain n path) (\<lambda>_. Inr ())"
| "validateNumberDomain (JArr vs) path = validate_items vs path 0"
| "validateNumberDomain (JObj ms) path = validate_members ms path"
| "validateNumberDomain (JInstance c ms) path = validate_members ms path"
| "validateNumberDomain _ path = Inr ()"
| "validate_items [] path i = Inr ()"
| "validate_items (v # vs) path i =
     rbind (validateNumberDomain v (index_path path i)) (\<lambda>_. validate_items vs path (Suc i))"
| "validate_members [] path = Inr ()"
| "validate_members ((k, v) # ms) path =
     rbind (validateNumberDomain v (member_path path k)) (\<lambda>_. validate_members ms path)"

subsection \<open>Serialization\<close>

fun type_of :: "jsval \<Rightarrow> jstr" where
  "type_of JUndefined = js ''undefined''"
| "type_of (JBool b) = js ''boolean''"
| "type_of (JNum n) = js ''number''"
| "type_of (JStr s) = js ''string''"
| "type_of (JBigInt i) = js ''bigint''"
| "type_of JSymbol = js ''symbol''"
| "type_of JFunction = js ''function''"
| "type_of _ = js ''object''"

definition no_json_item :: "jsval \<Rightarrow> bool" where
  "no_json_item v \<longleftrightarrow> v = JUndefined \<or> v = JFunction \<or> v = JSymbol"

definition unrepresentable :: "jstr \<Rightarrow> jstr \<Rightarrow> agenid_error" where
  "unrepresentable path what = UnserializableValueError (path @ js '': '' @ what @ js '' is not representable in JCS'')"

text \<open>
  The members of an object are serialized in the order of their keys; the first error in that
  order is the one thrown.
\<close>

fun serialize :: "jsval \<Rightarrow> jstr \<Rightarrow> agenid_error + jstr"
and serialize_items :: "jsval list \<Rightarrow> jstr \<Rightarrow> nat \<Rightarrow> agenid_error + jstr list"
and serialize_members :: "(jstr \<times> jsval) list \<Rightarrow> jstr \<Rightarrow> (jstr \<times> (agenid_error + jstr)) list" where
  "serialize JNull path = Inr (js ''null'')"
| "serialize (JBool b) path = Inr (if b then js ''true'' else js ''false'')"
| "serialize (JNum n) path = assertNumberDomain n path"
| "serialize (JStr s) path = Inr (quote s)"
| "serialize (JBigInt i) path =
     Inl (InvalidNumberDomainError (path @ js '': BigInt is not representable in JSON/JCS''))"
| "serialize JUndefined path = Inl (unrepresentable path (js ''undefined''))"
| "serialize JFunction path = Inl (unrepresentable path (js ''function''))"
| "serialize JSymbol path = Inl (unrepresentable path (js ''symbol''))"
| "serialize (JArr vs) path =
     rbind (serialize_items vs path 0)
       (\<lambda>items. Inr (js ''['' @ join_with (js '','') items @ js '']''))"
| "serialize (JInstance c ms) path =
     Inl (UnserializableValueError (path @ js '': only plain objects are canonicalizable (got '' @ c @ js '')''))"
| "serialize (JObj ms) path =
     rbind (map_result (\<lambda>(k, r). rbind r (\<lambda>t. Inr (quote k @ js '':'' @ t)))
              (sort_key fst (serialize_members ms path)))
       (\<lambda>members. Inr (js ''{'' @ join_with (js '','') members @ js ''}''))"
| "serialize_items [] path i = Inr []"
| "serialize_items (v # vs) path i =
     (if no_json_item v then Inl (unrepresentable (index_path path i) (type_of v))
      else rbind (serialize v (index_path path i))
             (\<lambda>t. rbind (serialize_items vs path (Suc i)) (\<lambda>ts. Inr (t # ts))))"
| "serialize_members [] path = []"
| "serialize_members ((k, v) # ms) path =
     (k, if v = JUndefined then Inl (unrepresentable (member_path path k) (js ''undefined''))
         else serialize v (member_path path k)) # serialize_members ms path"

definition canonicalize :: "jsval \<Rightarrow> agenid_error + jstr" where
  "canonicalize v = serialize v (js ''$'')"

definition canonicalizeToBytes :: "jsval \<Rightarrow> agenid_error + bytes" where
  "canonicalizeToBytes v = rbind (canonicalize v) (\<lambda>t. Inr (utf8_encode t))"

subsection \<open>JSON text\<close>

text \<open>
  The reviver: an integer literal is compared with \<open>2 ^ 53 - 1\<close> as text.  \<open>parse\<close> is
  \<open>JSON.parse\<close> with the source of every number, in the order the reviver sees them
  (no sources on a runtime that does not expose them).
\<close>

definition integer_source :: "jstr \<Rightarrow> bool" where
  "integer_source src =
     (let ds = (case src of [] \<Rightarrow> [] | c # cs \<Rightarrow> if c = jc CHR ''-'' then cs else src)
      in ds \<noteq> [] \<and> list_all is_digit ds)"

definition literal_too_big :: "jstr \<Rightarrow> bool" where
  "literal_too_big src =
     (let digits = (case index_of (jc CHR ''-'') src of None \<Rightarrow> src | Some i \<Rightarrow> take i src @ drop (Suc i) src)
      in 16 < length digits \<or> length digits = 16 \<and> js ''9007199254740991'' < digits)"

definition reviver :: "jstr \<Rightarrow> agenid_error + unit" where
  "reviver src =
     (if list_all (\<lambda>c. c \<notin> {jc CHR ''.'', jc CHR ''e'', jc CHR ''E''}) src \<and> integer_source src \<and> literal_too_big src
      then Inl (InvalidNumberDomainError
        (js ''integer literal '' @ src @ js '' exceeds the safe integer domain (|n| must be <= 2^53-1)''))
      else Inr ())"

definition canonicalizeJsonText :: "(jstr \<Rightarrow> agenid_error + jsval \<times> jstr list) \<Rightarrow> jstr \<Rightarrow> agenid_error + bytes" where
  "canonicalizeJsonText parse text =
     rbind (parse text) (\<lambda>(v, sources).
       rbind (map_result reviver sources) (\<lambda>_. canonicalizeToBytes v))"

subsection \<open>What canonicalization computes\<close>

fun number_domain :: "jsnum \<Rightarrow> bool" where
  "number_domain (NumFin neg s n) = (\<not> (is_integer_literal (num_token (NumFin neg s n)) \<and> exceeds_safe s n))"
| "number_domain _ = False"

lemma assertNumberDomain_iff: "assertNumberDomain n path = Inr t \<longleftrightarrow> number_domain n \<and> t = num_token n"
  by (cases n) (auto simp: Let_def)

fun canonicalizable :: "jsval \<Rightarrow> bool" where
  "canonicalizable JNull = True"
| "canonicalizable (JBool b) = True"
| "canonicalizable (JNum n) = number_domain n"
| "canonicalizable (JStr s) = True"
| "canonicalizable (JArr vs) = list_all canonicalizable vs"
| "canonicalizable (JObj ms) = list_all (\<lambda>(k, v). canonicalizable v) ms"
| "canonicalizable _ = False"

definition member_result :: "jstr \<Rightarrow> jstr \<Rightarrow> jsval \<Rightarrow> agenid_error + jstr" where
  "member_result path k v =
     (if v = JUndefined then Inl (unrepresentable (member_path path k) (js ''undefined''))
      else serialize v (member_path path k))"

lemma serialize_members_map: "serialize_members ms path = map (\<lambda>(k, v). (k, member_result path k v)) ms"
  by (induction ms) (auto simp: member_result_def)

lemma canonicalizable_defined [simp]: "canonicalizable v \<Longrightarrow> v \<noteq> JUndefined" "canonicalizable v \<Longrightarrow> \<not> no_json_item v"
  by (auto simp: no_json_item_def)

lemma map_result_members:
  assumes "\<And>k v t. (k, v) \<in> set ms \<Longrightarrow> f k v = Inr t \<longleftrightarrow> P v \<and> t = g v"
  shows "map_result (\<lambda>(k, r). rbind r (\<lambda>t. Inr (h k t))) (map (\<lambda>(k, v). (k, f k v)) ms) = Inr ts
    \<longleftrightarrow> list_all (\<lambda>(k, v). P v) ms \<and> ts = map (\<lambda>(k, v). h k (g v)) ms"
  using assms
proof (induction ms arbitrary: ts)
  case (Cons m ms)
  obtain k v where m: "m = (k, v)" by (cases m)
  have "f k v = Inr t \<longleftrightarrow> P v \<and> t = g v" for t using Cons.prems m by simp
  with Cons.IH [OF Cons.prems] m show ?case by (auto simp: rbind_Inr_iff)
qed auto

lemma serialize_iff:
  "\<And>t. serialize v path = Inr t \<longleftrightarrow> canonicalizable v \<and> t = json_text (jnorm v)"
  "\<And>ts. serialize_items vs path i = Inr ts \<longleftrightarrow> list_all canonicalizable vs \<and> ts = map (\<lambda>v. json_text (jnorm v)) vs"
  "list_all (\<lambda>(k, v). \<forall>t. member_result path k v = Inr t \<longleftrightarrow> canonicalizable v \<and> t = json_text (jnorm v)) ms"
proof (induction v path and vs path i and ms path rule: serialize_serialize_items_serialize_members.induct)
  case (3 n path)
  show ?case by (auto simp: assertNumberDomain_iff)
next
  case (9 vs path)
  then show ?case by (auto simp: rbind_Inr_iff comp_def)
next
  case (11 ms path)
  have "map_result (\<lambda>(k, r). rbind r (\<lambda>t. Inr (quote k @ js '':'' @ t))) (sort_key fst (serialize_members ms path)) = Inr ts
    \<longleftrightarrow> list_all (\<lambda>(k, v). canonicalizable v) (sort_key fst ms)
      \<and> ts = map (\<lambda>(k, v). quote k @ js '':'' @ json_text (jnorm v)) (sort_key fst ms)" for ts
    unfolding serialize_members_map sort_key_fst_map
    by (rule map_result_members) (use 11 in \<open>auto simp: list_all_iff\<close>)
  then show ?case
    by (auto simp: rbind_Inr_iff jnorm_obj comp_def case_prod_unfold list_all_iff simp del: jnorm.simps)
next
  case (13 v vs path i)
  then show ?case by (auto simp: rbind_Inr_iff no_json_item_def)
next
  case (15 k v ms path)
  then show ?case by (auto simp: member_result_def)
qed auto

theorem canonicalize_iff: "canonicalize v = Inr t \<longleftrightarrow> canonicalizable v \<and> t = json_text (jnorm v)"
  by (simp add: canonicalize_def serialize_iff)

lemma canonicalize_total: "canonicalizable v \<Longrightarrow> canonicalize v = Inr (json_text (jnorm v))"
  by (simp add: canonicalize_iff)

lemma canonicalize_same: "same_json v w \<Longrightarrow> canonicalizable v \<Longrightarrow> canonicalizable w \<Longrightarrow> canonicalize v = canonicalize w"
  by (simp add: canonicalize_total same_json_def)

lemma jnorm_canonicalizable [simp]: "canonicalizable (jnorm v) = canonicalizable v"
proof (induction v)
  case (JObj ms)
  then show ?case
    by (fastforce simp: jnorm_obj list_all_iff simp del: jnorm.simps)
qed (auto simp: list_all_iff)

lemma canonicalizeToBytes_iff:
  "canonicalizeToBytes v = Inr b \<longleftrightarrow> canonicalizable v \<and> b = utf8_encode (json_text (jnorm v))"
  by (auto simp: canonicalizeToBytes_def rbind_Inr_iff canonicalize_iff)

lemma canonical_bytes_total: "canonicalizable v \<Longrightarrow> canonicalizeToBytes v = Inr (utf8_encode (json_text (jnorm v)))"
  by (simp add: canonicalizeToBytes_iff)

lemma canonical_bytes_inject:
  assumes "plain v" "plain w" "canonicalizable v" "canonicalizeToBytes v = canonicalizeToBytes w"
  shows "same_json v w"
proof -
  have "utf8_encode (json_text (jnorm v)) = utf8_encode (json_text (jnorm w))"
    using assms(3,4) by (metis canonical_bytes_total canonicalizeToBytes_iff)
  then have "json_text (jnorm v) = json_text (jnorm w)"
    by (intro utf8_inject wf_json_text)
  then show ?thesis using json_text_inject plain_jnorm assms(1,2) unfolding same_json_def by blast
qed

lemma canonical_bytes_same:
  "same_json v w \<Longrightarrow> canonicalizable v \<Longrightarrow> canonicalizeToBytes v = canonicalizeToBytes w"
  by (metis canonical_bytes_total jnorm_canonicalizable same_json_def)

lemma same_json_canonicalizable: "same_json v w \<Longrightarrow> canonicalizable v = canonicalizable w"
  by (metis jnorm_canonicalizable same_json_def)

subsection \<open>The number domain in arithmetic terms\<close>

lemma integer_literal_iff:
  "is_integer_literal (magnitude_text s n) \<longleftrightarrow> s = 0 \<or> int (length (dec s)) \<le> n \<and> n \<le> 21"
proof -
  have ds: "46 \<notin> set (dec s)" "101 \<notin> set (dec s)"
    using dec_digits [of s] not_digit_mark unfolding list_all_iff by blast+
  then have "46 \<notin> set (take m (dec s))" "101 \<notin> set (drop m (dec s))" for m
    by (auto dest: in_set_takeD in_set_dropD)
  with ds show ?thesis
    by (auto simp: magnitude_text_def Let_def is_integer_literal_def exponent_text_def)
qed

lemma number_domain_iff:
  "number_domain (NumFin neg s n) \<longleftrightarrow>
     (if s \<noteq> 0 \<and> int (length (dec s)) \<le> n \<and> n \<le> 21 then s * 10 ^ nat (n - int (length (dec s))) \<le> MAX_SAFE else True)"
proof -
  have "is_integer_literal (num_token (NumFin neg s n)) = is_integer_literal (magnitude_text s n)"
    by (simp add: is_integer_literal_def)
  then show ?thesis by (auto simp: integer_literal_iff exceeds_safe_def Let_def)
qed

text \<open>Digit strings of one length are ordered as their values are.\<close>

lemma digits_value_bound: "list_all is_digit s \<Longrightarrow> digits_value s < 10 ^ length s"
proof (induction s)
  case (Cons c s)
  then have "digit_value c \<le> 9" "digits_value s < 10 ^ length s" using digit_value_less [of c] by auto
  then have "digit_value c * 10 ^ length s + digits_value s < 9 * 10 ^ length s + 10 ^ length s"
    by (intro add_le_less_mono mult_right_mono) auto
  then show ?case by (simp add: digits_value_Cons)
qed simp

lemma digit_order: "is_digit c \<Longrightarrow> is_digit d \<Longrightarrow> c < d \<longleftrightarrow> digit_value c < digit_value d"
  by (auto simp: is_digit_iff digit_value_def word_less_nat_alt)

lemma digits_order:
  "length s = length t \<Longrightarrow> list_all is_digit s \<Longrightarrow> list_all is_digit t \<Longrightarrow> s < t \<longleftrightarrow> digits_value s < digits_value t"
proof (induction s t rule: list_induct2)
  case (Cons c s d t)
  have bounds: "digits_value s < 10 ^ length s" "digits_value t < 10 ^ length s"
    using digits_value_bound [of s] digits_value_bound [of t] Cons by auto
  have cd: "c < d \<longleftrightarrow> digit_value c < digit_value d" "d < c \<longleftrightarrow> digit_value d < digit_value c"
    using Cons.prems by (simp_all add: digit_order)
  have step: "a * m + x < b * m + y" if "a < b" "x < m" for a b m x y :: nat
  proof -
    have "a * m + x < Suc a * m" using that by simp
    also have "\<dots> \<le> b * m" using that by (intro mult_right_mono) auto
    finally show ?thesis by simp
  qed
  from step [of "digit_value c" "digit_value d", OF _ bounds(1)] step [of "digit_value d" "digit_value c", OF _ bounds(2)]
  show ?case using Cons cd
    by (cases c d rule: linorder_cases) (auto simp: digits_value_Cons dest: less_asym)
qed simp

text \<open>The integers of the JSON grammar: an optional sign, then digits without a leading zero.\<close>

definition json_digits :: "jstr \<Rightarrow> bool" where
  "json_digits ds \<longleftrightarrow> ds \<noteq> [] \<and> list_all is_digit ds \<and> (length ds = 1 \<or> hd ds \<noteq> jc CHR ''0'')"

lemma json_digits_lower: "json_digits ds \<Longrightarrow> 1 < length ds \<Longrightarrow> 10 ^ (length ds - 1) \<le> digits_value ds"
proof (cases ds)
  case (Cons c cs)
  assume "json_digits ds" "1 < length ds"
  with Cons have "is_digit c" "c \<noteq> 48" by (auto simp: json_digits_def)
  then have "1 \<le> digit_value c"
    using unsigned_word_eqI [of c 48] by (cases "unat c = 48") (auto simp: is_digit_iff digit_value_def)
  then have "1 * 10 ^ length cs \<le> digit_value c * 10 ^ length cs" by (intro mult_right_mono) auto
  also have "\<dots> \<le> digits_value ds" using Cons by (simp add: digits_value_Cons)
  finally show ?thesis using Cons by simp
qed (simp add: json_digits_def)

lemma too_big_iff:
  assumes "json_digits ds"
  shows "16 < length ds \<or> length ds = 16 \<and> js ''9007199254740991'' < ds \<longleftrightarrow> MAX_SAFE < digits_value ds"
proof -
  have digits: "list_all is_digit ds" using assms by (simp add: json_digits_def)
  consider "length ds < 16" | "length ds = 16" | "16 < length ds" by linarith
  then show ?thesis
  proof cases
    case 1
    then have "(10 :: nat) ^ length ds \<le> 10 ^ 15" by (intro power_increasing) auto
    then have "digits_value ds < 10 ^ 15" using digits_value_bound [OF digits] by linarith
    with 1 show ?thesis by (simp add: MAX_SAFE_def)
  next
    case 2
    have "digits_value (js ''9007199254740991'') = MAX_SAFE" "list_all is_digit (js ''9007199254740991'')"
      by (simp_all add: digits_value_def digit_value_def MAX_SAFE_def is_digit_iff)
    with 2 digits digits_order [of "js ''9007199254740991''" ds] show ?thesis by simp
  next
    case 3
    then have "(10 :: nat) ^ 16 \<le> 10 ^ (length ds - 1)" by (intro power_increasing) auto
    also have "\<dots> \<le> digits_value ds" by (rule json_digits_lower) (use assms 3 in auto)
    finally show ?thesis using 3 by (simp add: MAX_SAFE_def)
  qed
qed

lemma digit_not_sign: "list_all is_digit ds \<Longrightarrow> 45 \<notin> set ds \<and> 46 \<notin> set ds \<and> 101 \<notin> set ds \<and> 69 \<notin> set ds"
  by (auto simp: list_all_iff is_digit_iff)

lemma reviver_digits:
  assumes "json_digits ds"
  shows "is_ok (reviver ds) = (digits_value ds \<le> MAX_SAFE)"
    and "is_ok (reviver (jc CHR ''-'' # ds)) = (digits_value ds \<le> MAX_SAFE)"
proof -
  have ds: "list_all is_digit ds" "ds \<noteq> []" using assms by (auto simp: json_digits_def)
  note no = digit_not_sign [OF ds(1)]
  have "list_all (\<lambda>c. c \<noteq> 46 \<and> c \<noteq> 101 \<and> c \<noteq> 69) ds" using no by (auto simp: list_all_iff)
  moreover have "index_of 45 ds = None" using no by (simp add: index_of_None_iff)
  moreover have "hd ds \<noteq> 45" using no ds(2) by (metis list.set_sel(1))
  moreover note too_big = too_big_iff [OF assms]
  ultimately show "is_ok (reviver ds) = (digits_value ds \<le> MAX_SAFE)"
    "is_ok (reviver (jc CHR ''-'' # ds)) = (digits_value ds \<le> MAX_SAFE)"
    using ds by (cases ds; simp add: reviver_def integer_source_def literal_too_big_def Let_def not_less)+
qed

subsection \<open>Validation without serialization\<close>

text \<open>
  On a JSON tree (no \<open>undefined\<close>, functions, symbols, BigInts or class instances) the walk of
  \<open>validateNumberDomain\<close> accepts exactly what \<open>canonicalize\<close> accepts, although the two visit the
  members of an object in different orders.
\<close>

fun json_tree :: "jsval \<Rightarrow> bool" where
  "json_tree JNull = True"
| "json_tree (JBool b) = True"
| "json_tree (JNum n) = True"
| "json_tree (JStr s) = True"
| "json_tree (JArr vs) = list_all json_tree vs"
| "json_tree (JObj ms) = list_all (\<lambda>(k, v). json_tree v) ms"
| "json_tree _ = False"

lemma is_ok_rbind: "is_ok (rbind r f) \<longleftrightarrow> (case r of Inl e \<Rightarrow> False | Inr x \<Rightarrow> is_ok (f x))"
  by (cases r) auto

lemma is_ok_assert: "is_ok (assertNumberDomain n path) = number_domain n"
  by (cases n) (auto simp: Let_def)

lemma validate_ok:
  "json_tree v \<Longrightarrow> is_ok (validateNumberDomain v path) = canonicalizable v"
  "list_all json_tree vs \<Longrightarrow> is_ok (validate_items vs path i) = list_all canonicalizable vs"
  "list_all (\<lambda>(k, v). json_tree v) ms \<Longrightarrow> is_ok (validate_members ms path) = list_all (\<lambda>(k, v). canonicalizable v) ms"
proof (induction v path and vs path i and ms path rule: validateNumberDomain_validate_items_validate_members.induct)
  case (1 n path)
  show ?case using is_ok_assert [of n path] by (cases "assertNumberDomain n path") auto
qed (auto simp: is_ok_rbind split: sum.splits)

lemma is_ok_canonicalize: "is_ok (canonicalize v) = canonicalizable v"
  using canonicalize_iff [of v] by (cases "canonicalize v") auto

subsection \<open>Properties\<close>

text \<open>C7: \<open>canonicalize\<close> returns a text exactly for the values made of JSON data whose numbers
  are in the AgenID domain, and that text is the compact JSON text of the value with the members
  of every object sorted by UTF-16 code units; on every other value it throws.\<close>
theorem jcs_canonical_form:
  "canonicalize v = Inr t \<longleftrightarrow> canonicalizable v \<and> t = json_text (jnorm v)"
  by (rule canonicalize_iff)

text \<open>C6: The canonical bytes depend on the document only and determine it: two documents have the
  same canonical bytes exactly when they are equal up to the order of object members.\<close>
theorem jcs_bytes_iff_same_document:
  assumes "plain v" and "plain w" and "canonicalizable v" and "canonicalizable w"
  shows "canonicalizeToBytes v = canonicalizeToBytes w \<longleftrightarrow> same_json v w"
  using canonical_bytes_inject [OF assms(1-3)] canonical_bytes_same [OF _ assms(3)] by blast

theorem jcs_bytes_iff_same_document_witness:
  "canonicalizeToBytes (JObj [(js ''a'', JNull), (js ''b'', JNum (NumFin True 15 1))])
     = canonicalizeToBytes (JObj [(js ''b'', JNum (NumFin True 15 1)), (js ''a'', JNull)])
   \<and> canonicalizeToBytes (JObj [(js ''a'', JNull)]) \<noteq> canonicalizeToBytes (JObj [(js ''b'', JNull)])"
proof -
  have "number_domain (NumFin True 15 1)" by code_simp
  then show ?thesis
    using jcs_bytes_iff_same_document [of "JObj [(js ''a'', JNull), (js ''b'', JNum (NumFin True 15 1))]"
        "JObj [(js ''b'', JNum (NumFin True 15 1)), (js ''a'', JNull)]"]
      jcs_bytes_iff_same_document [of "JObj [(js ''a'', JNull)]" "JObj [(js ''b'', JNull)]"]
    by (simp add: same_json_def del: number_domain.simps)
qed

text \<open>The number rule of section 5, in arithmetic terms: a finite number is rejected exactly
  when its canonical token is an integer literal of magnitude above \<open>2 ^ 53 - 1\<close>; numbers with a
  fraction and numbers from \<open>1e21\<close> on, whose token has an exponent, pass.\<close>
theorem number_domain_rule:
  "is_ok (assertNumberDomain (NumFin neg s n) path) \<longleftrightarrow>
     (if s \<noteq> 0 \<and> int (length (dec s)) \<le> n \<and> n \<le> 21
      then s * 10 ^ nat (n - int (length (dec s))) \<le> 2 ^ 53 - 1 else True)"
  unfolding is_ok_assert number_domain_iff MAX_SAFE_def ..

text \<open>The textual comparison of the reviver is exact: an integer literal of the JSON grammar,
  signed or not, passes exactly when its magnitude is at most \<open>2 ^ 53 - 1\<close>.\<close>
theorem reviver_rule:
  assumes "json_digits ds" and "src = ds \<or> src = jc CHR ''-'' # ds"
  shows "is_ok (reviver src) \<longleftrightarrow> digits_value ds \<le> 2 ^ 53 - 1"
  using assms(2) reviver_digits [OF assms(1)] by (auto simp: MAX_SAFE_def)

theorem reviver_rule_witness:
  "is_ok (reviver (js ''-9007199254740991'')) \<and> \<not> is_ok (reviver (js ''9007199254740993''))"
  using reviver_rule [of "js ''9007199254740991''" "js ''-9007199254740991''"]
    reviver_rule [of "js ''9007199254740993''" "js ''9007199254740993''"]
  by (simp add: json_digits_def is_digit_iff digits_value_def digit_value_def)

text \<open>\<open>validateNumberDomain\<close>, the walk for documents about to be stored, accepts a JSON value
  exactly when \<open>canonicalize\<close> accepts it.\<close>
theorem validate_matches_canonicalize:
  assumes "json_tree v"
  shows "is_ok (validateNumberDomain v path) = is_ok (canonicalize v)"
  by (simp add: validate_ok(1) [OF assms] is_ok_canonicalize)

theorem validate_matches_canonicalize_witness:
  "\<not> is_ok (validateNumberDomain (JArr [JNull, JNum (NumFin False 9007199254740992 16)]) (js ''$''))"
proof -
  have "\<not> is_ok (canonicalize (JArr [JNull, JNum (NumFin False 9007199254740992 16)]))"
    unfolding is_ok_canonicalize by (simp add: number_domain_iff dec.simps MAX_SAFE_def del: number_domain.simps)
  with validate_matches_canonicalize [of "JArr [JNull, JNum (NumFin False 9007199254740992 16)]" "js ''$''"]
  show ?thesis by simp
qed

end
