(* ===== verification/Percent.thy ===== *)
theory Percent
  imports Encodings
begin

section \<open>Percent-encoding\<close>

text \<open>
  \<open>encodeURIComponent\<close> and \<open>decodeURIComponent\<close> of ECMAScript (\<open>None\<close> is the \<open>URIError\<close>
  they throw), which the key references of \<open>packages/core/src/identifier.ts\<close> and the resolvers
  use, with the round trip on ASCII text.
\<close>

definition is_unreserved :: "code_unit \<Rightarrow> bool" where
  "is_unreserved c \<longleftrightarrow> is_alnum c \<or> c \<in> set (js ''-_.!~*()'') \<or> c = jc CHR 0x27"

definition HEX_digit :: "nat \<Rightarrow> code_unit" where
  "HEX_digit d = (if d < 10 then of_nat (48 + d) else of_nat (55 + d))"

definition percent_bytes :: "bytes \<Rightarrow> jstr" where
  "percent_bytes bs = concat (map (\<lambda>b. [jc CHR ''%'', HEX_digit (unat b div 16), HEX_digit (unat b mod 16)]) bs)"

fun encodeURIComponent :: "jstr \<Rightarrow> jstr option" where
  "encodeURIComponent [] = Some []"
| "encodeURIComponent [c] =
     (if is_unreserved c then Some [c]
      else if is_high_surrogate c \<or> is_low_surrogate c then None
      else Some (percent_bytes (utf8_char (unat c))))"
| "encodeURIComponent (c # d # cs) =
     (if is_unreserved c then map_option (Cons c) (encodeURIComponent (d # cs))
      else if is_high_surrogate c \<and> is_low_surrogate d
        then map_option (append (percent_bytes (utf8_char (pair_value c d)))) (encodeURIComponent cs)
      else if is_high_surrogate c \<or> is_low_surrogate c then None
      else map_option (append (percent_bytes (utf8_char (unat c)))) (encodeURIComponent (d # cs)))"

text \<open>Decoding: \<open>%XX\<close> bytes must form well-formed UTF-8 (no overlong forms, no surrogates).\<close>

fun percent_byte :: "jstr \<Rightarrow> (nat \<times> jstr) option" where
  "percent_byte (p # a # b # r) =
     (if p = jc CHR ''%'' \<and> is_hex a \<and> is_hex b then Some (hex_value a * 16 + hex_value b, r) else None)"
| "percent_byte _ = None"

fun continuation_bytes :: "nat \<Rightarrow> nat \<Rightarrow> jstr \<Rightarrow> (nat \<times> jstr) option" where
  "continuation_bytes 0 acc s = Some (acc, s)"
| "continuation_bytes (Suc k) acc s =
     (case percent_byte s of
        None \<Rightarrow> None
      | Some (b, r) \<Rightarrow> if 0x80 \<le> b \<and> b < 0xC0 then continuation_bytes k (acc * 64 + (b - 0x80)) r else None)"

definition percent_char :: "jstr \<Rightarrow> (nat \<times> jstr) option" where
  "percent_char s =
     (case percent_byte s of
        None \<Rightarrow> None
      | Some (b, r) \<Rightarrow>
          if b < 0x80 then Some (b, r)
          else if b < 0xC0 \<or> 0xF8 \<le> b then None
          else
            (let (k, acc, least) = (if b < 0xE0 then (1, b - 0xC0, 0x80)
                                    else if b < 0xF0 then (2, b - 0xE0, 0x800) else (3, b - 0xF0, 0x10000))
             in case continuation_bytes k acc r of
                  None \<Rightarrow> None
                | Some (v, r') \<Rightarrow>
                    if least \<le> v \<and> v < 0x110000 \<and> \<not> (0xD800 \<le> v \<and> v \<le> 0xDFFF) then Some (v, r') else None))"

lemma percent_byte_shorter: "percent_byte s = Some (b, r) \<Longrightarrow> length r < length s"
  by (cases s rule: percent_byte.cases) (auto split: if_splits)

lemma continuation_bytes_shorter: "continuation_bytes k acc s = Some (v, r) \<Longrightarrow> length r \<le> length s"
proof (induction k acc s rule: continuation_bytes.induct)
  case (2 k acc s)
  then show ?case
    by (auto split: option.splits if_splits dest!: percent_byte_shorter)
       (meson le_trans less_imp_le)
qed simp

lemma percent_char_shorter: "percent_char s = Some (v, r) \<Longrightarrow> length r < length s"
  by (auto simp: percent_char_def Let_def split: option.splits if_splits
      dest!: percent_byte_shorter continuation_bytes_shorter)

function decodeURIComponent :: "jstr \<Rightarrow> jstr option" where
  "decodeURIComponent [] = Some []"
| "decodeURIComponent (c # cs) =
     (if c \<noteq> jc CHR ''%'' then map_option (Cons c) (decodeURIComponent cs)
      else case percent_char (c # cs) of
             None \<Rightarrow> None
           | Some (v, r) \<Rightarrow> map_option (append (point_units v)) (decodeURIComponent r))"
  by pat_completeness auto
termination
  by (relation "measure length") (auto dest: percent_char_shorter)

lemma decodeURIComponent_plain: "jc CHR ''%'' \<notin> set s \<Longrightarrow> decodeURIComponent s = Some s"
  by (induction s) auto

lemma HEX_table: "list_all (\<lambda>n. hex_value (HEX_digit n) = n \<and> is_hex (HEX_digit n)) [0..<16]"
  by code_simp

lemma HEX_digit_value [simp]: "n < 16 \<Longrightarrow> hex_value (HEX_digit n) = n" "n < 16 \<Longrightarrow> is_hex (HEX_digit n)"
  using HEX_table by (simp_all add: list_all_iff)

lemma percent_byte_bytes:
  "percent_byte (percent_bytes (b # bs) @ r) = Some (unat b, percent_bytes bs @ r)"
proof -
  have "unat b div 16 < 16" using unat_byte_less [of b] by simp
  then show ?thesis by (simp add: percent_bytes_def)
qed

lemma encode_Cons_ascii:
  "ascii c \<Longrightarrow> encodeURIComponent (c # s) =
     map_option (append (if is_unreserved c then [c] else percent_bytes [ucast c])) (encodeURIComponent s)"
proof -
  assume c: "ascii c"
  then have "unat c < 128" by (simp add: ascii_def word_less_nat_alt)
  then have u: "utf8_char (unat c) = [ucast c]" by (simp add: utf8_char_def)
  show ?thesis
    using ascii_not_surrogate [OF c] u by (cases s) (auto intro!: option.map_cong)
qed

theorem decode_encode_ascii:
  "list_all ascii s \<Longrightarrow> \<exists>e. encodeURIComponent s = Some e \<and> decodeURIComponent e = Some s"
proof (induction s)
  case (Cons c s)
  then obtain e where e: "encodeURIComponent s = Some e" "decodeURIComponent e = Some s" and c: "ascii c" by auto
  then have small: "unat c < 128" by (simp add: ascii_def word_less_nat_alt)
  have enc: "encodeURIComponent (c # s) = Some ((if is_unreserved c then [c] else percent_bytes [ucast c]) @ e)"
    using e(1) c by (simp add: encode_Cons_ascii)
  show ?case
  proof (cases "is_unreserved c")
    case True
    then have "c \<noteq> 37" by (auto simp: is_unreserved_def class_defs)
    with True enc e(2) show ?thesis by auto
  next
    case False
    have ucast: "unat (ucast c :: byte) = unat c" using small by (simp add: unsigned_ucast_eq take_bit_nat_eq_self)
    then have "percent_char (percent_bytes [ucast c] @ e) = Some (unat c, e)"
      using small percent_byte_bytes [of "ucast c" "[]" e] by (simp add: percent_char_def) (simp add: percent_bytes_def)
    moreover have "point_units (unat c) = [c]" using small by (simp add: point_units_def)
    moreover obtain t where "percent_bytes [ucast c] = 37 # t" by (simp add: percent_bytes_def)
    ultimately have "decodeURIComponent (percent_bytes [ucast c] @ e) = Some (c # s)"
      using e(2) by simp
    with False enc show ?thesis by auto
  qed
qed simp

end
