(* ===== verification/Identifier.thy ===== *)
theory Identifier
  imports Percent
begin

unbundle bit_operations_syntax

section \<open>Identifiers\<close>

text \<open>
  \<open>packages/core/src/identifier.ts\<close>: ULIDs and their generation (the clock and the random bytes
  are arguments), the identifier namespaces, the logical and wire forms of key identifiers,
  and the well-known URLs.  The regular expressions are predicates on strings.
\<close>

subsection \<open>ULID\<close>

definition CROCKFORD :: jstr where
  "CROCKFORD = js ''0123456789ABCDEFGHJKMNPQRSTVWXYZ''"

definition is_crockford :: "code_unit \<Rightarrow> bool" where
  "is_crockford c \<longleftrightarrow>
     in_range CHR ''0'' CHR ''9'' c \<or> in_range CHR ''A'' CHR ''H'' c \<or> in_range CHR ''J'' CHR ''K'' c
     \<or> in_range CHR ''M'' CHR ''N'' c \<or> in_range CHR ''P'' CHR ''T'' c \<or> in_range CHR ''V'' CHR ''Z'' c"

definition isValidUlid :: "jstr \<Rightarrow> bool" where
  "isValidUlid s = (case s of [] \<Rightarrow> False
     | c # cs \<Rightarrow> in_range CHR ''0'' CHR ''7'' c \<and> length cs = 25 \<and> list_all is_crockford cs)"

definition crockford_char :: "nat \<Rightarrow> code_unit" where
  "crockford_char d = CROCKFORD ! d"

text \<open>The ten characters of the time, most significant first.\<close>

fun ulid_time :: "nat \<Rightarrow> nat \<Rightarrow> jstr" where
  "ulid_time 0 t = []"
| "ulid_time (Suc i) t = ulid_time i (t div 32) @ [crockford_char (t mod 32)]"

text \<open>
  The random part: \<open>bitBuf\<close> is a 32-bit integer (\<open>bitBuf << 8\<close> drops the bits above), of
  which the topmost unread \<open>bitCount\<close> bits are still to be written.
\<close>

fun emit_digits :: "32 word \<Rightarrow> nat \<Rightarrow> nat list \<times> nat" where
  "emit_digits bitBuf bitCount =
     (if 5 \<le> bitCount
      then (let (ds, rest) = emit_digits bitBuf (bitCount - 5)
            in (unat (drop_bit (bitCount - 5) bitBuf AND 31) # ds, rest))
      else ([], bitCount))"

declare emit_digits.simps [simp del]

fun pack_digits :: "32 word \<Rightarrow> nat \<Rightarrow> bytes \<Rightarrow> nat list" where
  "pack_digits bitBuf bitCount [] = []"
| "pack_digits bitBuf bitCount (b # bs) =
     (let bitBuf' = push_bit 8 bitBuf OR ucast b;
          (ds, rest) = emit_digits bitBuf' (bitCount + 8)
      in ds @ pack_digits bitBuf' rest bs)"

definition ulid_random :: "bytes \<Rightarrow> jstr" where
  "ulid_random rnd = map crockford_char (pack_digits 0 0 rnd)"

text \<open>\<open>now\<close> is \<open>None\<close> for a number that is not an integer; \<open>rnd\<close> are the ten bytes drawn.\<close>

definition generateUlid :: "int option \<Rightarrow> bytes \<Rightarrow> agenid_error + jstr" where
  "generateUlid now rnd =
     (case now of
        None \<Rightarrow> Inl (InvalidIdentifierError (js ''ULID timestamp must be an integer in [0, 2^48)''))
      | Some t \<Rightarrow>
          if t < 0 \<or> 0xffffffffffff < t
          then Inl (InvalidIdentifierError (js ''ULID timestamp must be an integer in [0, 2^48)''))
          else Inr (ulid_time 10 (nat t) @ ulid_random rnd))"

subsection \<open>Namespaces\<close>

definition isValidAgentId :: "jstr \<Rightarrow> bool" where
  "isValidAgentId = after_prefix (js ''agenid:'') isValidUlid"

definition isValidKeyId :: "jstr \<Rightarrow> bool" where
  "isValidKeyId = after_prefix (js ''agenid:key:'') isValidUlid"

definition isValidAssertionId :: "jstr \<Rightarrow> bool" where
  "isValidAssertionId = after_prefix (js ''assertion:'') isValidUlid"

definition authority_name :: "jstr \<Rightarrow> bool" where
  "authority_name s = (case s of [] \<Rightarrow> False
     | c # cs \<Rightarrow> (is_lower c \<or> is_digit c) \<and> length cs \<le> 62
         \<and> list_all (\<lambda>c. is_lower c \<or> is_digit c \<or> c = jc CHR ''-'') cs)"

definition isValidAuthorityId :: "jstr \<Rightarrow> bool" where
  "isValidAuthorityId = after_prefix (js ''agenid:authority:'') authority_name"

definition isValidDeploymentId :: "jstr \<Rightarrow> bool" where
  "isValidDeploymentId = after_prefix (js ''dep_'') (\<lambda>s. 1 \<le> length s \<and> length s \<le> 64 \<and> list_all is_base64url s)"

definition isValidPrincipalId :: "jstr \<Rightarrow> bool" where
  "isValidPrincipalId = after_prefix (js ''agenid:principal:'') isValidUlid"

definition isValidGrantId :: "jstr \<Rightarrow> bool" where
  "isValidGrantId = after_prefix (js ''grant:'') isValidUlid"

definition isValidRevocationId :: "jstr \<Rightarrow> bool" where
  "isValidRevocationId = after_prefix (js ''revocation:'') isValidUlid"

definition generateAgentId :: "int option \<Rightarrow> bytes \<Rightarrow> agenid_error + jstr" where
  "generateAgentId now rnd = map_sum id (append (js ''agenid:'')) (generateUlid now rnd)"

definition generateKeyId :: "int option \<Rightarrow> bytes \<Rightarrow> agenid_error + jstr" where
  "generateKeyId now rnd = map_sum id (append (js ''agenid:key:'')) (generateUlid now rnd)"

definition generateAssertionId :: "int option \<Rightarrow> bytes \<Rightarrow> agenid_error + jstr" where
  "generateAssertionId now rnd = map_sum id (append (js ''assertion:'')) (generateUlid now rnd)"

definition generatePrincipalId :: "int option \<Rightarrow> bytes \<Rightarrow> agenid_error + jstr" where
  "generatePrincipalId now rnd = map_sum id (append (js ''agenid:principal:'')) (generateUlid now rnd)"

definition generateGrantId :: "int option \<Rightarrow> bytes \<Rightarrow> agenid_error + jstr" where
  "generateGrantId now rnd = map_sum id (append (js ''grant:'')) (generateUlid now rnd)"

definition generateRevocationId :: "int option \<Rightarrow> bytes \<Rightarrow> agenid_error + jstr" where
  "generateRevocationId now rnd = map_sum id (append (js ''revocation:'')) (generateUlid now rnd)"

definition parseAgentId :: "jstr \<Rightarrow> agenid_error + jstr" where
  "parseAgentId value =
     (if \<not> isValidAgentId value
      then Inl (InvalidIdentifierError (js ''Not a valid agent identifier: '' @ quote value))
      else Inr (drop (length (js ''agenid:'')) value))"

subsection \<open>Key identifiers on the wire\<close>

definition fragment_mark :: code_unit where
  "fragment_mark = jc CHR ''#''"

definition fragment_message :: jstr where
  "fragment_message =
     js ''key_id must not contain a URI fragment ('' @ [0x27, fragment_mark, 0x27]
     @ js ''): fragments are not sent to servers and cannot be resolved ('' @ [0xA7] @ js ''0.A)''"

definition assertValidKeyId :: "jstr \<Rightarrow> agenid_error + unit" where
  "assertValidKeyId value =
     (if fragment_mark \<in> set value then Inl (InvalidKeyIdError fragment_message)
      else if \<not> isValidKeyId value
      then Inl (InvalidKeyIdError (js ''Not a valid key identifier: '' @ quote value))
      else Inr ())"

definition keyIdToWire :: "jstr \<Rightarrow> agenid_error + jstr" where
  "keyIdToWire keyId =
     rbind (assertValidKeyId keyId) (\<lambda>_. Inr (drop (length (js ''agenid:key:'')) keyId))"

definition keyIdFromWire :: "jstr \<Rightarrow> agenid_error + jstr" where
  "keyIdFromWire wire =
     (if \<not> isValidUlid wire
      then Inl (InvalidKeyIdError (js ''Wire key identifier must be a bare ULID, got '' @ quote wire))
      else Inr (js ''agenid:key:'' @ wire))"

definition keyResolverPath :: "jstr \<Rightarrow> agenid_error + jstr" where
  "keyResolverPath keyId = rbind (keyIdToWire keyId) (\<lambda>w. Inr (js ''/v1/keys/'' @ w))"

definition keyResolverQuery :: "jstr \<Rightarrow> agenid_error + jstr" where
  "keyResolverQuery keyId =
     rbind (assertValidKeyId keyId) (\<lambda>_.
       rbind (of_option (TypeError (js ''URIError'')) (encodeURIComponent keyId))
         (\<lambda>e. Inr (js ''/v1/keys?key_id='' @ e)))"

definition parseKeyReference :: "jstr \<Rightarrow> agenid_error + jstr" where
  "parseKeyReference input =
     (if input = [] then Inl (InvalidKeyIdError (js ''empty key reference''))
      else case decodeURIComponent input of
        None \<Rightarrow> Inl (InvalidKeyIdError (js ''key reference is not valid percent-encoding''))
      | Some decoded \<Rightarrow>
          if fragment_mark \<in> set decoded \<or> fragment_mark \<in> set input
          then Inl (InvalidKeyIdError (js ''key reference must not contain a URI fragment ('' @ [0x27, fragment_mark, 0x27] @ js '')''))
          else if isValidUlid decoded then keyIdFromWire decoded
          else if isValidKeyId decoded then Inr decoded
          else Inl (InvalidKeyIdError (js ''Unresolvable key reference: '' @ quote input)))"

subsection \<open>Host names and well-known URLs\<close>

definition host_unit :: "code_unit \<Rightarrow> bool" where
  "host_unit c \<longleftrightarrow> is_alnum c \<or> c = jc CHR ''-''"

definition host_label :: "jstr \<Rightarrow> bool" where
  "host_label l \<longleftrightarrow> 1 \<le> length l \<and> length l \<le> 63 \<and> list_all host_unit l
     \<and> hd l \<noteq> jc CHR ''-'' \<and> last l \<noteq> jc CHR ''-''"

definition isValidHostname :: "jstr \<Rightarrow> bool" where
  "isValidHostname value \<longleftrightarrow>
     1 \<le> length value \<and> length value \<le> 253
     \<and> 2 \<le> length (split_on (jc CHR ''.'') value) \<and> list_all host_label (split_on (jc CHR ''.'') value)"

definition assertHostname :: "jstr \<Rightarrow> agenid_error + unit" where
  "assertHostname value =
     (if \<not> isValidHostname value then Inl (InvalidIdentifierError (js ''Not a valid hostname: '' @ quote value))
      else Inr ())"

definition wellKnownKeysUrl :: "jstr \<Rightarrow> agenid_error + jstr" where
  "wellKnownKeysUrl domain =
     rbind (assertHostname domain) (\<lambda>_. Inr (js ''https://'' @ domain @ js ''/.well-known/agenid/keys.json''))"

definition wellKnownAuthoritiesUrl :: "jstr \<Rightarrow> agenid_error + jstr" where
  "wellKnownAuthoritiesUrl domain =
     rbind (assertHostname domain) (\<lambda>_. Inr (js ''https://'' @ domain @ js ''/.well-known/agenid/authorities.json''))"

subsection \<open>The bits of a ULID\<close>

definition bytes_value :: "bytes \<Rightarrow> nat" where
  "bytes_value = foldl (\<lambda>n b. 256 * n + unat b) 0"

definition ulid_value :: "jstr \<Rightarrow> nat" where
  "ulid_value = foldl (\<lambda>n c. 32 * n + (case index_of c CROCKFORD of None \<Rightarrow> 0 | Some d \<Rightarrow> d)) 0"

lemma crockford_table:
  "list_all (\<lambda>d. index_of (crockford_char d) CROCKFORD = Some d \<and> is_crockford (crockford_char d)) [0..<32]"
  "list_all (\<lambda>d. in_range CHR ''0'' CHR ''7'' (crockford_char d)) [0..<8]"
  by code_simp+

lemma crockford_char_simps [simp]:
  "d < 32 \<Longrightarrow> index_of (crockford_char d) CROCKFORD = Some d"
  "d < 32 \<Longrightarrow> is_crockford (crockford_char d)"
  "d < 8 \<Longrightarrow> in_range CHR ''0'' CHR ''7'' (crockford_char d)"
  using crockford_table by (simp_all add: list_all_iff)

lemma foldl_crockford:
  "list_all (\<lambda>d. d < 32) ds \<Longrightarrow>
    foldl (\<lambda>n c. 32 * n + (case index_of c CROCKFORD of None \<Rightarrow> 0 | Some d \<Rightarrow> d)) n (map crockford_char ds)
      = foldl (\<lambda>n d. 32 * n + d) n ds"
  by (induction ds arbitrary: n) auto

lemma five_bits:
  assumes "k + 5 \<le> 32"
  shows "unat (drop_bit k (of_nat V :: 32 word) AND 31) = V div 2 ^ k mod 32"
proof -
  have "drop_bit k (of_nat V :: 32 word) AND 31 = take_bit 5 (drop_bit k (of_nat V))"
    by (simp add: take_bit_eq_mask mask_eq_exp_minus_1)
  also have "\<dots> = drop_bit k (take_bit (k + 5) (of_nat V))"
    by (simp add: drop_bit_take_bit)
  also have "unat \<dots> = drop_bit k (take_bit (k + 5) V)"
    using assms by (simp add: unsigned_drop_bit_eq unsigned_take_bit_eq unsigned_of_nat min_absorb1 min_def)
  also have "\<dots> = V div 2 ^ k mod 32"
    by (simp add: drop_bit_take_bit) (simp add: drop_bit_eq_div take_bit_eq_mod)
  finally show ?thesis .
qed

lemma shift_in: "push_bit 8 (of_nat V :: 32 word) OR ucast (b :: byte) = of_nat (256 * V + unat b)"
proof -
  have "push_bit 8 (of_nat V :: 32 word) AND ucast b = 0"
    by (rule bit_word_eqI) (auto simp: bit_and_iff bit_push_bit_iff bit_ucast_iff dest: bit_imp_le_length)
  then have "push_bit 8 (of_nat V :: 32 word) OR ucast b = push_bit 8 (of_nat V) + ucast b"
    by (simp add: disjunctive_add_eq_or)
  then show ?thesis by (simp add: push_bit_eq_mult mult.commute)
qed

lemma emit_digits_value:
  "c \<le> 32 \<Longrightarrow> emit_digits (of_nat V) c = (ds, rest) \<Longrightarrow>
    rest = c mod 5 \<and> length ds = c div 5 \<and> list_all (\<lambda>d. d < 32) ds
    \<and> foldl (\<lambda>n d. 32 * n + d) (V div 2 ^ c) ds = V div 2 ^ rest"
proof (induction "of_nat V :: 32 word" c arbitrary: ds rest rule: emit_digits.induct)
  case (1 c)
  show ?case
  proof (cases "5 \<le> c")
    case True
    obtain ds' rest' where r: "emit_digits (of_nat V) (c - 5) = (ds', rest')" by fastforce
    with 1(3) True five_bits [of "c - 5" V] 1(2) have ds: "ds = (V div 2 ^ (c - 5) mod 32) # ds'" "rest = rest'"
      by (simp_all add: emit_digits.simps [of _ c] Let_def)
    have "V div 2 ^ c = V div 2 ^ (c - 5) div 32"
      using True div_mult2_eq [of V "2 ^ (c - 5)" 32] power_add [of "2 :: nat" "c - 5" 5] by simp
    then have step: "32 * (V div 2 ^ c) + V div 2 ^ (c - 5) mod 32 = V div 2 ^ (c - 5)" by simp
    have "c - 5 \<le> 32" using 1(2) by simp
    with 1(1) [OF True this r] ds True step show ?thesis
      by (auto simp: le_mod_geq le_div_geq)
  qed (use 1 in \<open>auto simp: emit_digits.simps [of _ c]\<close>)
qed

lemma pack_digits_value:
  "c < 5 \<Longrightarrow>
    length (pack_digits (of_nat V) c bs) = (c + 8 * length bs) div 5
    \<and> list_all (\<lambda>d. d < 32) (pack_digits (of_nat V) c bs)
    \<and> foldl (\<lambda>n d. 32 * n + d) (V div 2 ^ c) (pack_digits (of_nat V) c bs)
        = foldl (\<lambda>n b. 256 * n + unat b) V bs div 2 ^ ((c + 8 * length bs) mod 5)"
proof (induction bs arbitrary: c V)
  case (Cons b bs)
  let ?V = "256 * V + unat b"
  obtain ds rest where e: "emit_digits (of_nat ?V) (c + 8) = (ds, rest)" by fastforce
  have "c + 8 \<le> 32" using Cons.prems by simp
  note em = emit_digits_value [OF this e]
  have "V div 2 ^ c = ?V div 2 ^ (c + 8)"
  proof -
    have "?V div 256 = V" using unat_byte_less [of b] by simp
    then show ?thesis using div_mult2_eq [of ?V 256 "2 ^ c"] by (simp add: power_add mult.commute)
  qed
  moreover have "pack_digits (of_nat V) c (b # bs) = ds @ pack_digits (of_nat ?V) rest bs"
    using e by (simp only: pack_digits.simps shift_in Let_def) simp
  moreover have "rest < 5" using em by simp
  note ih = Cons.IH [OF this, of ?V]
  moreover have "(rest + 8 * length bs) mod 5 = (c + 8 * length (b # bs)) mod 5"
    using em by (simp add: mod_simps algebra_simps)
  moreover have "length ds + (rest + 8 * length bs) div 5 = (c + 8 * length (b # bs)) div 5"
    using em by (simp add: algebra_simps) presburger
  ultimately show ?case using em by simp
qed simp

lemma ulid_time_value:
  "length (ulid_time i t) = i \<and> list_all is_crockford (ulid_time i t)
    \<and> ulid_value (ulid_time i t) = t mod 32 ^ i"
proof (induction i arbitrary: t)
  case 0
  then show ?case by (simp add: ulid_value_def)
next
  case (Suc i)
  have "32 * (t div 32 mod 32 ^ i) + t mod 32 = t mod 32 ^ Suc i"
    using mod_mult2_eq [of t 32 "32 ^ i"] by simp
  with Suc [of "t div 32"] show ?case by (simp add: ulid_value_def)
qed

lemma ulid_time_head: "t < 2 ^ 48 \<Longrightarrow> in_range CHR ''0'' CHR ''7'' (hd (ulid_time 10 t))"
proof -
  assume t: "t < 2 ^ 48"
  have hd_time: "hd (ulid_time (Suc i) t) = crockford_char (t div 32 ^ i mod 32)" for i t
  proof (induction i arbitrary: t)
    case (Suc i)
    have "ulid_time (Suc i) (t div 32) \<noteq> []" by simp
    then have "hd (ulid_time (Suc (Suc i)) t) = hd (ulid_time (Suc i) (t div 32))"
      by (subst ulid_time.simps(2)) (rule hd_append2)
    also have "\<dots> = crockford_char (t div 32 div 32 ^ i mod 32)" by (rule Suc)
    finally show ?case using div_mult2_eq [of t 32 "32 ^ i"] by simp
  qed simp
  have "t div 32 ^ 9 < 8" using t by (simp add: div_less_iff_less_mult)
  then have "in_range CHR ''0'' CHR ''7'' (crockford_char (t div 32 ^ 9 mod 32))" by simp
  with hd_time [of 9 t] show ?thesis by simp
qed

lemma ulid_value_append_digits:
  "list_all (\<lambda>d. d < 32) ds \<Longrightarrow> ulid_value (s @ map crockford_char ds) = foldl (\<lambda>n d. 32 * n + d) (ulid_value s) ds"
  by (simp add: ulid_value_def foldl_crockford)

lemma foldl_base32: "foldl (\<lambda>n d. 32 * n + d) m ds = m * 32 ^ length ds + foldl (\<lambda>n d. 32 * n + d) 0 ds" for m :: nat
proof (induction ds rule: rev_induct)
  case (snoc d ds)
  then show ?case by (simp add: algebra_simps)
qed simp

lemma pack_digits_ten:
  assumes "length rnd = 10"
  shows "length (pack_digits 0 0 rnd) = 16" "list_all (\<lambda>d. d < 32) (pack_digits 0 0 rnd)"
    "foldl (\<lambda>n d. 32 * n + d) 0 (pack_digits 0 0 rnd) = bytes_value rnd"
  using pack_digits_value [of 0 0 rnd] assms by (simp_all add: bytes_value_def)

lemma generateUlid_ok:
  assumes "0 \<le> t" "t < 2 ^ 48" "length rnd = 10"
  shows "\<exists>u. generateUlid (Some t) rnd = Inr u \<and> isValidUlid u \<and> ulid_value u = nat t * 2 ^ 80 + bytes_value rnd"
proof -
  note pack = pack_digits_ten [OF assms(3)]
  have small: "nat t < 2 ^ 48" using assms(1,2) by (simp add: nat_less_iff)
  then have t: "nat t mod 32 ^ 10 = nat t" by simp
  obtain c cs where time: "ulid_time 10 (nat t) = c # cs"
    using ulid_time_value [of 10 "nat t"] by (cases "ulid_time 10 (nat t)") auto
  have "in_range CHR ''0'' CHR ''7'' c" using ulid_time_head [OF small] time by simp
  moreover have "length cs = 9" "list_all is_crockford cs" using ulid_time_value [of 10 "nat t"] time by auto
  moreover have "list_all is_crockford (ulid_random rnd)" "length (ulid_random rnd) = 16"
    using pack(1,2) by (auto simp: ulid_random_def list_all_iff)
  ultimately have "isValidUlid (ulid_time 10 (nat t) @ ulid_random rnd)"
    by (simp add: isValidUlid_def time)
  moreover have "ulid_value (ulid_time 10 (nat t) @ ulid_random rnd) = nat t * 2 ^ 80 + bytes_value rnd"
    using ulid_value_append_digits [OF pack(2), of "ulid_time 10 (nat t)"] ulid_time_value [of 10 "nat t"] t
      foldl_base32 [of "nat t" "pack_digits 0 0 rnd"] pack by (simp add: ulid_random_def)
  moreover have "generateUlid (Some t) rnd = Inr (ulid_time 10 (nat t) @ ulid_random rnd)"
    using assms by (simp add: generateUlid_def)
  ultimately show ?thesis by blast
qed

subsection \<open>Validity facts\<close>

lemma crockford_not_special:
  "is_crockford c \<Longrightarrow> c \<noteq> 37 \<and> c \<noteq> 35 \<and> is_unreserved c \<and> ascii c"
  by (auto simp: is_crockford_def is_unreserved_def class_defs ascii_def word_le_nat_alt word_less_nat_alt)

lemma octal_crockford: "in_range CHR ''0'' CHR ''7'' c \<Longrightarrow> is_crockford c"
  by (auto simp: is_crockford_def in_range_def word_le_nat_alt)

lemma ulid_crockford: "isValidUlid u \<Longrightarrow> list_all is_crockford u \<and> length u = 26"
  by (cases u) (auto simp: isValidUlid_def octal_crockford)

lemma keyId_iff: "isValidKeyId k \<longleftrightarrow> (\<exists>u. k = js ''agenid:key:'' @ u \<and> isValidUlid u)"
  by (simp add: isValidKeyId_def after_prefix_iff)

lemma agentId_iff: "isValidAgentId a \<longleftrightarrow> (\<exists>u. a = js ''agenid:'' @ u \<and> isValidUlid u)"
  by (simp add: isValidAgentId_def after_prefix_iff)

lemma not_ulid_prefix: "\<not> isValidUlid (js ''agenid:'' @ s)" "\<not> isValidUlid (js ''key:'' @ s)"
  "\<not> isValidUlid (js ''authority:'' @ s)" "\<not> isValidUlid (js ''principal:'' @ s)"
  by (simp_all add: isValidUlid_def in_range_def)

text \<open>The namespaces are disjoint.\<close>

lemma namespaces_disjoint:
  "isValidAgentId s \<Longrightarrow> \<not> isValidKeyId s \<and> \<not> isValidAuthorityId s \<and> \<not> isValidPrincipalId s"
  "isValidAuthorityId s \<Longrightarrow> \<not> isValidPrincipalId s \<and> \<not> isValidKeyId s"
  "isValidPrincipalId s \<Longrightarrow> \<not> isValidKeyId s"
  using not_ulid_prefix
  by (auto simp: isValidAgentId_def isValidKeyId_def isValidAuthorityId_def isValidPrincipalId_def after_prefix_iff)

lemma key_id_units: "isValidKeyId k \<Longrightarrow> 35 \<notin> set k \<and> 37 \<notin> set k \<and> list_all ascii k \<and> k \<noteq> []"
proof -
  assume "isValidKeyId k"
  then obtain u where u: "k = js ''agenid:key:'' @ u" "isValidUlid u" by (auto simp: keyId_iff)
  have "\<And>c. c \<in> set u \<Longrightarrow> c \<noteq> 37 \<and> c \<noteq> 35 \<and> ascii c"
    using ulid_crockford [OF u(2)] crockford_not_special by (auto simp: list_all_iff)
  then show ?thesis unfolding u(1) by (auto simp: list_all_iff ascii_def)
qed

lemma assertValidKeyId_iff: "assertValidKeyId k = Inr () \<longleftrightarrow> isValidKeyId k"
  using key_id_units [of k] by (auto simp: assertValidKeyId_def fragment_mark_def)

lemma assertValidKeyId_ok [simp]: "isValidKeyId k \<Longrightarrow> assertValidKeyId k = Inr ()"
  by (simp add: assertValidKeyId_iff)

lemma keyIdFromWire_ok [simp]: "isValidUlid u \<Longrightarrow> keyIdFromWire u = Inr (js ''agenid:key:'' @ u)"
  by (simp add: keyIdFromWire_def)

lemma key_id_not_ulid: "isValidKeyId k \<Longrightarrow> \<not> isValidUlid k"
  by (auto simp: keyId_iff isValidUlid_def in_range_def)

lemma parse_decoded:
  assumes "decodeURIComponent s = Some k" "35 \<notin> set s" "35 \<notin> set k" "s \<noteq> []" "isValidKeyId k"
  shows "parseKeyReference s = Inr k"
  using assms key_id_not_ulid by (simp add: parseKeyReference_def fragment_mark_def)

lemma encoded_no_fragment:
  "list_all ascii s \<Longrightarrow> encodeURIComponent s = Some e \<Longrightarrow> 35 \<notin> set e \<and> (s \<noteq> [] \<longrightarrow> e \<noteq> [])"
proof (induction s arbitrary: e)
  case (Cons c s)
  then obtain e' where e': "encodeURIComponent s = Some e'" "e = (if is_unreserved c then [c] else percent_bytes [ucast c]) @ e'"
    by (auto simp: encode_Cons_ascii simp del: encodeURIComponent.simps)
  have HEX: "HEX_digit n \<noteq> 35" if "n < 16" for n
  proof -
    have "is_hex (HEX_digit n)" using that by simp
    moreover have "\<not> is_hex 35" by (simp add: is_hex_def class_defs)
    ultimately show ?thesis by metis
  qed
  have "unat b div 16 < 16" for b :: byte using unat_byte_less [of b] by simp
  then have "35 \<notin> set (percent_bytes [ucast c])" "percent_bytes [ucast c] \<noteq> []"
    using HEX by (auto simp: percent_bytes_def dest: sym)
  moreover have "\<not> is_unreserved 35" by (simp add: is_unreserved_def class_defs)
  moreover have "35 \<notin> set e'" using Cons.IH [OF _ e'(1)] Cons.prems(1) by simp
  ultimately show ?case unfolding e'(2) by (cases "is_unreserved c") auto
qed simp

lemma parseKeyReference_sound:
  "parseKeyReference s = Inr k \<Longrightarrow> isValidKeyId k \<and> 35 \<notin> set s"
  by (auto simp: parseKeyReference_def fragment_mark_def keyId_iff split: if_splits option.splits)

subsection \<open>Properties\<close>

text \<open>C8: Every ULID the generator returns matches the ULID grammar and decodes, read as base 32, to
  the 48-bit timestamp followed by the 80 random bits: nothing is lost although the packing
  buffer is a 32-bit integer that overflows.\<close>
theorem generated_ulid_decodes:
  assumes "0 \<le> t" and "t < 2 ^ 48" and "length rnd = 10"
  shows "\<exists>u. generateUlid (Some t) rnd = Inr u \<and> isValidUlid u
    \<and> ulid_value u = nat t * 2 ^ 80 + bytes_value rnd"
  by (rule generateUlid_ok [OF assms])

theorem generated_ulid_decodes_witness:
  "\<exists>u. generateUlid (Some 1469918176385) (replicate 10 255) = Inr u \<and> isValidUlid u
     \<and> ulid_value u = 1469918176385 * 2 ^ 80 + bytes_value (replicate 10 255)"
  using generated_ulid_decodes [of 1469918176385 "replicate 10 255"] by simp

text \<open>The two wire forms of a key identifier resolve identically: what \<open>parseKeyReference\<close> reads
  from the path segment of \<open>keyResolverPath\<close>, from the percent-encoded query value of
  \<open>keyResolverQuery\<close> and from the plain identifier is the identifier itself.\<close>
theorem key_wire_forms_agree:
  assumes "isValidKeyId k"
  shows "(\<exists>w. keyResolverPath k = Inr (js ''/v1/keys/'' @ w) \<and> parseKeyReference w = Inr k)
    \<and> (\<exists>e. keyResolverQuery k = Inr (js ''/v1/keys?key_id='' @ e) \<and> parseKeyReference e = Inr k)
    \<and> parseKeyReference k = Inr k"
proof -
  obtain u where u: "k = js ''agenid:key:'' @ u" "isValidUlid u" using assms by (auto simp: keyId_iff)
  have units: "c \<noteq> 37 \<and> c \<noteq> 35" if "c \<in> set u" for c
    using ulid_crockford [OF u(2)] crockford_not_special that by (auto simp: list_all_iff)
  have "u \<noteq> []" using u(2) by (auto simp: isValidUlid_def)
  moreover have "decodeURIComponent u = Some u" using units by (intro decodeURIComponent_plain) auto
  ultimately have "parseKeyReference u = Inr k"
    using units u by (auto simp: parseKeyReference_def fragment_mark_def)
  moreover have "keyResolverPath k = Inr (js ''/v1/keys/'' @ u)"
    using assms u(1) by (simp add: keyResolverPath_def keyIdToWire_def)
  moreover note k = key_id_units [OF assms]
  obtain e where e: "encodeURIComponent k = Some e" "decodeURIComponent e = Some k"
    using decode_encode_ascii k by blast
  have "parseKeyReference e = Inr k"
    using encoded_no_fragment [OF _ e(1)] k e(2) assms by (intro parse_decoded) auto
  moreover have "keyResolverQuery k = Inr (js ''/v1/keys?key_id='' @ e)"
    using assms e(1) by (simp add: keyResolverQuery_def)
  moreover have "parseKeyReference k = Inr k"
    using k assms by (intro parse_decoded decodeURIComponent_plain) auto
  ultimately show ?thesis by blast
qed

theorem key_wire_forms_agree_witness:
  "\<exists>e. keyResolverQuery (js ''agenid:key:01ARZ3NDEKTSV4RRFFQ69G5FAV'') = Inr (js ''/v1/keys?key_id='' @ e)
     \<and> parseKeyReference e = Inr (js ''agenid:key:01ARZ3NDEKTSV4RRFFQ69G5FAV'')"
proof -
  have "isValidKeyId (js ''agenid:key:01ARZ3NDEKTSV4RRFFQ69G5FAV'')" by code_simp
  from key_wire_forms_agree [OF this] show ?thesis by blast
qed

text \<open>A key reference is never truncated: whatever text a request carries, the result is a valid
  key identifier or an error, and a reference with a fragment mark, raw or percent-encoded, is
  always refused with the code \<open>invalid_key_id\<close>.\<close>
theorem key_reference_total:
  "case parseKeyReference input of
     Inr k \<Rightarrow> isValidKeyId k \<and> fragment_mark \<notin> set input \<and> decodeURIComponent input \<noteq> None
   | Inl e \<Rightarrow> error_code e = js ''invalid_key_id''"
  by (auto simp: parseKeyReference_def keyId_iff keyIdFromWire_def split: sum.split option.split)

end
