(* ===== verification/JS_Date.thy ===== *)
theory JS_Date
  imports Encodings
begin

section \<open>Time values and their RFC 3339 texts\<close>

text \<open>
  The part of ECMAScript's \<open>Date\<close> the program uses: \<open>Date.parse\<close> (here \<open>date_parse\<close>, with
  \<open>None\<close> for \<open>NaN\<close>) and \<open>toISOString\<close> (\<open>iso_string\<close>).  A time value is a number of
  milliseconds since 1970-01-01T00:00:00Z.

  A text of the shape \<open>Rfc3339Utc\<close> of \<open>packages/core/src/schemas.ts\<close> whose fields are in
  bounds has the time value ECMAScript computes for it; fractions are truncated to
  milliseconds.  What an engine makes of any other text is implementation-defined: the
  argument \<open>fallback\<close>.

  Comparisons with \<open>NaN\<close> are false: \<open>date_less\<close> and \<open>date_le\<close> on optional time values.
\<close>

subsection \<open>The proleptic Gregorian calendar\<close>

definition leap_year :: "int \<Rightarrow> bool" where
  "leap_year y \<longleftrightarrow> y mod 4 = 0 \<and> (y mod 100 \<noteq> 0 \<or> y mod 400 = 0)"

definition day_from_year :: "int \<Rightarrow> int" where
  "day_from_year y = 365 * (y - 1970) + (y - 1969) div 4 - (y - 1901) div 100 + (y - 1601) div 400"

definition days_in_month :: "int \<Rightarrow> nat \<Rightarrow> int" where
  "days_in_month y m = (if m = 2 then (if leap_year y then 29 else 28)
     else if m \<in> {4, 6, 9, 11} then 30 else 31)"

text \<open>The days of the year before month \<open>m\<close> (1 to 13).\<close>

definition month_start :: "int \<Rightarrow> nat \<Rightarrow> int" where
  "month_start y m = sum_list (map (days_in_month y) [1..<m])"

definition year_of_day :: "int \<Rightarrow> int" where
  "year_of_day d = (let y = (400 * d) div 146097 + 1970
     in if d < day_from_year y then y - 1 else if day_from_year (y + 1) \<le> d then y + 1 else y)"

fun month_of :: "int \<Rightarrow> int \<Rightarrow> nat list \<Rightarrow> nat" where
  "month_of y d [] = 12"
| "month_of y d (m # ms) = (if d < month_start y (Suc m) then m else month_of y d ms)"

lemma int_div_bounds: "0 < n \<Longrightarrow> n * (x div n) \<le> x \<and> x < n * (x div n) + n" for x n :: int
proof -
  assume "0 < n"
  moreover from this have "0 \<le> x mod n" "x mod n < n" by simp_all
  moreover have "n * (x div n) + x mod n = x" by simp
  ultimately show ?thesis by linarith
qed

lemma div_step: "0 < n \<Longrightarrow> (x + 1) div n = x div n + (if (x + 1) mod n = 0 then 1 else 0)" for x n :: int
proof -
  assume n: "0 < n"
  define q r where "q = x div n" "r = x mod n"
  then have x: "x = n * q + r" "0 \<le> r" "r < n" using n by simp_all
  show ?thesis
  proof (cases "r + 1 = n")
    case True
    then have "x + 1 = n * (q + 1)" using x by (simp add: algebra_simps)
    then show ?thesis using n q_r_def by simp
  next
    case False
    then have "(x + 1) div n = q" "(x + 1) mod n = r + 1"
      using x n by (simp_all add: int_div_pos_eq int_mod_pos_eq [of _ _ q])
    then show ?thesis using x(2) q_r_def by simp
  qed
qed

lemma day_from_year_step: "day_from_year (y + 1) = day_from_year y + (if leap_year y then 366 else 365)"
proof -
  have mods: "(y - 1968) mod 4 = y mod 4" "(y - 1900) mod 100 = y mod 100" "(y - 1600) mod 400 = y mod 400"
    using mod_mult_self2 [of "y - 1968" 4 492] mod_mult_self2 [of "y - 1900" 100 19] mod_mult_self2 [of "y - 1600" 400 4]
    by simp_all
  have shifts: "y - 1969 + 1 = y - 1968" "y - 1901 + 1 = y - 1900" "y - 1601 + 1 = y - 1600" by simp_all
  have divs: "(y - 1968) div 4 = (y - 1969) div 4 + (if y mod 4 = 0 then 1 else 0)"
    "(y - 1900) div 100 = (y - 1901) div 100 + (if y mod 100 = 0 then 1 else 0)"
    "(y - 1600) div 400 = (y - 1601) div 400 + (if y mod 400 = 0 then 1 else 0)"
    using div_step [of 4 "y - 1969"] div_step [of 100 "y - 1901"] div_step [of 400 "y - 1601"]
    unfolding shifts mods by (simp_all only: zero_less_numeral simp_thms)
  have "365 * (y + 1 - 1970) = 365 * (y - 1970) + 365" "y + 1 - 1969 = y - 1968" "y + 1 - 1901 = y - 1900"
    "y + 1 - 1601 = y - 1600" by simp_all
  then have "day_from_year (y + 1) = day_from_year y + 365 + (if y mod 4 = 0 then 1 else 0)
      - (if y mod 100 = 0 then 1 else 0) + (if y mod 400 = 0 then 1 else 0)"
    by (simp only: day_from_year_def divs)
  moreover have "y mod 100 = 0 \<longrightarrow> y mod 4 = 0" "y mod 400 = 0 \<longrightarrow> y mod 100 = 0"
    using dvd_trans [of 4 100 y] dvd_trans [of 100 400 y] by (simp_all only: dvd_eq_mod_eq_0) simp_all
  ultimately show ?thesis unfolding leap_year_def
    by (cases "y mod 4 = 0"; cases "y mod 100 = 0"; cases "y mod 400 = 0") simp_all
qed

lemma day_from_year_bounds:
  "400 * day_from_year (1970 + k) \<le> 146097 * k + 593"
  "146097 * k - 607 < 400 * day_from_year (1970 + k)"
proof -
  define a b c where "a = (k + 1) div 4" "b = (k + 69) div 100" "c = (k + 369) div 400"
  have "4 * a \<le> k + 1" "k + 1 < 4 * a + 4" "100 * b \<le> k + 69" "k + 69 < 100 * b + 100"
    "400 * c \<le> k + 369" "k + 369 < 400 * c + 400"
    unfolding a_b_c_def by (simp_all add: int_div_bounds)
  moreover have "day_from_year (1970 + k) = 365 * k + a - b + c" by (simp add: day_from_year_def a_b_c_def add.commute)
  ultimately show "400 * day_from_year (1970 + k) \<le> 146097 * k + 593"
    "146097 * k - 607 < 400 * day_from_year (1970 + k)" by simp_all
qed

lemma year_of_day: "day_from_year (year_of_day d) \<le> d \<and> d < day_from_year (year_of_day d + 1)"
proof -
  define e where "e = (400 * d) div 146097"
  have e: "146097 * e \<le> 400 * d" "400 * d < 146097 * e + 146097"
    using int_div_bounds [of 146097 "400 * d"] unfolding e_def by simp_all
  have "day_from_year (1970 + (e - 1)) \<le> d" using day_from_year_bounds(1) [of "e - 1"] e by simp
  moreover have "d < day_from_year (1970 + (e + 2))" using day_from_year_bounds(2) [of "e + 2"] e by simp
  ultimately show ?thesis
    by (auto simp: year_of_day_def Let_def e_def [symmetric] add.commute add.left_commute)
qed

lemma day_from_year_mono: "x \<le> y \<Longrightarrow> day_from_year x \<le> day_from_year y"
proof (induction "nat (y - x)" arbitrary: y)
  case (Suc n)
  then have "day_from_year x \<le> day_from_year (y - 1)" by (intro Suc) auto
  also have "\<dots> \<le> day_from_year y" using day_from_year_step [of "y - 1"] by auto
  finally show ?case .
qed simp

lemma year_of_day_unique:
  assumes "day_from_year y \<le> d" "d < day_from_year (y + 1)"
  shows "year_of_day d = y"
proof (rule antisym; rule ccontr)
  assume "\<not> year_of_day d \<le> y"
  then show False using day_from_year_mono [of "y + 1" "year_of_day d"] year_of_day [of d] assms by linarith
next
  assume "\<not> y \<le> year_of_day d"
  then show False using day_from_year_mono [of "year_of_day d + 1" y] year_of_day [of d] assms by linarith
qed

lemma month_starts:
  "month_start y 1 = 0" "month_start y 13 = (if leap_year y then 366 else 365)"
  by (simp_all add: month_start_def days_in_month_def upt_rec)

lemma month_start_Suc: "1 \<le> m \<Longrightarrow> month_start y (Suc m) = month_start y m + days_in_month y m"
  by (simp add: month_start_def)

lemma month_of:
  assumes "0 \<le> d" "d < month_start y 13"
  shows "month_of y d [1..<13] \<in> {1..12} \<and> month_start y (month_of y d [1..<13]) \<le> d
    \<and> d < month_start y (Suc (month_of y d [1..<13]))"
proof -
  have gen: "month_of y d [m..<13] \<in> {m..12} \<and> month_start y (month_of y d [m..<13]) \<le> d
      \<and> d < month_start y (Suc (month_of y d [m..<13]))"
    if "1 \<le> m" "m \<le> 12" "month_start y m \<le> d" for m
    using that
  proof (induction "12 - m" arbitrary: m)
    case 0
    then have "m = 12" by simp
    with 0 assms show ?case by simp
  next
    case (Suc n)
    then have "[m..<13] = m # [Suc m..<13]" by (simp add: upt_rec)
    moreover have "month_of y d [Suc m..<13] \<in> {Suc m..12} \<and> month_start y (month_of y d [Suc m..<13]) \<le> d
        \<and> d < month_start y (Suc (month_of y d [Suc m..<13]))" if "\<not> d < month_start y (Suc m)"
      by (rule Suc(1)) (use Suc that in auto)
    ultimately show ?case using Suc.prems by (cases "d < month_start y (Suc m)") auto
  qed
  show ?thesis by (rule gen) (use assms(1) month_starts(1) in auto)
qed

subsection \<open>Parsing\<close>

definition fraction_tail :: "jstr \<Rightarrow> bool" where
  "fraction_tail t \<longleftrightarrow> t = js ''Z''
     \<or> (2 < length t \<and> length t \<le> 11 \<and> hd t = jc CHR ''.'' \<and> last t = jc CHR ''Z''
        \<and> list_all is_digit (butlast (tl t)))"

text \<open>\<open>/^\d{4}-\d{2}-\d{2}T\d{2}:\d{2}:\d{2}(\.\d{1,9})?Z$/\<close>\<close>

definition rfc3339_shape :: "jstr \<Rightarrow> bool" where
  "rfc3339_shape s \<longleftrightarrow> 20 \<le> length s
     \<and> list_all (\<lambda>i. is_digit (s ! i)) [0, 1, 2, 3, 5, 6, 8, 9, 11, 12, 14, 15, 17, 18]
     \<and> s ! 4 = jc CHR ''-'' \<and> s ! 7 = jc CHR ''-'' \<and> s ! 10 = jc CHR ''T''
     \<and> s ! 13 = jc CHR '':'' \<and> s ! 16 = jc CHR '':'' \<and> fraction_tail (drop 19 s)"

definition field :: "jstr \<Rightarrow> nat \<Rightarrow> nat \<Rightarrow> nat" where
  "field s i n = digits_value (take n (drop i s))"

definition milliseconds :: "jstr \<Rightarrow> nat" where
  "milliseconds t = (if t = js ''Z'' then 0 else digits_value (take 3 (butlast (tl t) @ js ''00'')))"

definition make_time :: "int \<Rightarrow> nat \<Rightarrow> nat \<Rightarrow> nat \<Rightarrow> nat \<Rightarrow> nat \<Rightarrow> nat \<Rightarrow> int" where
  "make_time y mo d h mi sec ms =
     (day_from_year y + month_start y mo + int d - 1) * 86400000
     + int h * 3600000 + int mi * 60000 + int sec * 1000 + int ms"

definition iso_time :: "jstr \<Rightarrow> int option" where
  "iso_time s =
     (let y = int (field s 0 4); mo = field s 5 2; d = field s 8 2;
          h = field s 11 2; mi = field s 14 2; sec = field s 17 2; ms = milliseconds (drop 19 s)
      in if rfc3339_shape s \<and> 1 \<le> mo \<and> mo \<le> 12 \<and> 1 \<le> d \<and> int d \<le> days_in_month y mo
            \<and> (h \<le> 23 \<or> h = 24 \<and> mi = 0 \<and> sec = 0 \<and> ms = 0) \<and> mi \<le> 59 \<and> sec \<le> 59
         then Some (make_time y mo d h mi sec ms) else None)"

definition date_parse :: "(jstr \<Rightarrow> int option) \<Rightarrow> jstr \<Rightarrow> int option" where
  "date_parse fallback s = (case iso_time s of Some t \<Rightarrow> Some t | None \<Rightarrow> fallback s)"

fun date_less :: "int option \<Rightarrow> int option \<Rightarrow> bool" where
  "date_less (Some a) (Some b) = (a < b)"
| "date_less _ _ = False"

fun date_le :: "int option \<Rightarrow> int option \<Rightarrow> bool" where
  "date_le (Some a) (Some b) = (a \<le> b)"
| "date_le _ _ = False"

subsection \<open>Printing\<close>

definition pad :: "nat \<Rightarrow> nat \<Rightarrow> jstr" where
  "pad w n = replicate (w - length (dec n)) (jc CHR ''0'') @ dec n"

definition iso_string :: "int \<Rightarrow> jstr" where
  "iso_string t =
     (let day = t div 86400000; r = t mod 86400000; y = year_of_day day;
          yd = day - day_from_year y; mo = month_of y yd [1..<13]; d = nat (yd - month_start y mo) + 1
      in (if 0 \<le> y \<and> y \<le> 9999 then pad 4 (nat y)
          else (if y < 0 then jc CHR ''-'' else jc CHR ''+'') # pad 6 (nat \<bar>y\<bar>))
         @ js ''-'' @ pad 2 mo @ js ''-'' @ pad 2 d @ js ''T'' @ pad 2 (nat (r div 3600000)) @ js '':''
         @ pad 2 (nat (r div 60000 mod 60)) @ js '':'' @ pad 2 (nat (r div 1000 mod 60)) @ js ''.''
         @ pad 3 (nat (r mod 1000)) @ js ''Z'')"

subsection \<open>Printing and parsing again\<close>

lemma length_dec: "0 < w \<Longrightarrow> n < 10 ^ w \<Longrightarrow> length (dec n) \<le> w"
proof (induction n arbitrary: w rule: dec.induct)
  case (1 n)
  show ?case
  proof (cases "n < 10")
    case False
    then obtain v where v: "w = Suc v" "0 < v" using 1(3) 1(2) by (cases w; cases "w - 1") auto
    then have "length (dec (n div 10)) \<le> v" using 1 False by (intro 1(1)) auto
    then show ?thesis using False v by (simp add: dec.simps [of n])
  qed (use 1 in \<open>simp add: dec.simps [of n]\<close>)
qed

lemma pad_digits:
  assumes "0 < w" "n < 10 ^ w"
  shows "length (pad w n) = w" "list_all is_digit (pad w n)" "digits_value (pad w n) = n"
  using length_dec [OF assms] dec_digits [of n]
  by (simp_all add: pad_def digits_value_append)

lemma pad_units:
  "n < 100 \<Longrightarrow> \<exists>a b. pad 2 n = [a, b] \<and> is_digit a \<and> is_digit b \<and> digits_value [a, b] = n"
  "n < 1000 \<Longrightarrow> \<exists>a b c. pad 3 n = [a, b, c] \<and> is_digit a \<and> is_digit b \<and> is_digit c \<and> digits_value [a, b, c] = n"
  "n < 10000 \<Longrightarrow> \<exists>a b c d. pad 4 n = [a, b, c, d] \<and> is_digit a \<and> is_digit b \<and> is_digit c \<and> is_digit d
     \<and> digits_value [a, b, c, d] = n"
proof -
  assume "n < 100"
  then show "\<exists>a b. pad 2 n = [a, b] \<and> is_digit a \<and> is_digit b \<and> digits_value [a, b] = n"
    using pad_digits [of 2 n] by (auto simp: length_Suc_conv numeral_2_eq_2)
next
  assume "n < 1000"
  then show "\<exists>a b c. pad 3 n = [a, b, c] \<and> is_digit a \<and> is_digit b \<and> is_digit c \<and> digits_value [a, b, c] = n"
    using pad_digits [of 3 n] by (auto simp: length_Suc_conv numeral_3_eq_3)
next
  assume "n < 10000"
  then have p: "length (pad 4 n) = 4" "list_all is_digit (pad 4 n)" "digits_value (pad 4 n) = n"
    using pad_digits [of 4 n] by simp_all
  from p(1) obtain a b c d where "pad 4 n = [a, b, c, d]" by (auto simp: length_Suc_conv eval_nat_numeral)
  with p show "\<exists>a b c d. pad 4 n = [a, b, c, d] \<and> is_digit a \<and> is_digit b \<and> is_digit c \<and> is_digit d
     \<and> digits_value [a, b, c, d] = n" by simp
qed

text \<open>Printing the fields and reading them back.\<close>

definition iso_fields :: "nat \<Rightarrow> nat \<Rightarrow> nat \<Rightarrow> nat \<Rightarrow> nat \<Rightarrow> nat \<Rightarrow> nat \<Rightarrow> jstr" where
  "iso_fields y mo d h mi sec ms =
     pad 4 y @ js ''-'' @ pad 2 mo @ js ''-'' @ pad 2 d @ js ''T'' @ pad 2 h @ js '':''
     @ pad 2 mi @ js '':'' @ pad 2 sec @ js ''.'' @ pad 3 ms @ js ''Z''"

lemma iso_fields_parse:
  assumes "y < 10000" "mo < 100" "d < 100" "h < 100" "mi < 100" "sec < 100" "ms < 1000"
  shows "rfc3339_shape (iso_fields y mo d h mi sec ms)"
    "field (iso_fields y mo d h mi sec ms) 0 4 = y" "field (iso_fields y mo d h mi sec ms) 5 2 = mo"
    "field (iso_fields y mo d h mi sec ms) 8 2 = d" "field (iso_fields y mo d h mi sec ms) 11 2 = h"
    "field (iso_fields y mo d h mi sec ms) 14 2 = mi" "field (iso_fields y mo d h mi sec ms) 17 2 = sec"
    "milliseconds (drop 19 (iso_fields y mo d h mi sec ms)) = ms"
proof -
  obtain y1 y2 y3 y4 where y: "pad 4 y = [y1, y2, y3, y4]" "is_digit y1" "is_digit y2" "is_digit y3" "is_digit y4"
    "digits_value [y1, y2, y3, y4] = y" using pad_units(3) [OF assms(1)] by blast
  obtain m1 m2 where m: "pad 2 mo = [m1, m2]" "is_digit m1" "is_digit m2" "digits_value [m1, m2] = mo"
    using pad_units(1) [OF assms(2)] by blast
  obtain d1 d2 where d: "pad 2 d = [d1, d2]" "is_digit d1" "is_digit d2" "digits_value [d1, d2] = d"
    using pad_units(1) [OF assms(3)] by blast
  obtain h1 h2 where h: "pad 2 h = [h1, h2]" "is_digit h1" "is_digit h2" "digits_value [h1, h2] = h"
    using pad_units(1) [OF assms(4)] by blast
  obtain i1 i2 where i: "pad 2 mi = [i1, i2]" "is_digit i1" "is_digit i2" "digits_value [i1, i2] = mi"
    using pad_units(1) [OF assms(5)] by blast
  obtain s1 s2 where s: "pad 2 sec = [s1, s2]" "is_digit s1" "is_digit s2" "digits_value [s1, s2] = sec"
    using pad_units(1) [OF assms(6)] by blast
  obtain f1 f2 f3 where f: "pad 3 ms = [f1, f2, f3]" "is_digit f1" "is_digit f2" "is_digit f3" "digits_value [f1, f2, f3] = ms"
    using pad_units(2) [OF assms(7)] by blast
  have explicit: "iso_fields y mo d h mi sec ms =
      [y1, y2, y3, y4, 45, m1, m2, 45, d1, d2, 84, h1, h2, 58, i1, i2, 58, s1, s2, 46, f1, f2, f3, 90]"
    unfolding iso_fields_def y(1) m(1) d(1) h(1) i(1) s(1) f(1) by simp
  show "rfc3339_shape (iso_fields y mo d h mi sec ms)"
    unfolding explicit rfc3339_shape_def fraction_tail_def using y m d h i s f by simp
  show "field (iso_fields y mo d h mi sec ms) 0 4 = y" "field (iso_fields y mo d h mi sec ms) 5 2 = mo"
    "field (iso_fields y mo d h mi sec ms) 8 2 = d" "field (iso_fields y mo d h mi sec ms) 11 2 = h"
    "field (iso_fields y mo d h mi sec ms) 14 2 = mi" "field (iso_fields y mo d h mi sec ms) 17 2 = sec"
    unfolding explicit field_def using y m d h i s by simp_all
  show "milliseconds (drop 19 (iso_fields y mo d h mi sec ms)) = ms"
    unfolding explicit milliseconds_def using f by simp
qed

lemma day_parts:
  fixes r :: int
  assumes "0 \<le> r" "r < 86400000"
  shows "r div 3600000 * 3600000 + r div 60000 mod 60 * 60000 + r div 1000 mod 60 * 1000 + r mod 1000 = r"
    and "r div 3600000 < 24" "0 \<le> r div 3600000"
proof -
  have a: "r div 60000 = r div 1000 div 60" using zdiv_zmult2_eq [of 60 r 1000] by simp
  have b: "r div 3600000 = r div 60000 div 60" using zdiv_zmult2_eq [of 60 r 60000] by simp
  have "r div 1000 * 1000 + r mod 1000 = r" by simp
  moreover have "r div 60000 * 60 + r div 1000 mod 60 = r div 1000" unfolding a by simp
  moreover have "r div 3600000 * 60 + r div 60000 mod 60 = r div 60000" unfolding b by simp
  ultimately show "r div 3600000 * 3600000 + r div 60000 mod 60 * 60000 + r div 1000 mod 60 * 1000 + r mod 1000 = r"
    by linarith
  show "r div 3600000 < 24" "0 \<le> r div 3600000" using assms by (simp_all add: div_less_iff_less_mult pos_imp_zdiv_nonneg_iff)
qed

theorem iso_roundtrip:
  assumes "-62167219200000 \<le> t" "t < 253402300800000"
  shows "iso_time (iso_string t) = Some t" and "rfc3339_shape (iso_string t)"
proof -
  define day r y yd mo d where parts: "day = t div 86400000" "r = t mod 86400000" "y = year_of_day day"
    "yd = day - day_from_year y" "mo = month_of y yd [1..<13]" "d = nat (yd - month_start y mo) + 1"
  note yr = year_of_day [of day, folded parts]
  have "-719528 \<le> day" "day < 2932897"
    using assms int_div_bounds [of 86400000 t] unfolding parts(1) by linarith+
  moreover have "day_from_year 0 = -719528" "day_from_year 10000 = 2932897" by (simp_all add: day_from_year_def)
  ultimately have "0 \<le> y" "y < 10000"
    using yr day_from_year_mono [of "y + 1" 0] day_from_year_mono [of 10000 y] by (smt (verit))+
  have "0 \<le> yd" "yd < month_start y 13"
    using yr day_from_year_step [of y] unfolding parts(4) month_starts by (auto split: if_splits)
  note mo = month_of [OF this, folded parts(5)]
  have "month_start y (Suc mo) = month_start y mo + days_in_month y mo" by (rule month_start_Suc) (use mo in auto)
  then have d: "1 \<le> d" "int d \<le> days_in_month y mo" "month_start y mo + int d - 1 = yd"
    using mo unfolding parts(6) by auto
  have "days_in_month y mo \<le> 31" by (simp add: days_in_month_def)
  with d have "d < 100" by linarith
  have r: "0 \<le> r" "r < 86400000" unfolding parts by simp_all
  have explicit: "iso_string t = iso_fields (nat y) mo d (nat (r div 3600000)) (nat (r div 60000 mod 60))
      (nat (r div 1000 mod 60)) (nat (r mod 1000))"
    using \<open>0 \<le> y\<close> \<open>y < 10000\<close> unfolding iso_string_def iso_fields_def Let_def parts by simp
  have "nat y < 10000" "mo < 100" "nat (r div 3600000) < 100" "nat (r div 60000 mod 60) < 100"
    "nat (r div 1000 mod 60) < 100" "nat (r mod 1000) < 1000"
    using \<open>y < 10000\<close> mo day_parts(2) [OF r] by (auto simp: nat_less_iff)
  note fields = iso_fields_parse [OF this(1,2) \<open>d < 100\<close> this(3-6)]
  have small: "nat (r div 3600000) \<le> 23" "nat (r div 60000 mod 60) \<le> 59" "nat (r div 1000 mod 60) \<le> 59"
    using day_parts(2) [OF r] pos_mod_bound [of 60 "r div 60000"] pos_mod_bound [of 60 "r div 1000"] by linarith+
  have "make_time (int (nat y)) mo d (nat (r div 3600000)) (nat (r div 60000 mod 60)) (nat (r div 1000 mod 60)) (nat (r mod 1000))
      = day * 86400000 + r"
  proof -
    have "day_from_year y + month_start y mo + int d - 1 = day" using d(3) parts(4) by linarith
    moreover have "int (nat y) = y" "int (nat (r div 3600000)) = r div 3600000"
      "int (nat (r div 60000 mod 60)) = r div 60000 mod 60" "int (nat (r div 1000 mod 60)) = r div 1000 mod 60"
      "int (nat (r mod 1000)) = r mod 1000" using \<open>0 \<le> y\<close> day_parts(3) [OF r] by simp_all
    ultimately show ?thesis using day_parts(1) [OF r] by (simp only: make_time_def)
  qed
  also have "\<dots> = t" unfolding parts by simp
  finally have "make_time (int (nat y)) mo d (nat (r div 3600000)) (nat (r div 60000 mod 60))
      (nat (r div 1000 mod 60)) (nat (r mod 1000)) = t" .
  then show "iso_time (iso_string t) = Some t"
  proof -
    have "1 \<le> mo" "mo \<le> 12" "int d \<le> days_in_month (int (nat y)) mo"
      using mo d(2) \<open>0 \<le> y\<close> by auto
    with small d(1) fields(1) \<open>make_time _ _ _ _ _ _ _ = t\<close> show ?thesis
      unfolding explicit iso_time_def fields Let_def by (simp only: simp_thms if_True)
  qed
  show "rfc3339_shape (iso_string t)" unfolding explicit by (rule fields(1))
qed

end
