(* ===== verification/Schemas.thy ===== *)
theory Schemas
  imports JCS Identifier JS_Date
begin

section \<open>Document schemas\<close>

text \<open>
  The zod schemas of \<open>packages/core/src/schemas.ts\<close>.  zod itself is a third-party package: its
  parsers are fields of the platform (theory \<open>Platform\<close>).  What the source declares is
  modelled: the shape of each schema is a record (an enumeration a datatype), the object the
  record stands for is \<open>X_obj\<close>, its members in the order of the shape, and the checks of the
  schema (patterns, lengths, refinements) are \<open>X_ok\<close>.

  The record \<open>runtime\<close> holds what the checks need from outside: the engine's treatment of dates
  that are not RFC 3339 texts in bounds, and zod's e-mail pattern.
\<close>

record runtime =
  date_fallback :: "jstr \<Rightarrow> int option"
  email_ok :: "jstr \<Rightarrow> bool"

definition Date_parse :: "('a runtime_scheme) \<Rightarrow> jstr \<Rightarrow> int option" where
  "Date_parse E s = date_parse (date_fallback E) s"

subsection \<open>Shared primitives\<close>

definition SCHEMA_BASE :: jstr where
  "SCHEMA_BASE = js ''https://agenid.com/schemas/v1.1.1''"

definition MANIFEST_PROOF_SCHEMA_ID :: jstr where
  "MANIFEST_PROOF_SCHEMA_ID = SCHEMA_BASE @ js ''/manifest-proof.json''"

definition ASSERTION_SCHEMA_ID :: jstr where
  "ASSERTION_SCHEMA_ID = SCHEMA_BASE @ js ''/assertion.json''"

definition KEYS_SCHEMA_ID :: jstr where
  "KEYS_SCHEMA_ID = SCHEMA_BASE @ js ''/keys.json''"

definition AUTHORITIES_SCHEMA_ID :: jstr where
  "AUTHORITIES_SCHEMA_ID = SCHEMA_BASE @ js ''/authorities.json''"

definition Rfc3339Utc :: "('a runtime_scheme) \<Rightarrow> jstr \<Rightarrow> bool" where
  "Rfc3339Utc E s \<longleftrightarrow> rfc3339_shape s \<and> Date_parse E s \<noteq> None"

definition Sha256Hex :: "jstr \<Rightarrow> bool" where
  "Sha256Hex s \<longleftrightarrow> length s = 64 \<and> list_all (\<lambda>c. is_digit c \<or> in_range CHR ''a'' CHR ''f'' c) s"

definition Ed25519SignatureB64u :: "jstr \<Rightarrow> bool" where
  "Ed25519SignatureB64u s \<longleftrightarrow> length s = 86 \<and> list_all is_base64url s"

definition Ed25519PublicKeyB64u :: "jstr \<Rightarrow> bool" where
  "Ed25519PublicKeyB64u s \<longleftrightarrow> length s = 43 \<and> list_all is_base64url s"

definition KeyId :: "jstr \<Rightarrow> bool" where
  "KeyId s \<longleftrightarrow> fragment_mark \<notin> set s \<and> isValidKeyId s"

record digest =
  dg_alg :: jstr
  dg_value :: jstr

definition Digest_obj :: "digest \<Rightarrow> jsval" where
  "Digest_obj d = JObj [(js ''alg'', JStr (dg_alg d)), (js ''value'', JStr (dg_value d))]"

definition Digest_ok :: "digest \<Rightarrow> bool" where
  "Digest_ok d \<longleftrightarrow> dg_alg d = js ''sha-256'' \<and> Sha256Hex (dg_value d)"

text \<open>An optional member, and a nullable value.\<close>

definition opt_member :: "jstr \<Rightarrow> jstr option \<Rightarrow> (jstr \<times> jsval) list" where
  "opt_member k x = (case x of None \<Rightarrow> [] | Some s \<Rightarrow> [(k, JStr s)])"

definition nullable :: "jstr option \<Rightarrow> jsval" where
  "nullable x = (case x of None \<Rightarrow> JNull | Some s \<Rightarrow> JStr s)"

definition opt_ok :: "('a \<Rightarrow> bool) \<Rightarrow> 'a option \<Rightarrow> bool" where
  "opt_ok P x = (case x of None \<Rightarrow> True | Some y \<Rightarrow> P y)"

subsection \<open>Free text without credentials\<close>

definition is_word :: "code_unit \<Rightarrow> bool" where
  "is_word c \<longleftrightarrow> is_alnum c \<or> c = jc CHR ''_''"

definition is_space :: "code_unit \<Rightarrow> bool" where
  "is_space c \<longleftrightarrow> c \<in> {0x09, 0x0A, 0x0B, 0x0C, 0x0D, 0x20, 0xA0, 0x1680, 0x2028, 0x2029, 0x202F, 0x205F, 0x3000, 0xFEFF}
     \<or> 0x2000 \<le> c \<and> c \<le> 0x200A"

definition lower_unit :: "code_unit \<Rightarrow> code_unit" where
  "lower_unit c = (if is_upper c then c + 32 else c)"

definition starts_with :: "jstr \<Rightarrow> jstr \<Rightarrow> bool" where
  "starts_with p s = (strip_prefix p s \<noteq> None)"

text \<open>\<open>re.test(s)\<close> for a pattern given at a position: whether the unit before is a word unit,
  and the rest of the string.\<close>

fun search_from :: "bool \<Rightarrow> (bool \<Rightarrow> jstr \<Rightarrow> bool) \<Rightarrow> jstr \<Rightarrow> bool" where
  "search_from w P [] = P w []"
| "search_from w P (c # cs) = (P w (c # cs) \<or> search_from (is_word c) P cs)"

definition stripe_key :: "bool \<Rightarrow> jstr \<Rightarrow> bool" where
  "stripe_key w s \<longleftrightarrow> \<not> w \<and> length s \<ge> 16
     \<and> map lower_unit (take 2 s) = js ''sk'' \<and> s ! 2 \<in> {jc CHR ''-'', jc CHR ''_''}
     \<and> map lower_unit (take 4 (drop 3 s)) \<in> {js ''live'', js ''test''} \<and> s ! 7 \<in> {jc CHR ''-'', jc CHR ''_''}
     \<and> list_all is_alnum (take 8 (drop 8 s))"

definition aws_key :: "bool \<Rightarrow> jstr \<Rightarrow> bool" where
  "aws_key w s \<longleftrightarrow> \<not> w \<and> 20 \<le> length s \<and> starts_with (js ''AKIA'') s
     \<and> list_all (\<lambda>c. is_digit c \<or> is_upper c) (take 16 (drop 4 s))
     \<and> (case drop 20 s of [] \<Rightarrow> True | c # _ \<Rightarrow> \<not> is_word c)"

fun private_key_rest :: "jstr \<Rightarrow> bool" where
  "private_key_rest [] = False"
| "private_key_rest (c # cs) =
     (starts_with (js ''PRIVATE KEY-----'') (c # cs) \<or> (is_upper c \<or> c = 0x20) \<and> private_key_rest cs)"

definition private_key :: "bool \<Rightarrow> jstr \<Rightarrow> bool" where
  "private_key w s = (case strip_prefix (js ''-----BEGIN '') s of None \<Rightarrow> False | Some r \<Rightarrow> private_key_rest r)"

definition bearer_token :: "bool \<Rightarrow> jstr \<Rightarrow> bool" where
  "bearer_token w s \<longleftrightarrow> \<not> w \<and> (case strip_prefix (js ''Bearer'') s of None \<Rightarrow> False
     | Some r \<Rightarrow> takeWhile is_space r \<noteq> []
         \<and> 20 \<le> length (takeWhile (\<lambda>c. is_base64url c \<or> c = jc CHR ''.'') (dropWhile is_space r)))"

definition noSecrets :: "jstr \<Rightarrow> bool" where
  "noSecrets s \<longleftrightarrow> \<not> list_ex (\<lambda>P. search_from False P s) [stripe_key, aws_key, private_key, bearer_token]"

definition FreeText :: "nat \<Rightarrow> jstr \<Rightarrow> bool" where
  "FreeText n s \<longleftrightarrow> 1 \<le> length s \<and> length s \<le> n \<and> noSecrets s"

subsection \<open>Manifest\<close>

datatype channel = Voice | Sms | Chat | Email | Api

fun channel_text :: "channel \<Rightarrow> jstr" where
  "channel_text Voice = js ''voice''"
| "channel_text Sms = js ''sms''"
| "channel_text Chat = js ''chat''"
| "channel_text Email = js ''email''"
| "channel_text Api = js ''api''"

record identity =
  id_name :: jstr
  id_description :: "jstr option"

record ownership =
  ow_operator :: jstr
  ow_operator_domain :: jstr
  ow_contact :: "jstr option"

record purpose =
  pu_summary :: jstr
  pu_channels :: "channel list"

record disclosure =
  di_is_ai :: bool
  di_discloses_to_user :: bool
  di_human_escalation :: bool

record manifest =
  mf_manifest_version :: jstr
  mf_agent_id :: jstr
  mf_identity :: identity
  mf_ownership :: ownership
  mf_purpose :: purpose
  mf_disclosure :: disclosure

definition Identity_obj :: "identity \<Rightarrow> jsval" where
  "Identity_obj i = JObj ((js ''name'', JStr (id_name i)) # opt_member (js ''description'') (id_description i))"

definition Ownership_obj :: "ownership \<Rightarrow> jsval" where
  "Ownership_obj w = JObj ([(js ''operator'', JStr (ow_operator w)), (js ''operator_domain'', JStr (ow_operator_domain w))]
     @ opt_member (js ''contact'') (ow_contact w))"

definition Purpose_obj :: "purpose \<Rightarrow> jsval" where
  "Purpose_obj p = JObj [(js ''summary'', JStr (pu_summary p)),
     (js ''channels'', JArr (map (\<lambda>c. JStr (channel_text c)) (pu_channels p)))]"

definition Disclosure_obj :: "disclosure \<Rightarrow> jsval" where
  "Disclosure_obj d = JObj [(js ''is_ai'', JBool (di_is_ai d)),
     (js ''discloses_to_user'', JBool (di_discloses_to_user d)), (js ''human_escalation'', JBool (di_human_escalation d))]"

definition Manifest_obj :: "manifest \<Rightarrow> jsval" where
  "Manifest_obj m = JObj [
     (js ''manifest_version'', JStr (mf_manifest_version m)),
     (js ''agent_id'', JStr (mf_agent_id m)),
     (js ''identity'', Identity_obj (mf_identity m)),
     (js ''ownership'', Ownership_obj (mf_ownership m)),
     (js ''purpose'', Purpose_obj (mf_purpose m)),
     (js ''disclosure'', Disclosure_obj (mf_disclosure m))]"

definition Manifest_ok :: "('a runtime_scheme) \<Rightarrow> manifest \<Rightarrow> bool" where
  "Manifest_ok E m \<longleftrightarrow>
     mf_manifest_version m = js ''1.0'' \<and> isValidAgentId (mf_agent_id m)
     \<and> FreeText 200 (id_name (mf_identity m)) \<and> opt_ok (FreeText 1000) (id_description (mf_identity m))
     \<and> FreeText 300 (ow_operator (mf_ownership m)) \<and> isValidHostname (ow_operator_domain (mf_ownership m))
     \<and> opt_ok (email_ok E) (ow_contact (mf_ownership m))
     \<and> FreeText 500 (pu_summary (mf_purpose m)) \<and> 1 \<le> length (pu_channels (mf_purpose m))"

subsection \<open>ManifestProof\<close>

record manifest_proof_payload =
  mp_schema :: jstr
  mp_proof_type :: jstr
  mp_agent_id :: jstr
  mp_manifest_version :: jstr
  mp_manifest_digest :: digest
  mp_key_id :: jstr
  mp_created_at :: jstr
  mp_expires_at :: jstr

record manifest_proof = manifest_proof_payload +
  mp_signature :: jstr

definition ManifestProofPayload_members :: "('a manifest_proof_payload_scheme) \<Rightarrow> (jstr \<times> jsval) list" where
  "ManifestProofPayload_members p = [
     (js ''$schema'', JStr (mp_schema p)),
     (js ''proof_type'', JStr (mp_proof_type p)),
     (js ''agent_id'', JStr (mp_agent_id p)),
     (js ''manifest_version'', JStr (mp_manifest_version p)),
     (js ''manifest_digest'', Digest_obj (mp_manifest_digest p)),
     (js ''key_id'', JStr (mp_key_id p)),
     (js ''created_at'', JStr (mp_created_at p)),
     (js ''expires_at'', JStr (mp_expires_at p))]"

definition ManifestProofPayload_obj :: "manifest_proof_payload \<Rightarrow> jsval" where
  "ManifestProofPayload_obj p = JObj (ManifestProofPayload_members p)"

definition ManifestProof_obj :: "manifest_proof \<Rightarrow> jsval" where
  "ManifestProof_obj p = JObj (ManifestProofPayload_members p @ [(js ''signature'', JStr (mp_signature p))])"

definition ManifestProofPayload_ok :: "('r runtime_scheme) \<Rightarrow> ('a manifest_proof_payload_scheme) \<Rightarrow> bool" where
  "ManifestProofPayload_ok E p \<longleftrightarrow>
     mp_schema p = MANIFEST_PROOF_SCHEMA_ID \<and> mp_proof_type p = js ''manifest_self_declaration''
     \<and> isValidAgentId (mp_agent_id p) \<and> mp_manifest_version p = js ''1.0''
     \<and> Digest_ok (mp_manifest_digest p) \<and> KeyId (mp_key_id p)
     \<and> Rfc3339Utc E (mp_created_at p) \<and> Rfc3339Utc E (mp_expires_at p)
     \<and> date_less (Date_parse E (mp_created_at p)) (Date_parse E (mp_expires_at p))"

definition ManifestProof_ok :: "('r runtime_scheme) \<Rightarrow> manifest_proof \<Rightarrow> bool" where
  "ManifestProof_ok E p \<longleftrightarrow> ManifestProofPayload_ok E p \<and> Ed25519SignatureB64u (mp_signature p)"

subsection \<open>VerificationAssertion\<close>

datatype verification_level =
    L1_REGISTERED | L2_DOMAIN_VERIFIED | L3_ORGANIZATION_VERIFIED | L4_DEPLOYMENT_VERIFIED

fun level_text :: "verification_level \<Rightarrow> jstr" where
  "level_text L1_REGISTERED = js ''L1_REGISTERED''"
| "level_text L2_DOMAIN_VERIFIED = js ''L2_DOMAIN_VERIFIED''"
| "level_text L3_ORGANIZATION_VERIFIED = js ''L3_ORGANIZATION_VERIFIED''"
| "level_text L4_DEPLOYMENT_VERIFIED = js ''L4_DEPLOYMENT_VERIFIED''"

datatype subject_type = SubjectAgent | SubjectDeployment

fun subject_type_text :: "subject_type \<Rightarrow> jstr" where
  "subject_type_text SubjectAgent = js ''agent''"
| "subject_type_text SubjectDeployment = js ''deployment''"

datatype claim =
    RegistrationClaim
  | DomainControlClaim jstr
  | OrganizationIdentityClaim jstr "jstr option"
  | DeploymentConformanceClaim jstr

fun claim_type :: "claim \<Rightarrow> jstr" where
  "claim_type RegistrationClaim = js ''registration''"
| "claim_type (DomainControlClaim d) = js ''domain_control''"
| "claim_type (OrganizationIdentityClaim n j) = js ''organization_identity''"
| "claim_type (DeploymentConformanceClaim d) = js ''deployment_conformance''"

fun Claim_obj :: "claim \<Rightarrow> jsval" where
  "Claim_obj RegistrationClaim = JObj [(js ''type'', JStr (js ''registration''))]"
| "Claim_obj (DomainControlClaim d) = JObj [(js ''type'', JStr (js ''domain_control'')), (js ''domain'', JStr d)]"
| "Claim_obj (OrganizationIdentityClaim n j) =
     JObj ([(js ''type'', JStr (js ''organization_identity'')), (js ''legal_name'', JStr n)] @ opt_member (js ''jurisdiction'') j)"
| "Claim_obj (DeploymentConformanceClaim d) =
     JObj [(js ''type'', JStr (js ''deployment_conformance'')), (js ''deployment_id'', JStr d)]"

fun Claim_ok :: "claim \<Rightarrow> bool" where
  "Claim_ok RegistrationClaim = True"
| "Claim_ok (DomainControlClaim d) = isValidHostname d"
| "Claim_ok (OrganizationIdentityClaim n j) = (FreeText 300 n \<and> opt_ok (\<lambda>s. 2 \<le> length s \<and> length s \<le> 64) j)"
| "Claim_ok (DeploymentConformanceClaim d) = isValidDeploymentId d"

datatype evidence_type =
    SchemaValidation | DnsTxtChallenge | HttpWellknownChallenge
  | BusinessRegistryMatch | DocumentReview | DeploymentSampleReview

fun evidence_type_text :: "evidence_type \<Rightarrow> jstr" where
  "evidence_type_text SchemaValidation = js ''schema_validation''"
| "evidence_type_text DnsTxtChallenge = js ''dns_txt_challenge''"
| "evidence_type_text HttpWellknownChallenge = js ''http_wellknown_challenge''"
| "evidence_type_text BusinessRegistryMatch = js ''business_registry_match''"
| "evidence_type_text DocumentReview = js ''document_review''"
| "evidence_type_text DeploymentSampleReview = js ''deployment_sample_review''"

record evidence =
  ev_type :: evidence_type
  ev_reference :: jstr

definition Evidence_obj :: "evidence \<Rightarrow> jsval" where
  "Evidence_obj e = JObj [(js ''type'', JStr (evidence_type_text (ev_type e))), (js ''reference'', JStr (ev_reference e))]"

definition Evidence_ok :: "evidence \<Rightarrow> bool" where
  "Evidence_ok e \<longleftrightarrow> 1 \<le> length (ev_reference e) \<and> length (ev_reference e) \<le> 512"

record assertion_payload =
  va_schema :: jstr
  va_assertion_id :: jstr
  va_subject :: jstr
  va_subject_type :: subject_type
  va_level :: verification_level
  va_claim :: claim
  va_authority :: jstr
  va_evidence :: evidence
  va_verified_at :: jstr
  va_expires_at :: jstr
  va_scope :: jstr
  va_manifest_digest :: digest
  va_key_id :: jstr

record assertion = assertion_payload +
  va_signature :: jstr

definition AssertionPayload_members :: "('a assertion_payload_scheme) \<Rightarrow> (jstr \<times> jsval) list" where
  "AssertionPayload_members a = [
     (js ''$schema'', JStr (va_schema a)),
     (js ''assertion_id'', JStr (va_assertion_id a)),
     (js ''subject'', JStr (va_subject a)),
     (js ''subject_type'', JStr (subject_type_text (va_subject_type a))),
     (js ''level'', JStr (level_text (va_level a))),
     (js ''claim'', Claim_obj (va_claim a)),
     (js ''authority'', JStr (va_authority a)),
     (js ''evidence'', Evidence_obj (va_evidence a)),
     (js ''verified_at'', JStr (va_verified_at a)),
     (js ''expires_at'', JStr (va_expires_at a)),
     (js ''scope'', JStr (va_scope a)),
     (js ''manifest_digest'', Digest_obj (va_manifest_digest a)),
     (js ''key_id'', JStr (va_key_id a))]"

definition AssertionPayload_obj :: "assertion_payload \<Rightarrow> jsval" where
  "AssertionPayload_obj a = JObj (AssertionPayload_members a)"

definition Assertion_obj :: "assertion \<Rightarrow> jsval" where
  "Assertion_obj a = JObj (AssertionPayload_members a @ [(js ''signature'', JStr (va_signature a))])"

fun LEVEL_CLAIM :: "verification_level \<Rightarrow> jstr" where
  "LEVEL_CLAIM L1_REGISTERED = js ''registration''"
| "LEVEL_CLAIM L2_DOMAIN_VERIFIED = js ''domain_control''"
| "LEVEL_CLAIM L3_ORGANIZATION_VERIFIED = js ''organization_identity''"
| "LEVEL_CLAIM L4_DEPLOYMENT_VERIFIED = js ''deployment_conformance''"

definition assertionRules :: "('r runtime_scheme) \<Rightarrow> ('a assertion_payload_scheme) \<Rightarrow> bool" where
  "assertionRules E a \<longleftrightarrow>
     (if va_subject_type a = SubjectAgent then isValidAgentId (va_subject a) else isValidDeploymentId (va_subject a))
     \<and> (va_subject_type a = SubjectDeployment) = (va_level a = L4_DEPLOYMENT_VERIFIED)
     \<and> date_less (Date_parse E (va_verified_at a)) (Date_parse E (va_expires_at a))
     \<and> LEVEL_CLAIM (va_level a) = claim_type (va_claim a)"

definition AssertionPayload_ok :: "('r runtime_scheme) \<Rightarrow> ('a assertion_payload_scheme) \<Rightarrow> bool" where
  "AssertionPayload_ok E a \<longleftrightarrow>
     va_schema a = ASSERTION_SCHEMA_ID \<and> isValidAssertionId (va_assertion_id a) \<and> va_subject a \<noteq> []
     \<and> Claim_ok (va_claim a) \<and> isValidAuthorityId (va_authority a) \<and> Evidence_ok (va_evidence a)
     \<and> Rfc3339Utc E (va_verified_at a) \<and> Rfc3339Utc E (va_expires_at a)
     \<and> 1 \<le> length (va_scope a) \<and> length (va_scope a) \<le> 128
     \<and> Digest_ok (va_manifest_digest a) \<and> KeyId (va_key_id a) \<and> assertionRules E a"

definition Assertion_ok :: "('r runtime_scheme) \<Rightarrow> assertion \<Rightarrow> bool" where
  "Assertion_ok E a \<longleftrightarrow> AssertionPayload_ok E a \<and> Ed25519SignatureB64u (va_signature a)"

subsection \<open>Key documents\<close>

datatype key_role = OperatorRole | AuthorityRole | PrincipalRole

fun role_text :: "key_role \<Rightarrow> jstr" where
  "role_text OperatorRole = js ''operator''"
| "role_text AuthorityRole = js ''authority''"
| "role_text PrincipalRole = js ''principal''"

datatype key_status = KeyActive | KeyRetired | KeyRevoked

fun key_status_text :: "key_status \<Rightarrow> jstr" where
  "key_status_text KeyActive = js ''active''"
| "key_status_text KeyRetired = js ''retired''"
| "key_status_text KeyRevoked = js ''revoked''"

record key_document =
  kd_key_id :: jstr
  kd_key_type :: jstr
  kd_public_key_b64u :: jstr
  kd_role :: key_role
  kd_controller :: jstr
  kd_created_at :: jstr
  kd_status :: key_status
  kd_retired_at :: "jstr option"
  kd_revoked_at :: "jstr option"

definition KeyDocument_obj :: "key_document \<Rightarrow> jsval" where
  "KeyDocument_obj k = JObj [
     (js ''key_id'', JStr (kd_key_id k)),
     (js ''key_type'', JStr (kd_key_type k)),
     (js ''public_key_b64u'', JStr (kd_public_key_b64u k)),
     (js ''role'', JStr (role_text (kd_role k))),
     (js ''controller'', JStr (kd_controller k)),
     (js ''created_at'', JStr (kd_created_at k)),
     (js ''status'', JStr (key_status_text (kd_status k))),
     (js ''retired_at'', nullable (kd_retired_at k)),
     (js ''revoked_at'', nullable (kd_revoked_at k))]"

definition controller_ok :: "key_role \<Rightarrow> jstr \<Rightarrow> bool" where
  "controller_ok r c = (case r of OperatorRole \<Rightarrow> isValidAgentId c | AuthorityRole \<Rightarrow> isValidAuthorityId c
     | PrincipalRole \<Rightarrow> isValidPrincipalId c)"

definition KeyDocument_ok :: "('r runtime_scheme) \<Rightarrow> key_document \<Rightarrow> bool" where
  "KeyDocument_ok E k \<longleftrightarrow>
     KeyId (kd_key_id k) \<and> kd_key_type k = js ''Ed25519'' \<and> Ed25519PublicKeyB64u (kd_public_key_b64u k)
     \<and> kd_controller k \<noteq> [] \<and> Rfc3339Utc E (kd_created_at k)
     \<and> opt_ok (Rfc3339Utc E) (kd_retired_at k) \<and> opt_ok (Rfc3339Utc E) (kd_revoked_at k)
     \<and> controller_ok (kd_role k) (kd_controller k)
     \<and> ((kd_status k = KeyRetired) = (kd_retired_at k \<noteq> None) \<or> kd_status k = KeyRevoked)
     \<and> (kd_status k = KeyRevoked) = (kd_revoked_at k \<noteq> None)"

record keys_document =
  ks_schema :: jstr
  ks_controller_domain :: jstr
  ks_keys :: "key_document list"

definition KeysDocument_obj :: "keys_document \<Rightarrow> jsval" where
  "KeysDocument_obj d = JObj [
     (js ''$schema'', JStr (ks_schema d)),
     (js ''controller_domain'', JStr (ks_controller_domain d)),
     (js ''keys'', JArr (map KeyDocument_obj (ks_keys d)))]"

definition KeysDocument_ok :: "('r runtime_scheme) \<Rightarrow> keys_document \<Rightarrow> bool" where
  "KeysDocument_ok E d \<longleftrightarrow> ks_schema d = KEYS_SCHEMA_ID \<and> isValidHostname (ks_controller_domain d)
     \<and> 1 \<le> length (ks_keys d) \<and> list_all (KeyDocument_ok E) (ks_keys d)"

record authority_entry =
  ae_authority_id :: jstr
  ae_authority_domain :: jstr
  ae_root_key_id :: jstr
  ae_root_public_key_b64u :: jstr

definition AuthorityEntry_obj :: "authority_entry \<Rightarrow> jsval" where
  "AuthorityEntry_obj a = JObj [
     (js ''authority_id'', JStr (ae_authority_id a)),
     (js ''authority_domain'', JStr (ae_authority_domain a)),
     (js ''root_key_id'', JStr (ae_root_key_id a)),
     (js ''root_public_key_b64u'', JStr (ae_root_public_key_b64u a))]"

definition AuthorityEntry_ok :: "authority_entry \<Rightarrow> bool" where
  "AuthorityEntry_ok a \<longleftrightarrow> isValidAuthorityId (ae_authority_id a) \<and> isValidHostname (ae_authority_domain a)
     \<and> KeyId (ae_root_key_id a) \<and> Ed25519PublicKeyB64u (ae_root_public_key_b64u a)"

record authorities_document =
  ad_schema :: jstr
  ad_authorities :: "authority_entry list"

definition AuthoritiesDocument_obj :: "authorities_document \<Rightarrow> jsval" where
  "AuthoritiesDocument_obj d = JObj [
     (js ''$schema'', JStr (ad_schema d)),
     (js ''authorities'', JArr (map AuthorityEntry_obj (ad_authorities d)))]"

definition AuthoritiesDocument_ok :: "authorities_document \<Rightarrow> bool" where
  "AuthoritiesDocument_ok d \<longleftrightarrow> ad_schema d = AUTHORITIES_SCHEMA_ID
     \<and> 1 \<le> length (ad_authorities d) \<and> list_all AuthorityEntry_ok (ad_authorities d)"

subsection \<open>Documents and records\<close>

text \<open>
  Each record stands for one document: the objects are JSON documents that can be
  canonicalized, and equal documents come from equal records.
\<close>

lemma enum_text_inject [simp]:
  "channel_text c = channel_text d \<longleftrightarrow> c = d"
  "level_text l = level_text m \<longleftrightarrow> l = m"
  "subject_type_text x = subject_type_text y \<longleftrightarrow> x = y"
  "evidence_type_text e = evidence_type_text f \<longleftrightarrow> e = f"
  "role_text r = role_text q \<longleftrightarrow> r = q"
  "key_status_text st = key_status_text st' \<longleftrightarrow> st = st'"
proof -
  show "channel_text c = channel_text d \<longleftrightarrow> c = d" by (cases c; cases d) simp_all
  show "level_text l = level_text m \<longleftrightarrow> l = m" by (cases l; cases m) simp_all
  show "subject_type_text x = subject_type_text y \<longleftrightarrow> x = y" by (cases x; cases y) simp_all
  show "evidence_type_text e = evidence_type_text f \<longleftrightarrow> e = f" by (cases e; cases f) simp_all
  show "role_text r = role_text q \<longleftrightarrow> r = q" by (cases r; cases q) simp_all
  show "key_status_text st = key_status_text st' \<longleftrightarrow> st = st'" by (cases st; cases st') simp_all
qed

lemma nullable_same [simp]: "same_json (nullable x) (nullable y) \<longleftrightarrow> x = y"
  by (auto simp: nullable_def split: option.split)

lemma opt_member_map_of [simp]:
  "map_of (opt_member k x) l = (if k = l then map_option JStr x else None)"
  by (simp add: opt_member_def split: option.split)

lemma opt_member_doc [simp]:
  "list_all (\<lambda>(k, v). canonicalizable v) (opt_member k x)" "list_all (\<lambda>(k, v). plain v) (opt_member k x)"
  "fst ` set (opt_member k x) = (if x = None then {} else {k})" "distinct (map fst (opt_member k x))"
  by (cases x; simp add: opt_member_def)+

lemma nullable_doc [simp]: "canonicalizable (nullable x)" "plain (nullable x)"
  by (simp_all add: nullable_def split: option.split)

definition document :: "jsval \<Rightarrow> bool" where
  "document v \<longleftrightarrow> plain v \<and> canonicalizable v"

lemma same_json_opt [simp]:
  "same_json (case map_option JStr x of None \<Rightarrow> JUndefined | Some w \<Rightarrow> w)
     (case map_option JStr y of None \<Rightarrow> JUndefined | Some w \<Rightarrow> w) \<longleftrightarrow> x = y"
  "same_json (case x of None \<Rightarrow> JUndefined | Some w \<Rightarrow> ((\<lambda>w. w) \<circ> JStr) w)
     (case y of None \<Rightarrow> JUndefined | Some w \<Rightarrow> ((\<lambda>w. w) \<circ> JStr) w) \<longleftrightarrow> x = y"
  by (cases x; cases y; simp)+

lemma same_json_strings [simp]:
  "same_json (JArr (map (\<lambda>c. JStr (f c)) xs)) (JArr (map (\<lambda>c. JStr (f c)) ys)) \<longleftrightarrow> map f xs = map f ys"
  using inj_map_eq_map [of JStr "map f xs" "map f ys"] by (simp add: same_json_def inj_def comp_def)

lemma channels_inject: "map channel_text xs = map channel_text ys \<longleftrightarrow> xs = ys"
  by (rule inj_map_eq_map) (simp add: inj_def)

lemma Digest_document [simp]: "document (Digest_obj x)"
  by (simp add: document_def Digest_obj_def)

lemmas Digest_plain = Digest_document [unfolded document_def, THEN conjunct1]

lemma Digest_inject [simp]: "same_json (Digest_obj a) (Digest_obj b) \<longleftrightarrow> a = b"
proof
  assume "same_json (Digest_obj a) (Digest_obj b)"
  from same_json_values [OF this [unfolded Digest_obj_def] Digest_plain [of a, unfolded Digest_obj_def]]
  show "a = b" by (intro digest.equality) (simp_all del: js_simps)
qed simp

lemma Identity_document [simp]: "document (Identity_obj x)"
  by (simp add: document_def Identity_obj_def)

lemmas Identity_plain = Identity_document [unfolded document_def, THEN conjunct1]

lemma Ownership_document [simp]: "document (Ownership_obj x)"
  by (simp add: document_def Ownership_obj_def)

lemmas Ownership_plain = Ownership_document [unfolded document_def, THEN conjunct1]

lemma Purpose_document [simp]: "document (Purpose_obj x)"
  by (simp add: document_def Purpose_obj_def list_all_iff)

lemmas Purpose_plain = Purpose_document [unfolded document_def, THEN conjunct1]

lemma Disclosure_document [simp]: "document (Disclosure_obj x)"
  by (simp add: document_def Disclosure_obj_def)

lemmas Disclosure_plain = Disclosure_document [unfolded document_def, THEN conjunct1]

lemma Identity_inject [simp]: "same_json (Identity_obj a) (Identity_obj b) \<longleftrightarrow> a = b"
proof
  assume "same_json (Identity_obj a) (Identity_obj b)"
  note m = this [THEN same_json_member]
  from m [of "js ''name''"] m [of "js ''description''"] show "a = b"
    by (intro identity.equality) (simp_all add: Identity_obj_def get_member_def)
qed simp

lemma Ownership_inject [simp]: "same_json (Ownership_obj a) (Ownership_obj b) \<longleftrightarrow> a = b"
proof
  assume "same_json (Ownership_obj a) (Ownership_obj b)"
  note m = this [THEN same_json_member]
  from m [of "js ''operator''"] m [of "js ''operator_domain''"] m [of "js ''contact''"] show "a = b"
    by (intro ownership.equality) (simp_all add: Ownership_obj_def get_member_def)
qed simp

lemma Purpose_inject [simp]: "same_json (Purpose_obj a) (Purpose_obj b) \<longleftrightarrow> a = b"
proof
  assume "same_json (Purpose_obj a) (Purpose_obj b)"
  from same_json_values [OF this [unfolded Purpose_obj_def] Purpose_plain [of a, unfolded Purpose_obj_def]]
  show "a = b" by (intro purpose.equality) (simp_all add: channels_inject del: js_simps)
qed simp

lemma Disclosure_inject [simp]: "same_json (Disclosure_obj a) (Disclosure_obj b) \<longleftrightarrow> a = b"
proof
  assume "same_json (Disclosure_obj a) (Disclosure_obj b)"
  from same_json_values [OF this [unfolded Disclosure_obj_def] Disclosure_plain [of a, unfolded Disclosure_obj_def]]
  show "a = b" by (intro disclosure.equality) (simp_all del: js_simps)
qed simp

text \<open>A document built from documents.\<close>

lemma document_obj: "document (JObj ms) \<longleftrightarrow> distinct (map fst ms) \<and> list_all (\<lambda>(k, v). document v) ms"
  by (auto simp: document_def list_all_iff)

lemma document_scalars [simp]: "document (JStr s)" "document (JBool b)" "document JNull" "document (nullable x)"
  by (simp_all add: document_def)

lemma Manifest_document [simp]: "document (Manifest_obj x)"
  by (simp add: document_obj Manifest_obj_def)

lemmas Manifest_plain = Manifest_document [unfolded document_def, THEN conjunct1]

lemma Manifest_inject [simp]: "same_json (Manifest_obj a) (Manifest_obj b) \<longleftrightarrow> a = b"
proof
  assume "same_json (Manifest_obj a) (Manifest_obj b)"
  from same_json_values [OF this [unfolded Manifest_obj_def] Manifest_plain [of a, unfolded Manifest_obj_def]]
  show "a = b" by (intro manifest.equality) (simp_all del: js_simps)
qed simp

lemmas proof_defs = ManifestProofPayload_obj_def ManifestProof_obj_def ManifestProofPayload_members_def
lemmas assertion_defs = AssertionPayload_obj_def Assertion_obj_def AssertionPayload_members_def

lemma ManifestProofPayload_document [simp]: "document (ManifestProofPayload_obj x)"
  by (simp add: document_obj proof_defs)

lemmas ManifestProofPayload_plain = ManifestProofPayload_document [unfolded document_def, THEN conjunct1]

lemma ManifestProof_document [simp]: "document (ManifestProof_obj x)"
  by (simp add: document_obj proof_defs)

lemmas ManifestProof_plain = ManifestProof_document [unfolded document_def, THEN conjunct1]

lemma ManifestProofPayload_inject [simp]: "same_json (ManifestProofPayload_obj a) (ManifestProofPayload_obj b) \<longleftrightarrow> a = b"
proof
  assume "same_json (ManifestProofPayload_obj a) (ManifestProofPayload_obj b)"
  from same_json_values [OF this [unfolded proof_defs] ManifestProofPayload_plain [of a, unfolded proof_defs]]
  show "a = b" by (intro manifest_proof_payload.equality) (simp_all del: js_simps)
qed simp

lemma Claim_document [simp]: "document (Claim_obj c)"
  by (cases c) (simp_all add: document_def)

lemma Claim_inject [simp]: "same_json (Claim_obj c) (Claim_obj d) \<longleftrightarrow> c = d"
proof
  assume "same_json (Claim_obj c) (Claim_obj d)"
  note m = this [THEN same_json_member]
  show "c = d"
  proof (cases "claim_type c = claim_type d")
    case True
    with m [of "js ''domain''"] m [of "js ''legal_name''"] m [of "js ''jurisdiction''"] m [of "js ''deployment_id''"]
    show ?thesis by (cases c; cases d) (simp_all add: get_member_def)
  next
    case False
    moreover have "get_member (js ''type'') (Claim_obj e) = JStr (claim_type e)" for e
      by (cases e) (simp_all add: get_member_def)
    ultimately show ?thesis using m [of "js ''type''"] by simp
  qed
qed simp

lemma Evidence_document [simp]: "document (Evidence_obj x)"
  by (simp add: document_def Evidence_obj_def)

lemmas Evidence_plain = Evidence_document [unfolded document_def, THEN conjunct1]

lemma Evidence_inject [simp]: "same_json (Evidence_obj a) (Evidence_obj b) \<longleftrightarrow> a = b"
proof
  assume "same_json (Evidence_obj a) (Evidence_obj b)"
  from same_json_values [OF this [unfolded Evidence_obj_def] Evidence_plain [of a, unfolded Evidence_obj_def]]
  show "a = b" by (intro evidence.equality) (simp_all del: js_simps)
qed simp

lemma AssertionPayload_document [simp]: "document (AssertionPayload_obj x)"
  by (simp add: document_obj assertion_defs)

lemmas AssertionPayload_plain = AssertionPayload_document [unfolded document_def, THEN conjunct1]

lemma Assertion_document [simp]: "document (Assertion_obj x)"
  by (simp add: document_obj assertion_defs)

lemmas Assertion_plain = Assertion_document [unfolded document_def, THEN conjunct1]

lemma AssertionPayload_inject [simp]: "same_json (AssertionPayload_obj a) (AssertionPayload_obj b) \<longleftrightarrow> a = b"
proof
  assume "same_json (AssertionPayload_obj a) (AssertionPayload_obj b)"
  from same_json_values [OF this [unfolded assertion_defs] AssertionPayload_plain [of a, unfolded assertion_defs]]
  show "a = b" by (intro assertion_payload.equality) (simp_all del: js_simps)
qed simp

lemma KeyDocument_document [simp]: "document (KeyDocument_obj x)"
  by (simp add: document_obj KeyDocument_obj_def)

lemmas KeyDocument_plain = KeyDocument_document [unfolded document_def, THEN conjunct1]

lemma KeyDocument_inject [simp]: "same_json (KeyDocument_obj a) (KeyDocument_obj b) \<longleftrightarrow> a = b"
proof
  assume "same_json (KeyDocument_obj a) (KeyDocument_obj b)"
  from same_json_values [OF this [unfolded KeyDocument_obj_def] KeyDocument_plain [of a, unfolded KeyDocument_obj_def]]
  show "a = b" by (intro key_document.equality) (simp_all del: js_simps)
qed simp

lemma key_role_namespaces:
  "controller_ok r c \<Longrightarrow> controller_ok q c \<Longrightarrow> r = q"
  using namespaces_disjoint by (auto simp: controller_ok_def split: key_role.splits)

end
