(* ===== verification/Authorization.thy ===== *)
theory Authorization
  imports Schemas
begin

section \<open>Authorization documents\<close>

text \<open>
  \<open>packages/core/src/authorization.ts\<close> (v1.2-draft): scopes, constraints, grants and
  revocations, as records with their objects and checks, in the style of \<open>Schemas\<close>; and which
  key role may revoke which kind of target.
\<close>

definition SCHEMA_BASE_V12 :: jstr where
  "SCHEMA_BASE_V12 = js ''https://agenid.com/schemas/v1.2''"

definition GRANT_SCHEMA_ID :: jstr where
  "GRANT_SCHEMA_ID = SCHEMA_BASE_V12 @ js ''/authorization-grant.json''"

definition REVOCATION_SCHEMA_ID :: jstr where
  "REVOCATION_SCHEMA_ID = SCHEMA_BASE_V12 @ js ''/revocation.json''"

subsection \<open>Scopes\<close>

definition scope_word :: "jstr \<Rightarrow> bool" where
  "scope_word s = (case s of [] \<Rightarrow> False
     | c # cs \<Rightarrow> is_lower c \<and> length cs \<le> 31 \<and> list_all (\<lambda>c. is_lower c \<or> is_digit c \<or> c = jc CHR ''_'') cs)"

text \<open>\<open>/^[a-z][a-z0-9_]{0,31}:[a-z][a-z0-9_]{0,31}$/\<close>\<close>

definition scope_regex :: "jstr \<Rightarrow> bool" where
  "scope_regex s = (case split_on (jc CHR '':'') s of [r, a] \<Rightarrow> scope_word r \<and> scope_word a | _ \<Rightarrow> False)"

definition isValidScope :: "jstr \<Rightarrow> bool" where
  "isValidScope s \<longleftrightarrow> scope_regex s \<and> jc CHR ''*'' \<notin> set s"

definition COMMON_SCOPES :: "jstr list" where
  "COMMON_SCOPES = map js [''agent:identity'', ''agent:read'', ''agent:communicate'', ''appointment:read'',
     ''appointment:create'', ''appointment:modify'', ''appointment:cancel'', ''data:read'', ''data:write'',
     ''payment:initiate'', ''payment:approve'']"

subsection \<open>Constraints\<close>

datatype constraint =
    CounterpartyDomain "jstr list"
  | MaxValue jstr jstr \<comment> \<open>currency and amount in minor units\<close>
  | MaxUses jstr
  | RequiresHumanConfirmation

fun constraint_type :: "constraint \<Rightarrow> jstr" where
  "constraint_type (CounterpartyDomain ds) = js ''counterparty_domain''"
| "constraint_type (MaxValue c a) = js ''max_value''"
| "constraint_type (MaxUses n) = js ''max_uses''"
| "constraint_type RequiresHumanConfirmation = js ''requires_human_confirmation''"

fun Constraint_obj :: "constraint \<Rightarrow> jsval" where
  "Constraint_obj (CounterpartyDomain ds) =
     JObj [(js ''type'', JStr (js ''counterparty_domain'')), (js ''domains'', JArr (map (\<lambda>d. JStr d) ds))]"
| "Constraint_obj (MaxValue c a) =
     JObj [(js ''type'', JStr (js ''max_value'')), (js ''currency'', JStr c), (js ''amount_minor'', JStr a)]"
| "Constraint_obj (MaxUses n) = JObj [(js ''type'', JStr (js ''max_uses'')), (js ''count'', JStr n)]"
| "Constraint_obj RequiresHumanConfirmation = JObj [(js ''type'', JStr (js ''requires_human_confirmation''))]"

fun Constraint_ok :: "constraint \<Rightarrow> bool" where
  "Constraint_ok (CounterpartyDomain ds) = (1 \<le> length ds \<and> length ds \<le> 32 \<and> list_all (\<lambda>d. d \<noteq> []) ds)"
| "Constraint_ok (MaxValue c a) =
     (length c = 3 \<and> list_all is_upper c \<and> 1 \<le> length a \<and> length a \<le> 18 \<and> list_all is_digit a)"
| "Constraint_ok (MaxUses n) = (1 \<le> length n \<and> length n \<le> 9 \<and> list_all is_digit n)"
| "Constraint_ok RequiresHumanConfirmation = True"

definition UNDERSTOOD_CONSTRAINTS :: "jstr list" where
  "UNDERSTOOD_CONSTRAINTS =
     map js [''counterparty_domain'', ''max_value'', ''max_uses'', ''requires_human_confirmation'']"

subsection \<open>Grants\<close>

record grant_payload =
  gr_schema :: jstr
  gr_grant_id :: jstr
  gr_principal :: jstr
  gr_subject :: jstr
  gr_scopes :: "jstr list"
  gr_constraints :: "constraint list option"
  gr_not_before :: jstr
  gr_expires_at :: jstr
  gr_key_id :: jstr

record grant = grant_payload +
  gr_signature :: jstr

definition opt_list_member :: "jstr \<Rightarrow> ('a \<Rightarrow> jsval) \<Rightarrow> 'a list option \<Rightarrow> (jstr \<times> jsval) list" where
  "opt_list_member k f x = (case x of None \<Rightarrow> [] | Some ys \<Rightarrow> [(k, JArr (map f ys))])"

definition GrantPayload_members :: "('a grant_payload_scheme) \<Rightarrow> (jstr \<times> jsval) list" where
  "GrantPayload_members g =
     [(js ''$schema'', JStr (gr_schema g)),
      (js ''grant_id'', JStr (gr_grant_id g)),
      (js ''principal'', JStr (gr_principal g)),
      (js ''subject'', JStr (gr_subject g)),
      (js ''scopes'', JArr (map (\<lambda>s. JStr s) (gr_scopes g)))]
     @ opt_list_member (js ''constraints'') Constraint_obj (gr_constraints g) @
     [(js ''not_before'', JStr (gr_not_before g)),
      (js ''expires_at'', JStr (gr_expires_at g)),
      (js ''key_id'', JStr (gr_key_id g))]"

definition GrantPayload_obj :: "grant_payload \<Rightarrow> jsval" where
  "GrantPayload_obj g = JObj (GrantPayload_members g)"

definition Grant_obj :: "grant \<Rightarrow> jsval" where
  "Grant_obj g = JObj (GrantPayload_members g @ [(js ''signature'', JStr (gr_signature g))])"

definition grantRules :: "('r runtime_scheme) \<Rightarrow> ('a grant_payload_scheme) \<Rightarrow> bool" where
  "grantRules E g \<longleftrightarrow>
     date_less (Date_parse E (gr_not_before g)) (Date_parse E (gr_expires_at g)) \<and> distinct (gr_scopes g)"

definition GrantPayload_ok :: "('r runtime_scheme) \<Rightarrow> ('a grant_payload_scheme) \<Rightarrow> bool" where
  "GrantPayload_ok E g \<longleftrightarrow>
     gr_schema g = GRANT_SCHEMA_ID \<and> isValidGrantId (gr_grant_id g)
     \<and> isValidPrincipalId (gr_principal g) \<and> isValidAgentId (gr_subject g)
     \<and> 1 \<le> length (gr_scopes g) \<and> length (gr_scopes g) \<le> 64 \<and> list_all isValidScope (gr_scopes g)
     \<and> opt_ok (\<lambda>cs. length cs \<le> 16 \<and> list_all Constraint_ok cs) (gr_constraints g)
     \<and> Rfc3339Utc E (gr_not_before g) \<and> Rfc3339Utc E (gr_expires_at g) \<and> KeyId (gr_key_id g)
     \<and> grantRules E g"

definition Grant_ok :: "('r runtime_scheme) \<Rightarrow> grant \<Rightarrow> bool" where
  "Grant_ok E g \<longleftrightarrow> GrantPayload_ok E g \<and> Ed25519SignatureB64u (gr_signature g)"

subsection \<open>Revocations\<close>

datatype revokes_type = RevokesAgent | RevokesGrant | RevokesKey | RevokesAssertion

fun revokes_type_text :: "revokes_type \<Rightarrow> jstr" where
  "revokes_type_text RevokesAgent = js ''agent''"
| "revokes_type_text RevokesGrant = js ''grant''"
| "revokes_type_text RevokesKey = js ''key''"
| "revokes_type_text RevokesAssertion = js ''assertion''"

datatype revocation_reason =
    KeyCompromise | Superseded | NoLongerAuthorized | OperatorRequest | AgentRetired | IssuedInError | Unspecified

fun reason_text :: "revocation_reason \<Rightarrow> jstr" where
  "reason_text KeyCompromise = js ''key_compromise''"
| "reason_text Superseded = js ''superseded''"
| "reason_text NoLongerAuthorized = js ''no_longer_authorized''"
| "reason_text OperatorRequest = js ''operator_request''"
| "reason_text AgentRetired = js ''agent_retired''"
| "reason_text IssuedInError = js ''issued_in_error''"
| "reason_text Unspecified = js ''unspecified''"

record revocation_payload =
  rv_schema :: jstr
  rv_revocation_id :: jstr
  rv_revokes :: jstr
  rv_revokes_type :: revokes_type
  rv_reason :: revocation_reason
  rv_revoked_at :: jstr
  rv_key_id :: jstr

record revocation = revocation_payload +
  rv_signature :: jstr

definition RevocationPayload_members :: "('a revocation_payload_scheme) \<Rightarrow> (jstr \<times> jsval) list" where
  "RevocationPayload_members r = [
     (js ''$schema'', JStr (rv_schema r)),
     (js ''revocation_id'', JStr (rv_revocation_id r)),
     (js ''revokes'', JStr (rv_revokes r)),
     (js ''revokes_type'', JStr (revokes_type_text (rv_revokes_type r))),
     (js ''reason'', JStr (reason_text (rv_reason r))),
     (js ''revoked_at'', JStr (rv_revoked_at r)),
     (js ''key_id'', JStr (rv_key_id r))]"

definition RevocationPayload_obj :: "revocation_payload \<Rightarrow> jsval" where
  "RevocationPayload_obj r = JObj (RevocationPayload_members r)"

definition Revocation_obj :: "revocation \<Rightarrow> jsval" where
  "Revocation_obj r = JObj (RevocationPayload_members r @ [(js ''signature'', JStr (rv_signature r))])"

fun TARGET_PATTERN :: "revokes_type \<Rightarrow> jstr \<Rightarrow> bool" where
  "TARGET_PATTERN RevokesAgent = isValidAgentId"
| "TARGET_PATTERN RevokesGrant = isValidGrantId"
| "TARGET_PATTERN RevokesKey = isValidKeyId"
| "TARGET_PATTERN RevokesAssertion = isValidAssertionId"

definition revocationRules :: "('a revocation_payload_scheme) \<Rightarrow> bool" where
  "revocationRules r \<longleftrightarrow> TARGET_PATTERN (rv_revokes_type r) (rv_revokes r)"

definition RevocationPayload_ok :: "('r runtime_scheme) \<Rightarrow> ('a revocation_payload_scheme) \<Rightarrow> bool" where
  "RevocationPayload_ok E r \<longleftrightarrow>
     rv_schema r = REVOCATION_SCHEMA_ID \<and> isValidRevocationId (rv_revocation_id r) \<and> rv_revokes r \<noteq> []
     \<and> Rfc3339Utc E (rv_revoked_at r) \<and> KeyId (rv_key_id r) \<and> revocationRules r"

definition Revocation_ok :: "('r runtime_scheme) \<Rightarrow> revocation \<Rightarrow> bool" where
  "Revocation_ok E r \<longleftrightarrow> RevocationPayload_ok E r \<and> Ed25519SignatureB64u (rv_signature r)"

fun REVOKER_ROLE :: "revokes_type \<Rightarrow> key_role" where
  "REVOKER_ROLE RevokesGrant = PrincipalRole"
| "REVOKER_ROLE RevokesAgent = OperatorRole"
| "REVOKER_ROLE RevokesKey = OperatorRole"
| "REVOKER_ROLE RevokesAssertion = AuthorityRole"

subsection \<open>Documents and records\<close>

lemma revocation_text_inject [simp]:
  "revokes_type_text a = revokes_type_text b \<longleftrightarrow> a = b" "reason_text c = reason_text d \<longleftrightarrow> c = d"
proof -
  show "revokes_type_text a = revokes_type_text b \<longleftrightarrow> a = b" by (cases a; cases b) simp_all
  show "reason_text c = reason_text d \<longleftrightarrow> c = d" by (cases c; cases d) simp_all
qed

lemma Constraint_document [simp]: "document (Constraint_obj c)"
  by (cases c) (simp_all add: document_def list_all_iff)

lemma document_array: "document (JArr vs) \<longleftrightarrow> list_all document vs"
  by (auto simp: document_def list_all_iff)

lemma Constraint_inject: "same_json (Constraint_obj c) (Constraint_obj d) \<Longrightarrow> c = d"
proof -
  assume "same_json (Constraint_obj c) (Constraint_obj d)"
  note m = this [THEN same_json_member]
  have "get_member (js ''type'') (Constraint_obj e) = JStr (constraint_type e)" for e
    by (cases e) (simp_all add: get_member_def)
  with m [of "js ''type''"] have "constraint_type c = constraint_type d" by simp
  then show ?thesis
    using m [of "js ''domains''"] m [of "js ''currency''"] m [of "js ''amount_minor''"] m [of "js ''count''"]
      same_json_strings [of "\<lambda>x. x"]
    by (cases c; cases d) (simp_all add: get_member_def)
qed

lemma Constraints_inject:
  "same_json (JArr (map Constraint_obj cs)) (JArr (map Constraint_obj ds)) \<longleftrightarrow> cs = ds"
proof
  assume "same_json (JArr (map Constraint_obj cs)) (JArr (map Constraint_obj ds))"
  then have "list_all2 (\<lambda>c d. same_json (Constraint_obj c) (Constraint_obj d)) cs ds"
    by (simp add: same_json_arrays list.rel_map)
  then have "list_all2 (=) cs ds" by (rule list.rel_mono_strong) (rule Constraint_inject)
  then show "cs = ds" by (simp add: list.rel_eq)
qed simp

lemmas grant_defs = GrantPayload_obj_def Grant_obj_def GrantPayload_members_def opt_list_member_def
lemmas revocation_defs = RevocationPayload_obj_def Revocation_obj_def RevocationPayload_members_def

lemma GrantPayload_document [simp]: "document (GrantPayload_obj x)"
  by (cases "gr_constraints x") (simp_all add: document_obj document_array list_all_iff grant_defs)

lemma Grant_document [simp]: "document (Grant_obj x)"
  by (cases "gr_constraints x") (simp_all add: document_obj document_array list_all_iff grant_defs)

lemmas GrantPayload_plain = GrantPayload_document [unfolded document_def, THEN conjunct1]

lemma GrantPayload_inject [simp]: "same_json (GrantPayload_obj a) (GrantPayload_obj b) \<longleftrightarrow> a = b"
proof
  assume same: "same_json (GrantPayload_obj a) (GrantPayload_obj b)"
  have "get_member (js ''constraints'') (GrantPayload_obj g) =
      (case gr_constraints g of None \<Rightarrow> JUndefined | Some cs \<Rightarrow> JArr (map Constraint_obj cs))" for g
    by (simp add: grant_defs get_member_def split: option.split)
  then have cs: "gr_constraints a = gr_constraints b"
    using same_json_member [OF same, of "js ''constraints''"] Constraints_inject
    by (auto simp: same_json_def [of JUndefined] same_json_def [of _ JUndefined] split: option.splits)
  then have "map fst (GrantPayload_members a) = map fst (GrantPayload_members b)"
    by (simp add: grant_defs split: option.split)
  from same_json_values [OF same [unfolded GrantPayload_obj_def] GrantPayload_plain [of a, unfolded GrantPayload_obj_def] this]
  moreover have "opt_list_member k f None = []" "opt_list_member k f (Some ys) = [(k, JArr (map f ys))]"
    for k :: jstr and f :: "constraint \<Rightarrow> jsval" and ys by (simp_all add: opt_list_member_def)
  ultimately show "a = b" using cs same_json_strings [of "\<lambda>x. x"]
    by (intro grant_payload.equality; cases "gr_constraints b")
       (simp_all add: GrantPayload_members_def del: js_simps)
qed simp

lemma RevocationPayload_document [simp]: "document (RevocationPayload_obj x)"
  by (simp add: document_obj revocation_defs)

lemma Revocation_document [simp]: "document (Revocation_obj x)"
  by (simp add: document_obj revocation_defs)

lemmas RevocationPayload_plain = RevocationPayload_document [unfolded document_def, THEN conjunct1]

lemma RevocationPayload_inject [simp]: "same_json (RevocationPayload_obj a) (RevocationPayload_obj b) \<longleftrightarrow> a = b"
proof
  assume "same_json (RevocationPayload_obj a) (RevocationPayload_obj b)"
  from same_json_values [OF this [unfolded revocation_defs] RevocationPayload_plain [of a, unfolded revocation_defs]]
  show "a = b" by (intro revocation_payload.equality) (simp_all del: js_simps)
qed simp

end
