(* ===== verification/Platform.thy ===== *)
theory Platform
  imports Authorization
begin

section \<open>The platform\<close>

text \<open>
  What the code calls and the repository does not contain: SHA-256 and Ed25519 of the runtime
  (Node's \<open>crypto\<close>, \<open>@noble/curves\<close> in the browser) and one zod parser per schema.  They are
  fields of the record \<open>platform\<close>, an argument of every definition that calls them.

  What the code relies on is named here: \<open>zod_parser\<close> (a strict schema accepts a JSON document
  exactly when it is the object of a record that passes the checks, and returns that record)
  and \<open>ed25519_lengths\<close>, \<open>ed25519_correct\<close>, \<open>sha256_length\<close>.  Every theorem that needs one of
  them has it as a hypothesis.

  Theory \<open>Reference_Platform\<close> builds one concrete platform with executable decoders that satisfies
  all of them: the witnesses evaluate on it.
\<close>

text \<open>A zod issue: its path, the numbers in it as texts, and its message.\<close>

type_synonym issues = "(jstr list \<times> jstr) list"

record platform = runtime +
  sha256 :: "bytes \<Rightarrow> bytes"
  ed25519_public :: "bytes \<Rightarrow> bytes"
  ed25519_sign :: "bytes \<Rightarrow> bytes \<Rightarrow> bytes"
  ed25519_verify :: "bytes \<Rightarrow> bytes \<Rightarrow> bytes \<Rightarrow> bool option" \<comment> \<open>key, message, signature; \<open>None\<close> throws\<close>
  parse_Manifest :: "jsval \<Rightarrow> issues + manifest"
  parse_ManifestProofPayload :: "jsval \<Rightarrow> issues + manifest_proof_payload"
  parse_ManifestProof :: "jsval \<Rightarrow> issues + manifest_proof"
  parse_AssertionPayload :: "jsval \<Rightarrow> issues + assertion_payload"
  parse_Assertion :: "jsval \<Rightarrow> issues + assertion"
  parse_KeyDocument :: "jsval \<Rightarrow> issues + key_document"
  parse_KeysDocument :: "jsval \<Rightarrow> issues + keys_document"
  parse_GrantPayload :: "jsval \<Rightarrow> issues + grant_payload"
  parse_Grant :: "jsval \<Rightarrow> issues + grant"
  parse_RevocationPayload :: "jsval \<Rightarrow> issues + revocation_payload"
  parse_Revocation :: "jsval \<Rightarrow> issues + revocation"

definition zod_parser :: "(jsval \<Rightarrow> issues + 'x) \<Rightarrow> ('x \<Rightarrow> jsval) \<Rightarrow> ('x \<Rightarrow> bool) \<Rightarrow> bool" where
  "zod_parser parse obj ok \<longleftrightarrow>
     (\<forall>v x. json_doc v \<longrightarrow> (parse v = Inr x \<longleftrightarrow> same_json v (obj x) \<and> ok x))"

definition zod_schemas :: "platform \<Rightarrow> bool" where
  "zod_schemas E \<longleftrightarrow>
     zod_parser (parse_Manifest E) Manifest_obj (Manifest_ok E)
     \<and> zod_parser (parse_ManifestProofPayload E) ManifestProofPayload_obj (ManifestProofPayload_ok E)
     \<and> zod_parser (parse_ManifestProof E) ManifestProof_obj (ManifestProof_ok E)
     \<and> zod_parser (parse_AssertionPayload E) AssertionPayload_obj (AssertionPayload_ok E)
     \<and> zod_parser (parse_Assertion E) Assertion_obj (Assertion_ok E)
     \<and> zod_parser (parse_KeyDocument E) KeyDocument_obj (KeyDocument_ok E)
     \<and> zod_parser (parse_KeysDocument E) KeysDocument_obj (KeysDocument_ok E)
     \<and> zod_parser (parse_GrantPayload E) GrantPayload_obj (GrantPayload_ok E)
     \<and> zod_parser (parse_Grant E) Grant_obj (Grant_ok E)
     \<and> zod_parser (parse_RevocationPayload E) RevocationPayload_obj (RevocationPayload_ok E)
     \<and> zod_parser (parse_Revocation E) Revocation_obj (Revocation_ok E)"

definition sha256_length :: "platform \<Rightarrow> bool" where
  "sha256_length E \<longleftrightarrow> (\<forall>b. length (sha256 E b) = 32)"

definition ed25519_lengths :: "platform \<Rightarrow> bool" where
  "ed25519_lengths E \<longleftrightarrow> (\<forall>sk. length sk = 32 \<longrightarrow> length (ed25519_public E sk) = 32)
     \<and> (\<forall>sk m. length sk = 32 \<longrightarrow> length (ed25519_sign E sk m) = 64)"

definition ed25519_correct :: "platform \<Rightarrow> bool" where
  "ed25519_correct E \<longleftrightarrow>
     (\<forall>sk m. length sk = 32 \<longrightarrow> ed25519_verify E (ed25519_public E sk) m (ed25519_sign E sk m) = Some True)"

lemma zod_parserD: "zod_parser parse obj ok \<Longrightarrow> json_doc v \<Longrightarrow> parse v = Inr x \<longleftrightarrow> same_json v (obj x) \<and> ok x"
  by (simp add: zod_parser_def)

lemma document_json_doc: "document v \<Longrightarrow> json_doc v"
  by (simp add: document_def plain_json_doc)

lemma zod_parser_obj:
  "zod_parser parse obj ok \<Longrightarrow> document (obj x) \<Longrightarrow> ok x \<Longrightarrow> parse (obj x) = Inr x"
  by (simp add: zod_parserD document_json_doc)

lemma zod_parser_ok: "zod_parser parse obj ok \<Longrightarrow> json_doc v \<Longrightarrow> parse v = Inr x \<Longrightarrow> ok x \<and> same_json v (obj x)"
  by (simp add: zod_parserD)

text \<open>\<open>parseOrThrow\<close>.\<close>

definition parseOrThrow :: "(jsval \<Rightarrow> issues + 'x) \<Rightarrow> jsval \<Rightarrow> jstr \<Rightarrow> agenid_error + 'x" where
  "parseOrThrow parse input what =
     (case parse input of
        Inl issues \<Rightarrow> Inl (SchemaValidationError (what @ js '' failed schema validation'') issues)
      | Inr x \<Rightarrow> Inr x)"

lemma parseOrThrow_Inr [simp]: "parseOrThrow parse v what = Inr x \<longleftrightarrow> parse v = Inr x"
  by (simp add: parseOrThrow_def split: sum.split)

end
