(* ===== verification/Reference_Platform.thy ===== *)
theory Reference_Platform
  imports Platform
begin

section \<open>A concrete platform\<close>

text \<open>
  An instance of the parameters on which the witnesses of the properties evaluate: executable
  decoders for every schema (\<open>zod_schemas reference_platform\<close> is proved, so the hypotheses on
  zod can be met), and simple functions in place of SHA-256 and Ed25519 that satisfy the laws
  the theorems name (and are, of course, not secure).  Nothing here models code of the
  repository.
\<close>

subsection \<open>Reading members\<close>

definition as_str :: "jsval \<Rightarrow> jstr" where
  "as_str v = (case v of JStr s \<Rightarrow> s | _ \<Rightarrow> [])"

definition as_opt :: "jsval \<Rightarrow> jstr option" where
  "as_opt v = (case v of JStr s \<Rightarrow> Some s | _ \<Rightarrow> None)"

definition as_bool :: "jsval \<Rightarrow> bool" where
  "as_bool v = (case v of JBool b \<Rightarrow> b | _ \<Rightarrow> False)"

definition as_list :: "jsval \<Rightarrow> jsval list" where
  "as_list v = (case v of JArr vs \<Rightarrow> vs | _ \<Rightarrow> [])"

definition as_list_opt :: "jsval \<Rightarrow> jsval list option" where
  "as_list_opt v = (case v of JArr vs \<Rightarrow> Some vs | _ \<Rightarrow> None)"

definition as_enum :: "('e \<Rightarrow> jstr) \<Rightarrow> 'e list \<Rightarrow> jsval \<Rightarrow> 'e" where
  "as_enum f es v = (case find (\<lambda>e. f e = as_str v) es of Some e \<Rightarrow> e | None \<Rightarrow> hd es)"

lemma as_simps [simp]:
  "as_str (JStr s) = s" "as_opt (JStr s) = Some s" "as_opt JNull = None" "as_opt JUndefined = None"
  "as_bool (JBool b) = b" "as_list (JArr vs) = vs" "as_list_opt (JArr vs) = Some vs" "as_list_opt JUndefined = None"
  by (simp_all add: as_str_def as_opt_def as_bool_def as_list_def as_list_opt_def)

lemma as_opt_nullable [simp]: "as_opt (nullable x) = x"
  by (simp add: nullable_def split: option.split)

lemma as_cong:
  assumes "same_json v w"
  shows "as_str v = as_str w" "as_opt v = as_opt w" "as_bool v = as_bool w" "as_enum f es v = as_enum f es w"
proof -
  show str: "as_str v = as_str w" and "as_opt v = as_opt w" "as_bool v = as_bool w"
    using assms by (cases v; cases w; simp add: same_json_def as_str_def as_opt_def as_bool_def)+
  show "as_enum f es v = as_enum f es w" by (simp add: as_enum_def str)
qed

lemma same_json_map:
  assumes "list_all2 same_json vs ws" "\<And>v w. same_json v w \<Longrightarrow> f v = f w"
  shows "map f vs = map f ws"
proof -
  have "list_all2 (\<lambda>v w. f v = f w) vs ws" using assms by (rule list.rel_mono_strong)
  then show ?thesis by (simp add: list.rel_eq [symmetric] list.rel_map)
qed

lemma as_list_cong:
  assumes "same_json v w" "\<And>v w. same_json v w \<Longrightarrow> f v = f w"
  shows "map f (as_list v) = map f (as_list w)"
    "map_option (map f) (as_list_opt v) = map_option (map f) (as_list_opt w)"
proof -
  have "v = w \<or> (\<exists>vs ws. v = JArr vs \<and> w = JArr ws \<and> list_all2 same_json vs ws)
      \<or> as_list v = [] \<and> as_list w = [] \<and> as_list_opt v = None \<and> as_list_opt w = None"
    using assms(1) same_json_arrays by (cases v; cases w) (auto simp: same_json_def as_list_def as_list_opt_def)
  then show "map f (as_list v) = map f (as_list w)"
    "map_option (map f) (as_list_opt v) = map_option (map f) (as_list_opt w)"
    using same_json_map [OF _ assms(2)] by auto
qed

lemma as_enum_text:
  assumes "x \<in> set es" "\<And>a b. f a = f b \<Longrightarrow> a = b"
  shows "as_enum f es (JStr (f x)) = x"
proof -
  obtain e where e: "find (\<lambda>e. f e = f x) es = Some e"
    using assms(1) by (cases "find (\<lambda>e. f e = f x) es") (auto simp: find_None_iff)
  then have "f e = f x" by (auto simp: find_Some_iff)
  with e assms(2) show ?thesis by (simp add: as_enum_def)
qed

subsection \<open>Decoders\<close>

definition checked :: "(jsval \<Rightarrow> 'x) \<Rightarrow> ('x \<Rightarrow> jsval) \<Rightarrow> ('x \<Rightarrow> bool) \<Rightarrow> jsval \<Rightarrow> issues + 'x" where
  "checked decode obj ok v = (let x = decode v in if same_json v (obj x) \<and> ok x then Inr x else Inl [])"

definition decoder :: "(jsval \<Rightarrow> 'x) \<Rightarrow> ('x \<Rightarrow> jsval) \<Rightarrow> bool" where
  "decoder decode obj \<longleftrightarrow> (\<forall>v w. same_json v w \<longrightarrow> decode v = decode w) \<and> (\<forall>x. decode (obj x) = x)"

lemma checked_parser: "decoder decode obj \<Longrightarrow> zod_parser (checked decode obj ok) obj ok"
  unfolding decoder_def zod_parser_def checked_def Let_def
  by (metis (full_types) sum.distinct(1) sum.inject(2))

definition dec_digest :: "jsval \<Rightarrow> digest" where
  "dec_digest v = \<lparr>dg_alg = as_str (get_member (js ''alg'') v), dg_value = as_str (get_member (js ''value'') v)\<rparr>"

definition dec_identity :: "jsval \<Rightarrow> identity" where
  "dec_identity v = \<lparr>id_name = as_str (get_member (js ''name'') v), id_description = as_opt (get_member (js ''description'') v)\<rparr>"

definition dec_ownership :: "jsval \<Rightarrow> ownership" where
  "dec_ownership v = \<lparr>ow_operator = as_str (get_member (js ''operator'') v),
     ow_operator_domain = as_str (get_member (js ''operator_domain'') v), ow_contact = as_opt (get_member (js ''contact'') v)\<rparr>"

definition dec_purpose :: "jsval \<Rightarrow> purpose" where
  "dec_purpose v = \<lparr>pu_summary = as_str (get_member (js ''summary'') v),
     pu_channels = map (as_enum channel_text [Voice, Sms, Chat, Email, Api]) (as_list (get_member (js ''channels'') v))\<rparr>"

definition dec_disclosure :: "jsval \<Rightarrow> disclosure" where
  "dec_disclosure v = \<lparr>di_is_ai = as_bool (get_member (js ''is_ai'') v),
     di_discloses_to_user = as_bool (get_member (js ''discloses_to_user'') v),
     di_human_escalation = as_bool (get_member (js ''human_escalation'') v)\<rparr>"

definition dec_manifest :: "jsval \<Rightarrow> manifest" where
  "dec_manifest v = \<lparr>mf_manifest_version = as_str (get_member (js ''manifest_version'') v),
     mf_agent_id = as_str (get_member (js ''agent_id'') v), mf_identity = dec_identity (get_member (js ''identity'') v),
     mf_ownership = dec_ownership (get_member (js ''ownership'') v), mf_purpose = dec_purpose (get_member (js ''purpose'') v),
     mf_disclosure = dec_disclosure (get_member (js ''disclosure'') v)\<rparr>"

definition dec_proof_payload :: "jsval \<Rightarrow> manifest_proof_payload" where
  "dec_proof_payload v = \<lparr>mp_schema = as_str (get_member (js ''$schema'') v),
     mp_proof_type = as_str (get_member (js ''proof_type'') v), mp_agent_id = as_str (get_member (js ''agent_id'') v),
     mp_manifest_version = as_str (get_member (js ''manifest_version'') v),
     mp_manifest_digest = dec_digest (get_member (js ''manifest_digest'') v),
     mp_key_id = as_str (get_member (js ''key_id'') v), mp_created_at = as_str (get_member (js ''created_at'') v),
     mp_expires_at = as_str (get_member (js ''expires_at'') v)\<rparr>"

definition dec_proof :: "jsval \<Rightarrow> manifest_proof" where
  "dec_proof v = manifest_proof_payload.extend (dec_proof_payload v)
     (manifest_proof.fields (as_str (get_member (js ''signature'') v)))"

definition dec_claim :: "jsval \<Rightarrow> claim" where
  "dec_claim v = (let t = as_str (get_member (js ''type'') v) in
     if t = js ''domain_control'' then DomainControlClaim (as_str (get_member (js ''domain'') v))
     else if t = js ''organization_identity''
       then OrganizationIdentityClaim (as_str (get_member (js ''legal_name'') v)) (as_opt (get_member (js ''jurisdiction'') v))
     else if t = js ''deployment_conformance'' then DeploymentConformanceClaim (as_str (get_member (js ''deployment_id'') v))
     else RegistrationClaim)"

definition dec_evidence :: "jsval \<Rightarrow> evidence" where
  "dec_evidence v = \<lparr>ev_type = as_enum evidence_type_text [SchemaValidation, DnsTxtChallenge, HttpWellknownChallenge,
       BusinessRegistryMatch, DocumentReview, DeploymentSampleReview] (get_member (js ''type'') v),
     ev_reference = as_str (get_member (js ''reference'') v)\<rparr>"

definition dec_assertion_payload :: "jsval \<Rightarrow> assertion_payload" where
  "dec_assertion_payload v = \<lparr>va_schema = as_str (get_member (js ''$schema'') v),
     va_assertion_id = as_str (get_member (js ''assertion_id'') v), va_subject = as_str (get_member (js ''subject'') v),
     va_subject_type = as_enum subject_type_text [SubjectAgent, SubjectDeployment] (get_member (js ''subject_type'') v),
     va_level = as_enum level_text [L1_REGISTERED, L2_DOMAIN_VERIFIED, L3_ORGANIZATION_VERIFIED, L4_DEPLOYMENT_VERIFIED]
       (get_member (js ''level'') v),
     va_claim = dec_claim (get_member (js ''claim'') v), va_authority = as_str (get_member (js ''authority'') v),
     va_evidence = dec_evidence (get_member (js ''evidence'') v), va_verified_at = as_str (get_member (js ''verified_at'') v),
     va_expires_at = as_str (get_member (js ''expires_at'') v), va_scope = as_str (get_member (js ''scope'') v),
     va_manifest_digest = dec_digest (get_member (js ''manifest_digest'') v), va_key_id = as_str (get_member (js ''key_id'') v)\<rparr>"

definition dec_assertion :: "jsval \<Rightarrow> assertion" where
  "dec_assertion v = assertion_payload.extend (dec_assertion_payload v)
     (assertion.fields (as_str (get_member (js ''signature'') v)))"

definition dec_key :: "jsval \<Rightarrow> key_document" where
  "dec_key v = \<lparr>kd_key_id = as_str (get_member (js ''key_id'') v), kd_key_type = as_str (get_member (js ''key_type'') v),
     kd_public_key_b64u = as_str (get_member (js ''public_key_b64u'') v),
     kd_role = as_enum role_text [OperatorRole, AuthorityRole, PrincipalRole] (get_member (js ''role'') v),
     kd_controller = as_str (get_member (js ''controller'') v), kd_created_at = as_str (get_member (js ''created_at'') v),
     kd_status = as_enum key_status_text [KeyActive, KeyRetired, KeyRevoked] (get_member (js ''status'') v),
     kd_retired_at = as_opt (get_member (js ''retired_at'') v), kd_revoked_at = as_opt (get_member (js ''revoked_at'') v)\<rparr>"

definition dec_keys :: "jsval \<Rightarrow> keys_document" where
  "dec_keys v = \<lparr>ks_schema = as_str (get_member (js ''$schema'') v),
     ks_controller_domain = as_str (get_member (js ''controller_domain'') v),
     ks_keys = map dec_key (as_list (get_member (js ''keys'') v))\<rparr>"

definition dec_constraint :: "jsval \<Rightarrow> constraint" where
  "dec_constraint v = (let t = as_str (get_member (js ''type'') v) in
     if t = js ''counterparty_domain'' then CounterpartyDomain (map as_str (as_list (get_member (js ''domains'') v)))
     else if t = js ''max_value''
       then MaxValue (as_str (get_member (js ''currency'') v)) (as_str (get_member (js ''amount_minor'') v))
     else if t = js ''max_uses'' then MaxUses (as_str (get_member (js ''count'') v))
     else RequiresHumanConfirmation)"

definition dec_grant_payload :: "jsval \<Rightarrow> grant_payload" where
  "dec_grant_payload v = \<lparr>gr_schema = as_str (get_member (js ''$schema'') v),
     gr_grant_id = as_str (get_member (js ''grant_id'') v), gr_principal = as_str (get_member (js ''principal'') v),
     gr_subject = as_str (get_member (js ''subject'') v), gr_scopes = map as_str (as_list (get_member (js ''scopes'') v)),
     gr_constraints = map_option (map dec_constraint) (as_list_opt (get_member (js ''constraints'') v)),
     gr_not_before = as_str (get_member (js ''not_before'') v), gr_expires_at = as_str (get_member (js ''expires_at'') v),
     gr_key_id = as_str (get_member (js ''key_id'') v)\<rparr>"

definition dec_grant :: "jsval \<Rightarrow> grant" where
  "dec_grant v = grant_payload.extend (dec_grant_payload v) (grant.fields (as_str (get_member (js ''signature'') v)))"

definition dec_revocation_payload :: "jsval \<Rightarrow> revocation_payload" where
  "dec_revocation_payload v = \<lparr>rv_schema = as_str (get_member (js ''$schema'') v),
     rv_revocation_id = as_str (get_member (js ''revocation_id'') v), rv_revokes = as_str (get_member (js ''revokes'') v),
     rv_revokes_type = as_enum revokes_type_text [RevokesAgent, RevokesGrant, RevokesKey, RevokesAssertion]
       (get_member (js ''revokes_type'') v),
     rv_reason = as_enum reason_text [KeyCompromise, Superseded, NoLongerAuthorized, OperatorRequest, AgentRetired,
       IssuedInError, Unspecified] (get_member (js ''reason'') v),
     rv_revoked_at = as_str (get_member (js ''revoked_at'') v), rv_key_id = as_str (get_member (js ''key_id'') v)\<rparr>"

definition dec_revocation :: "jsval \<Rightarrow> revocation" where
  "dec_revocation v = revocation_payload.extend (dec_revocation_payload v)
     (revocation.fields (as_str (get_member (js ''signature'') v)))"

subsection \<open>The decoders invert the objects\<close>

lemma enum_decode [simp]:
  "as_enum channel_text [Voice, Sms, Chat, Email, Api] (JStr (channel_text c)) = c"
  "as_enum evidence_type_text [SchemaValidation, DnsTxtChallenge, HttpWellknownChallenge,
     BusinessRegistryMatch, DocumentReview, DeploymentSampleReview] (JStr (evidence_type_text e)) = e"
  "as_enum subject_type_text [SubjectAgent, SubjectDeployment] (JStr (subject_type_text st)) = st"
  "as_enum level_text [L1_REGISTERED, L2_DOMAIN_VERIFIED, L3_ORGANIZATION_VERIFIED, L4_DEPLOYMENT_VERIFIED]
     (JStr (level_text l)) = l"
  "as_enum role_text [OperatorRole, AuthorityRole, PrincipalRole] (JStr (role_text r)) = r"
  "as_enum key_status_text [KeyActive, KeyRetired, KeyRevoked] (JStr (key_status_text ks)) = ks"
  "as_enum revokes_type_text [RevokesAgent, RevokesGrant, RevokesKey, RevokesAssertion] (JStr (revokes_type_text rt)) = rt"
  "as_enum reason_text [KeyCompromise, Superseded, NoLongerAuthorized, OperatorRequest, AgentRetired,
     IssuedInError, Unspecified] (JStr (reason_text rr)) = rr"
         apply (rule as_enum_text, cases c; simp; fail, simp)
        apply (rule as_enum_text, cases e; simp; fail, simp)
       apply (rule as_enum_text, cases st; simp; fail, simp)
      apply (rule as_enum_text, cases l; simp; fail, simp)
     apply (rule as_enum_text, cases r; simp; fail, simp)
    apply (rule as_enum_text, cases ks; simp; fail, simp)
   apply (rule as_enum_text, cases rt; simp; fail, simp)
  apply (rule as_enum_text, cases rr; simp; fail, simp)
  done

lemma decoder_cong: "decoder decode obj \<Longrightarrow> same_json v w \<Longrightarrow> decode v = decode w"
  and decoder_obj: "decoder decode obj \<Longrightarrow> decode (obj x) = x"
  by (auto simp: decoder_def)

lemma map_decode [simp]: "map (\<lambda>c. as_enum channel_text [Voice, Sms, Chat, Email, Api] (JStr (channel_text c))) cs = cs"
  "map (\<lambda>s. as_str (JStr s)) ss = ss"
  by (simp_all add: map_idI)

lemma as_opt_option [simp]:
  "as_opt (case x of None \<Rightarrow> JUndefined | Some w \<Rightarrow> ((\<lambda>w. w) \<circ> JStr) w) = x"
  "as_opt (case map_option JStr x of None \<Rightarrow> JUndefined | Some w \<Rightarrow> w) = x"
  by (simp_all split: option.split)

lemma dec_digest_decoder: "decoder dec_digest Digest_obj"
  unfolding decoder_def
proof (intro conjI allI impI)
  fix v w assume "same_json v w"
  note m = this [THEN same_json_member]
  note c = m [THEN as_cong(1)] m [THEN as_cong(2)] m [THEN as_cong(3)] m [THEN as_cong(4)]
  show "dec_digest v = dec_digest w" unfolding dec_digest_def by (simp only: c)
next
  fix x show "dec_digest (Digest_obj x) = x"
    by (simp add: dec_digest_def Digest_obj_def get_member_def js_inject del: js_simps)
qed

lemma dec_identity_decoder: "decoder dec_identity Identity_obj"
  unfolding decoder_def
proof (intro conjI allI impI)
  fix v w assume "same_json v w"
  note m = this [THEN same_json_member]
  note c = m [THEN as_cong(1)] m [THEN as_cong(2)] m [THEN as_cong(3)] m [THEN as_cong(4)]
  show "dec_identity v = dec_identity w" unfolding dec_identity_def by (simp only: c)
next
  fix x show "dec_identity (Identity_obj x) = x"
    by (simp add: dec_identity_def Identity_obj_def get_member_def js_inject del: js_simps)
qed

lemma dec_ownership_decoder: "decoder dec_ownership Ownership_obj"
  unfolding decoder_def
proof (intro conjI allI impI)
  fix v w assume "same_json v w"
  note m = this [THEN same_json_member]
  note c = m [THEN as_cong(1)] m [THEN as_cong(2)] m [THEN as_cong(3)] m [THEN as_cong(4)]
  show "dec_ownership v = dec_ownership w" unfolding dec_ownership_def by (simp only: c)
next
  fix x show "dec_ownership (Ownership_obj x) = x"
    by (simp add: dec_ownership_def Ownership_obj_def get_member_def js_inject del: js_simps)
qed

lemma dec_purpose_decoder: "decoder dec_purpose Purpose_obj"
  unfolding decoder_def
proof (intro conjI allI impI)
  fix v w assume "same_json v w"
  note m = this [THEN same_json_member]
  note c = m [THEN as_cong(1)] m [THEN as_cong(2)] m [THEN as_cong(3)] m [THEN as_cong(4)] as_list_cong(1) [OF m as_cong(4)]
  show "dec_purpose v = dec_purpose w" unfolding dec_purpose_def by (simp only: c)
next
  fix x show "dec_purpose (Purpose_obj x) = x"
    by (simp add: dec_purpose_def Purpose_obj_def get_member_def js_inject comp_def del: js_simps)
qed

lemma dec_disclosure_decoder: "decoder dec_disclosure Disclosure_obj"
  unfolding decoder_def
proof (intro conjI allI impI)
  fix v w assume "same_json v w"
  note m = this [THEN same_json_member]
  note c = m [THEN as_cong(1)] m [THEN as_cong(2)] m [THEN as_cong(3)] m [THEN as_cong(4)]
  show "dec_disclosure v = dec_disclosure w" unfolding dec_disclosure_def by (simp only: c)
next
  fix x show "dec_disclosure (Disclosure_obj x) = x"
    by (simp add: dec_disclosure_def Disclosure_obj_def get_member_def js_inject del: js_simps)
qed

lemma dec_manifest_decoder: "decoder dec_manifest Manifest_obj"
  unfolding decoder_def
proof (intro conjI allI impI)
  fix v w assume "same_json v w"
  note m = this [THEN same_json_member]
  note c = m [THEN as_cong(1)] m [THEN as_cong(2)] m [THEN as_cong(3)] m [THEN as_cong(4)] decoder_cong [OF dec_identity_decoder m] decoder_cong [OF dec_ownership_decoder m] decoder_cong [OF dec_purpose_decoder m] decoder_cong [OF dec_disclosure_decoder m]
  show "dec_manifest v = dec_manifest w" unfolding dec_manifest_def by (simp only: c)
next
  fix x show "dec_manifest (Manifest_obj x) = x"
    by (simp add: dec_manifest_def Manifest_obj_def get_member_def js_inject decoder_obj [OF dec_identity_decoder] decoder_obj [OF dec_ownership_decoder] decoder_obj [OF dec_purpose_decoder] decoder_obj [OF dec_disclosure_decoder] del: js_simps)
qed

lemma dec_proof_payload_decoder: "decoder dec_proof_payload ManifestProofPayload_obj"
  unfolding decoder_def
proof (intro conjI allI impI)
  fix v w assume "same_json v w"
  note m = this [THEN same_json_member]
  note c = m [THEN as_cong(1)] m [THEN as_cong(2)] m [THEN as_cong(3)] m [THEN as_cong(4)] decoder_cong [OF dec_digest_decoder m]
  show "dec_proof_payload v = dec_proof_payload w" unfolding dec_proof_payload_def by (simp only: c)
next
  fix x show "dec_proof_payload (ManifestProofPayload_obj x) = x"
    by (simp add: dec_proof_payload_def proof_defs get_member_def js_inject decoder_obj [OF dec_digest_decoder] del: js_simps)
qed

lemma dec_claim_decoder: "decoder dec_claim Claim_obj"
  unfolding decoder_def
proof (intro conjI allI impI)
  fix v w assume "same_json v w"
  note m = this [THEN same_json_member]
  note c = m [THEN as_cong(1)] m [THEN as_cong(2)] m [THEN as_cong(3)] m [THEN as_cong(4)]
  show "dec_claim v = dec_claim w" unfolding dec_claim_def by (simp only: c)
next
  fix x show "dec_claim (Claim_obj x) = x"
    by (cases x) (simp_all add: dec_claim_def  get_member_def Let_def js_inject comp_def del: js_simps)
qed

lemma dec_evidence_decoder: "decoder dec_evidence Evidence_obj"
  unfolding decoder_def
proof (intro conjI allI impI)
  fix v w assume "same_json v w"
  note m = this [THEN same_json_member]
  note c = m [THEN as_cong(1)] m [THEN as_cong(2)] m [THEN as_cong(3)] m [THEN as_cong(4)]
  show "dec_evidence v = dec_evidence w" unfolding dec_evidence_def by (simp only: c)
next
  fix x show "dec_evidence (Evidence_obj x) = x"
    by (simp add: dec_evidence_def Evidence_obj_def get_member_def js_inject del: js_simps)
qed

lemma dec_assertion_payload_decoder: "decoder dec_assertion_payload AssertionPayload_obj"
  unfolding decoder_def
proof (intro conjI allI impI)
  fix v w assume "same_json v w"
  note m = this [THEN same_json_member]
  note c = m [THEN as_cong(1)] m [THEN as_cong(2)] m [THEN as_cong(3)] m [THEN as_cong(4)] decoder_cong [OF dec_claim_decoder m] decoder_cong [OF dec_evidence_decoder m] decoder_cong [OF dec_digest_decoder m]
  show "dec_assertion_payload v = dec_assertion_payload w" unfolding dec_assertion_payload_def by (simp only: c)
next
  fix x show "dec_assertion_payload (AssertionPayload_obj x) = x"
    by (simp add: dec_assertion_payload_def assertion_defs get_member_def js_inject decoder_obj [OF dec_claim_decoder] decoder_obj [OF dec_evidence_decoder] decoder_obj [OF dec_digest_decoder] del: js_simps)
qed

lemma dec_key_decoder: "decoder dec_key KeyDocument_obj"
  unfolding decoder_def
proof (intro conjI allI impI)
  fix v w assume "same_json v w"
  note m = this [THEN same_json_member]
  note c = m [THEN as_cong(1)] m [THEN as_cong(2)] m [THEN as_cong(3)] m [THEN as_cong(4)]
  show "dec_key v = dec_key w" unfolding dec_key_def by (simp only: c)
next
  fix x show "dec_key (KeyDocument_obj x) = x"
    by (simp add: dec_key_def KeyDocument_obj_def get_member_def js_inject del: js_simps)
qed

lemma dec_keys_decoder: "decoder dec_keys KeysDocument_obj"
  unfolding decoder_def
proof (intro conjI allI impI)
  fix v w assume "same_json v w"
  note m = this [THEN same_json_member]
  note c = m [THEN as_cong(1)] m [THEN as_cong(2)] m [THEN as_cong(3)] m [THEN as_cong(4)] as_list_cong(1) [OF m decoder_cong [OF dec_key_decoder]]
  show "dec_keys v = dec_keys w" unfolding dec_keys_def by (simp only: c)
next
  fix x show "dec_keys (KeysDocument_obj x) = x"
    by (simp add: dec_keys_def KeysDocument_obj_def get_member_def js_inject map_idI decoder_obj [OF dec_key_decoder] del: js_simps)
qed

lemma dec_constraint_decoder: "decoder dec_constraint Constraint_obj"
  unfolding decoder_def
proof (intro conjI allI impI)
  fix v w assume "same_json v w"
  note m = this [THEN same_json_member]
  note c = m [THEN as_cong(1)] m [THEN as_cong(2)] m [THEN as_cong(3)] m [THEN as_cong(4)] as_list_cong(1) [OF m as_cong(1)]
  show "dec_constraint v = dec_constraint w" unfolding dec_constraint_def by (simp only: c)
next
  fix x show "dec_constraint (Constraint_obj x) = x"
    by (cases x) (simp_all add: dec_constraint_def  get_member_def Let_def js_inject comp_def del: js_simps)
qed

lemma as_list_opt_option [simp]:
  "as_list_opt (case x of None \<Rightarrow> JUndefined | Some ys \<Rightarrow> JArr (map f ys)) = map_option (map f) x"
  by (simp split: option.split)

lemma dec_grant_payload_decoder: "decoder dec_grant_payload GrantPayload_obj"
  unfolding decoder_def
proof (intro conjI allI impI)
  fix v w assume "same_json v w"
  note m = this [THEN same_json_member]
  note c = m [THEN as_cong(1)] m [THEN as_cong(2)] m [THEN as_cong(3)] m [THEN as_cong(4)] as_list_cong(1) [OF m as_cong(1)] as_list_cong(2) [OF m decoder_cong [OF dec_constraint_decoder]]
  show "dec_grant_payload v = dec_grant_payload w" unfolding dec_grant_payload_def by (simp only: c)
next
  fix x show "dec_grant_payload (GrantPayload_obj x) = x"
    by (cases "gr_constraints x") (simp_all add: dec_grant_payload_def GrantPayload_obj_def GrantPayload_members_def opt_list_member_def get_member_def js_inject map_idI comp_def decoder_obj [OF dec_constraint_decoder] del: js_simps)
qed

lemma dec_revocation_payload_decoder: "decoder dec_revocation_payload RevocationPayload_obj"
  unfolding decoder_def
proof (intro conjI allI impI)
  fix v w assume "same_json v w"
  note m = this [THEN same_json_member]
  note c = m [THEN as_cong(1)] m [THEN as_cong(2)] m [THEN as_cong(3)] m [THEN as_cong(4)]
  show "dec_revocation_payload v = dec_revocation_payload w" unfolding dec_revocation_payload_def by (simp only: c)
next
  fix x show "dec_revocation_payload (RevocationPayload_obj x) = x"
    by (simp add: dec_revocation_payload_def revocation_defs get_member_def js_inject del: js_simps)
qed

lemma dec_proof_decoder: "decoder dec_proof ManifestProof_obj"
  unfolding decoder_def
proof (intro conjI allI impI)
  fix v w assume same: "same_json v w"
  have "as_str (get_member k v) = as_str (get_member k w)" for k
    by (rule as_cong(1) [OF same_json_member [OF same]])
  then show "dec_proof v = dec_proof w"
    unfolding dec_proof_def using decoder_cong [OF dec_proof_payload_decoder same] by simp
next
  fix x show "dec_proof (ManifestProof_obj x) = x"
    by (simp add: dec_proof_def dec_proof_payload_def proof_defs get_member_def js_inject manifest_proof_payload.defs manifest_proof.defs comp_def decoder_obj [OF dec_digest_decoder] del: js_simps)
qed

lemma dec_assertion_decoder: "decoder dec_assertion Assertion_obj"
  unfolding decoder_def
proof (intro conjI allI impI)
  fix v w assume same: "same_json v w"
  have "as_str (get_member k v) = as_str (get_member k w)" for k
    by (rule as_cong(1) [OF same_json_member [OF same]])
  then show "dec_assertion v = dec_assertion w"
    unfolding dec_assertion_def using decoder_cong [OF dec_assertion_payload_decoder same] by simp
next
  fix x show "dec_assertion (Assertion_obj x) = x"
    by (simp add: dec_assertion_def dec_assertion_payload_def assertion_defs get_member_def js_inject assertion_payload.defs assertion.defs comp_def decoder_obj [OF dec_digest_decoder] decoder_obj [OF dec_claim_decoder] decoder_obj [OF dec_evidence_decoder] del: js_simps)
qed

lemma dec_grant_decoder: "decoder dec_grant Grant_obj"
  unfolding decoder_def
proof (intro conjI allI impI)
  fix v w assume same: "same_json v w"
  have "as_str (get_member k v) = as_str (get_member k w)" for k
    by (rule as_cong(1) [OF same_json_member [OF same]])
  then show "dec_grant v = dec_grant w"
    unfolding dec_grant_def using decoder_cong [OF dec_grant_payload_decoder same] by simp
next
  fix x show "dec_grant (Grant_obj x) = x"
    by (cases "gr_constraints x") (simp_all add: dec_grant_def dec_grant_payload_def Grant_obj_def GrantPayload_members_def opt_list_member_def get_member_def js_inject grant_payload.defs grant.defs comp_def decoder_obj [OF dec_constraint_decoder] map_idI del: js_simps)
qed

lemma dec_revocation_decoder: "decoder dec_revocation Revocation_obj"
  unfolding decoder_def
proof (intro conjI allI impI)
  fix v w assume same: "same_json v w"
  have "as_str (get_member k v) = as_str (get_member k w)" for k
    by (rule as_cong(1) [OF same_json_member [OF same]])
  then show "dec_revocation v = dec_revocation w"
    unfolding dec_revocation_def using decoder_cong [OF dec_revocation_payload_decoder same] by simp
next
  fix x show "dec_revocation (Revocation_obj x) = x"
    by (simp add: dec_revocation_def dec_revocation_payload_def revocation_defs get_member_def js_inject revocation_payload.defs revocation.defs comp_def del: js_simps)
qed

subsection \<open>The instance\<close>

text \<open>
  The hash keeps the first 32 bytes; a public key is its seed, and a signature is the key
  followed by the first 32 bytes of the message.
\<close>

definition pad_bytes :: "nat \<Rightarrow> bytes \<Rightarrow> bytes" where
  "pad_bytes n b = take n (b @ replicate n 0)"

definition reference_runtime :: runtime where
  "reference_runtime = \<lparr>date_fallback = \<lambda>s. None, email_ok = \<lambda>s. jc CHR ''@'' \<in> set s\<rparr>"

definition reference_platform :: platform where
  "reference_platform = \<lparr>
     date_fallback = \<lambda>s. None,
     email_ok = \<lambda>s. jc CHR ''@'' \<in> set s,
     sha256 = pad_bytes 32,
     ed25519_public = pad_bytes 32,
     ed25519_sign = \<lambda>sk m. pad_bytes 32 sk @ pad_bytes 32 m,
     ed25519_verify = \<lambda>pk m sig. Some (sig = pad_bytes 32 pk @ pad_bytes 32 m),
     parse_Manifest = checked dec_manifest Manifest_obj (Manifest_ok reference_runtime),
     parse_ManifestProofPayload = checked dec_proof_payload ManifestProofPayload_obj (ManifestProofPayload_ok reference_runtime),
     parse_ManifestProof = checked dec_proof ManifestProof_obj (ManifestProof_ok reference_runtime),
     parse_AssertionPayload = checked dec_assertion_payload AssertionPayload_obj (AssertionPayload_ok reference_runtime),
     parse_Assertion = checked dec_assertion Assertion_obj (Assertion_ok reference_runtime),
     parse_KeyDocument = checked dec_key KeyDocument_obj (KeyDocument_ok reference_runtime),
     parse_KeysDocument = checked dec_keys KeysDocument_obj (KeysDocument_ok reference_runtime),
     parse_GrantPayload = checked dec_grant_payload GrantPayload_obj (GrantPayload_ok reference_runtime),
     parse_Grant = checked dec_grant Grant_obj (Grant_ok reference_runtime),
     parse_RevocationPayload = checked dec_revocation_payload RevocationPayload_obj (RevocationPayload_ok reference_runtime),
     parse_Revocation = checked dec_revocation Revocation_obj (Revocation_ok reference_runtime)\<rparr>"

lemma reference_runtime_eq:
  "Date_parse reference_platform = Date_parse reference_runtime" "email_ok reference_platform = email_ok reference_runtime"
  by (simp_all add: reference_platform_def reference_runtime_def Date_parse_def fun_eq_iff)

lemma length_pad_bytes [simp]: "length (pad_bytes n b) = n"
  by (simp add: pad_bytes_def)

lemma pad_bytes_id [simp]: "length b = n \<Longrightarrow> pad_bytes n b = b"
  by (simp add: pad_bytes_def)

lemma reference_checks:
  "Manifest_ok reference_platform = Manifest_ok reference_runtime"
  "ManifestProofPayload_ok reference_platform = (ManifestProofPayload_ok reference_runtime :: manifest_proof_payload \<Rightarrow> bool)"
  "ManifestProof_ok reference_platform = ManifestProof_ok reference_runtime"
  "AssertionPayload_ok reference_platform = (AssertionPayload_ok reference_runtime :: assertion_payload \<Rightarrow> bool)"
  "Assertion_ok reference_platform = Assertion_ok reference_runtime"
  "KeyDocument_ok reference_platform = KeyDocument_ok reference_runtime"
  "KeysDocument_ok reference_platform = KeysDocument_ok reference_runtime"
  "GrantPayload_ok reference_platform = (GrantPayload_ok reference_runtime :: grant_payload \<Rightarrow> bool)"
  "Grant_ok reference_platform = Grant_ok reference_runtime"
  "RevocationPayload_ok reference_platform = (RevocationPayload_ok reference_runtime :: revocation_payload \<Rightarrow> bool)"
  "Revocation_ok reference_platform = Revocation_ok reference_runtime"
proof -
  have rfc: "Rfc3339Utc reference_platform = Rfc3339Utc reference_runtime"
    by (simp add: fun_eq_iff Rfc3339Utc_def reference_runtime_eq)
  have key: "KeyDocument_ok reference_platform = KeyDocument_ok reference_runtime"
    by (simp add: fun_eq_iff KeyDocument_ok_def rfc)
  note defs = reference_runtime_eq rfc key Manifest_ok_def ManifestProofPayload_ok_def ManifestProof_ok_def
    AssertionPayload_ok_def assertionRules_def Assertion_ok_def KeysDocument_ok_def GrantPayload_ok_def grantRules_def
    Grant_ok_def RevocationPayload_ok_def Revocation_ok_def
  show "Manifest_ok reference_platform = Manifest_ok reference_runtime"
  "ManifestProofPayload_ok reference_platform = (ManifestProofPayload_ok reference_runtime :: manifest_proof_payload \<Rightarrow> bool)"
  "ManifestProof_ok reference_platform = ManifestProof_ok reference_runtime"
  "AssertionPayload_ok reference_platform = (AssertionPayload_ok reference_runtime :: assertion_payload \<Rightarrow> bool)"
  "Assertion_ok reference_platform = Assertion_ok reference_runtime"
  "KeyDocument_ok reference_platform = KeyDocument_ok reference_runtime"
  "KeysDocument_ok reference_platform = KeysDocument_ok reference_runtime"
  "GrantPayload_ok reference_platform = (GrantPayload_ok reference_runtime :: grant_payload \<Rightarrow> bool)"
  "Grant_ok reference_platform = Grant_ok reference_runtime"
  "RevocationPayload_ok reference_platform = (RevocationPayload_ok reference_runtime :: revocation_payload \<Rightarrow> bool)"
  "Revocation_ok reference_platform = Revocation_ok reference_runtime"
    by (simp_all only: fun_eq_iff defs) simp_all
qed

lemma reference_schemas: "zod_schemas reference_platform"
  unfolding zod_schemas_def reference_checks
  by (simp add: reference_platform_def checked_parser dec_manifest_decoder dec_proof_payload_decoder dec_proof_decoder
      dec_assertion_payload_decoder dec_assertion_decoder dec_key_decoder dec_keys_decoder dec_grant_payload_decoder
      dec_grant_decoder dec_revocation_payload_decoder dec_revocation_decoder)

lemma reference_crypto: "sha256_length reference_platform" "ed25519_lengths reference_platform" "ed25519_correct reference_platform"
  by (simp_all add: sha256_length_def ed25519_lengths_def ed25519_correct_def reference_platform_def)

end
