(* ===== verification/Samples.thy ===== *)
theory Samples
  imports Reference_Platform
begin

section \<open>Sample documents\<close>

text \<open>
  One agent, one authority and one principal with a key each, a manifest, a grant and a
  revocation, all valid on \<open>reference_platform\<close>.  The witnesses of the theorems on signing,
  verification and the registry evaluate on them.
\<close>

definition sample_ulid :: jstr where
  "sample_ulid = js ''01ARZ3NDEKTSV4RRFFQ69G5FAV''"

definition sample_agent :: jstr where
  "sample_agent = js ''agenid:'' @ sample_ulid"

definition sample_principal :: jstr where
  "sample_principal = js ''agenid:principal:'' @ sample_ulid"

definition sample_authority :: jstr where
  "sample_authority = js ''agenid:authority:root''"

definition sample_key_id :: jstr where
  "sample_key_id = js ''agenid:key:'' @ sample_ulid"

definition sample_assertion_id :: jstr where
  "sample_assertion_id = js ''assertion:'' @ sample_ulid"

definition sample_grant_id :: jstr where
  "sample_grant_id = js ''grant:'' @ sample_ulid"

definition sample_revocation_id :: jstr where
  "sample_revocation_id = js ''revocation:'' @ sample_ulid"

definition sample_instant :: "nat \<Rightarrow> jstr" where
  "sample_instant d = js ''2026-01-0'' @ dec d @ js ''T00:00:00Z''"

definition sample_secret :: bytes where
  "sample_secret = replicate 32 7"

definition sample_manifest :: manifest where
  "sample_manifest = \<lparr>mf_manifest_version = js ''1.0'', mf_agent_id = sample_agent,
     mf_identity = \<lparr>id_name = js ''Ava'', id_description = None\<rparr>,
     mf_ownership = \<lparr>ow_operator = js ''Acme'', ow_operator_domain = js ''acme.com'', ow_contact = None\<rparr>,
     mf_purpose = \<lparr>pu_summary = js ''Calls'', pu_channels = [Voice]\<rparr>,
     mf_disclosure = \<lparr>di_is_ai = True, di_discloses_to_user = True, di_human_escalation = True\<rparr>\<rparr>"

definition sample_controller :: "key_role \<Rightarrow> jstr" where
  "sample_controller r = (case r of OperatorRole \<Rightarrow> sample_agent | AuthorityRole \<Rightarrow> sample_authority
     | PrincipalRole \<Rightarrow> sample_principal)"

definition sample_key :: "key_role \<Rightarrow> key_document" where
  "sample_key r = \<lparr>kd_key_id = sample_key_id, kd_key_type = js ''Ed25519'',
     kd_public_key_b64u = b64uEncode sample_secret, kd_role = r, kd_controller = sample_controller r,
     kd_created_at = sample_instant 2, kd_status = KeyActive, kd_retired_at = None, kd_revoked_at = None\<rparr>"

definition sample_claim :: "assertion_payload" where
  "sample_claim = \<lparr>va_schema = ASSERTION_SCHEMA_ID, va_assertion_id = sample_assertion_id,
     va_subject = sample_agent, va_subject_type = SubjectAgent, va_level = L1_REGISTERED, va_claim = RegistrationClaim,
     va_authority = sample_authority, va_evidence = \<lparr>ev_type = SchemaValidation, ev_reference = js ''r''\<rparr>,
     va_verified_at = sample_instant 2, va_expires_at = sample_instant 6, va_scope = js ''registry'',
     va_manifest_digest = \<lparr>dg_alg = js ''sha-256'', dg_value = replicate 64 (jc CHR ''0'')\<rparr>,
     va_key_id = sample_key_id\<rparr>"

definition sample_grant :: grant_payload where
  "sample_grant = \<lparr>gr_schema = GRANT_SCHEMA_ID, gr_grant_id = sample_grant_id,
     gr_principal = sample_principal, gr_subject = sample_agent, gr_scopes = [js ''data:read''], gr_constraints = None,
     gr_not_before = sample_instant 2, gr_expires_at = sample_instant 6, gr_key_id = sample_key_id\<rparr>"

definition sample_revocation :: revocation_payload where
  "sample_revocation = \<lparr>rv_schema = REVOCATION_SCHEMA_ID, rv_revocation_id = sample_revocation_id,
     rv_revokes = sample_grant_id, rv_revokes_type = RevokesGrant, rv_reason = NoLongerAuthorized,
     rv_revoked_at = sample_instant 4, rv_key_id = sample_key_id\<rparr>"

subsection \<open>They are valid\<close>

lemma sample_ids [simp]:
  "isValidUlid sample_ulid" "isValidAgentId sample_agent" "isValidPrincipalId sample_principal"
  "isValidAuthorityId sample_authority" "KeyId sample_key_id" "isValidAssertionId sample_assertion_id"
  "isValidGrantId sample_grant_id" "isValidRevocationId sample_revocation_id"
  "sample_agent \<noteq> []" "sample_principal \<noteq> []" "sample_authority \<noteq> []" "sample_grant_id \<noteq> []"
  by code_simp+

lemma sample_dates [simp]:
  "iso_time (sample_instant 2) = Some 1767312000000"
  "iso_time (sample_instant 3) = Some 1767398400000" "iso_time (sample_instant 4) = Some 1767484800000"
  "iso_time (sample_instant 5) = Some 1767571200000" "iso_time (sample_instant 6) = Some 1767657600000"
  "iso_time (sample_instant 7) = Some 1767744000000"
  "rfc3339_shape (sample_instant 2)" "rfc3339_shape (sample_instant 4)"
  "rfc3339_shape (sample_instant 6)"
  by code_simp+

lemma sample_times [simp]:
  "Date_parse reference_runtime s = iso_time s" "Date_parse reference_platform s = iso_time s"
  by (simp_all add: Date_parse_def date_parse_def reference_runtime_def reference_platform_def split: option.split)

lemma sample_key_ok [simp]: "KeyDocument_ok reference_runtime (sample_key r)"
proof -
  have "Ed25519PublicKeyB64u (b64uEncode sample_secret)"
    by (simp add: Ed25519PublicKeyB64u_def b64uEncode_chars length_b64uEncode sample_secret_def)
  moreover have "sample_controller r \<noteq> []" "controller_ok r (sample_controller r)"
    by (cases r; simp add: sample_controller_def controller_ok_def)+
  ultimately show ?thesis by (simp add: KeyDocument_ok_def sample_key_def Rfc3339Utc_def opt_ok_def)
qed

lemma sample_manifest_ok [simp]: "Manifest_ok reference_runtime sample_manifest"
proof -
  have "FreeText 200 (js ''Ava'')" "FreeText 300 (js ''Acme'')" "FreeText 500 (js ''Calls'')" "isValidHostname (js ''acme.com'')"
    by code_simp+
  then show ?thesis by (simp add: Manifest_ok_def sample_manifest_def opt_ok_def del: js_simps)
qed

lemma sample_claim_ok [simp]: "AssertionPayload_ok reference_runtime sample_claim"
proof -
  have "Digest_ok \<lparr>dg_alg = js ''sha-256'', dg_value = replicate 64 (jc CHR ''0'')\<rparr>" by code_simp
  then show ?thesis
    by (simp add: AssertionPayload_ok_def assertionRules_def sample_claim_def Rfc3339Utc_def Evidence_ok_def)
qed

lemma sample_grant_ok [simp]: "GrantPayload_ok reference_runtime sample_grant"
proof -
  have "isValidScope (js ''data:read'')" by code_simp
  then show ?thesis
    by (simp add: GrantPayload_ok_def grantRules_def sample_grant_def Rfc3339Utc_def opt_ok_def del: js_simps)
qed

lemma sample_revocation_ok [simp]: "RevocationPayload_ok reference_runtime sample_revocation"
  by (simp add: RevocationPayload_ok_def revocationRules_def sample_revocation_def Rfc3339Utc_def)

end
