(* ===== verification/Crypto.thy ===== *)
theory Crypto
  imports Samples
begin

section \<open>Signing and verification\<close>

text \<open>
  \<open>packages/core/src/crypto.ts\<close>: Ed25519 over canonical bytes, ManifestProofs and
  VerificationAssertions.  The verify functions return a value for every outcome; the sum
  around \<open>verify_result\<close> is for exceptions of the functions they call, and the theorems show that
  none is ever thrown.  The order of the checks is the order of the code.
\<close>

subsection \<open>Key material\<close>

record ed25519_key_pair =
  kp_private :: bytes
  kp_public :: bytes

record signing_key =
  sk_private :: bytes
  sk_document :: jsval

definition bad_seed :: agenid_error where
  "bad_seed = AgenIdError (js ''invalid_seed'') (js ''Ed25519 seed must be exactly 32 bytes'')"

definition keyPairFromSeed :: "platform \<Rightarrow> bytes \<Rightarrow> agenid_error + ed25519_key_pair" where
  "keyPairFromSeed E seed =
     (if length seed \<noteq> 32 then Inl bad_seed else Inr \<lparr>kp_private = seed, kp_public = ed25519_public E seed\<rparr>)"

definition keyPairFromLabel :: "platform \<Rightarrow> jstr \<Rightarrow> agenid_error + ed25519_key_pair" where
  "keyPairFromLabel E label = keyPairFromSeed E (sha256 E (utf8_encode label))"

text \<open>The 32 random bytes are an argument.\<close>

definition generateKeyPair :: "platform \<Rightarrow> bytes \<Rightarrow> agenid_error + ed25519_key_pair" where
  "generateKeyPair E rnd = keyPairFromSeed E rnd"

definition makeKeyDocument ::
  "platform \<Rightarrow> jstr \<Rightarrow> bytes \<Rightarrow> key_role \<Rightarrow> jstr \<Rightarrow> jstr \<Rightarrow> agenid_error + key_document" where
  "makeKeyDocument E keyId publicKey role controller createdAt =
     parseOrThrow (parse_KeyDocument E)
       (JObj [(js ''key_id'', JStr keyId), (js ''key_type'', JStr (js ''Ed25519'')),
          (js ''public_key_b64u'', JStr (b64uEncode publicKey)), (js ''role'', JStr (role_text role)),
          (js ''controller'', JStr controller), (js ''created_at'', JStr createdAt),
          (js ''status'', JStr (js ''active'')), (js ''retired_at'', JNull), (js ''revoked_at'', JNull)])
       (js ''KeyDocument'')"

subsection \<open>Bytes\<close>

definition signBytes :: "platform \<Rightarrow> bytes \<Rightarrow> bytes \<Rightarrow> agenid_error + bytes" where
  "signBytes E privateKey signingInput =
     (if length privateKey \<noteq> 32 then Inl bad_seed else Inr (ed25519_sign E privateKey signingInput))"

definition verifyBytes :: "platform \<Rightarrow> bytes \<Rightarrow> bytes \<Rightarrow> bytes \<Rightarrow> bool" where
  "verifyBytes E publicKey signingInput signature =
     (if length signature \<noteq> 64 then False
      else if length publicKey \<noteq> 32 then False \<comment> \<open>\<open>publicKeyFromRaw\<close> throws, caught\<close>
      else case ed25519_verify E publicKey signingInput signature of None \<Rightarrow> False | Some ok \<Rightarrow> ok)"

definition strip_signature :: "jsval \<Rightarrow> jsval" where
  "strip_signature v = (case v of JObj ms \<Rightarrow> JObj (filter (\<lambda>m. fst m \<noteq> js ''signature'') ms) | _ \<Rightarrow> v)"

definition signingInputOf :: "jsval \<Rightarrow> agenid_error + bytes" where
  "signingInputOf signedOrPayload = canonicalizeToBytes (strip_signature signedOrPayload)"

definition manifestDigestHex :: "platform \<Rightarrow> manifest \<Rightarrow> agenid_error + jstr" where
  "manifestDigestHex E m = rbind (canonicalizeToBytes (Manifest_obj m)) (\<lambda>b. Inr (hex (sha256 E b)))"

subsection \<open>Results\<close>

datatype verify_failure_code =
    SchemaInvalid | ManifestDigestMismatch | AssertionNotApplicable | KeyIdMismatch | KeyRoleMismatch
  | KeyControllerMismatch | KeyNotActiveAtSigningTime | NotYetValid | Expired | SignatureInvalid

fun failure_text :: "verify_failure_code \<Rightarrow> jstr" where
  "failure_text SchemaInvalid = js ''schema_invalid''"
| "failure_text ManifestDigestMismatch = js ''manifest_digest_mismatch''"
| "failure_text AssertionNotApplicable = js ''assertion_not_applicable_to_current_manifest''"
| "failure_text KeyIdMismatch = js ''key_id_mismatch''"
| "failure_text KeyRoleMismatch = js ''key_role_mismatch''"
| "failure_text KeyControllerMismatch = js ''key_controller_mismatch''"
| "failure_text KeyNotActiveAtSigningTime = js ''key_not_active_at_signing_time''"
| "failure_text NotYetValid = js ''not_yet_valid''"
| "failure_text Expired = js ''expired''"
| "failure_text SignatureInvalid = js ''signature_invalid''"

datatype claim_state = DECLARED | VERIFIED

datatype verify_result =
    VerifyOk claim_state "(jstr \<times> jsval) list"
  | VerifyFail verify_failure_code jstr

definition issues_message :: "jstr \<Rightarrow> issues \<Rightarrow> jstr" where
  "issues_message what issues = what @ js '': '' @ join_with (js ''; '') (map snd issues)"

definition keyActiveAt :: "('r runtime_scheme) \<Rightarrow> key_document \<Rightarrow> jstr \<Rightarrow> bool" where
  "keyActiveAt E doc atIso =
     (let t0 = Date_parse E atIso in
      if (case kd_revoked_at doc of None \<Rightarrow> False | Some r \<Rightarrow> date_le (Date_parse E r) t0) then False
      else if (case kd_retired_at doc of None \<Rightarrow> False | Some r \<Rightarrow> date_le (Date_parse E r) t0) then False
      else if kd_status doc = KeyRevoked \<and> kd_revoked_at doc = None then False
      else True)"

subsection \<open>ManifestProof\<close>

definition signManifestProof ::
  "platform \<Rightarrow> jsval \<Rightarrow> signing_key \<Rightarrow> jstr \<Rightarrow> jstr \<Rightarrow> agenid_error + manifest_proof" where
  "signManifestProof E manifestInput operatorKey createdAt expiresAt =
     rbind (parseOrThrow (parse_Manifest E) manifestInput (js ''Manifest'')) (\<lambda>manifest.
     rbind (parseOrThrow (parse_KeyDocument E) (sk_document operatorKey) (js ''operator KeyDocument'')) (\<lambda>doc.
     if kd_role doc \<noteq> OperatorRole
     then Inl (KeyRoleError (js ''ManifestProof must be signed by an operator key (got role='' @ role_text (kd_role doc) @ js '')''))
     else if kd_controller doc \<noteq> mf_agent_id manifest
     then Inl (KeyRoleError (js ''operator key controller '' @ kd_controller doc @ js '' does not control '' @ mf_agent_id manifest))
     else
       rbind (manifestDigestHex E manifest) (\<lambda>digest.
       rbind (parseOrThrow (parse_ManifestProofPayload E)
         (JObj [(js ''$schema'', JStr MANIFEST_PROOF_SCHEMA_ID),
            (js ''proof_type'', JStr (js ''manifest_self_declaration'')),
            (js ''agent_id'', JStr (mf_agent_id manifest)),
            (js ''manifest_version'', JStr (mf_manifest_version manifest)),
            (js ''manifest_digest'', JObj [(js ''alg'', JStr (js ''sha-256'')), (js ''value'', JStr digest)]),
            (js ''key_id'', JStr (kd_key_id doc)),
            (js ''created_at'', JStr createdAt),
            (js ''expires_at'', JStr expiresAt)]) (js ''ManifestProofPayload'')) (\<lambda>payload.
       rbind (signingInputOf (ManifestProofPayload_obj payload)) (\<lambda>input.
       rbind (signBytes E (sk_private operatorKey) input) (\<lambda>sig.
       parseOrThrow (parse_ManifestProof E)
         (JObj (ManifestProofPayload_members payload @ [(js ''signature'', JStr (b64uEncode sig))])) (js ''ManifestProof'')))))))"

definition verifyManifestProof ::
  "platform \<Rightarrow> jsval \<Rightarrow> jsval \<Rightarrow> jsval \<Rightarrow> jstr \<Rightarrow> agenid_error + verify_result" where
  "verifyManifestProof E proofInput manifestInput operatorKeyDoc nowIso =
     (case parse_ManifestProof E proofInput of
        Inl e \<Rightarrow> Inr (VerifyFail SchemaInvalid (issues_message (js ''ManifestProof'') e))
      | Inr proof \<Rightarrow>
     (case parse_Manifest E manifestInput of
        Inl e \<Rightarrow> Inr (VerifyFail SchemaInvalid (issues_message (js ''Manifest'') e))
      | Inr manifest \<Rightarrow>
     (case parse_KeyDocument E operatorKeyDoc of
        Inl e \<Rightarrow> Inr (VerifyFail SchemaInvalid (issues_message (js ''KeyDocument'') e))
      | Inr key \<Rightarrow>
     rbind (manifestDigestHex E manifest) (\<lambda>digest.
       if digest \<noteq> dg_value (mp_manifest_digest proof) \<or> mf_agent_id manifest \<noteq> mp_agent_id proof
          \<or> mf_manifest_version manifest \<noteq> mp_manifest_version proof
       then Inr (VerifyFail ManifestDigestMismatch (js ''manifest does not match the digest/agent/version bound by this proof''))
       else if kd_key_id key \<noteq> mp_key_id proof
       then Inr (VerifyFail KeyIdMismatch (js ''proof.key_id '' @ mp_key_id proof @ js '' != supplied key '' @ kd_key_id key))
       else if kd_role key \<noteq> OperatorRole
       then Inr (VerifyFail KeyRoleMismatch (js ''ManifestProof requires role=operator, key has role='' @ role_text (kd_role key)))
       else if kd_controller key \<noteq> mp_agent_id proof
       then Inr (VerifyFail KeyControllerMismatch (js ''key controller '' @ kd_controller key @ js '' != '' @ mp_agent_id proof))
       else if \<not> keyActiveAt E key (mp_created_at proof)
       then Inr (VerifyFail KeyNotActiveAtSigningTime (js ''key was retired/revoked before proof.created_at''))
       else if date_less (Date_parse E nowIso) (Date_parse E (mp_created_at proof))
       then Inr (VerifyFail NotYetValid (js ''now < created_at''))
       else if date_less (Date_parse E (mp_expires_at proof)) (Date_parse E nowIso)
       then Inr (VerifyFail Expired (js ''now > expires_at''))
       else
         rbind (signingInputOf (ManifestProof_obj proof)) (\<lambda>input.
           if \<not> verifyBytes E (b64uDecode (kd_public_key_b64u key)) input (b64uDecode (mp_signature proof))
           then Inr (VerifyFail SignatureInvalid (js ''Ed25519 signature does not verify over canonical payload''))
           else Inr (VerifyOk DECLARED [(js ''agent_id'', JStr (mp_agent_id proof)), (js ''manifest_digest'', JStr digest)]))))))"

subsection \<open>VerificationAssertion\<close>

definition signVerificationAssertion :: "platform \<Rightarrow> jsval \<Rightarrow> signing_key \<Rightarrow> agenid_error + assertion" where
  "signVerificationAssertion E payloadInput authorityKey =
     rbind (parseOrThrow (parse_AssertionPayload E) payloadInput (js ''VerificationAssertionPayload'')) (\<lambda>payload.
     rbind (parseOrThrow (parse_KeyDocument E) (sk_document authorityKey) (js ''authority KeyDocument'')) (\<lambda>doc.
     if kd_role doc \<noteq> AuthorityRole
     then Inl (KeyRoleError (js ''VerificationAssertion must be signed by an authority key (got role='' @ role_text (kd_role doc) @ js '')''))
     else if kd_controller doc \<noteq> va_authority payload
     then Inl (KeyRoleError (js ''authority key controller '' @ kd_controller doc @ js '' != assertion.authority '' @ va_authority payload))
     else if kd_key_id doc \<noteq> va_key_id payload
     then Inl (KeyRoleError (js ''assertion.key_id '' @ va_key_id payload @ js '' does not name the signing key '' @ kd_key_id doc))
     else
       rbind (signingInputOf (AssertionPayload_obj payload)) (\<lambda>input.
       rbind (signBytes E (sk_private authorityKey) input) (\<lambda>sig.
       parseOrThrow (parse_Assertion E)
         (JObj (AssertionPayload_members payload @ [(js ''signature'', JStr (b64uEncode sig))])) (js ''VerificationAssertion'')))))"

text \<open>\<open>currentManifest\<close> is \<open>None\<close> when the option is absent.\<close>

definition verifyVerificationAssertion ::
  "platform \<Rightarrow> jsval \<Rightarrow> jsval \<Rightarrow> jstr \<Rightarrow> jsval option \<Rightarrow> agenid_error + verify_result" where
  "verifyVerificationAssertion E assertionInput authorityKeyDoc nowIso currentManifest =
     (case parse_Assertion E assertionInput of
        Inl e \<Rightarrow> Inr (VerifyFail SchemaInvalid (issues_message (js ''VerificationAssertion'') e))
      | Inr assertion \<Rightarrow>
     (case parse_KeyDocument E authorityKeyDoc of
        Inl e \<Rightarrow> Inr (VerifyFail SchemaInvalid (issues_message (js ''KeyDocument'') e))
      | Inr key \<Rightarrow>
       if kd_key_id key \<noteq> va_key_id assertion
       then Inr (VerifyFail KeyIdMismatch (js ''assertion.key_id '' @ va_key_id assertion @ js '' != supplied key '' @ kd_key_id key))
       else if kd_role key \<noteq> AuthorityRole
       then Inr (VerifyFail KeyRoleMismatch (js ''VerificationAssertion requires role=authority, key has role='' @ role_text (kd_role key)))
       else if kd_controller key \<noteq> va_authority assertion
       then Inr (VerifyFail KeyControllerMismatch (js ''key controller '' @ kd_controller key @ js '' != '' @ va_authority assertion))
       else if \<not> keyActiveAt E key (va_verified_at assertion)
       then Inr (VerifyFail KeyNotActiveAtSigningTime (js ''key was retired/revoked before verified_at''))
       else if date_less (Date_parse E nowIso) (Date_parse E (va_verified_at assertion))
       then Inr (VerifyFail NotYetValid (js ''now < verified_at''))
       else if date_less (Date_parse E (va_expires_at assertion)) (Date_parse E nowIso)
       then Inr (VerifyFail Expired (js ''now > expires_at''))
       else
         rbind (signingInputOf (Assertion_obj assertion)) (\<lambda>input.
         if \<not> verifyBytes E (b64uDecode (kd_public_key_b64u key)) input (b64uDecode (va_signature assertion))
         then Inr (VerifyFail SignatureInvalid (js ''Ed25519 signature does not verify over canonical payload''))
         else
           (let success = VerifyOk VERIFIED [(js ''subject'', JStr (va_subject assertion)),
                  (js ''level'', JStr (level_text (va_level assertion))), (js ''claim'', Claim_obj (va_claim assertion)),
                  (js ''scope'', JStr (va_scope assertion)), (js ''authority'', JStr (va_authority assertion))]
            in case currentManifest of
                 None \<Rightarrow> Inr success
               | Some mInput \<Rightarrow>
                   (case parse_Manifest E mInput of
                      Inl e \<Rightarrow> Inr (VerifyFail SchemaInvalid (issues_message (js ''currentManifest'') e))
                    | Inr m \<Rightarrow>
                        rbind (manifestDigestHex E m) (\<lambda>digest.
                          if digest \<noteq> dg_value (va_manifest_digest assertion)
                          then Inr (VerifyFail AssertionNotApplicable (js ''assertion is bound to a different manifest version''))
                          else Inr success))))))"

subsection \<open>Canonical bytes of documents\<close>

definition doc_bytes :: "jsval \<Rightarrow> bytes" where
  "doc_bytes v = utf8_encode (json_text (jnorm v))"

lemma canonical_document: "document v \<Longrightarrow> canonicalizeToBytes v = Inr (doc_bytes v)"
  by (simp add: document_def canonical_bytes_total doc_bytes_def)

lemma doc_bytes_inject: "document v \<Longrightarrow> document w \<Longrightarrow> doc_bytes v = doc_bytes w \<longleftrightarrow> same_json v w"
  by (metis canonical_bytes_inject canonical_bytes_same canonical_document document_def sum.inject(2))

definition manifest_digest :: "platform \<Rightarrow> manifest \<Rightarrow> jstr" where
  "manifest_digest E m = hex (sha256 E (doc_bytes (Manifest_obj m)))"

lemma manifestDigestHex_total [simp]: "manifestDigestHex E m = Inr (manifest_digest E m)"
  by (simp add: manifestDigestHex_def manifest_digest_def canonical_document)

lemma strip_signed:
  "js ''signature'' \<notin> fst ` set ms \<Longrightarrow> strip_signature (JObj (ms @ [(js ''signature'', v)])) = JObj ms"
  "js ''signature'' \<notin> fst ` set ms \<Longrightarrow> strip_signature (JObj ms) = JObj ms"
  by (auto simp: strip_signature_def filter_id_conv image_iff simp del: js_simps intro: rev_bexI)

lemma payload_members_unsigned:
  "js ''signature'' \<notin> fst ` set (ManifestProofPayload_members p)"
  "js ''signature'' \<notin> fst ` set (AssertionPayload_members a)"
  "js ''signature'' \<notin> fst ` set (GrantPayload_members g)"
  "js ''signature'' \<notin> fst ` set (RevocationPayload_members r)"
  by (simp_all add: ManifestProofPayload_members_def AssertionPayload_members_def GrantPayload_members_def
      RevocationPayload_members_def opt_list_member_def image_iff js_inject del: js_simps split: option.split)

lemma members_truncate:
  "ManifestProofPayload_members (manifest_proof_payload.truncate p) = ManifestProofPayload_members p"
  "AssertionPayload_members (assertion_payload.truncate a) = AssertionPayload_members a"
  "GrantPayload_members (grant_payload.truncate g) = GrantPayload_members g"
  "RevocationPayload_members (revocation_payload.truncate r) = RevocationPayload_members r"
  by (simp_all add: ManifestProofPayload_members_def AssertionPayload_members_def GrantPayload_members_def
      RevocationPayload_members_def manifest_proof_payload.defs assertion_payload.defs grant_payload.defs revocation_payload.defs)

lemma members_document:
  "document (JObj (ManifestProofPayload_members p))" "document (JObj (AssertionPayload_members a))"
  "document (JObj (GrantPayload_members g))" "document (JObj (RevocationPayload_members r))"
  using ManifestProofPayload_document [of "manifest_proof_payload.truncate p"]
    AssertionPayload_document [of "assertion_payload.truncate a"] GrantPayload_document [of "grant_payload.truncate g"]
    RevocationPayload_document [of "revocation_payload.truncate r"]
  by (simp_all add: ManifestProofPayload_obj_def AssertionPayload_obj_def GrantPayload_obj_def RevocationPayload_obj_def
      members_truncate)

lemma signing_inputs [simp]:
  "signingInputOf (ManifestProof_obj p) = Inr (doc_bytes (ManifestProofPayload_obj (manifest_proof_payload.truncate p)))"
  "signingInputOf (ManifestProofPayload_obj p') = Inr (doc_bytes (ManifestProofPayload_obj p'))"
  "signingInputOf (Assertion_obj a) = Inr (doc_bytes (AssertionPayload_obj (assertion_payload.truncate a)))"
  "signingInputOf (AssertionPayload_obj a') = Inr (doc_bytes (AssertionPayload_obj a'))"
  "signingInputOf (Grant_obj g) = Inr (doc_bytes (GrantPayload_obj (grant_payload.truncate g)))"
  "signingInputOf (GrantPayload_obj g') = Inr (doc_bytes (GrantPayload_obj g'))"
  "signingInputOf (Revocation_obj r) = Inr (doc_bytes (RevocationPayload_obj (revocation_payload.truncate r)))"
  "signingInputOf (RevocationPayload_obj r') = Inr (doc_bytes (RevocationPayload_obj r'))"
  by (simp_all add: members_document signingInputOf_def ManifestProof_obj_def ManifestProofPayload_obj_def Assertion_obj_def
      AssertionPayload_obj_def Grant_obj_def GrantPayload_obj_def Revocation_obj_def RevocationPayload_obj_def
      strip_signed payload_members_unsigned members_truncate canonical_document del: js_simps)

subsection \<open>What acceptance means\<close>

definition signed_by :: "platform \<Rightarrow> key_document \<Rightarrow> jsval \<Rightarrow> jstr \<Rightarrow> bool" where
  "signed_by E k payload sig = verifyBytes E (b64uDecode (kd_public_key_b64u k)) (doc_bytes payload) (b64uDecode sig)"

definition in_window :: "platform \<Rightarrow> jstr \<Rightarrow> jstr \<Rightarrow> jstr \<Rightarrow> bool" where
  "in_window E lo hi now \<longleftrightarrow>
     \<not> date_less (Date_parse E now) (Date_parse E lo) \<and> \<not> date_less (Date_parse E hi) (Date_parse E now)"

definition names_key :: "key_document \<Rightarrow> jstr \<Rightarrow> key_role \<Rightarrow> jstr \<Rightarrow> bool" where
  "names_key k kid role controller \<longleftrightarrow> kd_key_id k = kid \<and> kd_role k = role \<and> kd_controller k = controller"

definition accepted :: "agenid_error + verify_result \<Rightarrow> bool" where
  "accepted r \<longleftrightarrow> (\<exists>c ds. r = Inr (VerifyOk c ds))"

lemma accepted_simps [simp]:
  "accepted (Inr (VerifyOk c ds))" "\<not> accepted (Inr (VerifyFail f msg))" "\<not> accepted (Inl e)"
  by (simp_all add: accepted_def)

definition proof_holds :: "platform \<Rightarrow> manifest_proof \<Rightarrow> manifest \<Rightarrow> key_document \<Rightarrow> jstr \<Rightarrow> bool" where
  "proof_holds E p m k now \<longleftrightarrow>
     dg_value (mp_manifest_digest p) = manifest_digest E m \<and> mp_agent_id p = mf_agent_id m
     \<and> mp_manifest_version p = mf_manifest_version m
     \<and> names_key k (mp_key_id p) OperatorRole (mf_agent_id m) \<and> keyActiveAt E k (mp_created_at p)
     \<and> in_window E (mp_created_at p) (mp_expires_at p) now
     \<and> signed_by E k (ManifestProofPayload_obj (manifest_proof_payload.truncate p)) (mp_signature p)"

definition applies_to :: "platform \<Rightarrow> assertion \<Rightarrow> jsval option \<Rightarrow> bool" where
  "applies_to E a cm = (case cm of None \<Rightarrow> True
     | Some mi \<Rightarrow> (case parse_Manifest E mi of Inl e \<Rightarrow> False
         | Inr m \<Rightarrow> manifest_digest E m = dg_value (va_manifest_digest a)))"

definition assertion_holds :: "platform \<Rightarrow> assertion \<Rightarrow> key_document \<Rightarrow> jstr \<Rightarrow> jsval option \<Rightarrow> bool" where
  "assertion_holds E a k now cm \<longleftrightarrow>
     names_key k (va_key_id a) AuthorityRole (va_authority a) \<and> keyActiveAt E k (va_verified_at a)
     \<and> in_window E (va_verified_at a) (va_expires_at a) now
     \<and> signed_by E k (AssertionPayload_obj (assertion_payload.truncate a)) (va_signature a) \<and> applies_to E a cm"

lemmas holds_defs = proof_holds_def assertion_holds_def names_key_def in_window_def signed_by_def applies_to_def

lemma verifyManifestProof_parsed:
  assumes "parse_ManifestProof E pf = Inr p" "parse_Manifest E mi = Inr m" "parse_KeyDocument E ki = Inr k"
  shows "accepted (verifyManifestProof E pf mi ki now) \<longleftrightarrow> proof_holds E p m k now"
  using assms by (auto simp: verifyManifestProof_def holds_defs)

lemma verifyManifestProof_accepted:
  "accepted (verifyManifestProof E pf mi ki now) \<longleftrightarrow>
     (\<exists>p m k. parse_ManifestProof E pf = Inr p \<and> parse_Manifest E mi = Inr m \<and> parse_KeyDocument E ki = Inr k
        \<and> proof_holds E p m k now)"
proof (cases "\<exists>p m k. parse_ManifestProof E pf = Inr p \<and> parse_Manifest E mi = Inr m \<and> parse_KeyDocument E ki = Inr k")
  case True
  then show ?thesis using verifyManifestProof_parsed by fastforce
next
  case False
  then have "\<not> accepted (verifyManifestProof E pf mi ki now)"
    by (auto simp: verifyManifestProof_def split: sum.split)
  with False show ?thesis by blast
qed

lemma verifyVerificationAssertion_parsed:
  assumes "parse_Assertion E ai = Inr a" "parse_KeyDocument E ki = Inr k"
  shows "accepted (verifyVerificationAssertion E ai ki now cm) \<longleftrightarrow> assertion_holds E a k now cm"
  using assms by (auto simp: verifyVerificationAssertion_def holds_defs split: option.split sum.split)

lemma verifyVerificationAssertion_accepted:
  "accepted (verifyVerificationAssertion E ai ki now cm) \<longleftrightarrow>
     (\<exists>a k. parse_Assertion E ai = Inr a \<and> parse_KeyDocument E ki = Inr k \<and> assertion_holds E a k now cm)"
proof (cases "\<exists>a k. parse_Assertion E ai = Inr a \<and> parse_KeyDocument E ki = Inr k")
  case True
  then show ?thesis using verifyVerificationAssertion_parsed by fastforce
next
  case False
  then have "\<not> accepted (verifyVerificationAssertion E ai ki now cm)"
    by (auto simp: verifyVerificationAssertion_def split: sum.split)
  with False show ?thesis by blast
qed

text \<open>A document built by the code is parsed back to its record.\<close>

lemma parse_own:
  assumes "zod_schemas E"
  shows "Manifest_ok E m \<Longrightarrow> parse_Manifest E (Manifest_obj m) = Inr m"
    "ManifestProofPayload_ok E pp \<Longrightarrow> parse_ManifestProofPayload E (ManifestProofPayload_obj pp) = Inr pp"
    "ManifestProof_ok E p \<Longrightarrow> parse_ManifestProof E (ManifestProof_obj p) = Inr p"
    "AssertionPayload_ok E ap \<Longrightarrow> parse_AssertionPayload E (AssertionPayload_obj ap) = Inr ap"
    "Assertion_ok E a \<Longrightarrow> parse_Assertion E (Assertion_obj a) = Inr a"
    "KeyDocument_ok E k \<Longrightarrow> parse_KeyDocument E (KeyDocument_obj k) = Inr k"
    "GrantPayload_ok E gp \<Longrightarrow> parse_GrantPayload E (GrantPayload_obj gp) = Inr gp"
    "Grant_ok E g \<Longrightarrow> parse_Grant E (Grant_obj g) = Inr g"
    "RevocationPayload_ok E rp \<Longrightarrow> parse_RevocationPayload E (RevocationPayload_obj rp) = Inr rp"
    "Revocation_ok E r \<Longrightarrow> parse_Revocation E (Revocation_obj r) = Inr r"
  using assms unfolding zod_schemas_def by (auto intro!: zod_parser_obj)

subsection \<open>Signing\<close>

text \<open>
  \<open>controls E sk k\<close>: the key document publishes the public key of the secret.  Signing a payload
  gives bytes that verify under such a key.
\<close>

definition controls :: "platform \<Rightarrow> bytes \<Rightarrow> key_document \<Rightarrow> bool" where
  "controls E sk k \<longleftrightarrow> length sk = 32 \<and> kd_public_key_b64u k = b64uEncode (ed25519_public E sk)"

lemma signature_text_ok:
  "ed25519_lengths E \<Longrightarrow> length sk = 32 \<Longrightarrow> Ed25519SignatureB64u (b64uEncode (ed25519_sign E sk m))"
  by (simp add: Ed25519SignatureB64u_def b64uEncode_chars length_b64uEncode ed25519_lengths_def)

lemma signed_by_own:
  "ed25519_lengths E \<Longrightarrow> ed25519_correct E \<Longrightarrow> controls E sk k
   \<Longrightarrow> signed_by E k v (b64uEncode (ed25519_sign E sk (doc_bytes v)))"
  by (simp add: signed_by_def controls_def verifyBytes_def ed25519_lengths_def ed25519_correct_def)

lemma hex_chars: "list_all (\<lambda>c. is_digit c \<or> in_range CHR ''a'' CHR ''f'' c) (hex bs)"
proof -
  have "list_all (\<lambda>n. is_digit (hex_digit n) \<or> in_range CHR ''a'' CHR ''f'' (hex_digit n)) [0..<16]" by code_simp
  then have "n < 16 \<Longrightarrow> is_digit (hex_digit n) \<or> in_range CHR ''a'' CHR ''f'' (hex_digit n)" for n
    by (simp only: list_all_iff set_upt Ball_def atLeastLessThan_iff le0 simp_thms)
  then show ?thesis using unat_byte_less by (induction bs) (auto simp: hex_def div_less_iff_less_mult)
qed

lemma digest_ok: "sha256_length E \<Longrightarrow> Digest_ok \<lparr>dg_alg = js ''sha-256'', dg_value = manifest_digest E m\<rparr>"
  by (simp add: Digest_ok_def Sha256Hex_def manifest_digest_def sha256_length_def hex_chars del: js_simps)

definition proof_payload :: "platform \<Rightarrow> manifest \<Rightarrow> key_document \<Rightarrow> jstr \<Rightarrow> jstr \<Rightarrow> manifest_proof_payload" where
  "proof_payload E m k createdAt expiresAt = \<lparr>mp_schema = MANIFEST_PROOF_SCHEMA_ID,
     mp_proof_type = js ''manifest_self_declaration'', mp_agent_id = mf_agent_id m,
     mp_manifest_version = mf_manifest_version m,
     mp_manifest_digest = \<lparr>dg_alg = js ''sha-256'', dg_value = manifest_digest E m\<rparr>,
     mp_key_id = kd_key_id k, mp_created_at = createdAt, mp_expires_at = expiresAt\<rparr>"

definition signed_proof :: "platform \<Rightarrow> bytes \<Rightarrow> manifest_proof_payload \<Rightarrow> manifest_proof" where
  "signed_proof E sk p = manifest_proof_payload.extend p
     (manifest_proof.fields (b64uEncode (ed25519_sign E sk (doc_bytes (ManifestProofPayload_obj p)))))"

lemma signManifestProof_total:
  assumes laws: "zod_schemas E" "sha256_length E" "ed25519_lengths E"
    and ok: "Manifest_ok E m" "KeyDocument_ok E k" "controls E sk k" "kd_role k = OperatorRole"
      "kd_controller k = mf_agent_id m"
    and times: "Rfc3339Utc E c" "Rfc3339Utc E x" "date_less (Date_parse E c) (Date_parse E x)"
  shows "signManifestProof E (Manifest_obj m) \<lparr>sk_private = sk, sk_document = KeyDocument_obj k\<rparr> c x
    = Inr (signed_proof E sk (proof_payload E m k c x))"
    and "ManifestProof_ok E (signed_proof E sk (proof_payload E m k c x))"
proof -
  let ?p = "proof_payload E m k c x" and ?s = "signed_proof E sk (proof_payload E m k c x)"
  have pm: "parse_Manifest E (Manifest_obj m) = Inr m" and pk: "parse_KeyDocument E (KeyDocument_obj k) = Inr k"
    using ok(1,2) by (simp_all add: parse_own [OF laws(1)])
  have "ManifestProofPayload_ok E ?p"
    using ok times digest_ok [OF laws(2), of m]
    by (simp add: ManifestProofPayload_ok_def proof_payload_def Manifest_ok_def KeyDocument_ok_def del: js_simps)
  then have pp: "parse_ManifestProofPayload E (ManifestProofPayload_obj ?p) = Inr ?p" and sok: "ManifestProof_ok E ?s"
    using laws(3) ok(3) signature_text_ok [of E sk]
    by (simp_all add: parse_own [OF laws(1)] ManifestProof_ok_def ManifestProofPayload_ok_def signed_proof_def
        manifest_proof_payload.defs manifest_proof.defs controls_def)
  then have ps: "parse_ManifestProof E (ManifestProof_obj ?s) = Inr ?s"
    by (simp add: parse_own [OF laws(1)])
  have obj: "ManifestProof_obj ?s = JObj (ManifestProofPayload_members ?p
      @ [(js ''signature'', JStr (b64uEncode (ed25519_sign E sk (doc_bytes (ManifestProofPayload_obj ?p)))))])"
    by (simp add: ManifestProof_obj_def ManifestProofPayload_members_def signed_proof_def
        manifest_proof_payload.defs manifest_proof.defs del: js_simps)
  have payload: "JObj [(js ''$schema'', JStr MANIFEST_PROOF_SCHEMA_ID),
      (js ''proof_type'', JStr (js ''manifest_self_declaration'')), (js ''agent_id'', JStr (mf_agent_id m)),
      (js ''manifest_version'', JStr (mf_manifest_version m)),
      (js ''manifest_digest'', JObj [(js ''alg'', JStr (js ''sha-256'')), (js ''value'', JStr (manifest_digest E m))]),
      (js ''key_id'', JStr (kd_key_id k)), (js ''created_at'', JStr c), (js ''expires_at'', JStr x)]
      = ManifestProofPayload_obj ?p"
    by (simp add: proof_payload_def ManifestProofPayload_obj_def ManifestProofPayload_members_def Digest_obj_def del: js_simps)
  show "signManifestProof E (Manifest_obj m) \<lparr>sk_private = sk, sk_document = KeyDocument_obj k\<rparr> c x = Inr ?s"
    using pm pk pp ps ok obj
    by (simp add: signManifestProof_def parseOrThrow_def payload signBytes_def controls_def del: js_simps)
  show "ManifestProof_ok E ?s" by (rule sok)
qed

lemma signed_proof_holds:
  assumes "ed25519_lengths E" "ed25519_correct E" "controls E sk k" "kd_role k = OperatorRole"
    "kd_controller k = mf_agent_id m" "keyActiveAt E k c" "in_window E c x now"
  shows "proof_holds E (signed_proof E sk (proof_payload E m k c x)) m k now"
proof -
  let ?p = "proof_payload E m k c x"
  have "manifest_proof_payload.truncate (signed_proof E sk ?p) = ?p"
    by (simp add: signed_proof_def manifest_proof_payload.defs manifest_proof.defs)
  moreover have "signed_by E k (ManifestProofPayload_obj ?p) (mp_signature (signed_proof E sk ?p))"
    using signed_by_own [OF assms(1-3)]
    by (simp add: signed_proof_def manifest_proof_payload.defs manifest_proof.defs)
  ultimately show ?thesis using assms(4-)
    by (simp add: proof_holds_def names_key_def, simp add: signed_proof_def proof_payload_def
        manifest_proof_payload.defs manifest_proof.defs)
qed

definition signed_assertion :: "platform \<Rightarrow> bytes \<Rightarrow> assertion_payload \<Rightarrow> assertion" where
  "signed_assertion E sk a = assertion_payload.extend a
     (assertion.fields (b64uEncode (ed25519_sign E sk (doc_bytes (AssertionPayload_obj a)))))"

lemma signVerificationAssertion_total:
  assumes laws: "zod_schemas E" "ed25519_lengths E"
    and ok: "AssertionPayload_ok E a" "KeyDocument_ok E k" "controls E sk k"
      "names_key k (va_key_id a) AuthorityRole (va_authority a)"
  shows "signVerificationAssertion E (AssertionPayload_obj a) \<lparr>sk_private = sk, sk_document = KeyDocument_obj k\<rparr>
    = Inr (signed_assertion E sk a)"
    and "Assertion_ok E (signed_assertion E sk a)"
proof -
  let ?s = "signed_assertion E sk a"
  show sok: "Assertion_ok E ?s"
    using ok(1,3) signature_text_ok [OF laws(2), of sk]
    by (simp add: Assertion_ok_def AssertionPayload_ok_def assertionRules_def signed_assertion_def assertion_payload.defs
        assertion.defs controls_def)
  have obj: "Assertion_obj ?s = JObj (AssertionPayload_members a
      @ [(js ''signature'', JStr (b64uEncode (ed25519_sign E sk (doc_bytes (AssertionPayload_obj a)))))])"
    by (simp add: Assertion_obj_def AssertionPayload_members_def signed_assertion_def
        assertion_payload.defs assertion.defs del: js_simps)
  show "signVerificationAssertion E (AssertionPayload_obj a) \<lparr>sk_private = sk, sk_document = KeyDocument_obj k\<rparr> = Inr ?s"
    using ok parse_own(4) [OF laws(1) ok(1)] parse_own(5) [OF laws(1) sok] parse_own(6) [OF laws(1) ok(2)] obj
    by (simp add: signVerificationAssertion_def parseOrThrow_def signBytes_def controls_def names_key_def del: js_simps)
qed

lemma signed_assertion_holds:
  assumes "ed25519_lengths E" "ed25519_correct E" "controls E sk k"
    "names_key k (va_key_id a) AuthorityRole (va_authority a)" "keyActiveAt E k (va_verified_at a)"
    "in_window E (va_verified_at a) (va_expires_at a) now" "applies_to E (signed_assertion E sk a) cm"
  shows "assertion_holds E (signed_assertion E sk a) k now cm"
proof -
  have "assertion_payload.truncate (signed_assertion E sk a) = a"
    by (simp add: signed_assertion_def assertion_payload.defs assertion.defs)
  moreover have "signed_by E k (AssertionPayload_obj a) (va_signature (signed_assertion E sk a))"
    using signed_by_own [OF assms(1-3)]
    by (simp add: signed_assertion_def assertion_payload.defs assertion.defs)
  moreover have "va_key_id (signed_assertion E sk a) = va_key_id a" "va_authority (signed_assertion E sk a) = va_authority a"
    "va_verified_at (signed_assertion E sk a) = va_verified_at a" "va_expires_at (signed_assertion E sk a) = va_expires_at a"
    by (simp_all add: signed_assertion_def assertion_payload.defs assertion.defs)
  ultimately show ?thesis using assms(4-) by (simp add: assertion_holds_def)
qed

text \<open>Every path returns, a success in the state given.\<close>

definition returns :: "claim_state \<Rightarrow> agenid_error + verify_result \<Rightarrow> bool" where
  "returns c x \<longleftrightarrow> (\<exists>r. x = Inr r \<and> (case r of VerifyOk c' ds \<Rightarrow> c' = c | VerifyFail f msg \<Rightarrow> True))"

lemma returns_simps [simp]:
  "returns c (Inr (VerifyFail f msg))" "returns c (Inr (VerifyOk c' ds)) \<longleftrightarrow> c' = c" "\<not> returns c (Inl e)"
  "returns c (case x of Inl e \<Rightarrow> h e | Inr y \<Rightarrow> g y) \<longleftrightarrow>
     (case x of Inl e \<Rightarrow> returns c (h e) | Inr y \<Rightarrow> returns c (g y))"
  "returns c (if b then z else w) \<longleftrightarrow> (if b then returns c z else returns c w)"
  by (auto simp: returns_def split: sum.split)

lemma returns_manifest_proof: "returns DECLARED (verifyManifestProof E pf mi ki now)"
  by (simp add: verifyManifestProof_def del: js_simps split: sum.split)

lemma returns_assertion: "returns VERIFIED (verifyVerificationAssertion E ai ki now cm)"
  by (simp add: verifyVerificationAssertion_def Let_def del: js_simps split: sum.split option.split)

lemma sample_controls [simp]: "controls reference_platform sample_secret (sample_key r)"
  by (simp add: controls_def sample_key_def sample_secret_def reference_platform_def)

lemma sample_windows [simp]:
  "in_window reference_platform (sample_instant 2) (sample_instant 6) (sample_instant 3)"
  "\<not> in_window reference_platform (sample_instant 2) (sample_instant 6) (sample_instant 7)"
  "keyActiveAt reference_platform (sample_key r) t0"
  by (simp_all add: in_window_def keyActiveAt_def sample_key_def)

lemma sample_key_fields [simp]:
  "kd_role (sample_key r) = r" "kd_controller (sample_key r) = sample_controller r" "kd_key_id (sample_key r) = sample_key_id"
  "sample_controller OperatorRole = sample_agent" "sample_controller AuthorityRole = sample_authority"
  "sample_controller PrincipalRole = sample_principal" "mf_agent_id sample_manifest = sample_agent"
  by (simp_all add: sample_key_def sample_controller_def sample_manifest_def)

definition sample_proof :: manifest_proof where
  "sample_proof = signed_proof reference_platform sample_secret
     (proof_payload reference_platform sample_manifest (sample_key OperatorRole) (sample_instant 2) (sample_instant 6))"

lemma sample_proof_verdict [simp]:
  "accepted (verifyManifestProof reference_platform (ManifestProof_obj sample_proof) (Manifest_obj sample_manifest)
      (KeyDocument_obj (sample_key OperatorRole)) now)
    \<longleftrightarrow> in_window reference_platform (sample_instant 2) (sample_instant 6) now"
proof -
  have ok: "Manifest_ok reference_platform sample_manifest" "KeyDocument_ok reference_platform (sample_key OperatorRole)"
    "Rfc3339Utc reference_platform (sample_instant 2)" "Rfc3339Utc reference_platform (sample_instant 6)"
    "date_less (Date_parse reference_platform (sample_instant 2)) (Date_parse reference_platform (sample_instant 6))"
    by (simp_all add: reference_checks Rfc3339Utc_def)
  have "ManifestProof_ok reference_platform sample_proof" unfolding sample_proof_def
    by (rule signManifestProof_total(2) [OF reference_schemas reference_crypto(1,2) ok(1,2) sample_controls _ _ ok(3-5)]) simp_all
  then have parsed: "accepted (verifyManifestProof reference_platform (ManifestProof_obj sample_proof) (Manifest_obj sample_manifest)
      (KeyDocument_obj (sample_key OperatorRole)) now)
    \<longleftrightarrow> proof_holds reference_platform sample_proof sample_manifest (sample_key OperatorRole) now" for now
    using ok by (intro verifyManifestProof_parsed parse_own [OF reference_schemas])
  have "mp_created_at sample_proof = sample_instant 2" "mp_expires_at sample_proof = sample_instant 6"
    by (simp_all add: sample_proof_def signed_proof_def proof_payload_def manifest_proof_payload.defs manifest_proof.defs)
  with parsed show ?thesis
    using signed_proof_holds [OF reference_crypto(2,3) sample_controls _ _ sample_windows(3), of OperatorRole sample_manifest]
    by (auto simp: proof_holds_def sample_proof_def)
qed

subsection \<open>Properties\<close>


text \<open>C4: Two manifests accepted with one proof are the same document, or the canonical bytes of the two
  are a SHA-256 collision.  The inputs are any JSON documents: member order is free.\<close>

theorem manifest_proof_binds_manifest:
  assumes "zod_schemas E" "json_doc mi" "json_doc mi'"
    and "accepted (verifyManifestProof E pf mi ki now)" "accepted (verifyManifestProof E pf mi' ki' now')"
  shows "same_json mi mi' \<or> (\<exists>m m'. same_json mi (Manifest_obj m) \<and> same_json mi' (Manifest_obj m')
     \<and> doc_bytes (Manifest_obj m) \<noteq> doc_bytes (Manifest_obj m')
     \<and> sha256 E (doc_bytes (Manifest_obj m)) = sha256 E (doc_bytes (Manifest_obj m')))"
proof -
  from assms(4,5) obtain p m m' k k' where
    m: "parse_Manifest E mi = Inr m" "parse_Manifest E mi' = Inr m'"
    and p: "proof_holds E p m k now" "proof_holds E p m' k' now'"
    by (auto simp: verifyManifestProof_accepted)
  have "zod_parser (parse_Manifest E) Manifest_obj (Manifest_ok E)" using assms(1) by (simp add: zod_schemas_def)
  then have same: "same_json mi (Manifest_obj m)" "same_json mi' (Manifest_obj m')"
    using m assms(2,3) by (simp_all add: zod_parserD)
  have "hex (sha256 E (doc_bytes (Manifest_obj m))) = hex (sha256 E (doc_bytes (Manifest_obj m')))"
    using p by (simp add: proof_holds_def manifest_digest_def)
  then have "sha256 E (doc_bytes (Manifest_obj m)) = sha256 E (doc_bytes (Manifest_obj m'))" by (metis fromHex_hex)
  moreover have "same_json mi mi'" if "doc_bytes (Manifest_obj m) = doc_bytes (Manifest_obj m')"
    using that same by (simp add: doc_bytes_inject same_json_def)
  ultimately show ?thesis using same by blast
qed

theorem manifest_proof_binds_manifest_witness:
  "\<exists>pf. accepted (verifyManifestProof reference_platform pf (Manifest_obj sample_manifest)
       (KeyDocument_obj (sample_key OperatorRole)) (sample_instant 3))
     \<and> (same_json (Manifest_obj sample_manifest) (Manifest_obj sample_manifest) \<or>
        (\<exists>m m'. same_json (Manifest_obj sample_manifest) (Manifest_obj m) \<and> same_json (Manifest_obj sample_manifest) (Manifest_obj m')
     \<and> doc_bytes (Manifest_obj m) \<noteq> doc_bytes (Manifest_obj m')
     \<and> sha256 reference_platform (doc_bytes (Manifest_obj m)) = sha256 reference_platform (doc_bytes (Manifest_obj m'))))"
  using manifest_proof_binds_manifest [OF reference_schemas document_json_doc document_json_doc
      sample_proof_verdict [THEN iffD2] sample_proof_verdict [THEN iffD2], OF _ _ sample_windows(1) sample_windows(1)]
    sample_proof_verdict sample_windows(1) Manifest_document by blast

text \<open>C5: An operator who signs a valid manifest with the key its document publishes gets a proof, and the
  proof verifies as \<open>DECLARED\<close> against that manifest at every instant of its window.\<close>

theorem signed_manifest_verifies:
  assumes "zod_schemas E" "sha256_length E" "ed25519_lengths E" "ed25519_correct E"
    and "Manifest_ok E m" "KeyDocument_ok E k" "controls E sk k" "kd_role k = OperatorRole"
      "kd_controller k = mf_agent_id m" "keyActiveAt E k c"
    and "Rfc3339Utc E c" "Rfc3339Utc E x" "date_less (Date_parse E c) (Date_parse E x)" "in_window E c x now"
  shows "\<exists>p. signManifestProof E (Manifest_obj m) \<lparr>sk_private = sk, sk_document = KeyDocument_obj k\<rparr> c x = Inr p
     \<and> accepted (verifyManifestProof E (ManifestProof_obj p) (Manifest_obj m) (KeyDocument_obj k) now)"
  using signManifestProof_total [OF assms(1-3,5-9,11-13)] signed_proof_holds [OF assms(3,4,7-10,14)]
    parse_own [OF assms(1)] assms(5,6) by (simp add: verifyManifestProof_parsed)

theorem signed_manifest_verifies_witness:
  "\<exists>p. signManifestProof reference_platform (Manifest_obj sample_manifest)
      \<lparr>sk_private = sample_secret, sk_document = KeyDocument_obj (sample_key OperatorRole)\<rparr> (sample_instant 2) (sample_instant 6) = Inr p
   \<and> accepted (verifyManifestProof reference_platform (ManifestProof_obj p) (Manifest_obj sample_manifest)
      (KeyDocument_obj (sample_key OperatorRole)) (sample_instant 3))"
  by (rule signed_manifest_verifies [OF reference_schemas reference_crypto])
     (simp_all add: reference_checks Rfc3339Utc_def)

text \<open>An authority who signs a valid assertion payload with the key its document publishes gets an
  assertion that verifies as \<open>VERIFIED\<close> in its window, with no current manifest or with the manifest whose
  digest it binds, and is refused as stale for a manifest with another digest.\<close>

theorem signed_assertion_verifies:
  assumes "zod_schemas E" "ed25519_lengths E" "ed25519_correct E"
    and "AssertionPayload_ok E a" "KeyDocument_ok E k" "controls E sk k"
      "names_key k (va_key_id a) AuthorityRole (va_authority a)" "keyActiveAt E k (va_verified_at a)"
      "in_window E (va_verified_at a) (va_expires_at a) now" "Manifest_ok E m"
  shows "\<exists>s. signVerificationAssertion E (AssertionPayload_obj a) \<lparr>sk_private = sk, sk_document = KeyDocument_obj k\<rparr> = Inr s
     \<and> accepted (verifyVerificationAssertion E (Assertion_obj s) (KeyDocument_obj k) now None)
     \<and> accepted (verifyVerificationAssertion E (Assertion_obj s) (KeyDocument_obj k) now (Some (Manifest_obj m)))
         = (manifest_digest E m = dg_value (va_manifest_digest a))"
proof -
  let ?s = "signed_assertion E sk a"
  note total = signVerificationAssertion_total [OF assms(1,2,4-7)]
  note parsed = verifyVerificationAssertion_parsed [OF parse_own(5) [OF assms(1) total(2)] parse_own(6) [OF assms(1,5)]]
  note holds = signed_assertion_holds [OF assms(2,3,6-9)]
  have applies: "applies_to E ?s None"
    "applies_to E ?s (Some (Manifest_obj m)) = (manifest_digest E m = dg_value (va_manifest_digest a))"
    using parse_own(1) [OF assms(1,10)]
    by (simp_all add: applies_to_def signed_assertion_def assertion_payload.defs assertion.defs)
  then show ?thesis using total(1) parsed holds [of None] holds [of "Some (Manifest_obj m)"]
    by (auto simp: assertion_holds_def)
qed

theorem signed_assertion_verifies_witness:
  "\<exists>s. signVerificationAssertion reference_platform (AssertionPayload_obj sample_claim)
      \<lparr>sk_private = sample_secret, sk_document = KeyDocument_obj (sample_key AuthorityRole)\<rparr> = Inr s
   \<and> accepted (verifyVerificationAssertion reference_platform (Assertion_obj s) (KeyDocument_obj (sample_key AuthorityRole))
       (sample_instant 3) None)
   \<and> accepted (verifyVerificationAssertion reference_platform (Assertion_obj s) (KeyDocument_obj (sample_key AuthorityRole))
       (sample_instant 3) (Some (Manifest_obj sample_manifest)))
       = (manifest_digest reference_platform sample_manifest = dg_value (va_manifest_digest sample_claim))"
  by (rule signed_assertion_verifies [OF reference_schemas reference_crypto(2,3)])
     (simp_all add: reference_checks names_key_def sample_claim_def [THEN arg_cong [of _ _ va_key_id]]
       sample_claim_def [THEN arg_cong [of _ _ va_authority]] sample_claim_def [THEN arg_cong [of _ _ va_verified_at]]
       sample_claim_def [THEN arg_cong [of _ _ va_expires_at]])

lemma date_le_trans: "date_le r t \<Longrightarrow> date_le t t' \<Longrightarrow> date_le r t'"
  by (cases r; cases t; cases t') auto

text \<open>A key that is active at an instant was active at every earlier one: retirement and revocation are final.\<close>

theorem key_activity_is_final:
  assumes "keyActiveAt E k t'" "date_le (Date_parse E t) (Date_parse E t')"
  shows "keyActiveAt E k t"
proof -
  have "\<not> date_le r (Date_parse E t)" if "\<not> date_le r (Date_parse E t')" for r
    using that assms(2) date_le_trans by blast
  with assms(1) show ?thesis
    by (cases "kd_revoked_at k"; cases "kd_retired_at k") (auto simp: keyActiveAt_def Let_def split: if_splits)
qed

theorem key_activity_is_final_witness:
  "keyActiveAt reference_platform (sample_key OperatorRole) (sample_instant 2)
   \<and> \<not> keyActiveAt reference_platform ((sample_key OperatorRole) \<lparr>kd_revoked_at := Some (sample_instant 3)\<rparr>) (sample_instant 4)"
proof
  show "keyActiveAt reference_platform (sample_key OperatorRole) (sample_instant 2)"
    by (rule key_activity_is_final [OF sample_windows(3) [of _ "sample_instant 3"]]) simp
qed (simp add: keyActiveAt_def)

text \<open>C11: An instant that does not parse switches the validity window off: a proof or an assertion accepted at any
  instant, an expired one included, is accepted at such an instant.\<close>

theorem unparseable_now_skips_window:
  assumes "Date_parse E now = None"
  shows "(accepted (verifyManifestProof E pf mi ki now') \<longrightarrow> accepted (verifyManifestProof E pf mi ki now))
   \<and> (accepted (verifyVerificationAssertion E ai ki now' cm) \<longrightarrow> accepted (verifyVerificationAssertion E ai ki now cm))"
  using assms
  by (auto simp: verifyManifestProof_accepted verifyVerificationAssertion_accepted proof_holds_def assertion_holds_def in_window_def)

theorem unparseable_now_skips_window_witness:
  "\<exists>pf. \<not> accepted (verifyManifestProof reference_platform pf (Manifest_obj sample_manifest)
         (KeyDocument_obj (sample_key OperatorRole)) (sample_instant 7))
     \<and> accepted (verifyManifestProof reference_platform pf (Manifest_obj sample_manifest)
         (KeyDocument_obj (sample_key OperatorRole)) (js ''today''))"
proof (intro exI conjI)
  show "\<not> accepted (verifyManifestProof reference_platform (ManifestProof_obj sample_proof) (Manifest_obj sample_manifest)
         (KeyDocument_obj (sample_key OperatorRole)) (sample_instant 7))"
    by simp
  have "iso_time (js ''today'') = None" by (simp add: iso_time_def rfc3339_shape_def del: js_simps)
  then show "accepted (verifyManifestProof reference_platform (ManifestProof_obj sample_proof) (Manifest_obj sample_manifest)
         (KeyDocument_obj (sample_key OperatorRole)) (js ''today''))"
    using unparseable_now_skips_window [of reference_platform "js ''today''" "ManifestProof_obj sample_proof"
        "Manifest_obj sample_manifest" "KeyDocument_obj (sample_key OperatorRole)" "sample_instant 3"]
    by (simp del: js_simps)
qed

end
