(* ===== verification/Authorization_Verify.thy ===== *)
theory Authorization_Verify
  imports Crypto
begin

section \<open>Grants, revocations and the authorization decision\<close>

text \<open>
  \<open>packages/core/src/authorization-verify.ts\<close>: signing and verifying grants and revocations, and
  \<open>evaluateAuthorization\<close>, the check a relying party runs.  An optional input that is absent is
  \<open>None\<close>, an absent document \<open>JUndefined\<close>; \<open>revocationKeys\<close> is a map, its missing keys the
  undefined members.
\<close>

subsection \<open>Signing\<close>

definition signAuthorizationGrant :: "platform \<Rightarrow> jsval \<Rightarrow> signing_key \<Rightarrow> agenid_error + grant" where
  "signAuthorizationGrant E payloadInput principalKey =
     rbind (parseOrThrow (parse_GrantPayload E) payloadInput (js ''AuthorizationGrantPayload'')) (\<lambda>payload.
     rbind (parseOrThrow (parse_KeyDocument E) (sk_document principalKey) (js ''principal KeyDocument'')) (\<lambda>doc.
     if kd_role doc \<noteq> PrincipalRole
     then Inl (KeyRoleError (js ''AuthorizationGrant must be signed by a principal key (got role='' @ role_text (kd_role doc) @ js '')''))
     else if kd_controller doc \<noteq> gr_principal payload
     then Inl (KeyRoleError (js ''principal key controller '' @ kd_controller doc @ js '' != grant.principal '' @ gr_principal payload))
     else if kd_key_id doc \<noteq> gr_key_id payload
     then Inl (KeyRoleError (js ''grant.key_id '' @ gr_key_id payload @ js '' does not name the signing key '' @ kd_key_id doc))
     else
       rbind (signingInputOf (GrantPayload_obj payload)) (\<lambda>input.
       rbind (signBytes E (sk_private principalKey) input) (\<lambda>sig.
       parseOrThrow (parse_Grant E)
         (JObj (GrantPayload_members payload @ [(js ''signature'', JStr (b64uEncode sig))])) (js ''AuthorizationGrant'')))))"

definition signRevocation :: "platform \<Rightarrow> jsval \<Rightarrow> signing_key \<Rightarrow> agenid_error + revocation" where
  "signRevocation E payloadInput signingKey =
     rbind (parseOrThrow (parse_RevocationPayload E) payloadInput (js ''RevocationPayload'')) (\<lambda>payload.
     rbind (parseOrThrow (parse_KeyDocument E) (sk_document signingKey) (js ''revoker KeyDocument'')) (\<lambda>doc.
     let required = REVOKER_ROLE (rv_revokes_type payload) in
     if kd_role doc \<noteq> required
     then Inl (KeyRoleError (js ''revoking a '' @ revokes_type_text (rv_revokes_type payload) @ js '' requires a ''
            @ role_text required @ js '' key (got role='' @ role_text (kd_role doc) @ js '')''))
     else if kd_key_id doc \<noteq> rv_key_id payload
     then Inl (KeyRoleError (js ''revocation.key_id '' @ rv_key_id payload @ js '' does not name the signing key '' @ kd_key_id doc))
     else
       rbind (signingInputOf (RevocationPayload_obj payload)) (\<lambda>input.
       rbind (signBytes E (sk_private signingKey) input) (\<lambda>sig.
       parseOrThrow (parse_Revocation E)
         (JObj (RevocationPayload_members payload @ [(js ''signature'', JStr (b64uEncode sig))])) (js ''Revocation'')))))"

subsection \<open>Results\<close>

datatype authorization_failure_code =
    AzSchemaInvalid | AzKeyIdMismatch | AzKeyRoleMismatch | AzKeyControllerMismatch | AzKeyNotActiveAtSigningTime
  | AzSignatureInvalid | AzNotYetValid | AzExpired | AzGrantRevoked | AzSubjectMismatch | AzScopeNotGranted
  | AzConstraintNotUnderstood | AzAgentNotBoundToSubject | AzAgentRevoked

record grant_facts =
  gf_principal :: jstr
  gf_subject :: jstr
  gf_scopes :: "jstr list"
  gf_constraints :: "constraint list"

datatype grant_verify_result =
    GrantOk grant_facts
  | GrantFail authorization_failure_code jstr

text \<open>This file has its own copy of the key status check.\<close>

definition keyActiveAt_az :: "('r runtime_scheme) \<Rightarrow> key_document \<Rightarrow> jstr \<Rightarrow> bool" where
  "keyActiveAt_az E doc atIso =
     (let t0 = Date_parse E atIso in
      if (case kd_revoked_at doc of None \<Rightarrow> False | Some r \<Rightarrow> date_le (Date_parse E r) t0) then False
      else if (case kd_retired_at doc of None \<Rightarrow> False | Some r \<Rightarrow> date_le (Date_parse E r) t0) then False
      else if kd_status doc = KeyRevoked \<and> kd_revoked_at doc = None then False
      else True)"

lemma keyActiveAt_copies [simp]: "keyActiveAt_az = keyActiveAt"
  by (simp add: fun_eq_iff keyActiveAt_az_def keyActiveAt_def)

subsection \<open>Revocations\<close>

datatype revocation_verify_result =
    RevocationOk jstr revokes_type jstr
  | RevocationFail authorization_failure_code jstr

definition verifyRevocation :: "platform \<Rightarrow> jsval \<Rightarrow> jsval \<Rightarrow> jstr \<Rightarrow> agenid_error + revocation_verify_result" where
  "verifyRevocation E revocationInput revokerKeyDoc nowIso =
     (case parse_Revocation E revocationInput of
        Inl e \<Rightarrow> Inr (RevocationFail AzSchemaInvalid (issues_message (js ''Revocation'') e))
      | Inr rvn \<Rightarrow>
     (case parse_KeyDocument E revokerKeyDoc of
        Inl e \<Rightarrow> Inr (RevocationFail AzSchemaInvalid (issues_message (js ''KeyDocument'') e))
      | Inr key \<Rightarrow>
       if kd_key_id key \<noteq> rv_key_id rvn
       then Inr (RevocationFail AzKeyIdMismatch (js ''revocation.key_id '' @ rv_key_id rvn @ js '' != supplied key '' @ kd_key_id key))
       else let required = REVOKER_ROLE (rv_revokes_type rvn) in
       if kd_role key \<noteq> required
       then Inr (RevocationFail AzKeyRoleMismatch (js ''revoking a '' @ revokes_type_text (rv_revokes_type rvn)
              @ js '' requires role='' @ role_text required @ js '', key has role='' @ role_text (kd_role key)))
       else if \<not> keyActiveAt_az E key (rv_revoked_at rvn)
       then Inr (RevocationFail AzKeyNotActiveAtSigningTime (js ''key was retired/revoked before revoked_at''))
       else
         rbind (signingInputOf (Revocation_obj rvn)) (\<lambda>input.
           if \<not> verifyBytes E (b64uDecode (kd_public_key_b64u key)) input (b64uDecode (rv_signature rvn))
           then Inr (RevocationFail AzSignatureInvalid (js ''Ed25519 signature does not verify over canonical payload''))
           else Inr (RevocationOk (rv_revokes rvn) (rv_revokes_type rvn) (rv_revoked_at rvn)))))"

subsection \<open>Grants\<close>

definition verifyAuthorizationGrant :: "platform \<Rightarrow> jsval \<Rightarrow> jsval \<Rightarrow> jstr \<Rightarrow> agenid_error + grant_verify_result" where
  "verifyAuthorizationGrant E grantInput principalKeyDoc nowIso =
     (case parse_Grant E grantInput of
        Inl e \<Rightarrow> Inr (GrantFail AzSchemaInvalid (issues_message (js ''AuthorizationGrant'') e))
      | Inr grant \<Rightarrow>
     (case parse_KeyDocument E principalKeyDoc of
        Inl e \<Rightarrow> Inr (GrantFail AzSchemaInvalid (issues_message (js ''KeyDocument'') e))
      | Inr key \<Rightarrow>
       if kd_key_id key \<noteq> gr_key_id grant
       then Inr (GrantFail AzKeyIdMismatch (js ''grant.key_id '' @ gr_key_id grant @ js '' != supplied key '' @ kd_key_id key))
       else if kd_role key \<noteq> PrincipalRole
       then Inr (GrantFail AzKeyRoleMismatch (js ''AuthorizationGrant requires role=principal, key has role='' @ role_text (kd_role key)))
       else if kd_controller key \<noteq> gr_principal grant
       then Inr (GrantFail AzKeyControllerMismatch (js ''key controller '' @ kd_controller key @ js '' != grant.principal '' @ gr_principal grant))
       else if \<not> keyActiveAt_az E key (gr_not_before grant)
       then Inr (GrantFail AzKeyNotActiveAtSigningTime (js ''principal key was retired/revoked before not_before''))
       else
         rbind (signingInputOf (Grant_obj grant)) (\<lambda>input.
           if \<not> verifyBytes E (b64uDecode (kd_public_key_b64u key)) input (b64uDecode (gr_signature grant))
           then Inr (GrantFail AzSignatureInvalid (js ''Ed25519 signature does not verify over canonical payload''))
           else if date_less (Date_parse E nowIso) (Date_parse E (gr_not_before grant))
           then Inr (GrantFail AzNotYetValid (js ''now < not_before''))
           else if date_less (Date_parse E (gr_expires_at grant)) (Date_parse E nowIso)
           then Inr (GrantFail AzExpired (js ''now > expires_at''))
           else Inr (GrantOk \<lparr>gf_principal = gr_principal grant, gf_subject = gr_subject grant, gf_scopes = gr_scopes grant,
                  gf_constraints = (case gr_constraints grant of Some cs \<Rightarrow> cs | None \<Rightarrow> [])\<rparr>))))"

subsection \<open>The decision\<close>

datatype authorization_decision = PERMITTED | NOT_PERMITTED | UNKNOWN

datatype reason_code = Because authorization_failure_code | RegistryUnavailable

record evaluate_input =
  in_grant :: jsval
  in_principalKey :: jsval
  in_scope :: jstr
  in_manifest :: jsval
  in_operatorKey :: jsval
  in_revocations :: "jsval list option"
  in_revocationKeys :: "jstr \<Rightarrow> jsval option"
  in_now :: jstr

record evaluation =
  az_decision :: authorization_decision
  az_reasonCode :: "reason_code option"
  az_message :: jstr
  az_revocationsChecked :: bool
  az_granted :: "grant_facts option"
  az_obligations :: "constraint list"

text \<open>An outcome with the \<open>base\<close> fields.\<close>

definition refusal :: "evaluate_input \<Rightarrow> authorization_decision \<Rightarrow> reason_code \<Rightarrow> jstr \<Rightarrow> evaluation" where
  "refusal i d r msg = \<lparr>az_decision = d, az_reasonCode = Some r, az_message = msg,
     az_revocationsChecked = (in_revocations i \<noteq> None), az_granted = None, az_obligations = []\<rparr>"

text \<open>The actor is bound to the subject; \<open>None\<close> lets the evaluation go on.\<close>

definition bind_actor :: "platform \<Rightarrow> evaluate_input \<Rightarrow> grant_facts \<Rightarrow> evaluation option" where
  "bind_actor E i verified =
     (if in_manifest i \<noteq> JUndefined \<or> in_operatorKey i \<noteq> JUndefined
      then (case (parse_Manifest E (in_manifest i), parse_KeyDocument E (in_operatorKey i)) of
          (Inr m, Inr k) \<Rightarrow>
            if mf_agent_id m \<noteq> gf_subject verified
            then Some (refusal i NOT_PERMITTED (Because AzSubjectMismatch)
              (js ''grant authorizes '' @ gf_subject verified @ js '', but the presented agent is '' @ mf_agent_id m))
            else if kd_role k \<noteq> OperatorRole \<or> kd_controller k \<noteq> mf_agent_id m
            then Some (refusal i NOT_PERMITTED (Because AzAgentNotBoundToSubject)
              (js ''operator key does not control the presented agent''))
            else None
        | _ \<Rightarrow> Some (refusal i UNKNOWN (Because AzSchemaInvalid)
              (js ''manifest and operator key must both be supplied and valid to bind the actor to the grant'')))
      else None)"

text \<open>One turn of the revocation loop: \<open>None\<close> continues.\<close>

definition revocation_step :: "platform \<Rightarrow> evaluate_input \<Rightarrow> grant_facts \<Rightarrow> jsval \<Rightarrow> agenid_error + evaluation option" where
  "revocation_step E i verified rInput =
     (case parse_Revocation E rInput of Inl e \<Rightarrow> Inr None | Inr rvn \<Rightarrow>
     (case in_revocationKeys i (rv_key_id rvn) of
        None \<Rightarrow> Inr (Some (refusal i UNKNOWN RegistryUnavailable
          (js ''a revocation names key '' @ rv_key_id rvn
           @ js '', whose key document was not supplied; cannot determine revocation status'')))
      | Some keyDoc \<Rightarrow>
     rbind (verifyRevocation E (Revocation_obj rvn) keyDoc (in_now i)) (\<lambda>rv.
       case rv of RevocationFail c msg \<Rightarrow> Inr None | RevocationOk t ty ra \<Rightarrow>
     (case parse_KeyDocument E keyDoc of Inl e \<Rightarrow> Inr None | Inr kd \<Rightarrow>
       let grantId = (case parse_Grant E (in_grant i) of Inr g \<Rightarrow> Some (gr_grant_id g) | Inl e \<Rightarrow> None);
           due = date_le (Date_parse E (rv_revoked_at rvn)) (Date_parse E (in_now i))
       in
       if rv_revokes_type rvn = RevokesGrant \<and> grantId = Some (rv_revokes rvn)
       then (if kd_controller kd \<noteq> gf_principal verified then Inr None
             else if due then Inr (Some ((refusal i NOT_PERMITTED (Because AzGrantRevoked)
               (js ''grant was revoked at '' @ rv_revoked_at rvn @ js '' ('' @ reason_text (rv_reason rvn) @ js '')''))
               \<lparr>az_revocationsChecked := True\<rparr>))
             else Inr None)
       else if rv_revokes_type rvn = RevokesAgent \<and> rv_revokes rvn = gf_subject verified
       then (if kd_controller kd \<noteq> gf_subject verified then Inr None
             else if due then Inr (Some ((refusal i NOT_PERMITTED (Because AzAgentRevoked)
               (js ''agent was revoked at '' @ rv_revoked_at rvn @ js '' ('' @ reason_text (rv_reason rvn) @ js '')''))
               \<lparr>az_revocationsChecked := True\<rparr>))
             else Inr None)
       else Inr None))))"

fun check_revocations :: "platform \<Rightarrow> evaluate_input \<Rightarrow> grant_facts \<Rightarrow> jsval list \<Rightarrow> agenid_error + evaluation option" where
  "check_revocations E i verified [] = Inr None"
| "check_revocations E i verified (r # rs) =
     rbind (revocation_step E i verified r) (\<lambda>out.
       case out of Some ev \<Rightarrow> Inr (Some ev) | None \<Rightarrow> check_revocations E i verified rs)"

definition evaluateAuthorization :: "platform \<Rightarrow> evaluate_input \<Rightarrow> agenid_error + evaluation" where
  "evaluateAuthorization E i =
     rbind (verifyAuthorizationGrant E (in_grant i) (in_principalKey i) (in_now i)) (\<lambda>result.
     case result of
       GrantFail code msg \<Rightarrow> Inr (refusal i NOT_PERMITTED (Because code) msg)
     | GrantOk verified \<Rightarrow>
     (case bind_actor E i verified of Some ev \<Rightarrow> Inr ev | None \<Rightarrow>
     rbind (case in_revocations i of None \<Rightarrow> Inr None | Some rs \<Rightarrow> check_revocations E i verified rs) (\<lambda>out.
     case out of Some ev \<Rightarrow> Inr ev | None \<Rightarrow>
     (case find (\<lambda>c. constraint_type c \<notin> set UNDERSTOOD_CONSTRAINTS) (gf_constraints verified) of
        Some c \<Rightarrow> Inr (refusal i NOT_PERMITTED (Because AzConstraintNotUnderstood)
          (js ''grant carries a constraint this verifier does not understand: '' @ constraint_type c))
      | None \<Rightarrow>
       if in_scope i \<notin> set (gf_scopes verified)
       then Inr ((refusal i NOT_PERMITTED (Because AzScopeNotGranted)
              (js ''grant does not include scope '' @ quote (in_scope i)))\<lparr>az_granted := Some verified\<rparr>)
       else Inr \<lparr>az_decision = PERMITTED, az_reasonCode = None,
              az_message = js ''scope '' @ in_scope i @ js '' is granted to '' @ gf_subject verified @ js '' by '' @ gf_principal verified,
              az_revocationsChecked = (in_revocations i \<noteq> None),
              az_granted = Some verified, az_obligations = gf_constraints verified\<rparr>))))"

subsection \<open>What the verifiers establish\<close>

definition grant_holds :: "platform \<Rightarrow> grant \<Rightarrow> key_document \<Rightarrow> jstr \<Rightarrow> bool" where
  "grant_holds E g k now \<longleftrightarrow>
     names_key k (gr_key_id g) PrincipalRole (gr_principal g) \<and> keyActiveAt E k (gr_not_before g)
     \<and> signed_by E k (GrantPayload_obj (grant_payload.truncate g)) (gr_signature g)
     \<and> in_window E (gr_not_before g) (gr_expires_at g) now"

definition facts_of :: "grant \<Rightarrow> grant_facts" where
  "facts_of g = \<lparr>gf_principal = gr_principal g, gf_subject = gr_subject g, gf_scopes = gr_scopes g,
     gf_constraints = (case gr_constraints g of Some cs \<Rightarrow> cs | None \<Rightarrow> [])\<rparr>"

definition authentic :: "platform \<Rightarrow> revocation \<Rightarrow> key_document \<Rightarrow> bool" where
  "authentic E r k \<longleftrightarrow> kd_key_id k = rv_key_id r \<and> kd_role k = REVOKER_ROLE (rv_revokes_type r)
     \<and> keyActiveAt E k (rv_revoked_at r) \<and> signed_by E k (RevocationPayload_obj (revocation_payload.truncate r)) (rv_signature r)"

text \<open>The signer has standing over the target.\<close>

definition authoritative :: "revocation \<Rightarrow> key_document \<Rightarrow> grant \<Rightarrow> bool" where
  "authoritative r k g \<longleftrightarrow>
     rv_revokes_type r = RevokesGrant \<and> rv_revokes r = gr_grant_id g \<and> kd_controller k = gr_principal g
   \<or> rv_revokes_type r = RevokesAgent \<and> rv_revokes r = gr_subject g \<and> kd_controller k = gr_subject g"

definition blocks :: "platform \<Rightarrow> jstr \<Rightarrow> grant \<Rightarrow> revocation \<Rightarrow> key_document \<Rightarrow> bool" where
  "blocks E now g r k \<longleftrightarrow>
     authentic E r k \<and> authoritative r k g \<and> date_le (Date_parse E (rv_revoked_at r)) (Date_parse E now)"

definition silent :: "platform \<Rightarrow> evaluate_input \<Rightarrow> grant \<Rightarrow> jsval \<Rightarrow> bool" where
  "silent E i g r = (case parse_Revocation E r of Inl e \<Rightarrow> True | Inr rvn \<Rightarrow>
     (case in_revocationKeys i (rv_key_id rvn) of None \<Rightarrow> False | Some kd \<Rightarrow>
     (case parse_KeyDocument E kd of Inl e \<Rightarrow> True | Inr k \<Rightarrow> \<not> blocks E (in_now i) g rvn k)))"

definition actor_bound :: "platform \<Rightarrow> evaluate_input \<Rightarrow> grant \<Rightarrow> bool" where
  "actor_bound E i g \<longleftrightarrow> in_manifest i = JUndefined \<and> in_operatorKey i = JUndefined
     \<or> (\<exists>m k. parse_Manifest E (in_manifest i) = Inr m \<and> parse_KeyDocument E (in_operatorKey i) = Inr k
         \<and> mf_agent_id m = gr_subject g \<and> kd_role k = OperatorRole \<and> kd_controller k = gr_subject g)"

lemma verifyAuthorizationGrant_parsed:
  assumes "parse_Grant E gi = Inr g" "parse_KeyDocument E ki = Inr k"
  shows "verifyAuthorizationGrant E gi ki now = Inr (GrantOk f) \<longleftrightarrow> grant_holds E g k now \<and> f = facts_of g"
  using assms by (auto simp: verifyAuthorizationGrant_def grant_holds_def names_key_def signed_by_def in_window_def facts_of_def)

lemma verifyAuthorizationGrant_unparsed:
  assumes "\<nexists>g k. parse_Grant E gi = Inr g \<and> parse_KeyDocument E ki = Inr k"
  shows "\<exists>msg. verifyAuthorizationGrant E gi ki now = Inr (GrantFail AzSchemaInvalid msg)"
  using assms by (auto simp: verifyAuthorizationGrant_def split: sum.split)

lemma verifyAuthorizationGrant_total: "\<exists>r. verifyAuthorizationGrant E gi ki now = Inr r"
  by (simp add: verifyAuthorizationGrant_def Let_def del: js_simps split: sum.split)

lemma verifyAuthorizationGrant_ok:
  "verifyAuthorizationGrant E gi ki now = Inr (GrantOk f) \<longleftrightarrow>
     (\<exists>g k. parse_Grant E gi = Inr g \<and> parse_KeyDocument E ki = Inr k \<and> grant_holds E g k now \<and> f = facts_of g)"
proof (cases "\<exists>g k. parse_Grant E gi = Inr g \<and> parse_KeyDocument E ki = Inr k")
  case True
  then show ?thesis using verifyAuthorizationGrant_parsed by auto
next
  case False
  then show ?thesis using verifyAuthorizationGrant_unparsed [OF False, of now] by auto
qed

lemma verifyRevocation_parsed:
  assumes "parse_Revocation E ri = Inr r" "parse_KeyDocument E ki = Inr k"
  shows "verifyRevocation E ri ki now = (if authentic E r k
      then Inr (RevocationOk (rv_revokes r) (rv_revokes_type r) (rv_revoked_at r))
      else verifyRevocation E ri ki now)"
    and "\<not> authentic E r k \<Longrightarrow> \<exists>c msg. verifyRevocation E ri ki now = Inr (RevocationFail c msg)"
  using assms by (simp_all add: verifyRevocation_def authentic_def signed_by_def Let_def del: js_simps)

lemma verifyRevocation_bad_key:
  assumes "parse_Revocation E ri = Inr r" "parse_KeyDocument E ki = Inl e"
  shows "\<exists>msg. verifyRevocation E ri ki now = Inr (RevocationFail AzSchemaInvalid msg)"
  using assms by (simp add: verifyRevocation_def)

lemma refusal_fields [simp]:
  "az_decision (refusal i d r msg) = d" "az_reasonCode (refusal i d r msg) = Some r"
  "az_revocationsChecked (refusal i d r msg) = (in_revocations i \<noteq> None)"
  "az_granted (refusal i d r msg) = None" "az_obligations (refusal i d r msg) = []"
  by (simp_all add: refusal_def)

lemma bind_actor_None: "bind_actor E i (facts_of g) = None \<longleftrightarrow> actor_bound E i g"
  by (auto simp: bind_actor_def actor_bound_def facts_of_def split: sum.split)

lemma bind_actor_Some: "bind_actor E i f = Some ev \<Longrightarrow> az_decision ev \<noteq> PERMITTED"
  by (auto simp: bind_actor_def split: sum.splits if_splits)

text \<open>A turn of the loop says nothing, or ends the evaluation without a permission.\<close>

lemma revocation_step:
  assumes "zod_schemas E" "json_doc r" "parse_Grant E (in_grant i) = Inr g"
  shows "if silent E i g r then revocation_step E i (facts_of g) r = Inr None
    else \<exists>ev. revocation_step E i (facts_of g) r = Inr (Some ev) \<and> az_decision ev \<noteq> PERMITTED"
proof (cases "parse_Revocation E r")
  case (Inr rvn)
  have "Revocation_ok E rvn"
    using assms(1,2) Inr by (auto simp: zod_schemas_def zod_parserD)
  then have own: "parse_Revocation E (Revocation_obj rvn) = Inr rvn" by (rule parse_own [OF assms(1)])
  show ?thesis
  proof (cases "in_revocationKeys i (rv_key_id rvn)")
    case (Some kd)
    show ?thesis
    proof (cases "parse_KeyDocument E kd")
      case bad: (Inl e)
      then show ?thesis using Inr Some verifyRevocation_bad_key [OF own bad, of "in_now i"]
        by (auto simp: silent_def revocation_step_def)
    next
      case key: (Inr k)
      show ?thesis
      proof (cases "authentic E rvn k")
        case True
        then have "verifyRevocation E (Revocation_obj rvn) kd (in_now i)
            = Inr (RevocationOk (rv_revokes rvn) (rv_revokes_type rvn) (rv_revoked_at rvn))"
          using verifyRevocation_parsed(1) [OF own key, of "in_now i"] by simp
        then show ?thesis using Inr Some key assms(3) True
          by (auto simp: silent_def revocation_step_def blocks_def authoritative_def facts_of_def Let_def)
      next
        case False
        then show ?thesis using Inr Some key verifyRevocation_parsed(2) [OF own key False, of "in_now i"]
          by (auto simp: silent_def revocation_step_def blocks_def)
      qed
    qed
  qed (use Inr in \<open>simp add: silent_def revocation_step_def\<close>)
qed (simp add: silent_def revocation_step_def)

lemma check_revocations:
  assumes "zod_schemas E" "list_all json_doc rs" "parse_Grant E (in_grant i) = Inr g"
  shows "if list_all (silent E i g) rs then check_revocations E i (facts_of g) rs = Inr None
    else \<exists>ev. check_revocations E i (facts_of g) rs = Inr (Some ev) \<and> az_decision ev \<noteq> PERMITTED"
  using assms(2)
proof (induction rs)
  case (Cons r rs)
  then show ?case using revocation_step [OF assms(1) _ assms(3), of r] by (auto split: if_splits)
qed simp

lemma constraints_understood: "find (\<lambda>c. constraint_type c \<notin> set UNDERSTOOD_CONSTRAINTS) cs = None"
proof -
  have "constraint_type c \<in> set UNDERSTOOD_CONSTRAINTS" for c
    by (cases c) (simp_all add: UNDERSTOOD_CONSTRAINTS_def del: js_simps)
  then show ?thesis by (simp add: find_None_iff)
qed

text \<open>The revocation inputs are JSON documents.\<close>

definition json_revocations :: "evaluate_input \<Rightarrow> bool" where
  "json_revocations i = (case in_revocations i of None \<Rightarrow> True | Some rs \<Rightarrow> list_all json_doc rs)"

definition unrevoked :: "platform \<Rightarrow> evaluate_input \<Rightarrow> grant \<Rightarrow> bool" where
  "unrevoked E i g = (case in_revocations i of None \<Rightarrow> True | Some rs \<Rightarrow> list_all (silent E i g) rs)"

definition permits :: "platform \<Rightarrow> evaluate_input \<Rightarrow> grant \<Rightarrow> key_document \<Rightarrow> bool" where
  "permits E i g k \<longleftrightarrow> grant_holds E g k (in_now i) \<and> actor_bound E i g \<and> unrevoked E i g
     \<and> in_scope i \<in> set (gr_scopes g)"

definition permitted :: "agenid_error + evaluation \<Rightarrow> bool" where
  "permitted r \<longleftrightarrow> (\<exists>ev. r = Inr ev \<and> az_decision ev = PERMITTED)"

lemma permitted_simps [simp]: "permitted (Inr ev) \<longleftrightarrow> az_decision ev = PERMITTED" "\<not> permitted (Inl e)"
  by (simp_all add: permitted_def)

lemma evaluate_verified:
  assumes "zod_schemas E" "json_revocations i" "parse_Grant E (in_grant i) = Inr g"
    "parse_KeyDocument E (in_principalKey i) = Inr k"
  shows "if permits E i g k then \<exists>msg. evaluateAuthorization E i = Inr \<lparr>az_decision = PERMITTED, az_reasonCode = None,
        az_message = msg, az_revocationsChecked = (in_revocations i \<noteq> None), az_granted = Some (facts_of g),
        az_obligations = gf_constraints (facts_of g)\<rparr>
    else \<exists>ev. evaluateAuthorization E i = Inr ev \<and> az_decision ev \<noteq> PERMITTED"
proof (cases "grant_holds E g k (in_now i)")
  case False
  obtain r where r: "verifyAuthorizationGrant E (in_grant i) (in_principalKey i) (in_now i) = Inr r"
    using verifyAuthorizationGrant_total by blast
  moreover have "\<nexists>f. r = GrantOk f" using verifyAuthorizationGrant_parsed [OF assms(3,4)] r False by auto
  ultimately show ?thesis using False by (cases r) (auto simp: evaluateAuthorization_def permits_def)
next
  case True
  then have v: "verifyAuthorizationGrant E (in_grant i) (in_principalKey i) (in_now i) = Inr (GrantOk (facts_of g))"
    using verifyAuthorizationGrant_parsed [OF assms(3,4)] by blast
  show ?thesis
  proof (cases "bind_actor E i (facts_of g)")
    case None
    show ?thesis
    proof (cases "in_revocations i")
      case rs: None
      then show ?thesis using v None True bind_actor_None [of E i g]
        by (simp add: evaluateAuthorization_def constraints_understood permits_def unrevoked_def)
          (simp add: facts_of_def)
    next
      case (Some rs)
      then show ?thesis using v None True bind_actor_None [of E i g] check_revocations [OF assms(1) _ assms(3), of rs] assms(2)
        by (auto simp: evaluateAuthorization_def constraints_understood permits_def unrevoked_def json_revocations_def
            facts_of_def split: if_splits)
    qed
  next
    case (Some ev)
    then show ?thesis using v bind_actor_None [of E i g] bind_actor_Some [OF Some]
      by (auto simp: evaluateAuthorization_def permits_def)
  qed
qed

lemma evaluate_unverified:
  assumes "\<nexists>g k. parse_Grant E (in_grant i) = Inr g \<and> parse_KeyDocument E (in_principalKey i) = Inr k"
  shows "\<exists>msg. evaluateAuthorization E i = Inr (refusal i NOT_PERMITTED (Because AzSchemaInvalid) msg)"
  using verifyAuthorizationGrant_unparsed [OF assms, of "in_now i"] by (auto simp: evaluateAuthorization_def)

lemma permitted_evaluation:
  assumes "zod_schemas E" "json_revocations i"
  shows "permitted (evaluateAuthorization E i) \<longleftrightarrow>
     (\<exists>g k. parse_Grant E (in_grant i) = Inr g \<and> parse_KeyDocument E (in_principalKey i) = Inr k \<and> permits E i g k)"
proof (cases "\<exists>g k. parse_Grant E (in_grant i) = Inr g \<and> parse_KeyDocument E (in_principalKey i) = Inr k")
  case True
  then show ?thesis using evaluate_verified [OF assms] by (fastforce split: if_splits)
next
  case False
  then show ?thesis using evaluate_unverified [OF False] by auto
qed

lemma with_revocations [simp]:
  "silent E (i\<lparr>in_revocations := x\<rparr>) = silent E i" "actor_bound E (i\<lparr>in_revocations := x\<rparr>) = actor_bound E i"
  by (auto simp: fun_eq_iff silent_def actor_bound_def split: sum.split option.split)

subsection \<open>Signed grants and revocations\<close>

definition signed_grant :: "platform \<Rightarrow> bytes \<Rightarrow> grant_payload \<Rightarrow> grant" where
  "signed_grant E sk g = grant_payload.extend g
     (grant.fields (b64uEncode (ed25519_sign E sk (doc_bytes (GrantPayload_obj g)))))"

definition signed_revocation :: "platform \<Rightarrow> bytes \<Rightarrow> revocation_payload \<Rightarrow> revocation" where
  "signed_revocation E sk r = revocation_payload.extend r
     (revocation.fields (b64uEncode (ed25519_sign E sk (doc_bytes (RevocationPayload_obj r)))))"

lemmas signed_record_defs = signed_grant_def grant_payload.defs grant.defs signed_revocation_def
  revocation_payload.defs revocation.defs

lemma signed_fields [simp]:
  "gr_grant_id (signed_grant E sk g) = gr_grant_id g" "gr_principal (signed_grant E sk g) = gr_principal g"
  "gr_subject (signed_grant E sk g) = gr_subject g" "gr_scopes (signed_grant E sk g) = gr_scopes g"
  "gr_key_id (signed_grant E sk g) = gr_key_id g" "gr_not_before (signed_grant E sk g) = gr_not_before g"
  "gr_expires_at (signed_grant E sk g) = gr_expires_at g" "gr_constraints (signed_grant E sk g) = gr_constraints g"
  "grant_payload.truncate (signed_grant E sk g) = g"
  "rv_revokes (signed_revocation E sk r) = rv_revokes r" "rv_revokes_type (signed_revocation E sk r) = rv_revokes_type r"
  "rv_revoked_at (signed_revocation E sk r) = rv_revoked_at r" "rv_key_id (signed_revocation E sk r) = rv_key_id r"
  "revocation_payload.truncate (signed_revocation E sk r) = r"
  by (simp_all add: signed_record_defs)

lemma signAuthorizationGrant_total:
  assumes laws: "zod_schemas E" "ed25519_lengths E"
    and ok: "GrantPayload_ok E g" "KeyDocument_ok E k" "controls E sk k" "names_key k (gr_key_id g) PrincipalRole (gr_principal g)"
  shows "signAuthorizationGrant E (GrantPayload_obj g) \<lparr>sk_private = sk, sk_document = KeyDocument_obj k\<rparr>
    = Inr (signed_grant E sk g)"
    and "Grant_ok E (signed_grant E sk g)"
proof -
  let ?s = "signed_grant E sk g"
  show sok: "Grant_ok E ?s" using ok(1,3) signature_text_ok [OF laws(2), of sk]
    by (simp add: Grant_ok_def GrantPayload_ok_def grantRules_def signed_record_defs controls_def)
  have obj: "Grant_obj ?s = JObj (GrantPayload_members g
      @ [(js ''signature'', JStr (b64uEncode (ed25519_sign E sk (doc_bytes (GrantPayload_obj g)))))])"
    by (simp add: Grant_obj_def GrantPayload_members_def signed_record_defs del: js_simps)
  show "signAuthorizationGrant E (GrantPayload_obj g) \<lparr>sk_private = sk, sk_document = KeyDocument_obj k\<rparr> = Inr ?s"
    using ok parse_own(7) [OF laws(1) ok(1)] parse_own(8) [OF laws(1) sok] parse_own(6) [OF laws(1) ok(2)] obj
    by (simp add: signAuthorizationGrant_def parseOrThrow_def signBytes_def controls_def names_key_def del: js_simps)
qed

lemma signRevocation_total:
  assumes laws: "zod_schemas E" "ed25519_lengths E"
    and ok: "RevocationPayload_ok E r" "KeyDocument_ok E k" "controls E sk k" "kd_key_id k = rv_key_id r"
      "kd_role k = REVOKER_ROLE (rv_revokes_type r)"
  shows "signRevocation E (RevocationPayload_obj r) \<lparr>sk_private = sk, sk_document = KeyDocument_obj k\<rparr>
    = Inr (signed_revocation E sk r)"
    and "Revocation_ok E (signed_revocation E sk r)"
proof -
  let ?s = "signed_revocation E sk r"
  show sok: "Revocation_ok E ?s" using ok(1,3) signature_text_ok [OF laws(2), of sk]
    by (simp add: Revocation_ok_def RevocationPayload_ok_def revocationRules_def signed_record_defs controls_def)
  have obj: "Revocation_obj ?s = JObj (RevocationPayload_members r
      @ [(js ''signature'', JStr (b64uEncode (ed25519_sign E sk (doc_bytes (RevocationPayload_obj r)))))])"
    by (simp add: Revocation_obj_def RevocationPayload_members_def signed_record_defs del: js_simps)
  show "signRevocation E (RevocationPayload_obj r) \<lparr>sk_private = sk, sk_document = KeyDocument_obj k\<rparr> = Inr ?s"
    using ok parse_own(9) [OF laws(1) ok(1)] parse_own(10) [OF laws(1) sok] parse_own(6) [OF laws(1) ok(2)] obj
    by (simp add: signRevocation_def parseOrThrow_def signBytes_def controls_def Let_def del: js_simps)
qed

lemma signed_grant_holds:
  assumes "ed25519_lengths E" "ed25519_correct E" "controls E sk k"
    "names_key k (gr_key_id g) PrincipalRole (gr_principal g)" "keyActiveAt E k (gr_not_before g)"
    "in_window E (gr_not_before g) (gr_expires_at g) now"
  shows "grant_holds E (signed_grant E sk g) k now"
  using assms(4-) signed_by_own [OF assms(1-3), of "GrantPayload_obj g"]
  by (simp add: grant_holds_def) (simp add: signed_record_defs)

lemma signed_revocation_authentic:
  assumes "ed25519_lengths E" "ed25519_correct E" "controls E sk k" "kd_key_id k = rv_key_id r"
    "kd_role k = REVOKER_ROLE (rv_revokes_type r)" "keyActiveAt E k (rv_revoked_at r)"
  shows "authentic E (signed_revocation E sk r) k"
  using assms(4-) signed_by_own [OF assms(1-3), of "RevocationPayload_obj r"]
  by (simp add: authentic_def) (simp add: signed_record_defs)

subsection \<open>Samples\<close>

definition sample_signed_grant :: grant where
  "sample_signed_grant = signed_grant reference_platform sample_secret sample_grant"

definition sample_signed_revocation :: revocation where
  "sample_signed_revocation = signed_revocation reference_platform sample_secret sample_revocation"

definition sample_stranger :: key_document where
  "sample_stranger = (sample_key PrincipalRole)\<lparr>kd_controller := js ''agenid:principal:01BX5ZZKBKACTAV9WEVGEMMVRZ''\<rparr>"

definition sample_input :: "jsval list option \<Rightarrow> key_document \<Rightarrow> jstr \<Rightarrow> evaluate_input" where
  "sample_input rs k now = \<lparr>in_grant = Grant_obj sample_signed_grant, in_principalKey = KeyDocument_obj (sample_key PrincipalRole),
     in_scope = js ''data:read'', in_manifest = JUndefined, in_operatorKey = JUndefined, in_revocations = rs,
     in_revocationKeys = \<lambda>kid. Some (KeyDocument_obj k), in_now = now\<rparr>"

lemma sample_input_fields [simp]:
  "in_grant (sample_input rs k now) = Grant_obj sample_signed_grant"
  "in_principalKey (sample_input rs k now) = KeyDocument_obj (sample_key PrincipalRole)"
  "in_scope (sample_input rs k now) = js ''data:read''" "in_revocations (sample_input rs k now) = rs"
  "in_revocationKeys (sample_input rs k now) kid = Some (KeyDocument_obj k)" "in_now (sample_input rs k now) = now"
  "actor_bound E (sample_input rs k now) g"
  "(sample_input rs k now)\<lparr>in_revocations := rs'\<rparr> = sample_input rs' k now"
  by (simp_all add: sample_input_def actor_bound_def)

lemma sample_payload_fields [simp]:
  "gr_key_id sample_grant = sample_key_id" "gr_principal sample_grant = sample_principal" "gr_subject sample_grant = sample_agent"
  "gr_not_before sample_grant = sample_instant 2" "gr_expires_at sample_grant = sample_instant 6"
  "gr_scopes sample_grant = [js ''data:read'']" "gr_grant_id sample_grant = sample_grant_id" "gr_constraints sample_grant = None"
  "rv_key_id sample_revocation = sample_key_id" "rv_revokes_type sample_revocation = RevokesGrant"
  "rv_revokes sample_revocation = sample_grant_id" "rv_revoked_at sample_revocation = sample_instant 4"
  by (simp_all add: sample_grant_def sample_revocation_def)

lemma sample_payloads_ok [simp]:
  "GrantPayload_ok reference_platform sample_grant" "RevocationPayload_ok reference_platform sample_revocation"
  "KeyDocument_ok reference_platform (sample_key r)" "names_key (sample_key PrincipalRole) sample_key_id PrincipalRole sample_principal"
  by (simp_all add: reference_checks names_key_def)

lemma sample_signed_parse [simp]:
  "parse_Grant reference_platform (Grant_obj sample_signed_grant) = Inr sample_signed_grant"
  "parse_Revocation reference_platform (Revocation_obj sample_signed_revocation) = Inr sample_signed_revocation"
  "parse_KeyDocument reference_platform (KeyDocument_obj (sample_key r)) = Inr (sample_key r)"
  "parse_KeyDocument reference_platform (KeyDocument_obj sample_stranger) = Inr sample_stranger"
proof -
  note own = parse_own [OF reference_schemas]
  show "parse_Grant reference_platform (Grant_obj sample_signed_grant) = Inr sample_signed_grant"
    unfolding sample_signed_grant_def
    by (intro own signAuthorizationGrant_total(2) [OF reference_schemas reference_crypto(2) _ sample_payloads_ok(3) [of PrincipalRole] sample_controls]) simp_all
  show "parse_Revocation reference_platform (Revocation_obj sample_signed_revocation) = Inr sample_signed_revocation"
    unfolding sample_signed_revocation_def
    by (intro own signRevocation_total(2) [OF reference_schemas reference_crypto(2) _ sample_payloads_ok(3) [of PrincipalRole] sample_controls])
       simp_all
  show "parse_KeyDocument reference_platform (KeyDocument_obj (sample_key r)) = Inr (sample_key r)" by (rule own) simp
  have "isValidPrincipalId (js ''agenid:principal:01BX5ZZKBKACTAV9WEVGEMMVRZ'')" by code_simp
  moreover have "js ''agenid:principal:01BX5ZZKBKACTAV9WEVGEMMVRZ'' \<noteq> []" by simp
  ultimately have "KeyDocument_ok reference_platform sample_stranger"
    using sample_payloads_ok(3) [of PrincipalRole]
    by (auto simp: sample_stranger_def KeyDocument_ok_def controller_ok_def simp del: js_simps)
  then show "parse_KeyDocument reference_platform (KeyDocument_obj sample_stranger) = Inr sample_stranger" by (rule own)
qed

lemma sample_signed_fields [simp]:
  "gr_principal sample_signed_grant = sample_principal" "gr_subject sample_signed_grant = sample_agent"
  "gr_scopes sample_signed_grant = [js ''data:read'']" "gr_grant_id sample_signed_grant = sample_grant_id"
  "rv_key_id sample_signed_revocation = sample_key_id"
  "grant_holds reference_platform sample_signed_grant (sample_key PrincipalRole) now
    = in_window reference_platform (sample_instant 2) (sample_instant 6) now"
proof -
  show "grant_holds reference_platform sample_signed_grant (sample_key PrincipalRole) now
    = in_window reference_platform (sample_instant 2) (sample_instant 6) now"
    using signed_grant_holds [OF reference_crypto(2,3) sample_controls, of PrincipalRole sample_grant now]
    by (auto simp: sample_signed_grant_def grant_holds_def)
qed (simp_all add: sample_signed_grant_def sample_signed_revocation_def)

lemma sample_stranger_controller [simp]:
  "kd_controller sample_stranger \<noteq> sample_principal" "kd_controller sample_stranger \<noteq> sample_agent"
  by (simp_all add: sample_stranger_def) code_simp+

subsection \<open>Properties\<close>

text \<open>C1: \<open>evaluateAuthorization\<close> answers \<open>PERMITTED\<close> exactly when the grant is authentic and in force, the
  presented actor (if any) is the grant's subject, no supplied revocation speaks against it, and the scope is
  granted literally; every other input gets an evaluation with another decision, and a permission returns the
  grant's constraints as obligations and says whether revocations were supplied.\<close>

theorem permitted_exactly_when:
  assumes "zod_schemas E" "json_revocations i" "parse_Grant E (in_grant i) = Inr g"
    "parse_KeyDocument E (in_principalKey i) = Inr k"
  shows "if grant_holds E g k (in_now i) \<and> actor_bound E i g \<and> unrevoked E i g \<and> in_scope i \<in> set (gr_scopes g)
    then \<exists>msg. evaluateAuthorization E i = Inr \<lparr>az_decision = PERMITTED, az_reasonCode = None,
        az_message = msg, az_revocationsChecked = (in_revocations i \<noteq> None), az_granted = Some (facts_of g),
        az_obligations = gf_constraints (facts_of g)\<rparr>
    else \<exists>ev. evaluateAuthorization E i = Inr ev \<and> az_decision ev \<noteq> PERMITTED"
  using evaluate_verified [OF assms] by (simp add: permits_def)

theorem permitted_exactly_when_witness:
  "\<exists>msg. evaluateAuthorization reference_platform (sample_input None sample_stranger (sample_instant 3))
     = Inr \<lparr>az_decision = PERMITTED, az_reasonCode = None, az_message = msg, az_revocationsChecked = False,
         az_granted = Some (facts_of sample_signed_grant), az_obligations = gf_constraints (facts_of sample_signed_grant)\<rparr>"
  using permitted_exactly_when [OF reference_schemas, of "sample_input None sample_stranger (sample_instant 3)"
      sample_signed_grant "sample_key PrincipalRole"]
  by (simp add: json_revocations_def unrevoked_def del: js_simps)

text \<open>The order and the repetition of the supplied revocations do not matter for a permission.\<close>

theorem revocation_order_irrelevant:
  assumes "zod_schemas E" "list_all json_doc rs" "set rs = set rs'"
  shows "permitted (evaluateAuthorization E (i\<lparr>in_revocations := Some rs\<rparr>))
    = permitted (evaluateAuthorization E (i\<lparr>in_revocations := Some rs'\<rparr>))"
proof -
  have "list_all json_doc rs'" using assms(2,3) by (simp add: list_all_iff)
  then show ?thesis using assms
    by (simp add: permitted_evaluation json_revocations_def permits_def unrevoked_def) (simp add: list_all_iff)
qed

theorem revocation_order_irrelevant_witness:
  "permitted (evaluateAuthorization reference_platform (sample_input (Some [JNull, Grant_obj sample_signed_grant]) (sample_key PrincipalRole) (sample_instant 3)))
    = permitted (evaluateAuthorization reference_platform (sample_input (Some [Grant_obj sample_signed_grant, JNull, JNull]) (sample_key PrincipalRole) (sample_instant 3)))"
  using revocation_order_irrelevant [OF reference_schemas, of "[JNull, Grant_obj sample_signed_grant]"
      "[Grant_obj sample_signed_grant, JNull, JNull]" "sample_input None (sample_key PrincipalRole) (sample_instant 3)"]
  by (simp add: document_json_doc insert_commute)

text \<open>C3: A revocation whose key is supplied and belongs neither to the grant's principal nor to its subject never
  changes the permission: nobody else can revoke.\<close>

theorem foreign_revocation_is_inert:
  assumes "zod_schemas E" "list_all json_doc (xs @ r # ys)" "parse_Grant E (in_grant i) = Inr g"
    and "parse_Revocation E r = Inr rvn" "in_revocationKeys i (rv_key_id rvn) = Some kd" "parse_KeyDocument E kd = Inr k"
    and "kd_controller k \<noteq> gr_principal g" "kd_controller k \<noteq> gr_subject g"
  shows "permitted (evaluateAuthorization E (i\<lparr>in_revocations := Some (xs @ r # ys)\<rparr>))
    = permitted (evaluateAuthorization E (i\<lparr>in_revocations := Some (xs @ ys)\<rparr>))"
proof -
  have "silent E i g r" using assms(4-) by (simp add: silent_def blocks_def authoritative_def)
  then show ?thesis using assms(1-3)
    by (simp add: permitted_evaluation json_revocations_def permits_def unrevoked_def)
qed

theorem foreign_revocation_is_inert_witness:
  "permitted (evaluateAuthorization reference_platform
      (sample_input (Some [Revocation_obj sample_signed_revocation]) sample_stranger (sample_instant 5)))
    = permitted (evaluateAuthorization reference_platform (sample_input (Some []) sample_stranger (sample_instant 5)))"
  using foreign_revocation_is_inert [OF reference_schemas, of "[]" "Revocation_obj sample_signed_revocation" "[]"
      "sample_input None sample_stranger (sample_instant 5)" sample_signed_grant sample_signed_revocation]
  by (simp add: document_json_doc)

text \<open>C2: Once the principal of a grant signs its revocation, no evaluation at or after that instant that is given
  the revocation permits anything, whatever else is supplied.\<close>

theorem revoked_grant_never_permits:
  assumes "zod_schemas E" "ed25519_lengths E" "ed25519_correct E"
    and "RevocationPayload_ok E r" "KeyDocument_ok E k" "controls E sk k" "kd_key_id k = rv_key_id r"
      "kd_role k = PrincipalRole" "kd_controller k = gr_principal g" "keyActiveAt E k (rv_revoked_at r)"
    and "rv_revokes_type r = RevokesGrant" "rv_revokes r = gr_grant_id g" "parse_Grant E (in_grant i) = Inr g"
    and "date_le (Date_parse E (rv_revoked_at r)) (Date_parse E (in_now i))"
    and "in_revocationKeys i (rv_key_id r) = Some (KeyDocument_obj k)"
    and "list_all json_doc rs"
  shows "\<exists>s. signRevocation E (RevocationPayload_obj r) \<lparr>sk_private = sk, sk_document = KeyDocument_obj k\<rparr> = Inr s
    \<and> \<not> permitted (evaluateAuthorization E (i\<lparr>in_revocations := Some (Revocation_obj s # rs)\<rparr>))"
proof -
  let ?s = "signed_revocation E sk r" and ?i = "i\<lparr>in_revocations := Some (Revocation_obj (signed_revocation E sk r) # rs)\<rparr>"
  have s: "signRevocation E (RevocationPayload_obj r) \<lparr>sk_private = sk, sk_document = KeyDocument_obj k\<rparr> = Inr ?s"
    "Revocation_ok E ?s"
    using signRevocation_total [OF assms(1,2,4-7)] assms(8,11) by simp_all
  have "authentic E ?s k" using signed_revocation_authentic [OF assms(2,3,6,7)] assms(8,10,11) by simp
  then have "blocks E (in_now i) g ?s k" using assms(9,11,12,14) by (simp add: blocks_def authoritative_def)
  then have "\<not> silent E ?i g (Revocation_obj ?s)"
    using assms(15) parse_own(10) [OF assms(1) s(2)] parse_own(6) [OF assms(1,5)] by (simp add: silent_def)
  then have "\<not> unrevoked E ?i g" by (simp add: unrevoked_def)
  moreover have "json_revocations ?i" using assms(16) by (simp add: json_revocations_def document_json_doc)
  ultimately show ?thesis using assms(1,13) s(1) by (simp add: permitted_evaluation permits_def)
qed

theorem revoked_grant_never_permits_witness:
  "\<exists>s. signRevocation reference_platform (RevocationPayload_obj sample_revocation)
        \<lparr>sk_private = sample_secret, sk_document = KeyDocument_obj (sample_key PrincipalRole)\<rparr> = Inr s
    \<and> \<not> permitted (evaluateAuthorization reference_platform
        (sample_input (Some [Revocation_obj s]) (sample_key PrincipalRole) (sample_instant 5)))"
  using revoked_grant_never_permits [OF reference_schemas reference_crypto(2,3), of sample_revocation "sample_key PrincipalRole"
      sample_secret sample_signed_grant "sample_input None (sample_key PrincipalRole) (sample_instant 5)" "[]"]
  by simp

text \<open>A principal who signs a valid grant with the key its document publishes permits the granted scopes, and
  only those, to the subject within the window.\<close>

theorem signed_grant_permits:
  assumes "zod_schemas E" "ed25519_lengths E" "ed25519_correct E"
    and "GrantPayload_ok E g" "KeyDocument_ok E k" "controls E sk k"
      "names_key k (gr_key_id g) PrincipalRole (gr_principal g)" "keyActiveAt E k (gr_not_before g)"
      "in_window E (gr_not_before g) (gr_expires_at g) now"
  shows "\<exists>s. signAuthorizationGrant E (GrantPayload_obj g) \<lparr>sk_private = sk, sk_document = KeyDocument_obj k\<rparr> = Inr s
     \<and> permitted (evaluateAuthorization E \<lparr>in_grant = Grant_obj s, in_principalKey = KeyDocument_obj k, in_scope = scope,
         in_manifest = JUndefined, in_operatorKey = JUndefined, in_revocations = None, in_revocationKeys = \<lambda>id. None, in_now = now\<rparr>)
       = (scope \<in> set (gr_scopes g))"
proof -
  note total = signAuthorizationGrant_total [OF assms(1,2,4-7)]
  note parsed = parse_own(8) [OF assms(1) total(2)] parse_own(6) [OF assms(1,5)]
  show ?thesis using total(1) signed_grant_holds [OF assms(2,3,6-9)] assms(1)
    by (simp add: permitted_evaluation json_revocations_def permits_def parsed actor_bound_def unrevoked_def)
qed

theorem signed_grant_permits_witness:
  "\<exists>s. signAuthorizationGrant reference_platform (GrantPayload_obj sample_grant)
        \<lparr>sk_private = sample_secret, sk_document = KeyDocument_obj (sample_key PrincipalRole)\<rparr> = Inr s
     \<and> permitted (evaluateAuthorization reference_platform \<lparr>in_grant = Grant_obj s,
         in_principalKey = KeyDocument_obj (sample_key PrincipalRole), in_scope = js ''data:read'',
         in_manifest = JUndefined, in_operatorKey = JUndefined, in_revocations = None, in_revocationKeys = \<lambda>id. None,
         in_now = sample_instant 3\<rparr>)"
  using signed_grant_permits [OF reference_schemas reference_crypto(2,3) sample_payloads_ok(1,3) sample_controls,
      of PrincipalRole "sample_instant 3" "js ''data:read''"]
  by (simp del: js_simps)


end
