(* ===== verification/Registry_Store.thy ===== *)
theory Registry_Store
  imports Authorization_Verify "HOL-Library.AList" "HOL-Library.Multiset"
begin

section \<open>The registry store\<close>

text \<open>
  \<open>packages/api/src/store.ts\<close>: the records of the registry, the \<open>RegistryStore\<close> interface and its
  in-process implementation \<open>MemoryStore\<close>.

  An asynchronous operation is a function from the state to an outcome and the new state, where
  the outcome is the value it resolves to or the exception it rejects with.  The interface is the
  record \<open>registry_store\<close>, an argument of every definition that calls it; what its users rely on
  is the locale \<open>registry\<close>, over a view of the state.  Key documents are handed out as the objects
  the store holds, because callers look at their textual form.
\<close>

subsection \<open>Effects\<close>

datatype exn = StoreError jstr | RangeError | Protocol agenid_error

type_synonym ('s, 'a) io = "'s \<Rightarrow> (exn + 'a) \<times> 's"

definition io_return :: "'a \<Rightarrow> ('s, 'a) io" where
  "io_return x s = (Inr x, s)"

definition io_throw :: "exn \<Rightarrow> ('s, 'a) io" where
  "io_throw e s = (Inl e, s)"

definition io_bind :: "('s, 'a) io \<Rightarrow> ('a \<Rightarrow> ('s, 'b) io) \<Rightarrow> ('s, 'b) io" where
  "io_bind m f s = (case m s of (Inl e, s') \<Rightarrow> (Inl e, s') | (Inr x, s') \<Rightarrow> f x s')"

definition io_catch :: "('s, 'a) io \<Rightarrow> (exn \<Rightarrow> ('s, 'a) io) \<Rightarrow> ('s, 'a) io" where
  "io_catch m h s = (case m s of (Inl e, s') \<Rightarrow> h e s' | (Inr x, s') \<Rightarrow> (Inr x, s'))"

definition io_lift :: "agenid_error + 'a \<Rightarrow> ('s, 'a) io" where
  "io_lift r s = (map_sum Protocol id r, s)"

lemma io_simps [simp]:
  "io_bind (io_return x) f = f x" "io_bind (io_throw e) f = io_throw e"
  "io_bind (io_lift (Inr x)) f = f x" "io_bind (io_lift (Inl p)) f = io_throw (Protocol p)"
  "io_catch (io_return x) h = io_return x" "io_catch (io_throw e) h = h e"
  by (simp_all add: fun_eq_iff io_bind_def io_return_def io_throw_def io_lift_def io_catch_def)

lemma io_run [simp]:
  "io_return x s = (Inr x, s)" "io_throw e s = (Inl e, s)" "io_lift r s = (map_sum Protocol id r, s)"
  by (simp_all add: io_return_def io_throw_def io_lift_def)

lemma io_bind_eq:
  "io_bind m f s = (r, s') \<longleftrightarrow>
     (\<exists>e. m s = (Inl e, s') \<and> r = Inl e) \<or> (\<exists>x t. m s = (Inr x, t) \<and> f x t = (r, s'))"
  by (auto simp: io_bind_def split: prod.split sum.split)

subsection \<open>Records\<close>

datatype agent_status = ACTIVE | CHANGED | STALE | SUSPENDED | REVOKED

fun status_text :: "agent_status \<Rightarrow> jstr" where
  "status_text ACTIVE = js ''ACTIVE''"
| "status_text CHANGED = js ''CHANGED''"
| "status_text STALE = js ''STALE''"
| "status_text SUSPENDED = js ''SUSPENDED''"
| "status_text REVOKED = js ''REVOKED''"

record agent_record =
  ar_agent_id :: jstr
  ar_manifest :: manifest
  ar_manifest_digest :: jstr
  ar_proof :: manifest_proof
  ar_status :: agent_status
  ar_registered_at :: jstr
  ar_updated_at :: jstr

datatype event_type =
    AgentRegistered | AssertionIssued | ManifestChanged | AgentStatusChanged | KeyPublished | AgentRevokedEvent

fun event_type_text :: "event_type \<Rightarrow> jstr" where
  "event_type_text AgentRegistered = js ''agent.registered''"
| "event_type_text AssertionIssued = js ''assertion.issued''"
| "event_type_text ManifestChanged = js ''manifest.changed''"
| "event_type_text AgentStatusChanged = js ''agent.status_changed''"
| "event_type_text KeyPublished = js ''key.published''"
| "event_type_text AgentRevokedEvent = js ''agent.revoked''"

record ledger_event =
  le_event_id :: jstr
  le_agent_id :: jstr
  le_type :: event_type
  le_occurred_at :: jstr
  le_detail_ref :: "(jstr \<times> jstr) list"

record 's registry_store =
  getAgent :: "jstr \<Rightarrow> ('s, agent_record option) io"
  putAgent :: "agent_record \<Rightarrow> ('s, unit) io"
  createAgent :: "agent_record \<Rightarrow> ('s, bool) io"
  getKey :: "jstr \<Rightarrow> ('s, jsval option) io"
  putKey :: "key_document \<Rightarrow> ('s, unit) io"
  getAssertion :: "jstr \<Rightarrow> ('s, assertion option) io"
  putAssertion :: "assertion \<Rightarrow> ('s, unit) io"
  listAssertionsForSubject :: "jstr \<Rightarrow> ('s, assertion list) io"
  appendEvent :: "ledger_event \<Rightarrow> ('s, unit) io"
  listEvents :: "jstr \<Rightarrow> ('s, ledger_event list) io"

subsection \<open>MemoryStore\<close>

record memory_store =
  ms_agents :: "jstr \<Rightarrow> agent_record option"
  ms_keys :: "jstr \<Rightarrow> key_document option"
  ms_assertions :: "(jstr \<times> assertion) list" \<comment> \<open>a Map, in insertion order\<close>
  ms_events :: "ledger_event list"

definition empty_memory :: memory_store where
  "empty_memory = \<lparr>ms_agents = (\<lambda>id. None), ms_keys = (\<lambda>id. None), ms_assertions = [], ms_events = []\<rparr>"

definition memory_getAgent :: "jstr \<Rightarrow> (memory_store, agent_record option) io" where
  "memory_getAgent agentId s = (Inr (ms_agents s agentId), s)"

definition memory_putAgent :: "agent_record \<Rightarrow> (memory_store, unit) io" where
  "memory_putAgent r s = (Inr (), s\<lparr>ms_agents := (ms_agents s)(ar_agent_id r \<mapsto> r)\<rparr>)"

definition memory_createAgent :: "agent_record \<Rightarrow> (memory_store, bool) io" where
  "memory_createAgent r s =
     (if ms_agents s (ar_agent_id r) \<noteq> None then (Inr False, s)
      else (Inr True, s\<lparr>ms_agents := (ms_agents s)(ar_agent_id r \<mapsto> r)\<rparr>))"

definition memory_getKey :: "jstr \<Rightarrow> (memory_store, jsval option) io" where
  "memory_getKey keyId s = (Inr (map_option KeyDocument_obj (ms_keys s keyId)), s)"

definition memory_putKey :: "key_document \<Rightarrow> (memory_store, unit) io" where
  "memory_putKey doc s = (Inr (), s\<lparr>ms_keys := (ms_keys s)(kd_key_id doc \<mapsto> doc)\<rparr>)"

definition memory_getAssertion :: "jstr \<Rightarrow> (memory_store, assertion option) io" where
  "memory_getAssertion assertionId s = (Inr (map_of (ms_assertions s) assertionId), s)"

definition memory_putAssertion :: "assertion \<Rightarrow> (memory_store, unit) io" where
  "memory_putAssertion a s = (Inr (), s\<lparr>ms_assertions := AList.update (va_assertion_id a) a (ms_assertions s)\<rparr>)"

text \<open>
  \<open>Array.prototype.sort\<close> is stable; \<open>le\<close> is \<open>localeCompare\<close> (not positive), which depends on the
  locale of the process.
\<close>

fun insort_by :: "('a \<Rightarrow> 'a \<Rightarrow> bool) \<Rightarrow> 'a \<Rightarrow> 'a list \<Rightarrow> 'a list" where
  "insort_by le x [] = [x]"
| "insort_by le x (y # ys) = (if le x y then x # y # ys else y # insort_by le x ys)"

definition sort_by :: "('a \<Rightarrow> 'a \<Rightarrow> bool) \<Rightarrow> 'a list \<Rightarrow> 'a list" where
  "sort_by le xs = foldr (insort_by le) xs []"

definition memory_listAssertionsForSubject ::
  "(jstr \<Rightarrow> jstr \<Rightarrow> bool) \<Rightarrow> jstr \<Rightarrow> (memory_store, assertion list) io" where
  "memory_listAssertionsForSubject le subject s =
     (Inr (sort_by (\<lambda>a b. le (va_verified_at a) (va_verified_at b))
        (filter (\<lambda>a. va_subject a = subject) (map snd (ms_assertions s)))), s)"

definition memory_appendEvent :: "ledger_event \<Rightarrow> (memory_store, unit) io" where
  "memory_appendEvent e s = (Inr (), s\<lparr>ms_events := ms_events s @ [e]\<rparr>)"

definition memory_listEvents :: "jstr \<Rightarrow> (memory_store, ledger_event list) io" where
  "memory_listEvents agentId s = (Inr (filter (\<lambda>e. le_agent_id e = agentId) (ms_events s)), s)"

definition MemoryStore :: "(jstr \<Rightarrow> jstr \<Rightarrow> bool) \<Rightarrow> memory_store registry_store" where
  "MemoryStore le = \<lparr>getAgent = memory_getAgent, putAgent = memory_putAgent, createAgent = memory_createAgent,
     getKey = memory_getKey, putKey = memory_putKey, getAssertion = memory_getAssertion,
     putAssertion = memory_putAssertion, listAssertionsForSubject = memory_listAssertionsForSubject le,
     appendEvent = memory_appendEvent, listEvents = memory_listEvents\<rparr>"

subsection \<open>The contract\<close>

record registry_view =
  vw_agents :: "jstr \<Rightarrow> agent_record option"
  vw_keys :: "jstr \<Rightarrow> jsval option"
  vw_assertions :: "jstr \<Rightarrow> assertion option"
  vw_events :: "ledger_event list"

text \<open>A store may respell an instant, nothing else.\<close>

definition same_agent :: "agent_record \<Rightarrow> agent_record \<Rightarrow> bool" where
  "same_agent a b \<longleftrightarrow> a\<lparr>ar_registered_at := [], ar_updated_at := []\<rparr> = b\<lparr>ar_registered_at := [], ar_updated_at := []\<rparr>"

definition same_event :: "ledger_event \<Rightarrow> ledger_event \<Rightarrow> bool" where
  "same_event a b \<longleftrightarrow> a\<lparr>le_occurred_at := []\<rparr> = b\<lparr>le_occurred_at := []\<rparr>"

text \<open>What each write does to the view.\<close>

definition agent_written :: "agent_record \<Rightarrow> registry_view \<Rightarrow> registry_view \<Rightarrow> bool" where
  "agent_written r v w \<longleftrightarrow> (\<exists>r'. same_agent r' r \<and> w = v\<lparr>vw_agents := (vw_agents v)(ar_agent_id r \<mapsto> r')\<rparr>)"

definition key_written :: "key_document \<Rightarrow> registry_view \<Rightarrow> registry_view \<Rightarrow> bool" where
  "key_written k v w \<longleftrightarrow> (\<exists>d. same_json d (KeyDocument_obj k) \<and> plain d \<and> w = v\<lparr>vw_keys := (vw_keys v)(kd_key_id k \<mapsto> d)\<rparr>)"

definition assertion_written :: "assertion \<Rightarrow> registry_view \<Rightarrow> registry_view \<Rightarrow> bool" where
  "assertion_written a v w \<longleftrightarrow> w = v\<lparr>vw_assertions := (vw_assertions v)(va_assertion_id a \<mapsto> a)\<rparr>"

definition event_written :: "ledger_event \<Rightarrow> registry_view \<Rightarrow> registry_view \<Rightarrow> bool" where
  "event_written e v w \<longleftrightarrow> (\<exists>e'. same_event e' e \<and> w = v\<lparr>vw_events := vw_events v @ [e']\<rparr>)"

text \<open>
  A read leaves the state alone and, when it succeeds, answers from the view.  A write that
  succeeds has its effect; one that fails has it or not.
\<close>

definition reads :: "('s \<Rightarrow> registry_view) \<Rightarrow> ('s, 'a) io \<Rightarrow> 's \<Rightarrow> ('a \<Rightarrow> bool) \<Rightarrow> bool" where
  "reads view m s P \<longleftrightarrow> snd (m s) = s \<and> (case fst (m s) of Inl e \<Rightarrow> True | Inr x \<Rightarrow> P x)"

definition writes :: "('s \<Rightarrow> bool) \<Rightarrow> ('s \<Rightarrow> registry_view) \<Rightarrow> ('s, 'a) io \<Rightarrow> 's \<Rightarrow> (registry_view \<Rightarrow> registry_view \<Rightarrow> bool) \<Rightarrow> bool" where
  "writes good view m s W \<longleftrightarrow> good (snd (m s))
     \<and> (case fst (m s) of Inl e \<Rightarrow> view (snd (m s)) = view s \<or> W (view s) (view (snd (m s)))
        | Inr x \<Rightarrow> W (view s) (view (snd (m s))))"

locale registry =
  fixes S :: "'s registry_store" and good :: "'s \<Rightarrow> bool" and view :: "'s \<Rightarrow> registry_view"
  assumes getAgent: "good s \<Longrightarrow> reads view (getAgent S a) s (\<lambda>x. x = vw_agents (view s) a)"
    and getKey: "good s \<Longrightarrow> reads view (getKey S k) s (\<lambda>x. x = vw_keys (view s) k)"
    and getAssertion: "good s \<Longrightarrow> reads view (getAssertion S i) s (\<lambda>x. x = vw_assertions (view s) i)"
    and listAssertions: "good s \<Longrightarrow> reads view (listAssertionsForSubject S sub) s
      (\<lambda>xs. set xs = {a \<in> ran (vw_assertions (view s)). va_subject a = sub} \<and> distinct xs)"
    and listEvents: "good s \<Longrightarrow> reads view (listEvents S a) s
      (\<lambda>xs. mset xs = mset (filter (\<lambda>e. le_agent_id e = a) (vw_events (view s))))"
    and putAgent: "good s \<Longrightarrow> writes good view (putAgent S r) s (agent_written r)"
    and createAgent: "good s \<Longrightarrow> writes good view (createAgent S r) s
      (\<lambda>v w. if vw_agents v (ar_agent_id r) \<noteq> None then w = v else agent_written r v w)"
    and createAgent_result: "good s \<Longrightarrow> fst (createAgent S r s) = Inr b \<Longrightarrow> b = (vw_agents (view s) (ar_agent_id r) = None)"
    and putKey: "good s \<Longrightarrow> writes good view (putKey S kd) s (key_written kd)"
    and putAssertion: "good s \<Longrightarrow> writes good view (putAssertion S as) s (assertion_written as)"
    and appendEvent: "good s \<Longrightarrow> writes good view (appendEvent S ev) s (event_written ev)"
    and view_key_plain: "good s \<Longrightarrow> vw_keys (view s) k = Some d \<Longrightarrow> plain d"
    and view_assertion_id: "good s \<Longrightarrow> vw_assertions (view s) i = Some as \<Longrightarrow> va_assertion_id as = i"

subsection \<open>MemoryStore keeps it\<close>

definition memory_good :: "memory_store \<Rightarrow> bool" where
  "memory_good s \<longleftrightarrow> distinct (map fst (ms_assertions s)) \<and> (\<forall>(i, a) \<in> set (ms_assertions s). va_assertion_id a = i)"

definition memory_view :: "memory_store \<Rightarrow> registry_view" where
  "memory_view s = \<lparr>vw_agents = ms_agents s, vw_keys = (\<lambda>k. map_option KeyDocument_obj (ms_keys s k)),
     vw_assertions = map_of (ms_assertions s), vw_events = ms_events s\<rparr>"

lemma mset_insort_by [simp]: "mset (insort_by le x xs) = add_mset x (mset xs)"
  by (induction xs) auto

lemma mset_sort_by [simp]: "mset (sort_by le xs) = mset xs"
  by (induction xs) (simp_all add: sort_by_def)

lemma set_sort_by [simp]: "set (sort_by le xs) = set xs"
  by (metis mset_sort_by set_mset_mset)

lemma distinct_sort_by [simp]: "distinct (sort_by le xs) = distinct xs"
  by (metis mset_sort_by mset_eq_imp_distinct_iff)

lemma same_agent_refl [simp]: "same_agent r r"
  by (simp add: same_agent_def)

lemma same_event_refl [simp]: "same_event e e"
  by (simp add: same_event_def)

lemma memory_assertions:
  assumes "memory_good s"
  shows "set (map snd (ms_assertions s)) = ran (map_of (ms_assertions s))" "distinct (map snd (ms_assertions s))"
    "map_of (ms_assertions s) i = Some a \<Longrightarrow> va_assertion_id a = i"
proof -
  have d: "distinct (map fst (ms_assertions s))" and ids: "\<And>i a. (i, a) \<in> set (ms_assertions s) \<Longrightarrow> va_assertion_id a = i"
    using assms by (auto simp: memory_good_def)
  show "set (map snd (ms_assertions s)) = ran (map_of (ms_assertions s))" using d by (simp add: ran_distinct)
  have "map va_assertion_id (map snd (ms_assertions s)) = map fst (ms_assertions s)" using ids by auto
  with d show "distinct (map snd (ms_assertions s))" by (metis distinct_map)
  show "map_of (ms_assertions s) i = Some a \<Longrightarrow> va_assertion_id a = i" using ids by (auto dest: map_of_SomeD)
qed

lemma memory_good_update:
  assumes "memory_good s"
  shows "memory_good (s\<lparr>ms_assertions := AList.update (va_assertion_id a) a (ms_assertions s)\<rparr>)"
proof -
  let ?al = "AList.update (va_assertion_id a) a (ms_assertions s)"
  have d: "distinct (map fst ?al)" using assms by (simp add: memory_good_def distinct_update)
  have "va_assertion_id b = i" if "(i, b) \<in> set ?al" for i b
  proof -
    from d that have "map_of ?al i = Some b" by simp
    with memory_assertions(3) [OF assms] show ?thesis by (auto simp: update_conv' split: if_splits)
  qed
  with d show ?thesis by (auto simp: memory_good_def)
qed

lemmas memory_defs = MemoryStore_def memory_getAgent_def memory_putAgent_def memory_createAgent_def memory_getKey_def
  memory_putKey_def memory_getAssertion_def memory_putAssertion_def memory_listAssertionsForSubject_def
  memory_appendEvent_def memory_listEvents_def memory_view_def

lemma memory_registry: "registry (MemoryStore le) memory_good memory_view"
proof (unfold_locales, goal_cases)
  case (4 s sub)
  then show ?case using memory_assertions [OF 4]
    by (auto simp: memory_defs reads_def intro: distinct_filter)
next
  case (6 s r)
  then show ?case by (auto simp: memory_defs writes_def agent_written_def memory_good_def intro!: exI [of _ r])
next
  case (7 s r)
  then show ?case by (auto simp: memory_defs writes_def agent_written_def memory_good_def intro!: exI [of _ r])
next
  case (9 s k)
  then show ?case by (auto simp: memory_defs writes_def key_written_def fun_eq_iff KeyDocument_plain memory_good_def intro!: exI [of _ "KeyDocument_obj k"])
next
  case (10 s a)
  then show ?case using memory_good_update [OF 10, of a]
    by (simp add: memory_defs writes_def assertion_written_def update_conv')
next
  case (12 s k d)
  then show ?case by (auto simp: memory_defs KeyDocument_plain)
next
  case (13 s i a)
  then show ?case using memory_assertions(3) by (simp add: memory_defs)
qed (auto simp: memory_defs reads_def writes_def agent_written_def event_written_def memory_good_def split: if_splits)

interpretation memory: registry "MemoryStore le" memory_good memory_view
  by (rule memory_registry)

end
