(* ===== verification/Key_Discovery.thy ===== *)
theory Key_Discovery
  imports Registry_Store
begin

section \<open>Key discovery\<close>

text \<open>
  \<open>packages/api/src/raw-key-target.ts\<close> and \<open>serve-key.ts\<close>: which request targets of
  \<open>GET /v1/keys\<close> name a key, and which document is served for one.  Both registries are adapters
  over these functions.  The fixed error texts are named by the members of \<open>KEY_ERROR_MESSAGES\<close>.
\<close>

subsection \<open>Error texts\<close>

datatype key_error =
    MissingKeyId | DuplicateKeyId | Fragment | DoubleEncoded | PathNotLiteral | MalformedEscape | TargetDisagreement
  | BadWireForm | BadLogicalForm | KeyNotFound | KeyRegistryUnavailable | KeyDocumentInvalid

text \<open>The section sign of the texts is U+00A7, the dash U+2014.\<close>

definition section_sign :: jstr where "section_sign = [0xA7]"
definition em_dash :: jstr where "em_dash = [0x2014]"
definition quote_mark :: jstr where "quote_mark = [0x27]"

fun key_error_message :: "key_error \<Rightarrow> jstr" where
  "key_error_message MissingKeyId = js ''key_id query parameter required (percent-encoded logical form agenid:key:<key-ULID>), or use /v1/keys/<key-ULID>''"
| "key_error_message DuplicateKeyId = js ''key_id must appear exactly once: a repeated parameter is ambiguous, and this registry refuses it rather than guessing which one was meant''"
| "key_error_message Fragment = js ''key reference must not contain a URI fragment ('' @ quote_mark @ js ''#'' @ quote_mark
     @ js ''): fragments are not sent to servers and cannot be resolved (spec '' @ section_sign @ js ''0.A)''"
| "key_error_message DoubleEncoded = js ''key reference is percent-encoded more than once: the transport layer decodes it exactly once, and spec ''
     @ section_sign @ js ''0.A defines only the bare key-ULID and the logical form agenid:key:<key-ULID>''"
| "key_error_message PathNotLiteral = js ''the path segment must be the literal wire form of a key identifier: a bare key-ULID, carrying no percent-encoding (spec ''
     @ section_sign @ js ''0.A, '' @ section_sign @ js ''9.2). A percent-escape in this position is not a second spelling of a key ''
     @ em_dash @ js '' it is a different request target whose decoded form only resembles one''"
| "key_error_message MalformedEscape = js ''key reference contains a malformed percent-escape and is not a key identifier in any spelling defined by spec ''
     @ section_sign @ js ''0.A''"
| "key_error_message TargetDisagreement = js ''this registry could not establish one unambiguous request target for the key reference and refused rather than guess which reading was meant''"
| "key_error_message BadWireForm = js ''the path segment must be the wire form of a key identifier: a bare key-ULID (spec ''
     @ section_sign @ js ''0.A, '' @ section_sign @ js ''9.2)''"
| "key_error_message BadLogicalForm = js ''key_id must be the logical form agenid:key:<key-ULID> (spec '' @ section_sign @ js ''0.A, ''
     @ section_sign @ js ''9.2)''"
| "key_error_message KeyNotFound = js ''no key document is published under this identifier''"
| "key_error_message KeyRegistryUnavailable = js ''the key registry could not be reached; this key'' @ quote_mark @ js ''s status is unknown, not disproven''"
| "key_error_message KeyDocumentInvalid = js ''the stored key document did not validate and was not served''"

definition KEY_RESPONSE_HEADERS :: "(jstr \<times> jstr) list" where
  "KEY_RESPONSE_HEADERS = [(js ''content-type'', js ''application/json''), (js ''access-control-allow-origin'', js ''*''),
     (js ''cache-control'', js ''no-store'')]"

definition KEY_ALLOWED_METHODS :: jstr where
  "KEY_ALLOWED_METHODS = js ''GET, OPTIONS''"

subsection \<open>The raw request target\<close>

text \<open>\<open>s.indexOf(p)\<close>, and \<open>/%23/i.test(s)\<close>: the pattern has no letter.\<close>

fun find_sub :: "jstr \<Rightarrow> jstr \<Rightarrow> nat option" where
  "find_sub p s =
     (case strip_prefix p s of
        Some r \<Rightarrow> Some 0
      | None \<Rightarrow> (case s of [] \<Rightarrow> None | c # cs \<Rightarrow> map_option Suc (find_sub p cs)))"

declare find_sub.simps [simp del]

definition ENCODED_HASH :: "jstr \<Rightarrow> bool" where
  "ENCODED_HASH s \<longleftrightarrow> find_sub (js ''%23'') s \<noteq> None"

definition originForm :: "jstr \<Rightarrow> jstr" where
  "originForm url =
     (case find_sub (js ''://'') url of
        None \<Rightarrow> url
      | Some schemeEnd \<Rightarrow>
          (case index_of (jc CHR ''/'') (drop (schemeEnd + 3) url) of
             None \<Rightarrow> js ''/''
           | Some i \<Rightarrow> drop (schemeEnd + 3 + i) url))"

text \<open>Path and query.\<close>

definition splitTarget :: "jstr \<Rightarrow> key_error + jstr \<times> jstr" where
  "splitTarget url =
     (let target = originForm url in
      if jc CHR ''#'' \<in> set target then Inl Fragment
      else case index_of (jc CHR ''?'') target of
             None \<Rightarrow> Inr (target, [])
           | Some q \<Rightarrow> Inr (take q target, drop (q + 1) target))"

definition last_segment :: "jstr \<Rightarrow> jstr" where
  "last_segment path = last (split_on (jc CHR ''/'') path)"

definition rawKeyPathSegment :: "jstr \<Rightarrow> key_error + jstr" where
  "rawKeyPathSegment url =
     rbind (splitTarget url) (\<lambda>(path, query).
       let segment = last_segment path in
       if ENCODED_HASH segment then Inl Fragment
       else if jc CHR ''%'' \<in> set segment then Inl PathNotLiteral
       else Inr segment)"

text \<open>The loop over the pairs of the query.\<close>

fun query_values :: "jstr list \<Rightarrow> key_error + jstr list" where
  "query_values [] = Inr []"
| "query_values (pair # pairs) =
     (let (rawName, rawValue) = (case index_of (jc CHR ''='') pair of
            None \<Rightarrow> (pair, []) | Some eq \<Rightarrow> (take eq pair, drop (eq + 1) pair))
      in if pair = [] \<or> rawName \<noteq> js ''key_id'' then query_values pairs
         else if ENCODED_HASH rawValue then Inl Fragment
         else case decodeURIComponent rawValue of
                None \<Rightarrow> Inl MalformedEscape
              | Some v \<Rightarrow> rbind (query_values pairs) (\<lambda>vs. Inr (v # vs)))"

definition rawKeyQueryValues :: "jstr \<Rightarrow> key_error + jstr list" where
  "rawKeyQueryValues url =
     rbind (splitTarget url) (\<lambda>(path, query). query_values (split_on (jc CHR ''&'') query))"

definition rawKeyTargetFailure :: "jstr \<Rightarrow> key_error option" where
  "rawKeyTargetFailure url =
     (case splitTarget url of
        Inl e \<Rightarrow> Some e
      | Inr (path, query) \<Rightarrow>
          (let rest = drop (length (js ''/v1/keys'')) path in
           if rest = [] \<or> rest = js ''/''
           then (case rawKeyQueryValues url of Inl e \<Rightarrow> Some e | Inr vs \<Rightarrow> None)
           else (case rawKeyPathSegment url of Inl e \<Rightarrow> Some e | Inr seg \<Rightarrow> None)))"

subsection \<open>References\<close>

datatype key_reference_position = PathPosition | QueryPosition

definition canonicalKeyReference :: "jstr option \<Rightarrow> key_reference_position \<Rightarrow> key_error + jstr" where
  "canonicalKeyReference ref position =
     (case ref of
        None \<Rightarrow> Inl (if position = QueryPosition then MissingKeyId else BadWireForm)
      | Some r \<Rightarrow>
          if r = [] then Inl (if position = QueryPosition then MissingKeyId else BadWireForm)
          else if jc CHR ''#'' \<in> set r then Inl Fragment
          else if jc CHR ''%'' \<in> set r then Inl DoubleEncoded
          else if position = PathPosition \<and> \<not> isValidUlid r then Inl BadWireForm
          else if position \<noteq> PathPosition \<and> \<not> isValidKeyId r then Inl BadLogicalForm
          else case parseKeyReference r of
                 Inr k \<Rightarrow> Inr k
               | Inl e \<Rightarrow> Inl (if position = PathPosition then BadWireForm else BadLogicalForm))"

subsection \<open>Resolution\<close>

datatype key_resolution =
    KeyServed key_document
  | KeyRefused nat jstr key_error "jstr option" \<comment> \<open>status, error, message, key_id\<close>

definition invalidTarget :: "key_error \<Rightarrow> key_resolution" where
  "invalidTarget e = KeyRefused 400 (js ''invalid_key_id'') e None"

definition resolveKeyDocument ::
  "platform \<Rightarrow> (jstr \<Rightarrow> ('s, jsval option) io) \<Rightarrow> jstr option \<Rightarrow> key_reference_position \<Rightarrow> ('s, key_resolution) io" where
  "resolveKeyDocument E reader ref position =
     (case canonicalKeyReference ref position of
        Inl e \<Rightarrow> io_return (invalidTarget e)
      | Inr keyId \<Rightarrow>
          io_catch
            (io_bind (reader keyId) (\<lambda>raw. io_return
               (case raw of
                  None \<Rightarrow> KeyRefused 404 (js ''key_not_found'') KeyNotFound (Some keyId)
                | Some d \<Rightarrow>
                    (case parse_KeyDocument E d of
                       Inl issues \<Rightarrow> KeyRefused 503 (js ''key_document_invalid'') KeyDocumentInvalid None
                     | Inr doc \<Rightarrow>
                         if kd_key_id doc \<noteq> keyId
                         then KeyRefused 503 (js ''key_document_invalid'') KeyDocumentInvalid None
                         else KeyServed doc))))
            (\<lambda>e. io_return (KeyRefused 503 (js ''registry_unavailable'') KeyRegistryUnavailable None)))"

definition resolveKeyFromQuery ::
  "platform \<Rightarrow> (jstr \<Rightarrow> ('s, jsval option) io) \<Rightarrow> jstr list \<Rightarrow> ('s, key_resolution) io" where
  "resolveKeyFromQuery E reader vs =
     (if 1 < length vs then io_return (invalidTarget DuplicateKeyId)
      else resolveKeyDocument E reader (case vs of [] \<Rightarrow> None | v # _ \<Rightarrow> Some v) QueryPosition)"

definition resolveKeyFromRawPath ::
  "platform \<Rightarrow> (jstr \<Rightarrow> ('s, jsval option) io) \<Rightarrow> jstr \<Rightarrow> jstr option \<Rightarrow> ('s, key_resolution) io" where
  "resolveKeyFromRawPath E reader rawUrl frameworkSegment =
     (case rawKeyPathSegment rawUrl of
        Inl e \<Rightarrow> io_return (invalidTarget e)
      | Inr raw \<Rightarrow>
          if frameworkSegment \<noteq> None \<and> frameworkSegment \<noteq> Some raw then io_return (invalidTarget TargetDisagreement)
          else resolveKeyDocument E reader (Some raw) PathPosition)"

definition resolveKeyFromRawQuery ::
  "platform \<Rightarrow> (jstr \<Rightarrow> ('s, jsval option) io) \<Rightarrow> jstr \<Rightarrow> ('s, key_resolution) io" where
  "resolveKeyFromRawQuery E reader rawUrl =
     (case rawKeyQueryValues rawUrl of
        Inl e \<Rightarrow> io_return (invalidTarget e)
      | Inr vs \<Rightarrow> resolveKeyFromQuery E reader vs)"

subsection \<open>Targets\<close>

lemma find_sub_Some: "find_sub p s = Some n \<Longrightarrow> set p \<subseteq> set s"
proof (induction s arbitrary: n)
  case Nil
  then show ?case using find_sub.simps [of p "[]"] by (auto simp: strip_prefix_Some_iff split: option.splits)
next
  case (Cons c s)
  show ?case
  proof (cases "strip_prefix p (c # s)")
    case None
    with Cons.prems find_sub.simps [of p "c # s"] obtain m where "find_sub p s = Some m" by auto
    with Cons.IH show ?thesis by auto
  next
    case (Some r)
    then show ?thesis unfolding strip_prefix_Some_iff by (metis Un_upper1 set_append)
  qed
qed

lemma no_escape_no_hash: "37 \<notin> set s \<Longrightarrow> \<not> ENCODED_HASH s"
  using find_sub_Some [of "js ''%23''" s] by (cases "find_sub (js ''%23'') s") (auto simp: ENCODED_HASH_def)

lemma rawKeyPathSegment_iff:
  "rawKeyPathSegment url = Inr u \<longleftrightarrow>
     (\<exists>path query. splitTarget url = Inr (path, query) \<and> u = last_segment path \<and> 37 \<notin> set u)"
  using no_escape_no_hash by (auto simp: rawKeyPathSegment_def rbind_Inr_iff Let_def split: if_splits)

lemma canonicalKeyReference_iff:
  "canonicalKeyReference ref PathPosition = Inr k \<longleftrightarrow> (\<exists>u. ref = Some u \<and> isValidUlid u \<and> k = js ''agenid:key:'' @ u)"
  "canonicalKeyReference ref QueryPosition = Inr k \<longleftrightarrow> ref = Some k \<and> isValidKeyId k"
proof -
  have u: "parseKeyReference u = Inr (js ''agenid:key:'' @ u) \<and> 37 \<notin> set u \<and> 35 \<notin> set u \<and> u \<noteq> []" if "isValidUlid u" for u
  proof -
    have "37 \<notin> set u" "35 \<notin> set u" "u \<noteq> []"
      using that ulid_crockford [OF that] crockford_not_special by (auto simp: list_all_iff isValidUlid_def)
    then show ?thesis using that by (simp add: parseKeyReference_def fragment_mark_def decodeURIComponent_plain)
  qed
  show "canonicalKeyReference ref PathPosition = Inr k \<longleftrightarrow> (\<exists>u. ref = Some u \<and> isValidUlid u \<and> k = js ''agenid:key:'' @ u)"
    using u by (auto simp: canonicalKeyReference_def split: option.splits sum.splits if_splits)
  have v: "parseKeyReference k = Inr k \<and> 37 \<notin> set k \<and> 35 \<notin> set k \<and> k \<noteq> []" if "isValidKeyId k" for k
    using key_id_units [OF that] that by (intro conjI parse_decoded decodeURIComponent_plain) auto
  show "canonicalKeyReference ref QueryPosition = Inr k \<longleftrightarrow> ref = Some k \<and> isValidKeyId k"
    using v by (auto simp: canonicalKeyReference_def split: option.splits sum.splits if_splits)
qed

lemma resolveKeyDocument_served:
  "resolveKeyDocument E reader ref pos s = (Inr (KeyServed d), s') \<longleftrightarrow>
     (\<exists>k raw. canonicalKeyReference ref pos = Inr k \<and> reader k s = (Inr (Some raw), s') \<and> parse_KeyDocument E raw = Inr d
        \<and> kd_key_id d = k)"
  by (auto simp: resolveKeyDocument_def invalidTarget_def io_catch_def io_bind_def
      split: sum.splits prod.splits option.splits if_splits)

lemma resolveKeyDocument_total: "\<exists>r s'. resolveKeyDocument E reader ref pos s = (Inr r, s')"
  by (simp add: resolveKeyDocument_def io_catch_def io_bind_def split: sum.split prod.split option.split)

text \<open>The targets core builds for a key.\<close>

lemma encode_unreserved:
  "list_all (\<lambda>c. ascii c \<and> is_unreserved c) s \<Longrightarrow> encodeURIComponent s = Some s"
  by (induction s) (simp_all add: encode_Cons_ascii del: encodeURIComponent.simps(2,3))

lemma crockford_unreserved: "is_crockford c \<Longrightarrow> ascii c \<and> is_unreserved c"
  using crockford_not_special [of c] by (auto simp: is_unreserved_def is_crockford_def class_defs)

lemma ulid_units:
  assumes "isValidUlid u"
  shows "list_all (\<lambda>c. ascii c \<and> is_unreserved c) u" "37 \<notin> set u" "35 \<notin> set u" "38 \<notin> set u" "47 \<notin> set u" "61 \<notin> set u" "63 \<notin> set u" "58 \<notin> set u"
proof -
  show *: "list_all (\<lambda>c. ascii c \<and> is_unreserved c) u"
    using ulid_crockford [OF assms] crockford_unreserved by (auto simp: list_all_iff)
  have "\<not> is_unreserved 37" "\<not> is_unreserved 35" "\<not> is_unreserved 38" "\<not> is_unreserved 47" "\<not> is_unreserved 61" "\<not> is_unreserved 63"
    "\<not> is_unreserved 58"
    by (simp_all add: is_unreserved_def class_defs)
  with * show "37 \<notin> set u" "35 \<notin> set u" "38 \<notin> set u" "47 \<notin> set u" "61 \<notin> set u" "63 \<notin> set u" "58 \<notin> set u"
    by (auto simp: list_all_iff)
qed

lemma core_targets:
  assumes "isValidUlid u"
  shows "keyResolverPath (js ''agenid:key:'' @ u) = Inr (js ''/v1/keys/'' @ u)"
    and "keyResolverQuery (js ''agenid:key:'' @ u) = Inr (js ''/v1/keys?key_id=agenid%3Akey%3A'' @ u)"
proof -
  have k: "isValidKeyId (js ''agenid:key:'' @ u)" using assms by (auto simp: keyId_iff)
  then show "keyResolverPath (js ''agenid:key:'' @ u) = Inr (js ''/v1/keys/'' @ u)"
    by (simp add: keyResolverPath_def keyIdToWire_def)
  have HEX: "percent_bytes [58] = js ''%3A''" by (simp add: percent_bytes_def HEX_digit_def)
  have "encodeURIComponent (js ''agenid:key:'' @ u) = Some (js ''agenid%3Akey%3A'' @ u)"
    using encode_unreserved [OF ulid_units(1) [OF assms]] HEX
    by (simp add: encode_Cons_ascii ascii_def is_unreserved_def class_defs del: encodeURIComponent.simps)
  with k show "keyResolverQuery (js ''agenid:key:'' @ u) = Inr (js ''/v1/keys?key_id=agenid%3Akey%3A'' @ u)"
    by (simp add: keyResolverQuery_def)
qed

lemma find_sub_None: "\<not> set p \<subseteq> set s \<Longrightarrow> find_sub p s = None"
  using find_sub_Some by (cases "find_sub p s") auto

lemma originForm_plain: "58 \<notin> set s \<Longrightarrow> originForm s = s"
  by (simp add: originForm_def find_sub_None)

lemma last_segment_append: "47 \<notin> set u \<Longrightarrow> last_segment (js ''/v1/keys/'' @ u) = u"
  by (simp add: last_segment_def split_on_no_sep)

lemma core_targets_read:
  assumes "isValidUlid u"
  shows "rawKeyPathSegment (js ''/v1/keys/'' @ u) = Inr u"
    and "rawKeyQueryValues (js ''/v1/keys?key_id=agenid%3Akey%3A'' @ u) = Inr [js ''agenid:key:'' @ u]"
proof -
  note units = ulid_units [OF assms]
  have "index_of 63 (js ''/v1/keys/'' @ u) = None" using units by (simp add: index_of_None_iff)
  then have "splitTarget (js ''/v1/keys/'' @ u) = Inr (js ''/v1/keys/'' @ u, [])"
    using units by (simp add: splitTarget_def originForm_plain)
  then show "rawKeyPathSegment (js ''/v1/keys/'' @ u) = Inr u"
    using units last_segment_append [of u] by (auto simp: rawKeyPathSegment_iff simp del: js_simps)
  have q: "splitTarget (js ''/v1/keys?key_id=agenid%3Akey%3A'' @ u) = Inr (js ''/v1/keys'', js ''key_id=agenid%3Akey%3A'' @ u)"
    using units by (simp add: splitTarget_def originForm_plain)
  have k: "isValidKeyId (js ''agenid:key:'' @ u)" using assms by (auto simp: keyId_iff)
  obtain e where e: "encodeURIComponent (js ''agenid:key:'' @ u) = Some e" "decodeURIComponent e = Some (js ''agenid:key:'' @ u)"
    using decode_encode_ascii key_id_units [OF k] by blast
  have "e = js ''agenid%3Akey%3A'' @ u"
    using e(1) k core_targets(2) [OF assms] by (simp add: keyResolverQuery_def)
  with e have dec: "decodeURIComponent (js ''agenid%3Akey%3A'' @ u) = Some (js ''agenid:key:'' @ u)" by simp
  have hash: "\<not> ENCODED_HASH (js ''agenid%3Akey%3A'' @ u)"
  proof -
    have "find_sub [37, 50, 51] u = None" using units by (intro find_sub_None) auto
    then show ?thesis by (simp add: ENCODED_HASH_def find_sub.simps [of _ "_ # _"])
  qed
  have split: "split_on 38 (js ''key_id=agenid%3Akey%3A'' @ u) = [js ''key_id=agenid%3Akey%3A'' @ u]"
    using units by (intro split_on_no_sep) auto
  have "query_values [js ''key_id='' @ s] = (if ENCODED_HASH s then Inl Fragment else
      case decodeURIComponent s of None \<Rightarrow> Inl MalformedEscape | Some v \<Rightarrow> Inr [v])" for s
    by (simp split: option.split)
  from this [of "js ''agenid%3Akey%3A'' @ u"] show "rawKeyQueryValues (js ''/v1/keys?key_id=agenid%3Akey%3A'' @ u) = Inr [js ''agenid:key:'' @ u]"
    using q split hash dec by (simp add: rawKeyQueryValues_def)
qed

subsection \<open>Properties\<close>



text \<open>The path target and the query target that core builds for a key resolve to the same answer in the same
  state, whatever the store answers.\<close>

theorem wire_forms_resolve_alike:
  assumes "isValidKeyId k" "keyResolverPath k = Inr p" "keyResolverQuery k = Inr q"
  shows "resolveKeyFromRawPath E reader p None s = resolveKeyFromRawQuery E reader q s"
proof -
  obtain u where u: "k = js ''agenid:key:'' @ u" "isValidUlid u" using assms(1) by (auto simp: keyId_iff)
  then have "p = js ''/v1/keys/'' @ u" "q = js ''/v1/keys?key_id=agenid%3Akey%3A'' @ u"
    using assms(2,3) core_targets [OF u(2)] by (simp_all del: js_simps)
  moreover have "canonicalKeyReference (Some u) PathPosition = canonicalKeyReference (Some k) QueryPosition"
    using u canonicalKeyReference_iff(1) [of "Some u" k] canonicalKeyReference_iff(2) [of "Some k" k] assms(1) by simp
  ultimately show ?thesis using core_targets_read [OF u(2)] u(1)
    by (simp add: resolveKeyFromRawPath_def resolveKeyFromRawQuery_def resolveKeyFromQuery_def resolveKeyDocument_def del: js_simps)
qed

theorem wire_forms_resolve_alike_witness:
  "\<exists>p q. keyResolverPath sample_key_id = Inr p \<and> keyResolverQuery sample_key_id = Inr q
     \<and> resolveKeyFromRawPath reference_platform memory_getKey p None empty_memory
       = resolveKeyFromRawQuery reference_platform memory_getKey q empty_memory"
proof -
  have k: "isValidKeyId sample_key_id" using sample_ids by (simp add: KeyId_def)
  have p: "keyResolverPath sample_key_id = Inr (js ''/v1/keys/'' @ sample_ulid)"
    and q: "keyResolverQuery sample_key_id = Inr (js ''/v1/keys?key_id=agenid%3Akey%3A'' @ sample_ulid)"
    unfolding sample_key_id_def by (rule core_targets [OF sample_ids(1)])+
  show ?thesis
    by (intro exI conjI, rule p, rule q, rule wire_forms_resolve_alike [OF k p q])
qed

text \<open>No spelling aliases a key: the segment a path is resolved by is unchanged by any number of percent-decodings,
  so a framework that decodes the path zero, one or several times reads the same key.\<close>

theorem path_segment_decode_free:
  assumes "rawKeyPathSegment url = Inr u"
  shows "((\<lambda>r. Option.bind r decodeURIComponent) ^^ n) (Some u) = Some u \<and> jc CHR ''%'' \<notin> set u"
proof -
  have "37 \<notin> set u" using assms by (auto simp: rawKeyPathSegment_iff)
  then show ?thesis by (induction n) (simp_all add: decodeURIComponent_plain)
qed

theorem path_segment_decode_free_witness:
  "((\<lambda>r. Option.bind r decodeURIComponent) ^^ 3) (Some sample_ulid) = Some sample_ulid"
  using path_segment_decode_free [OF core_targets_read(1) [OF sample_ids(1)]] by blast

text \<open>Key discovery answers every request: a store that fails gives 503, never an exception; and a target the
  router refuses is refused by the handler with the same text.\<close>

theorem discovery_total:
  "(\<exists>r s'. resolveKeyFromRawPath E reader url fw s = (Inr r, s'))
   \<and> (\<exists>r s'. resolveKeyFromRawQuery E reader url s = (Inr r, s'))
   \<and> (case rawKeyTargetFailure url of
        None \<Rightarrow> True
      | Some e \<Rightarrow> resolveKeyFromRawPath E reader url fw s = (Inr (invalidTarget e), s)
                 \<or> resolveKeyFromRawQuery E reader url s = (Inr (invalidTarget e), s))"
proof -
  have "resolveKeyFromRawPath E reader url fw s = (Inr (invalidTarget e), s)
      \<or> resolveKeyFromRawQuery E reader url s = (Inr (invalidTarget e), s)" if "rawKeyTargetFailure url = Some e" for e
    using that by (auto simp: rawKeyTargetFailure_def resolveKeyFromRawPath_def resolveKeyFromRawQuery_def Let_def
        rawKeyPathSegment_def [of url] split: sum.splits if_splits)
  then show ?thesis using resolveKeyDocument_total
    by (auto simp: resolveKeyFromRawPath_def resolveKeyFromRawQuery_def resolveKeyFromQuery_def split: sum.split option.split)
qed

end
