(* ===== verification/Registry_Api.thy ===== *)
theory Registry_Api
  imports Key_Discovery
begin

section \<open>The registry's operations\<close>

text \<open>
  \<open>packages/api/src/registration-time.ts\<close>, \<open>envelope.ts\<close> and \<open>app.ts\<close>: at which instant a
  registration is evaluated, the envelope an agent resolves to, and the handlers of the Fastify
  application.  A handler is an operation that answers with an HTTP response; what its request
  brings from outside (the clock, the random bytes) is the record \<open>request_env\<close>, one entry per
  call in the order of the calls.
\<close>

subsection \<open>Registration time\<close>

definition MAX_FORWARD_SKEW_MS :: int where
  "MAX_FORWARD_SKEW_MS = 120000"

datatype registration_time =
    RegistrationAt jstr jstr \<comment> \<open>now, registeredAt\<close>
  | ClockSkewTooLarge jstr

text \<open>\<open>serverNow\<close> is a \<open>Date\<close>: its time value, \<open>None\<close> for an invalid date, on which \<open>toISOString\<close> throws.\<close>

definition registrationTime :: "('r runtime_scheme) \<Rightarrow> jstr \<Rightarrow> int option \<Rightarrow> exn + registration_time" where
  "registrationTime E proofCreatedAt serverNow =
     (case serverNow of None \<Rightarrow> Inl RangeError | Some t \<Rightarrow>
     let registeredAt = iso_string t in
     (case Date_parse E proofCreatedAt of
        None \<Rightarrow> Inr (RegistrationAt registeredAt registeredAt)
      | Some created \<Rightarrow>
          let aheadBy = created - t in
          if MAX_FORWARD_SKEW_MS < aheadBy
          then Inr (ClockSkewTooLarge (js ''proof.created_at is '' @ dec_int ((aheadBy + 500) div 1000)
                 @ js ''s ahead of this registry'' @ quote_mark @ js ''s clock (limit '' @ dec_int (MAX_FORWARD_SKEW_MS div 1000)
                 @ js ''s). Check the signing machine'' @ quote_mark @ js ''s system time.''))
          else Inr (RegistrationAt (if 0 < aheadBy then proofCreatedAt else registeredAt) registeredAt)))"

subsection \<open>The resolution envelope\<close>

fun LEVEL_RANK :: "verification_level \<Rightarrow> nat" where
  "LEVEL_RANK L1_REGISTERED = 1"
| "LEVEL_RANK L2_DOMAIN_VERIFIED = 2"
| "LEVEL_RANK L3_ORGANIZATION_VERIFIED = 3"
| "LEVEL_RANK L4_DEPLOYMENT_VERIFIED = 4"

text \<open>A check is \<open>None\<close> when it succeeds, else the code of the failure.\<close>

type_synonym check_view = "jstr option"

definition check_of :: "verify_result \<Rightarrow> check_view" where
  "check_of r = (case r of VerifyOk c ds \<Rightarrow> None | VerifyFail code msg \<Rightarrow> Some (failure_text code))"

record resolution_envelope =
  env_agent_id :: jstr
  env_status :: agent_status
  env_registered_at :: jstr
  env_manifest :: manifest
  env_manifest_digest :: jstr
  env_proof :: manifest_proof
  env_proof_check :: check_view
  env_operator_key_id :: jstr
  env_operator_key :: "jsval option"
  env_registry_path :: jstr
  env_well_known_url :: jstr
  env_level :: verification_level
  env_valid_assertions :: nat
  env_total_assertions :: nat
  env_assertions :: "(assertion \<times> check_view) list"

definition check_assertion :: "platform \<Rightarrow> 's registry_store \<Rightarrow> assertion \<Rightarrow> jstr \<Rightarrow> jsval option \<Rightarrow> ('s, check_view) io" where
  "check_assertion E S a now currentManifest =
     io_bind (getKey S (va_key_id a)) (\<lambda>auKey.
       case auKey of None \<Rightarrow> io_return (Some (js ''key_unavailable''))
       | Some k \<Rightarrow> io_bind (io_lift (verifyVerificationAssertion E (Assertion_obj a) k now currentManifest))
                     (\<lambda>r. io_return (check_of r)))"

text \<open>The loop over the stored assertions: their views, the highest valid level, the number of valid ones.\<close>

fun envelope_loop ::
  "platform \<Rightarrow> 's registry_store \<Rightarrow> agent_record \<Rightarrow> jstr \<Rightarrow> assertion list \<Rightarrow> (assertion \<times> check_view) list
   \<Rightarrow> verification_level \<Rightarrow> nat \<Rightarrow> ('s, (assertion \<times> check_view) list \<times> verification_level \<times> nat) io" where
  "envelope_loop E S r now [] views level valid = io_return (views, level, valid)"
| "envelope_loop E S r now (a # as) views level valid =
     io_bind (check_assertion E S a now (Some (Manifest_obj (ar_manifest r)))) (\<lambda>check.
       let views' = views @ [(a, check)] in
       if check = None
       then envelope_loop E S r now as views'
              (if LEVEL_RANK level < LEVEL_RANK (va_level a) then va_level a else level) (valid + 1)
       else envelope_loop E S r now as views' level valid)"

definition buildEnvelope :: "platform \<Rightarrow> 's registry_store \<Rightarrow> agent_record \<Rightarrow> jstr \<Rightarrow> ('s, resolution_envelope) io" where
  "buildEnvelope E S r now =
     io_bind (getKey S (mp_key_id (ar_proof r))) (\<lambda>opKey.
     io_bind (case opKey of None \<Rightarrow> io_return (Some (js ''key_unavailable''))
       | Some k \<Rightarrow> io_bind (io_lift (verifyManifestProof E (ManifestProof_obj (ar_proof r)) (Manifest_obj (ar_manifest r)) k now))
                     (\<lambda>c. io_return (check_of c))) (\<lambda>proofCheck.
     io_bind (listAssertionsForSubject S (ar_agent_id r)) (\<lambda>stored.
     io_bind (envelope_loop E S r now stored [] L1_REGISTERED 0) (\<lambda>(views, level, valid).
     io_bind (io_lift (keyResolverPath (mp_key_id (ar_proof r)))) (\<lambda>path.
     io_bind (io_lift (wellKnownKeysUrl (ow_operator_domain (mf_ownership (ar_manifest r))))) (\<lambda>url.
       io_return \<lparr>env_agent_id = ar_agent_id r, env_status = ar_status r, env_registered_at = ar_registered_at r,
         env_manifest = ar_manifest r, env_manifest_digest = ar_manifest_digest r, env_proof = ar_proof r,
         env_proof_check = proofCheck, env_operator_key_id = mp_key_id (ar_proof r), env_operator_key = opKey,
         env_registry_path = path, env_well_known_url = url, env_level = level, env_valid_assertions = valid,
         env_total_assertions = length stored, env_assertions = views\<rparr>))))))"

definition verify_instructions :: jstr where
  "verify_instructions =
     js ''Recompute sha256(RFC8785(manifest)) and compare to manifest_digest; fetch the operator key from BOTH discovery paths ''
     @ js ''(operator_key.discovery.registry_path on this registry'' @ quote_mark
     @ js ''s origin, and operator_key.discovery.well_known_url on the operator'' @ quote_mark @ js ''s domain) ''
     @ js ''and require they agree, and that both agree with operator_key.document; ''
     @ js ''verify Ed25519 over RFC8785(proof minus signature); for each assertion, fetch the authority key, check role=authority, verify Ed25519 over ''
     @ js ''RFC8785(assertion minus signature), check the validity window and that assertion.manifest_digest matches. Spec: https://github.com/AgenID-protocol/spec''"

definition Check_obj :: "check_view \<Rightarrow> jsval" where
  "Check_obj c = (case c of None \<Rightarrow> JObj [(js ''ok'', JBool True)]
     | Some code \<Rightarrow> JObj [(js ''ok'', JBool False), (js ''code'', JStr code)])"

text \<open>A count as a number in normal form.\<close>

fun strip_zeros :: "nat \<Rightarrow> nat" where
  "strip_zeros n = (if n = 0 \<or> n mod 10 \<noteq> 0 then n else strip_zeros (n div 10))"

declare strip_zeros.simps [simp del]

definition num_of :: "nat \<Rightarrow> jsval" where
  "num_of n = JNum (NumFin False (strip_zeros n) (if n = 0 then 0 else int (length (dec n))))"

definition Verification_obj :: "resolution_envelope \<Rightarrow> jsval" where
  "Verification_obj e = JObj [(js ''level'', JStr (level_text (env_level e))),
     (js ''valid_assertions'', num_of (env_valid_assertions e)), (js ''total_assertions'', num_of (env_total_assertions e))]"

definition Views_obj :: "(assertion \<times> check_view) list \<Rightarrow> jsval" where
  "Views_obj vs = JArr (map (\<lambda>(a, c). JObj [(js ''assertion'', Assertion_obj a), (js ''check'', Check_obj c)]) vs)"

definition Envelope_obj :: "resolution_envelope \<Rightarrow> jsval" where
  "Envelope_obj e = JObj [(js ''agenid_envelope_version'', JStr (js ''1.0'')), (js ''agent_id'', JStr (env_agent_id e)),
     (js ''status'', JStr (status_text (env_status e))), (js ''registered_at'', JStr (env_registered_at e)),
     (js ''manifest'', Manifest_obj (env_manifest e)),
     (js ''manifest_digest'', JObj [(js ''alg'', JStr (js ''sha-256'')), (js ''value'', JStr (env_manifest_digest e))]),
     (js ''proof'', ManifestProof_obj (env_proof e)), (js ''proof_check'', Check_obj (env_proof_check e)),
     (js ''operator_key'', JObj [(js ''key_id'', JStr (env_operator_key_id e)),
        (js ''document'', (case env_operator_key e of None \<Rightarrow> JNull | Some d \<Rightarrow> d)),
        (js ''discovery'', JObj [(js ''registry_path'', JStr (env_registry_path e)), (js ''well_known_url'', JStr (env_well_known_url e))])]),
     (js ''verification'', Verification_obj e), (js ''assertions'', Views_obj (env_assertions e)),
     (js ''verify_instructions'', JStr verify_instructions)]"

end
