(* ===== verification/Registry_App.thy ===== *)
theory Registry_App
  imports Registry_Api
begin

section \<open>The Fastify application\<close>

text \<open>
  \<open>packages/api/src/app.ts\<close>: one definition per route handler, over any store.  Routing, body
  parsing and the CORS plugin are Fastify's; a handler gets the parsed body, the path parameters
  and the raw request target.  The two body schemas of this file are parameters like those of core.
\<close>

subsection \<open>Requests and responses\<close>

record api_platform = platform +
  parse_RegisterBody :: "jsval \<Rightarrow> issues + manifest \<times> manifest_proof \<times> key_document"
  parse_IssueAssertionBody :: "jsval \<Rightarrow> issues + assertion"

text \<open>Bodies as values, and what the two schemas accept.\<close>

fun RegisterBody_obj :: "manifest \<times> manifest_proof \<times> key_document \<Rightarrow> jsval" where
  "RegisterBody_obj (m, p, k) = JObj [(js ''manifest'', Manifest_obj m), (js ''proof'', ManifestProof_obj p),
     (js ''key_document'', KeyDocument_obj k)]"

fun RegisterBody_ok :: "('r runtime_scheme) \<Rightarrow> manifest \<times> manifest_proof \<times> key_document \<Rightarrow> bool" where
  "RegisterBody_ok E (m, p, k) \<longleftrightarrow> Manifest_ok E m \<and> ManifestProof_ok E p \<and> KeyDocument_ok E k"

definition IssueAssertionBody_obj :: "assertion \<Rightarrow> jsval" where
  "IssueAssertionBody_obj a = JObj [(js ''assertion'', Assertion_obj a)]"

definition api_schemas :: "api_platform \<Rightarrow> bool" where
  "api_schemas E \<longleftrightarrow> zod_schemas (platform.truncate E)
     \<and> zod_parser (parse_RegisterBody E) RegisterBody_obj (RegisterBody_ok E)
     \<and> zod_parser (parse_IssueAssertionBody E) IssueAssertionBody_obj (Assertion_ok E)"

record request_env =
  rq_now :: "nat \<Rightarrow> jstr" \<comment> \<open>the results of \<open>now()\<close>\<close>
  rq_ms :: "nat \<Rightarrow> int option" \<comment> \<open>\<open>Date.now()\<close> of each ULID\<close>
  rq_random :: "nat \<Rightarrow> bytes" \<comment> \<open>its random bytes\<close>

record http_response =
  hr_status :: nat
  hr_headers :: "(jstr \<times> jstr) list"
  hr_body :: "jsval option"

definition send :: "nat \<Rightarrow> jsval \<Rightarrow> http_response" where
  "send status body = \<lparr>hr_status = status, hr_headers = [], hr_body = Some body\<rparr>"

definition err :: "nat \<Rightarrow> jstr \<Rightarrow> jstr \<Rightarrow> (jstr \<times> jsval) list \<Rightarrow> http_response" where
  "err status code message extra =
     send status (JObj ([(js ''error'', JStr code), (js ''message'', JStr message)] @ extra))"

definition zodMessage :: "issues \<Rightarrow> jstr" where
  "zodMessage issues = join_with (js ''; '')
     (map (\<lambda>(path, message). (let p = join_with (js ''.'') path in if p = [] then js ''$'' else p) @ js '': '' @ message) issues)"

definition event :: "jstr \<Rightarrow> jstr \<Rightarrow> event_type \<Rightarrow> jstr \<Rightarrow> (jstr \<times> jstr) list \<Rightarrow> ledger_event" where
  "event ulid agentId ty at_time ref = \<lparr>le_event_id = js ''evt_'' @ ulid, le_agent_id = agentId, le_type = ty,
     le_occurred_at = at_time, le_detail_ref = ref\<rparr>"

definition fresh_ulid :: "request_env \<Rightarrow> nat \<Rightarrow> ('s, jstr) io" where
  "fresh_ulid V n = io_lift (generateUlid (rq_ms V n) (rq_random V n))"

text \<open>\<open>GET /\<close> and \<open>GET /healthz\<close>; the protocol version is core's constant.\<close>

definition PROTOCOL_VERSION :: jstr where
  "PROTOCOL_VERSION = js ''1.1.1''"

definition get_root :: http_response where
  "get_root = send 200 (JObj [(js ''name'', JStr (js ''AgenID Registry'')),
     (js ''protocol_version'', JStr PROTOCOL_VERSION), (js ''spec'', JStr (js ''https://github.com/AgenID-protocol/spec''))])"

definition get_healthz :: http_response where
  "get_healthz = send 200 (JObj [(js ''ok'', JBool True)])"

subsection \<open>Registration\<close>

text \<open>The reading part of the store operations of a registration: a conflicting key document is published.\<close>

definition key_conflict :: "'s registry_store \<Rightarrow> key_document \<Rightarrow> ('s, bool) io" where
  "key_conflict S doc =
     io_bind (getKey S (kd_key_id doc)) (\<lambda>existing. io_return
       (case existing of None \<Rightarrow> False | Some d \<Rightarrow> json_text d \<noteq> json_text (KeyDocument_obj doc)))"

text \<open>The writing part, shared with the web registry: \<open>None\<close> when the agent exists.\<close>

definition write_registration ::
  "platform \<Rightarrow> 's registry_store \<Rightarrow> request_env \<Rightarrow> manifest \<Rightarrow> manifest_proof \<Rightarrow> key_document \<Rightarrow> jstr \<Rightarrow> ('s, agent_record option) io" where
  "write_registration E S V manifest proof doc ts =
     io_bind (io_lift (manifestDigestHex E manifest)) (\<lambda>digest.
     let r = \<lparr>ar_agent_id = mf_agent_id manifest, ar_manifest = manifest, ar_manifest_digest = digest, ar_proof = proof,
              ar_status = ACTIVE, ar_registered_at = ts, ar_updated_at = ts\<rparr> in
     io_bind (createAgent S r) (\<lambda>created.
     if \<not> created then io_return None
     else
       io_bind (putKey S doc) (\<lambda>_.
       io_bind (fresh_ulid V 0) (\<lambda>u.
       io_bind (appendEvent S (event u (ar_agent_id r) KeyPublished ts [(js ''key_id'', kd_key_id doc)])) (\<lambda>_.
       io_bind (fresh_ulid V 1) (\<lambda>u.
       io_bind (appendEvent S (event u (ar_agent_id r) AgentRegistered ts [(js ''manifest_digest'', digest)])) (\<lambda>_.
       io_return (Some r))))))))"

definition post_agents :: "api_platform \<Rightarrow> 's registry_store \<Rightarrow> request_env \<Rightarrow> jsval \<Rightarrow> ('s, http_response) io" where
  "post_agents E S V body =
     (let P = platform.truncate E in
     case parse_RegisterBody E body of
       Inl issues \<Rightarrow> io_return (err 400 (js ''schema_validation_failed'') (zodMessage issues) [])
     | Inr (manifest, proof, doc) \<Rightarrow>
       if kd_key_id doc \<noteq> mp_key_id proof
       then io_return (err 400 (js ''key_id_mismatch'') (js ''key_document.key_id must equal proof.key_id'') [])
       else if kd_role doc \<noteq> OperatorRole
       then io_return (err 400 (js ''key_role_mismatch'') (js ''registration key must have role=operator'') [])
       else if kd_controller doc \<noteq> mf_agent_id manifest
       then io_return (err 400 (js ''key_controller_mismatch'') (js ''operator key controller must equal manifest.agent_id'') [])
       else (case registrationTime P (mp_created_at proof) (Date_parse P (rq_now V 0)) of
         Inl e \<Rightarrow> io_throw e
       | Inr (ClockSkewTooLarge message) \<Rightarrow> io_return (err 400 (js ''clock_skew_too_large'') message [])
       | Inr (RegistrationAt now registeredAt) \<Rightarrow>
         io_bind (io_lift (verifyManifestProof P (ManifestProof_obj proof) (Manifest_obj manifest) (KeyDocument_obj doc) now)) (\<lambda>check.
         case check of
           VerifyFail code message \<Rightarrow> io_return (err 400 (failure_text code) message [])
         | VerifyOk c ds \<Rightarrow>
           io_bind (key_conflict S doc) (\<lambda>conflict.
           if conflict
           then io_return (err 409 (js ''key_conflict'') (js ''a different key document is already published under this key_id'') [])
           else
             io_bind (write_registration P S V manifest proof doc (rq_now V 1)) (\<lambda>created.
             case created of
               None \<Rightarrow> io_return (err 409 (js ''agent_exists'') (js ''agent_id is already registered'') [])
             | Some r \<Rightarrow>
               io_bind (io_lift (keyResolverPath (kd_key_id doc))) (\<lambda>path.
               io_return (send 201 (JObj [(js ''agent_id'', JStr (ar_agent_id r)), (js ''status'', JStr (status_text (ar_status r))),
                 (js ''verification'', JObj [(js ''level'', JStr (js ''L1_REGISTERED''))]),
                 (js ''registered_at'', JStr (rq_now V 1)),
                 (js ''links'', JObj [(js ''self'', JStr (js ''/v1/agents/'' @ ar_agent_id r)),
                    (js ''proof'', JStr (js ''/v1/agents/'' @ ar_agent_id r @ js ''/proof'')), (js ''key'', JStr path)])]))))))))"

subsection \<open>Reading agents\<close>

definition agent_not_found :: http_response where
  "agent_not_found = err 404 (js ''agent_not_found'') (js ''no such agent'') []"

definition get_agent :: "platform \<Rightarrow> 's registry_store \<Rightarrow> request_env \<Rightarrow> jstr \<Rightarrow> ('s, http_response) io" where
  "get_agent E S V agentId =
     (if \<not> isValidAgentId agentId
      then io_return (err 400 (js ''invalid_agent_id'') (js ''expected agenid:<ULID>'') [])
      else io_bind (getAgent S agentId) (\<lambda>found.
        case found of None \<Rightarrow> io_return agent_not_found
        | Some r \<Rightarrow> io_bind (buildEnvelope E S r (rq_now V 0)) (\<lambda>e. io_return (send 200 (Envelope_obj e)))))"

text \<open>An invalid identifier is not looked up.\<close>

definition find_agent :: "'s registry_store \<Rightarrow> jstr \<Rightarrow> ('s, agent_record option) io" where
  "find_agent S agentId = (if isValidAgentId agentId then getAgent S agentId else io_return None)"

definition get_proof :: "'s registry_store \<Rightarrow> jstr \<Rightarrow> ('s, http_response) io" where
  "get_proof S agentId =
     io_bind (find_agent S agentId) (\<lambda>found.
       case found of None \<Rightarrow> io_return agent_not_found
       | Some r \<Rightarrow> io_return (send 200 (ManifestProof_obj (ar_proof r))))"

definition get_assertions :: "platform \<Rightarrow> 's registry_store \<Rightarrow> request_env \<Rightarrow> jstr \<Rightarrow> ('s, http_response) io" where
  "get_assertions E S V agentId =
     io_bind (find_agent S agentId) (\<lambda>found.
       case found of None \<Rightarrow> io_return agent_not_found
       | Some r \<Rightarrow> io_bind (buildEnvelope E S r (rq_now V 0)) (\<lambda>e.
           io_return (send 200 (JObj [(js ''agent_id'', JStr (ar_agent_id r)), (js ''verification'', Verification_obj e),
             (js ''assertions'', Views_obj (env_assertions e))]))))"

definition Event_obj :: "ledger_event \<Rightarrow> jsval" where
  "Event_obj e = JObj [(js ''event_id'', JStr (le_event_id e)), (js ''agent_id'', JStr (le_agent_id e)),
     (js ''type'', JStr (event_type_text (le_type e))), (js ''occurred_at'', JStr (le_occurred_at e)),
     (js ''detail_ref'', JObj (map (\<lambda>(k, v). (k, JStr v)) (le_detail_ref e)))]"

definition get_events :: "'s registry_store \<Rightarrow> jstr \<Rightarrow> ('s, http_response) io" where
  "get_events S agentId =
     io_bind (find_agent S agentId) (\<lambda>found.
       case found of None \<Rightarrow> io_return agent_not_found
       | Some r \<Rightarrow> io_bind (listEvents S (ar_agent_id r)) (\<lambda>es.
           io_return (send 200 (JObj [(js ''agent_id'', JStr (ar_agent_id r)), (js ''events'', JArr (map Event_obj es))]))))"

subsection \<open>Authority writes\<close>

text \<open>\<open>opts.authorityToken\<close> (undefined or empty is not configured) and the \<open>authorization\<close> header.\<close>

definition requireAuthority :: "jstr option \<Rightarrow> jstr option \<Rightarrow> http_response option" where
  "requireAuthority authorityToken header =
     (case authorityToken of
        None \<Rightarrow> Some (err 503 (js ''authority_writes_disabled'') (js ''No authority token configured on this registry'') [])
      | Some token \<Rightarrow>
          if token = []
          then Some (err 503 (js ''authority_writes_disabled'') (js ''No authority token configured on this registry'') [])
          else if (case header of None \<Rightarrow> [] | Some h \<Rightarrow> h) \<noteq> js ''Bearer '' @ token
          then Some (err 401 (js ''unauthorized'') (js ''Authority bearer token required'') [])
          else None)"

text \<open>For an agent that was found.\<close>

definition issue_assertion ::
  "api_platform \<Rightarrow> 's registry_store \<Rightarrow> request_env \<Rightarrow> agent_record \<Rightarrow> assertion \<Rightarrow> ('s, http_response) io" where
  "issue_assertion E S V r a =
     (if va_subject a \<noteq> ar_agent_id r
      then io_return (err 400 (js ''subject_mismatch'') (js ''assertion.subject must equal the agent_id in the path'') [])
      else
        io_bind (getKey S (va_key_id a)) (\<lambda>auKey.
        case auKey of
          None \<Rightarrow> io_return (err 400 (js ''authority_key_unknown'') (js ''assertion.key_id is not published in this registry'') [])
        | Some k \<Rightarrow>
          io_bind (io_lift (verifyVerificationAssertion (platform.truncate E) (Assertion_obj a) k (rq_now V 0) (Some (Manifest_obj (ar_manifest r))))) (\<lambda>check.
          case check of
            VerifyFail code message \<Rightarrow> io_return (err 400 (failure_text code) message [])
          | VerifyOk c ds \<Rightarrow>
            io_bind (getAssertion S (va_assertion_id a)) (\<lambda>existing.
            if existing \<noteq> None
            then io_return (err 409 (js ''assertion_exists'') (js ''assertion_id already issued'') [])
            else
              io_bind (putAssertion S a) (\<lambda>_.
              io_bind (fresh_ulid V 0) (\<lambda>u.
              io_bind (appendEvent S (event u (ar_agent_id r) AssertionIssued (rq_now V 1)
                [(js ''assertion_id'', va_assertion_id a), (js ''level'', level_text (va_level a)),
                 (js ''manifest_digest'', dg_value (va_manifest_digest a))])) (\<lambda>_.
              io_return (send 201 (JObj [(js ''assertion_id'', JStr (va_assertion_id a)), (js ''level'', JStr (level_text (va_level a))),
                (js ''links'', JObj [(js ''self'', JStr (js ''/v1/assertions/'' @ drop (length (js ''assertion:'')) (va_assertion_id a)))])]))))))))) "

definition post_assertion ::
  "api_platform \<Rightarrow> 's registry_store \<Rightarrow> request_env \<Rightarrow> jstr option \<Rightarrow> jstr option \<Rightarrow> jstr \<Rightarrow> jsval \<Rightarrow> ('s, http_response) io" where
  "post_assertion E S V authorityToken header agentId body =
     (case requireAuthority authorityToken header of Some denied \<Rightarrow> io_return denied | None \<Rightarrow>
     io_bind (find_agent S agentId) (\<lambda>found.
     case found of None \<Rightarrow> io_return agent_not_found | Some r \<Rightarrow>
     (case parse_IssueAssertionBody E body of
        Inl issues \<Rightarrow> io_return (err 400 (js ''schema_validation_failed'') (zodMessage issues) [])
      | Inr a \<Rightarrow> issue_assertion E S V r a)))"

definition get_assertion :: "platform \<Rightarrow> 's registry_store \<Rightarrow> request_env \<Rightarrow> jstr \<Rightarrow> ('s, http_response) io" where
  "get_assertion E S V ulid =
     (if \<not> isValidUlid ulid
      then io_return (err 400 (js ''invalid_assertion_id'') (js ''expected a bare assertion ULID in the path'') [])
      else
        io_bind (getAssertion S (js ''assertion:'' @ ulid)) (\<lambda>found.
        case found of None \<Rightarrow> io_return (err 404 (js ''assertion_not_found'') (js ''no such assertion'') [])
        | Some a \<Rightarrow> io_bind (check_assertion E S a (rq_now V 0) None) (\<lambda>check.
            io_return (send 200 (JObj [(js ''assertion'', Assertion_obj a), (js ''check'', Check_obj check)])))))"

definition post_authority_key ::
  "platform \<Rightarrow> 's registry_store \<Rightarrow> jstr option \<Rightarrow> jstr option \<Rightarrow> jsval \<Rightarrow> ('s, http_response) io" where
  "post_authority_key E S authorityToken header body =
     (case requireAuthority authorityToken header of Some denied \<Rightarrow> io_return denied | None \<Rightarrow>
     (case parse_KeyDocument E body of
        Inl issues \<Rightarrow> io_return (err 400 (js ''schema_validation_failed'') (zodMessage issues) [])
      | Inr doc \<Rightarrow>
       if kd_role doc \<noteq> AuthorityRole
       then io_return (err 400 (js ''key_role_mismatch'')
         (js ''only authority keys are published via this route; operator keys are published at registration'') [])
       else
         io_bind (key_conflict S doc) (\<lambda>conflict.
         if conflict
         then io_return (err 409 (js ''key_conflict'') (js ''a different document exists under this key_id'') [])
         else io_bind (putKey S doc) (\<lambda>_.
           io_bind (io_lift (keyResolverPath (kd_key_id doc))) (\<lambda>path.
           io_return (send 201 (JObj [(js ''key_id'', JStr (kd_key_id doc)), (js ''links'', JObj [(js ''self'', JStr path)])])))))))"

subsection \<open>Key discovery over HTTP\<close>

definition sendKey :: "key_resolution \<Rightarrow> http_response" where
  "sendKey r = (case r of
       KeyServed d \<Rightarrow> (send 200 (KeyDocument_obj d))
     | KeyRefused status code message keyId \<Rightarrow> err status code (key_error_message message)
         (case keyId of None \<Rightarrow> [] | Some k \<Rightarrow> [(js ''key_id'', JStr k)]))
   \<lparr>hr_headers := KEY_RESPONSE_HEADERS\<rparr>"

definition get_key_path :: "platform \<Rightarrow> 's registry_store \<Rightarrow> jstr option \<Rightarrow> jstr \<Rightarrow> ('s, http_response) io" where
  "get_key_path E S rawUrl param =
     io_bind (resolveKeyFromRawPath E (getKey S) (case rawUrl of None \<Rightarrow> [] | Some u \<Rightarrow> u) (Some param)) (\<lambda>r. io_return (sendKey r))"

definition get_key_query :: "platform \<Rightarrow> 's registry_store \<Rightarrow> jstr option \<Rightarrow> ('s, http_response) io" where
  "get_key_query E S rawUrl =
     io_bind (resolveKeyFromRawQuery E (getKey S) (case rawUrl of None \<Rightarrow> [] | Some u \<Rightarrow> u)) (\<lambda>r. io_return (sendKey r))"

definition keyPreflight :: http_response where
  "keyPreflight = \<lparr>hr_status = 204, hr_headers = [(js ''access-control-allow-origin'', js ''*''),
     (js ''access-control-allow-methods'', KEY_ALLOWED_METHODS), (js ''access-control-max-age'', js ''86400'')], hr_body = None\<rparr>"

definition key_method_not_allowed :: http_response where
  "key_method_not_allowed = (err 405 (js ''method_not_allowed'') (js ''key discovery is read-only: use GET or OPTIONS'') [])
     \<lparr>hr_headers := [(js ''allow'', KEY_ALLOWED_METHODS), (js ''cache-control'', js ''no-store'')]\<rparr>"

subsection \<open>Errors of the framework\<close>

definition invalid_key_target :: "jstr \<Rightarrow> key_error \<Rightarrow> http_response" where
  "invalid_key_target target default_error =
     err 400 (js ''invalid_key_id'') (key_error_message (case rawKeyTargetFailure target of Some e \<Rightarrow> e | None \<Rightarrow> default_error)) []"

text \<open>\<open>statusCode\<close> of the error, when it is a number; the raw target.\<close>

definition frameworkErrors :: "nat option \<Rightarrow> jstr option \<Rightarrow> http_response" where
  "frameworkErrors statusCode rawUrl =
     (let status = (case statusCode of Some n \<Rightarrow> if 400 \<le> n then n else 400 | None \<Rightarrow> 400);
          target = originForm (case rawUrl of None \<Rightarrow> [] | Some u \<Rightarrow> u)
      in if starts_with (js ''/v1/keys'') target
         then (invalid_key_target target MalformedEscape)\<lparr>hr_headers := [(js ''cache-control'', js ''no-store'')]\<rparr>
         else err status (js ''bad_request'') (js ''the request target could not be parsed'') [])"

definition errorHandler :: "nat option \<Rightarrow> jstr option \<Rightarrow> http_response" where
  "errorHandler statusCode rawUrl =
     (let status = (case statusCode of Some n \<Rightarrow> if 400 \<le> n then n else 500 | None \<Rightarrow> 500);
          target = originForm (case rawUrl of None \<Rightarrow> [] | Some u \<Rightarrow> u)
      in if 500 \<le> status
         then err 500 (js ''internal_error'') (js ''the registry failed to handle this request'') []
         else if starts_with (js ''/v1/keys'') target
         then (invalid_key_target target MalformedEscape)\<lparr>hr_headers := [(js ''cache-control'', js ''no-store'')]\<rparr>
         else err status (js ''bad_request'') (js ''the request could not be handled as sent'') [])"

definition notFoundHandler :: "jstr \<Rightarrow> http_response" where
  "notFoundHandler rawUrl =
     (let target = originForm rawUrl in
      if starts_with (js ''/v1/keys'') target then invalid_key_target target BadWireForm
      else if ENCODED_HASH target then err 400 (js ''invalid_key_id'') (key_error_message Fragment) []
      else err 404 (js ''not_found'') (js ''no such route'') [])"

text \<open>What leaves the server: an exception is a \<open>500\<close> with a fixed text.\<close>

definition respond :: "('s, http_response) io \<Rightarrow> jstr option \<Rightarrow> 's \<Rightarrow> http_response \<times> 's" where
  "respond handler rawUrl s = (case handler s of (Inl e, s') \<Rightarrow> (errorHandler None rawUrl, s') | (Inr r, s') \<Rightarrow> (r, s'))"

end
