(* ===== verification/Registry_Invariants.thy ===== *)
theory Registry_Invariants
  imports Registry_App
begin

section \<open>What the registry guarantees\<close>

text \<open>
  An abstract registry changes its view in four kinds of steps (\<open>registry_step\<close>): a verified agent
  is added, a key is published, a verified assertion is issued, an event is logged.  Every handler,
  over every store that keeps the contract \<open>registry\<close> and whatever operation of it fails, performs
  a sequence of such steps; what the steps preserve therefore holds of the running registry.
\<close>

subsection \<open>Steps\<close>

definition registered :: "platform \<Rightarrow> agent_record \<Rightarrow> key_document \<Rightarrow> bool" where
  "registered E r k \<longleftrightarrow> ar_agent_id r = mf_agent_id (ar_manifest r) \<and> ar_manifest_digest r = manifest_digest E (ar_manifest r)
     \<and> ar_status r = ACTIVE \<and> (\<exists>now. proof_holds E (ar_proof r) (ar_manifest r) k now)"

definition publishable :: "registry_view \<Rightarrow> key_document \<Rightarrow> bool" where
  "publishable v k \<longleftrightarrow> (case vw_keys v (kd_key_id k) of None \<Rightarrow> True | Some d \<Rightarrow> same_json d (KeyDocument_obj k))"

definition issued :: "platform \<Rightarrow> registry_view \<Rightarrow> assertion \<Rightarrow> bool" where
  "issued E v a \<longleftrightarrow> (\<exists>d k r now. vw_keys v (va_key_id a) = Some d \<and> parse_KeyDocument E d = Inr k
     \<and> vw_agents v (va_subject a) = Some r \<and> assertion_holds E a k now (Some (Manifest_obj (ar_manifest r))))"

inductive registry_step :: "platform \<Rightarrow> registry_view \<Rightarrow> registry_view \<Rightarrow> bool" for E where
  Register: "vw_agents v (ar_agent_id r) = None \<Longrightarrow> registered E r k \<Longrightarrow> publishable v k \<Longrightarrow> agent_written r v w \<Longrightarrow> registry_step E v w"
| Publish: "publishable v k \<Longrightarrow> key_written k v w \<Longrightarrow> registry_step E v w"
| Issue: "vw_assertions v (va_assertion_id a) = None \<Longrightarrow> issued E v a \<Longrightarrow> assertion_written a v w \<Longrightarrow> registry_step E v w"
| Log: "event_written e v w \<Longrightarrow> registry_step E v w"

inductive_cases registry_stepE [elim]: "registry_step E v w"

text \<open>What has been written stays: agents and assertions as they are, keys up to the spelling of the same
  document, events as a prefix.\<close>

definition extends_view :: "registry_view \<Rightarrow> registry_view \<Rightarrow> bool" where
  "extends_view v w \<longleftrightarrow> (\<forall>i r. vw_agents v i = Some r \<longrightarrow> vw_agents w i = Some r)
     \<and> (\<forall>i d. vw_keys v i = Some d \<longrightarrow> (\<exists>d'. vw_keys w i = Some d' \<and> same_json d d'))
     \<and> (\<forall>i a. vw_assertions v i = Some a \<longrightarrow> vw_assertions w i = Some a)
     \<and> (\<exists>es. vw_events w = vw_events v @ es)"

lemma extends_refl: "extends_view v v"
  by (simp add: extends_view_def)

lemma extends_trans: "extends_view u v \<Longrightarrow> extends_view v w \<Longrightarrow> extends_view u w"
  by (fastforce simp: extends_view_def same_json_def)

lemma step_extends: "registry_step E v w \<Longrightarrow> extends_view v w"
proof (induction rule: registry_step.induct)
  case (Register v r k w)
  then show ?case by (auto simp: agent_written_def extends_view_def)
next
  case (Publish v k w)
  then show ?case by (auto simp: key_written_def extends_view_def publishable_def same_json_def split: option.splits)
next
  case (Issue v a w)
  then show ?case by (auto simp: assertion_written_def extends_view_def)
next
  case (Log e v w)
  then show ?case by (auto simp: event_written_def extends_view_def)
qed

lemma steps_extend: "(registry_step E)\<^sup>*\<^sup>* v w \<Longrightarrow> extends_view v w"
  by (induction rule: rtranclp_induct) (auto intro: extends_refl extends_trans step_extends)

text \<open>Every agent and every assertion of a reachable view was verified.\<close>

definition view_verified :: "platform \<Rightarrow> registry_view \<Rightarrow> bool" where
  "view_verified E v \<longleftrightarrow>
     (\<forall>i r. vw_agents v i = Some r \<longrightarrow> ar_agent_id r = i \<and> (\<exists>k. registered E r k))
     \<and> (\<forall>i a. vw_assertions v i = Some a \<longrightarrow> va_assertion_id a = i \<and> (\<exists>k m now. assertion_holds E a k now (Some m)))
     \<and> (\<forall>i d. vw_keys v i = Some d \<longrightarrow> (\<exists>k. same_json d (KeyDocument_obj k) \<and> kd_key_id k = i))"

lemma same_agent_fields:
  "same_agent a b \<Longrightarrow> ar_agent_id a = ar_agent_id b \<and> ar_manifest a = ar_manifest b \<and> ar_manifest_digest a = ar_manifest_digest b
     \<and> ar_proof a = ar_proof b \<and> ar_status a = ar_status b"
  by (cases a; cases b) (simp add: same_agent_def)

lemma registered_same: "same_agent a b \<Longrightarrow> registered E a k = registered E b k"
  using same_agent_fields [of a b] by (simp add: registered_def)

lemma step_verified: "registry_step E v w \<Longrightarrow> view_verified E v \<Longrightarrow> view_verified E w"
proof (induction rule: registry_step.induct)
  case (Register v r k w)
  then obtain r' where "same_agent r' r" "w = v\<lparr>vw_agents := (vw_agents v)(ar_agent_id r \<mapsto> r')\<rparr>" by (auto simp: agent_written_def)
  with Register show ?case
    using registered_same [of r' r E k] same_agent_fields [of r' r] by (auto simp: view_verified_def)
next
  case (Publish v k w)
  then show ?case by (auto simp: key_written_def view_verified_def split: if_splits)
next
  case (Issue v a w)
  then show ?case by (auto simp: assertion_written_def view_verified_def issued_def)
next
  case (Log e v w)
  then show ?case by (auto simp: event_written_def view_verified_def)
qed

definition empty_view :: registry_view where
  "empty_view = \<lparr>vw_agents = (\<lambda>i. None), vw_keys = (\<lambda>i. None), vw_assertions = (\<lambda>i. None), vw_events = []\<rparr>"

lemma steps_verified: "(registry_step E)\<^sup>*\<^sup>* v w \<Longrightarrow> view_verified E v \<Longrightarrow> view_verified E w"
  by (induction rule: rtranclp_induct) (auto intro: step_verified)

lemma reachable_verified: "(registry_step E)\<^sup>*\<^sup>* empty_view v \<Longrightarrow> view_verified E v"
  by (erule steps_verified) (simp add: view_verified_def empty_view_def)

subsection \<open>Runs\<close>

text \<open>A run of an operation: the state stays good, the view takes steps of \<open>R\<close>, and a result satisfies \<open>P\<close>.\<close>

definition runs ::
  "('s \<Rightarrow> bool) \<Rightarrow> ('s \<Rightarrow> registry_view) \<Rightarrow> (registry_view \<Rightarrow> registry_view \<Rightarrow> bool) \<Rightarrow> ('s, 'a) io \<Rightarrow> 's \<Rightarrow> ('a \<Rightarrow> 's \<Rightarrow> bool) \<Rightarrow> bool" where
  "runs good view R m s P \<longleftrightarrow> good (snd (m s)) \<and> R\<^sup>*\<^sup>* (view s) (view (snd (m s)))
     \<and> (case fst (m s) of Inl e \<Rightarrow> True | Inr x \<Rightarrow> P x (snd (m s)))"

lemma runs_simple:
  "good s \<Longrightarrow> P x s \<Longrightarrow> runs good view R (io_return x) s P"
  "good s \<Longrightarrow> runs good view R (io_throw e) s P"
  "good s \<Longrightarrow> (\<And>x. r = Inr x \<Longrightarrow> P x s) \<Longrightarrow> runs good view R (io_lift r) s P"
  by (cases r; simp add: runs_def)+

lemma runs_bind:
  assumes "runs good view R m s P" "\<And>x t. m s = (Inr x, t) \<Longrightarrow> good t \<Longrightarrow> P x t \<Longrightarrow> runs good view R (f x) t Q"
  shows "runs good view R (io_bind m f) s Q"
proof (cases "m s")
  case (Pair r t)
  show ?thesis
  proof (cases r)
    case (Inr x)
    with Pair assms(1) have "good t" "P x t" "R\<^sup>*\<^sup>* (view s) (view t)" by (simp_all add: runs_def)
    moreover from this Pair Inr assms(2) have "runs good view R (f x) t Q" by simp
    moreover have "io_bind m f s = f x t" using Pair Inr by (simp add: io_bind_def)
    ultimately show ?thesis unfolding runs_def by (metis rtranclp_trans)
  qed (use Pair assms(1) in \<open>simp add: runs_def io_bind_def\<close>)
qed

lemma runs_weaken: "runs good view R m s P \<Longrightarrow> (\<And>x t. P x t \<Longrightarrow> Q x t) \<Longrightarrow> runs good view R m s Q"
  by (auto simp: runs_def split: sum.splits)

lemma runs_reads: "good s \<Longrightarrow> reads view m s P \<Longrightarrow> runs good view R m s (\<lambda>x t. t = s \<and> P x)"
  by (auto simp: runs_def reads_def split: sum.splits)

lemma runs_writes:
  assumes "writes good view m s W" "\<And>w. W (view s) w \<Longrightarrow> R (view s) w \<or> w = view s"
  shows "runs good view R m s (\<lambda>x t. W (view s) (view t))"
  using assms by (auto simp: runs_def writes_def split: sum.splits) (metis r_into_rtranclp rtranclp.rtrancl_refl)+

context registry
begin

lemma run_getKey: "good s \<Longrightarrow> runs good view R (getKey S k) s (\<lambda>x t. t = s \<and> x = vw_keys (view s) k)"
  by (rule runs_reads [OF _ getKey])

lemma run_getAssertion: "good s \<Longrightarrow> runs good view R (getAssertion S i) s (\<lambda>x t. t = s \<and> x = vw_assertions (view s) i)"
  by (rule runs_reads [OF _ getAssertion])

lemma run_find_agent: "good s \<Longrightarrow> runs good view R (find_agent S i) s (\<lambda>x t. t = s \<and> (x = None \<or> x = vw_agents (view s) i))"
  by (cases "isValidAgentId i") (auto simp: find_agent_def intro: runs_simple runs_weaken [OF runs_reads [OF _ getAgent]])

lemma run_fresh_ulid: "good s \<Longrightarrow> runs good view R (fresh_ulid V n) s (\<lambda>x t. t = s)"
  by (simp add: fresh_ulid_def runs_simple)

lemma run_appendEvent: "good s \<Longrightarrow> runs good view (registry_step E) (appendEvent S e) s (\<lambda>x t. event_written e (view s) (view t))"
  by (rule runs_writes [OF appendEvent]) (auto intro: Log)

lemma run_putKey:
  "good s \<Longrightarrow> publishable (view s) k \<Longrightarrow> runs good view (registry_step E) (putKey S k) s (\<lambda>x t. key_written k (view s) (view t))"
  by (rule runs_writes [OF putKey]) (auto intro: Publish)

lemma run_createAgent:
  assumes "good s" "registered E r k" "publishable (view s) k"
  shows "runs good view (registry_step E) (createAgent S r) s
    (\<lambda>b t. if b then agent_written r (view s) (view t) else view t = view s)"
proof -
  have "runs good view (registry_step E) (createAgent S r) s
      (\<lambda>x t. if vw_agents (view s) (ar_agent_id r) \<noteq> None then view t = view s else agent_written r (view s) (view t))"
    using assms by (intro runs_writes [OF createAgent]) (auto intro: Register split: if_splits)
  moreover have "b = (vw_agents (view s) (ar_agent_id r) = None)" if "fst (createAgent S r s) = Inr b" for b
    using createAgent_result [OF assms(1) that] .
  ultimately show ?thesis by (auto simp: runs_def split: sum.splits)
qed

lemma run_putAssertion:
  assumes "good s" "vw_assertions (view s) (va_assertion_id a) = None" "issued E (view s) a"
  shows "runs good view (registry_step E) (putAssertion S a) s (\<lambda>x t. assertion_written a (view s) (view t))"
  using assms by (intro runs_writes [OF putAssertion]) (auto intro: Issue)

end

subsection \<open>The handlers take only such steps\<close>

lemma publishable_same_text:
  assumes "plain d" "json_text d = json_text (KeyDocument_obj k)"
  shows "d = KeyDocument_obj k"
  using assms json_text_inject KeyDocument_plain by blast

context registry
begin

lemma run_key_conflict:
  "good s \<Longrightarrow> runs good view R (key_conflict S k) s (\<lambda>c t. t = s \<and> (\<not> c \<longrightarrow> publishable (view s) k))"
  unfolding key_conflict_def
proof (rule runs_bind [OF run_getKey])
  fix x t assume "good t" "t = s \<and> x = vw_keys (view s) (kd_key_id k)"
  then show "runs good view R (io_return (case x of None \<Rightarrow> False | Some d \<Rightarrow> json_text d \<noteq> json_text (KeyDocument_obj k))) t
      (\<lambda>c t. t = s \<and> (\<not> c \<longrightarrow> publishable (view s) k))"
    using publishable_same_text view_key_plain
    by (intro runs_simple) (fastforce simp: publishable_def split: option.split)+
qed assumption

lemma publishable_after:
  "publishable v k \<Longrightarrow> agent_written r v w \<Longrightarrow> publishable w k"
  by (auto simp: publishable_def agent_written_def)

lemma run_write_registration:
  assumes "good s" "publishable (view s) k" "registered E \<lparr>ar_agent_id = mf_agent_id m, ar_manifest = m,
      ar_manifest_digest = manifest_digest E m, ar_proof = p, ar_status = ACTIVE, ar_registered_at = ts, ar_updated_at = ts\<rparr> k"
  shows "runs good view (registry_step E) (write_registration E S V m p k ts) s (\<lambda>x t. True)"
  unfolding write_registration_def manifestDigestHex_total io_simps Let_def
proof (rule runs_bind [OF run_createAgent [OF assms(1,3,2)]])
  fix created t
  assume t: "good t" and w: "if created then agent_written \<lparr>ar_agent_id = mf_agent_id m, ar_manifest = m,
      ar_manifest_digest = manifest_digest E m, ar_proof = p, ar_status = ACTIVE, ar_registered_at = ts, ar_updated_at = ts\<rparr>
      (view s) (view t) else view t = view s"
  then have "created \<Longrightarrow> publishable (view t) k" using publishable_after [OF assms(2)] by simp
  with t show "runs good view (registry_step E) (if \<not> created then io_return None
     else io_bind (putKey S k) (\<lambda>_. io_bind (fresh_ulid V 0) (\<lambda>u.
       io_bind (appendEvent S (event u (ar_agent_id \<lparr>ar_agent_id = mf_agent_id m, ar_manifest = m,
      ar_manifest_digest = manifest_digest E m, ar_proof = p, ar_status = ACTIVE, ar_registered_at = ts, ar_updated_at = ts\<rparr>)
         KeyPublished ts [(js ''key_id'', kd_key_id k)])) (\<lambda>_.
       io_bind (fresh_ulid V 1) (\<lambda>u. io_bind (appendEvent S (event u (ar_agent_id \<lparr>ar_agent_id = mf_agent_id m, ar_manifest = m,
      ar_manifest_digest = manifest_digest E m, ar_proof = p, ar_status = ACTIVE, ar_registered_at = ts, ar_updated_at = ts\<rparr>)
         AgentRegistered ts [(js ''manifest_digest'', manifest_digest E m)])) (\<lambda>_. io_return (Some \<lparr>ar_agent_id = mf_agent_id m, ar_manifest = m,
      ar_manifest_digest = manifest_digest E m, ar_proof = p, ar_status = ACTIVE, ar_registered_at = ts, ar_updated_at = ts\<rparr>))))))) t (\<lambda>x t. True)"
    by (auto intro!: runs_simple runs_bind [OF run_putKey] runs_bind [OF run_fresh_ulid] runs_bind [OF run_appendEvent])
qed

end

lemma decoder_inject: "decoder decode obj \<Longrightarrow> same_json (obj a) (obj b) \<Longrightarrow> a = b"
  by (metis decoder_obj decoder_cong)

lemma reparsed:
  assumes "zod_schemas E"
  shows "parse_ManifestProof E (ManifestProof_obj p) = Inr p' \<Longrightarrow> p' = p"
    "parse_Manifest E (Manifest_obj m) = Inr m' \<Longrightarrow> m' = m"
    "parse_KeyDocument E (KeyDocument_obj k) = Inr k' \<Longrightarrow> k' = k"
    "parse_Assertion E (Assertion_obj a) = Inr a' \<Longrightarrow> a' = a"
proof -
  have laws: "zod_parser (parse_ManifestProof E) ManifestProof_obj (ManifestProof_ok E)"
    "zod_parser (parse_Manifest E) Manifest_obj (Manifest_ok E)"
    "zod_parser (parse_KeyDocument E) KeyDocument_obj (KeyDocument_ok E)"
    "zod_parser (parse_Assertion E) Assertion_obj (Assertion_ok E)"
    using assms by (simp_all add: zod_schemas_def)
  show "parse_ManifestProof E (ManifestProof_obj p) = Inr p' \<Longrightarrow> p' = p"
    using decoder_inject [OF dec_proof_decoder, of p p'] zod_parserD [OF laws(1) document_json_doc] by simp
  show "parse_Manifest E (Manifest_obj m) = Inr m' \<Longrightarrow> m' = m"
    using zod_parserD [OF laws(2) document_json_doc] by simp
  show "parse_KeyDocument E (KeyDocument_obj k) = Inr k' \<Longrightarrow> k' = k"
    using zod_parserD [OF laws(3) document_json_doc] by simp
  show "parse_Assertion E (Assertion_obj a) = Inr a' \<Longrightarrow> a' = a"
    using decoder_inject [OF dec_assertion_decoder, of a a'] zod_parserD [OF laws(4) document_json_doc] by simp
qed

lemma verified_registration:
  assumes "zod_schemas E" "verifyManifestProof E (ManifestProof_obj p) (Manifest_obj m) (KeyDocument_obj k) now = Inr (VerifyOk c ds)"
  shows "registered E \<lparr>ar_agent_id = mf_agent_id m, ar_manifest = m, ar_manifest_digest = manifest_digest E m, ar_proof = p,
    ar_status = ACTIVE, ar_registered_at = ts, ar_updated_at = ts\<rparr> k"
proof -
  have "accepted (verifyManifestProof E (ManifestProof_obj p) (Manifest_obj m) (KeyDocument_obj k) now)" using assms(2) by simp
  then show ?thesis by (auto simp: verifyManifestProof_accepted registered_def dest!: reparsed [OF assms(1)])
qed

context registry
begin

lemma run_post_agents:
  assumes "zod_schemas (platform.truncate E)" "good s"
  shows "runs good view (registry_step (platform.truncate E)) (post_agents E S V body) s (\<lambda>x t. True)"
proof -
  let ?P = "platform.truncate E"
  have tail: "runs good view (registry_step ?P) (io_bind (key_conflict S k) (\<lambda>conflict. if conflict then io_return r0
      else io_bind (write_registration ?P S V m p k ts) (\<lambda>created. case created of
        None \<Rightarrow> io_return r1 | Some r \<Rightarrow> io_bind (io_lift x) (\<lambda>path. io_return (g r path))))) s (\<lambda>x t. True)"
    if verified: "\<exists>now c ds. verifyManifestProof ?P (ManifestProof_obj p) (Manifest_obj m) (KeyDocument_obj k) now = Inr (VerifyOk c ds)"
    for m p k ts x and r0 r1 :: http_response and g
  proof (rule runs_bind [OF run_key_conflict [OF assms(2)]])
    from verified obtain now c ds
      where ok: "verifyManifestProof ?P (ManifestProof_obj p) (Manifest_obj m) (KeyDocument_obj k) now = Inr (VerifyOk c ds)" by blast
    fix conflict t assume t: "good t" "t = s \<and> (\<not> conflict \<longrightarrow> publishable (view s) k)"
    show "runs good view (registry_step ?P) (if conflict then io_return r0
      else io_bind (write_registration ?P S V m p k ts) (\<lambda>created. case created of
        None \<Rightarrow> io_return r1 | Some r \<Rightarrow> io_bind (io_lift x) (\<lambda>path. io_return (g r path)))) t (\<lambda>x t. True)"
    proof (cases conflict)
      case False
      with t have "publishable (view t) k" by simp
      note written = run_write_registration [OF t(1) this verified_registration [OF assms(1) ok]]
      from False show ?thesis
        by (simp only: if_False, intro runs_bind [OF written])
           (auto intro!: runs_simple runs_bind [OF runs_simple(3)] split: option.split)
    qed (simp add: t(1) runs_simple)
  qed
  show ?thesis unfolding post_agents_def Let_def
    using assms(2)
    by (auto intro!: runs_simple tail runs_bind [OF runs_simple(3) [where P = "\<lambda>x t. t = s \<and> check = Inr x" for check]]
         split: sum.split registration_time.split verify_result.split) blast
qed

end

lemma verified_assertion:
  assumes "zod_schemas E" "verifyVerificationAssertion E (Assertion_obj a) d now (Some (Manifest_obj (ar_manifest r))) = Inr (VerifyOk c ds)"
    "vw_keys v (va_key_id a) = Some d" "vw_agents v (va_subject a) = Some r"
  shows "issued E v a"
proof -
  have "accepted (verifyVerificationAssertion E (Assertion_obj a) d now (Some (Manifest_obj (ar_manifest r))))" using assms(2) by simp
  with assms(3,4) show ?thesis
    by (auto simp: verifyVerificationAssertion_accepted issued_def dest!: reparsed [OF assms(1)])
qed

context registry
begin

lemma run_post_authority_key:
  assumes "good s"
  shows "runs good view (registry_step E) (post_authority_key E S token header body) s (\<lambda>x t. True)"
proof -
  have "runs good view (registry_step E) (io_bind (key_conflict S k) (\<lambda>conflict. if conflict then io_return r0
      else io_bind (putKey S k) (\<lambda>_. io_bind (io_lift x) (\<lambda>path. io_return (g path))))) s (\<lambda>x t. True)"
    for k x and r0 :: http_response and g
  proof (rule runs_bind [OF run_key_conflict [OF assms]])
    fix conflict t assume "good t" "t = s \<and> (\<not> conflict \<longrightarrow> publishable (view s) k)"
    then show "runs good view (registry_step E) (if conflict then io_return r0
      else io_bind (putKey S k) (\<lambda>_. io_bind (io_lift x) (\<lambda>path. io_return (g path)))) t (\<lambda>x t. True)"
      by (auto intro!: runs_simple runs_bind [OF run_putKey] runs_bind [OF runs_simple(3)])
  qed
  then show ?thesis using assms unfolding post_authority_key_def
    by (auto intro!: runs_simple split: option.split sum.split)
qed

lemma run_issue_assertion:
  assumes "zod_schemas (platform.truncate E)" "good s" "vw_agents (view s) (ar_agent_id r) = Some r"
  shows "runs good view (registry_step (platform.truncate E)) (issue_assertion E S V r a) s (\<lambda>x t. True)"
proof -
  let ?P = "platform.truncate E"
  have issue: "runs good view (registry_step ?P) (io_bind (getAssertion S (va_assertion_id a)) (\<lambda>existing.
      if existing \<noteq> None then io_return r0 else io_bind (putAssertion S a) (\<lambda>_. io_bind (fresh_ulid V 0) (\<lambda>u.
        io_bind (appendEvent S (ev u)) (\<lambda>_. io_return r1))))) s (\<lambda>x t. True)"
    if "issued ?P (view s) a" for a ev and r0 r1 :: http_response
  proof (rule runs_bind [OF run_getAssertion [OF assms(2)]])
    fix existing t assume "good t" "t = s \<and> existing = vw_assertions (view s) (va_assertion_id a)"
    then show "runs good view (registry_step ?P) (if existing \<noteq> None then io_return r0 else io_bind (putAssertion S a) (\<lambda>_.
        io_bind (fresh_ulid V 0) (\<lambda>u. io_bind (appendEvent S (ev u)) (\<lambda>_. io_return r1)))) t (\<lambda>x t. True)"
      using that by (auto intro!: runs_simple runs_bind [OF run_putAssertion] runs_bind [OF run_fresh_ulid] runs_bind [OF run_appendEvent])
  qed
  have checked: "runs good view (registry_step ?P) (io_bind (getKey S (va_key_id a)) (\<lambda>auKey. case auKey of
        None \<Rightarrow> io_return r2
      | Some k \<Rightarrow> io_bind (io_lift (verifyVerificationAssertion ?P (Assertion_obj a) k now (Some (Manifest_obj (ar_manifest r))))) (\<lambda>check.
          case check of VerifyFail code message \<Rightarrow> io_return (r3 code message)
          | VerifyOk c ds \<Rightarrow> io_bind (getAssertion S (va_assertion_id a)) (\<lambda>existing.
              if existing \<noteq> None then io_return r0 else io_bind (putAssertion S a) (\<lambda>_. io_bind (fresh_ulid V 0) (\<lambda>u.
                io_bind (appendEvent S (ev u)) (\<lambda>_. io_return r1))))))) s (\<lambda>x t. True)"
    if r: "vw_agents (view s) (va_subject a) = Some r" for a r ev now and r0 r1 r2 :: http_response and r3
  proof (rule runs_bind [OF run_getKey [OF assms(2)]])
    fix auKey t assume t: "good t" "t = s \<and> auKey = vw_keys (view s) (va_key_id a)"
    show "runs good view (registry_step ?P) (case auKey of
        None \<Rightarrow> io_return r2
      | Some k \<Rightarrow> io_bind (io_lift (verifyVerificationAssertion ?P (Assertion_obj a) k now (Some (Manifest_obj (ar_manifest r))))) (\<lambda>check.
          case check of VerifyFail code message \<Rightarrow> io_return (r3 code message)
          | VerifyOk c ds \<Rightarrow> io_bind (getAssertion S (va_assertion_id a)) (\<lambda>existing.
              if existing \<noteq> None then io_return r0 else io_bind (putAssertion S a) (\<lambda>_. io_bind (fresh_ulid V 0) (\<lambda>u.
                io_bind (appendEvent S (ev u)) (\<lambda>_. io_return r1)))))) t (\<lambda>x t. True)"
    proof (cases auKey)
      case (Some d)
      have "runs good view (registry_step ?P) (case check of VerifyFail code message \<Rightarrow> io_return (r3 code message)
          | VerifyOk c ds \<Rightarrow> io_bind (getAssertion S (va_assertion_id a)) (\<lambda>existing.
              if existing \<noteq> None then io_return r0 else io_bind (putAssertion S a) (\<lambda>_. io_bind (fresh_ulid V 0) (\<lambda>u.
                io_bind (appendEvent S (ev u)) (\<lambda>_. io_return r1))))) s (\<lambda>x t. True)"
        if "verifyVerificationAssertion ?P (Assertion_obj a) d now (Some (Manifest_obj (ar_manifest r))) = Inr check" for check
        using that t Some r issue verified_assertion [OF assms(1), of a d now r _ _ "view s"]
        by (auto intro!: runs_simple split: verify_result.split)
      with Some t show ?thesis
        by (auto simp del: not_None_eq intro!: runs_bind [OF runs_simple(3) [where P = "\<lambda>x t. t = s
          \<and> verifyVerificationAssertion ?P (Assertion_obj a) d now (Some (Manifest_obj (ar_manifest r))) = Inr x"]])
    qed (simp add: t(1) runs_simple)
  qed
  from assms(2,3) show ?thesis unfolding issue_assertion_def
    by (auto simp del: not_None_eq intro!: runs_simple checked)
qed

lemma run_post_assertion:
  assumes "zod_schemas (platform.truncate E)" "good s"
    and view_agent_id: "\<And>i r. vw_agents (view s) i = Some r \<Longrightarrow> ar_agent_id r = i"
  shows "runs good view (registry_step (platform.truncate E)) (post_assertion E S V token header agentId body) s (\<lambda>x t. True)"
proof (cases "requireAuthority token header")
  case None
  have "runs good view (registry_step (platform.truncate E)) (case x of None \<Rightarrow> io_return agent_not_found | Some r \<Rightarrow>
      (case parse_IssueAssertionBody E body of
        Inl issues \<Rightarrow> io_return (err 400 (js ''schema_validation_failed'') (zodMessage issues) [])
      | Inr a \<Rightarrow> issue_assertion E S V r a)) s (\<lambda>x t. True)"
    if "x = None \<or> x = vw_agents (view s) agentId" for x
  proof (cases x)
    case (Some r)
    with that have "vw_agents (view s) agentId = Some r" by (metis option.distinct(1))
    then have "vw_agents (view s) (ar_agent_id r) = Some r" using view_agent_id by metis
    note issues = run_issue_assertion [OF assms(1,2) this]
    show ?thesis unfolding Some option.case
      by (cases "parse_IssueAssertionBody E body"; simp only: sum.case) (rule runs_simple(1), rule assms(2), simp, rule issues)
  qed (simp add: assms(2) runs_simple)
  then show ?thesis unfolding post_assertion_def None option.case
    by (intro runs_bind [OF run_find_agent [OF assms(2)]]) blast
qed (simp add: post_assertion_def assms(2) runs_simple)

end

subsection \<open>Requests\<close>

datatype api_request =
    PostAgents jsval
  | GetAgent jstr
  | GetProof jstr
  | GetAssertions jstr
  | GetEvents jstr
  | PostAssertion "jstr option" jstr jsval
  | GetAssertion jstr
  | GetKeyPath "jstr option" jstr
  | GetKeyQuery "jstr option"
  | OptionsKeys
  | WriteKeys
  | PostAuthorityKey "jstr option" jsval

fun serve :: "api_platform \<Rightarrow> 's registry_store \<Rightarrow> jstr option \<Rightarrow> request_env \<Rightarrow> api_request \<Rightarrow> ('s, http_response) io" where
  "serve E S token V (PostAgents body) = post_agents E S V body"
| "serve E S token V (GetAgent i) = get_agent (platform.truncate E) S V i"
| "serve E S token V (GetProof i) = get_proof S i"
| "serve E S token V (GetAssertions i) = get_assertions (platform.truncate E) S V i"
| "serve E S token V (GetEvents i) = get_events S i"
| "serve E S token V (PostAssertion header i body) = post_assertion E S V token header i body"
| "serve E S token V (GetAssertion u) = get_assertion (platform.truncate E) S V u"
| "serve E S token V (GetKeyPath url param) = get_key_path (platform.truncate E) S url param"
| "serve E S token V (GetKeyQuery url) = get_key_query (platform.truncate E) S url"
| "serve E S token V OptionsKeys = io_return keyPreflight"
| "serve E S token V WriteKeys = io_return key_method_not_allowed"
| "serve E S token V (PostAuthorityKey header body) = post_authority_key (platform.truncate E) S token header body"

text \<open>A history of requests, one after the other.\<close>

fun serve_all :: "api_platform \<Rightarrow> 's registry_store \<Rightarrow> jstr option \<Rightarrow> (request_env \<times> api_request) list \<Rightarrow> 's \<Rightarrow> 's" where
  "serve_all E S token [] s = s"
| "serve_all E S token ((V, q) # qs) s = serve_all E S token qs (snd (serve E S token V q s))"

text \<open>Reading operations leave a good state as it is.\<close>

definition quiet :: "('s \<Rightarrow> bool) \<Rightarrow> ('s, 'a) io \<Rightarrow> bool" where
  "quiet good m \<longleftrightarrow> (\<forall>s. good s \<longrightarrow> snd (m s) = s)"

lemma quiet_simple [simp, intro]: "quiet good (io_return x)" "quiet good (io_throw e)" "quiet good (io_lift r)"
  by (simp_all add: quiet_def)

lemma quiet_bind [intro]: "quiet good m \<Longrightarrow> (\<And>x. quiet good (f x)) \<Longrightarrow> quiet good (io_bind m f)"
  by (auto simp: quiet_def io_bind_def split: sum.split prod.split)

lemma quiet_catch [intro]: "quiet good m \<Longrightarrow> (\<And>e. quiet good (h e)) \<Longrightarrow> quiet good (io_catch m h)"
  by (auto simp: quiet_def io_catch_def split: sum.split prod.split)

lemma quiet_cases [intro]:
  "quiet good a \<Longrightarrow> (\<And>y. quiet good (f y)) \<Longrightarrow> quiet good (case x of None \<Rightarrow> a | Some y \<Rightarrow> f y)"
  "(\<And>e. quiet good (g e)) \<Longrightarrow> (\<And>y. quiet good (h y)) \<Longrightarrow> quiet good (case r of Inl e \<Rightarrow> g e | Inr y \<Rightarrow> h y)"
  "quiet good c \<Longrightarrow> quiet good d \<Longrightarrow> quiet good (if b then c else d)"
  by (auto split: option.split sum.split)

lemma quiet_runs: "quiet good m \<Longrightarrow> good s \<Longrightarrow> runs good view R m s (\<lambda>x t. True)"
  by (simp add: quiet_def runs_def split: sum.split)

lemma quiet_resolve: "(\<And>k. quiet good (reader k)) \<Longrightarrow> quiet good (resolveKeyDocument E reader ref pos)"
  by (auto simp: resolveKeyDocument_def split: sum.split)

context registry
begin

lemma quiet_reads [intro]:
  "quiet good (getAgent S i)" "quiet good (getKey S k)" "quiet good (getAssertion S j)"
  "quiet good (listAssertionsForSubject S sub)" "quiet good (listEvents S i)"
  using getAgent getKey getAssertion listAssertions listEvents by (simp_all add: quiet_def reads_def)

lemma quiet_find_agent [intro]: "quiet good (find_agent S i)"
  by (auto simp: find_agent_def)

lemma quiet_check_assertion [intro]: "quiet good (check_assertion E S a now cm)"
  unfolding check_assertion_def by (rule quiet_bind) (auto split: option.split)

lemma quiet_envelope_loop: "quiet good (envelope_loop E S r now as views level valid)"
  by (induction "as" arbitrary: views level valid) (auto simp: Let_def)

lemma quiet_buildEnvelope [intro]: "quiet good (buildEnvelope E S r now)"
  unfolding buildEnvelope_def
  by (intro quiet_bind quiet_reads quiet_simple) (auto split: option.split prod.split intro: quiet_envelope_loop)

lemma quiet_handlers:
  "quiet good (get_agent E S V i)" "quiet good (get_proof S i)" "quiet good (get_assertions E S V i)"
  "quiet good (get_events S i)" "quiet good (get_assertion E S V u)" "quiet good (get_key_path E S url param)"
  "quiet good (get_key_query E S url)"
  unfolding get_agent_def get_proof_def get_assertions_def get_events_def get_assertion_def get_key_path_def
    resolveKeyFromRawPath_def get_key_query_def resolveKeyFromRawQuery_def resolveKeyFromQuery_def
  by (intro quiet_bind quiet_cases quiet_simple quiet_reads quiet_find_agent quiet_buildEnvelope quiet_check_assertion
      quiet_resolve)+

lemma run_serve:
  assumes "zod_schemas (platform.truncate E)" "good s" "view_verified (platform.truncate E) (view s)"
  shows "runs good view (registry_step (platform.truncate E)) (serve E S token V q) s (\<lambda>x t. True)"
proof (cases q)
  case (PostAssertion header i body)
  then show ?thesis using assms by (auto simp: view_verified_def intro: run_post_assertion)
qed (use assms in \<open>auto intro: run_post_agents run_post_authority_key quiet_runs quiet_handlers\<close>)

lemma run_serve_all:
  assumes "zod_schemas (platform.truncate E)" "good s" "view_verified (platform.truncate E) (view s)"
  shows "good (serve_all E S token qs s)
    \<and> (registry_step (platform.truncate E))\<^sup>*\<^sup>* (view s) (view (serve_all E S token qs s))
    \<and> view_verified (platform.truncate E) (view (serve_all E S token qs s))"
  using assms(2,3)
proof (induction qs arbitrary: s)
  case (Cons q qs)
  obtain V r where q: "q = (V, r)" by (cases q)
  let ?t = "snd (serve E S token V r s)"
  from run_serve [OF assms(1) Cons.prems] have "good ?t" and steps: "(registry_step (platform.truncate E))\<^sup>*\<^sup>* (view s) (view ?t)"
    by (simp_all add: runs_def)
  moreover have "view_verified (platform.truncate E) (view ?t)" by (rule steps_verified [OF steps Cons.prems(2)])
  ultimately show ?case using Cons.IH [of ?t] by (auto simp: q intro: rtranclp_trans)
qed simp

end

subsection \<open>The envelope\<close>

text \<open>What the check of a stored assertion shows, on the view.\<close>

definition assertion_valid :: "platform \<Rightarrow> registry_view \<Rightarrow> jstr \<Rightarrow> jsval option \<Rightarrow> assertion \<Rightarrow> bool" where
  "assertion_valid E v now cm a \<longleftrightarrow> (\<exists>d. vw_keys v (va_key_id a) = Some d
     \<and> accepted (verifyVerificationAssertion E (Assertion_obj a) d now cm))"

lemma check_of_None: "check_of r = None \<longleftrightarrow> accepted (Inr r)"
  by (cases r) (simp_all add: check_of_def)

lemma LEVEL_RANK_inject: "LEVEL_RANK a = LEVEL_RANK b \<longleftrightarrow> a = b"
  by (cases a; cases b) simp_all

lemma io_bindE:
  assumes "io_bind m f s = (Inr y, s')" obtains x t where "m s = (Inr x, t)" "f x t = (Inr y, s')"
  using assms by (auto simp: io_bind_eq)

context registry
begin

lemma getKeyD: "good s \<Longrightarrow> getKey S k s = (Inr x, t) \<Longrightarrow> t = s \<and> x = vw_keys (view s) k"
  using getKey [of s k] by (simp add: reads_def)

lemma listAssertionsD:
  "good s \<Longrightarrow> listAssertionsForSubject S sub s = (Inr xs, t)
    \<Longrightarrow> t = s \<and> set xs = {a \<in> ran (vw_assertions (view s)). va_subject a = sub} \<and> distinct xs"
  using listAssertions [of s sub] by (simp add: reads_def)

lemma check_assertion_view:
  assumes "good s" "check_assertion E S a now cm s = (Inr c, s')"
  shows "s' = s \<and> (c = None) = assertion_valid E (view s) now cm a"
proof -
  from assms(2) [unfolded check_assertion_def] obtain x t where x: "getKey S (va_key_id a) s = (Inr x, t)"
    and rest: "(case x of None \<Rightarrow> io_return (Some (js ''key_unavailable'')) | Some k \<Rightarrow>
       io_bind (io_lift (verifyVerificationAssertion E (Assertion_obj a) k now cm)) (\<lambda>r. io_return (check_of r))) t = (Inr c, s')"
    by (rule io_bindE)
  from getKeyD [OF assms(1) x] have t: "t = s" "vw_keys (view s) (va_key_id a) = x" by simp_all
  show ?thesis
  proof (cases x)
    case (Some d)
    obtain r where "verifyVerificationAssertion E (Assertion_obj a) d now cm = Inr r"
      using returns_assertion [of E "Assertion_obj a" d now cm] by (auto simp: returns_def)
    then show ?thesis using rest t Some by (auto simp: assertion_valid_def check_of_None)
  qed (use rest t in \<open>auto simp: assertion_valid_def\<close>)
qed

lemma envelope_loop_view:
  assumes "good s" "envelope_loop E S r now as views level n s = (Inr (vs, level', n'), s')"
  defines "valid \<equiv> \<lambda>a. assertion_valid E (view s) now (Some (Manifest_obj (ar_manifest r))) a"
  shows "s' = s \<and> (\<exists>cs. vs = views @ zip as cs \<and> map (\<lambda>c. c = None) cs = map valid as)
    \<and> n' = n + length (filter valid as)
    \<and> (level' = level \<or> (\<exists>a \<in> set as. valid a \<and> level' = va_level a))
    \<and> LEVEL_RANK level \<le> LEVEL_RANK level' \<and> (\<forall>a \<in> set as. valid a \<longrightarrow> LEVEL_RANK (va_level a) \<le> LEVEL_RANK level')"
  using assms(2)
proof (induction "as" arbitrary: views level n)
  case (Cons a as)
  obtain c t where c: "check_assertion E S a now (Some (Manifest_obj (ar_manifest r))) s = (Inr c, t)"
    using Cons.prems by (auto simp: io_bind_eq)
  note t = check_assertion_view [OF assms(1) c]
  have rest: "envelope_loop E S r now as (views @ [(a, c)])
      (if c = None \<and> LEVEL_RANK level < LEVEL_RANK (va_level a) then va_level a else level)
      (if c = None then n + 1 else n) s = (Inr (vs, level', n'), s')"
    using Cons.prems c t by (auto simp: io_bind_eq Let_def split: if_splits)
  from Cons.IH [OF rest] obtain cs where cs: "vs = (views @ [(a, c)]) @ zip as cs" "map (\<lambda>c. c = None) cs = map valid as"
    by blast
  have "vs = views @ zip (a # as) (c # cs)" "map (\<lambda>c. c = None) (c # cs) = map valid (a # as)"
    using cs t by (simp_all add: valid_def)
  then have "\<exists>cs. vs = views @ zip (a # as) cs \<and> map (\<lambda>c. c = None) cs = map valid (a # as)" by blast
  with Cons.IH [OF rest] t show ?case by (auto simp: valid_def split: if_splits)
qed (auto simp: io_return_def)

lemma buildEnvelope_view:
  assumes "good s" "buildEnvelope E S r now s = (Inr e, s')"
  defines "valid \<equiv> \<lambda>a. assertion_valid E (view s) now (Some (Manifest_obj (ar_manifest r))) a"
  shows "s' = s
    \<and> (\<exists>as cs. env_assertions e = zip as cs \<and> map (\<lambda>c. c = None) cs = map valid as
         \<and> set as = {a \<in> ran (vw_assertions (view s)). va_subject a = ar_agent_id r} \<and> distinct as
         \<and> env_total_assertions e = length as \<and> env_valid_assertions e = length (filter valid as)
         \<and> (env_level e = L1_REGISTERED \<or> (\<exists>a \<in> set as. valid a \<and> env_level e = va_level a))
         \<and> (\<forall>a \<in> set as. valid a \<longrightarrow> LEVEL_RANK (va_level a) \<le> LEVEL_RANK (env_level e)))
    \<and> (env_proof_check e = None) = (\<exists>d. vw_keys (view s) (mp_key_id (ar_proof r)) = Some d
         \<and> accepted (verifyManifestProof E (ManifestProof_obj (ar_proof r)) (Manifest_obj (ar_manifest r)) d now))
    \<and> env_agent_id e = ar_agent_id r \<and> env_manifest e = ar_manifest r \<and> env_proof e = ar_proof r \<and> env_status e = ar_status r"
proof -
  let ?key = "mp_key_id (ar_proof r)"
  let ?pc = "\<lambda>opKey. case opKey of None \<Rightarrow> io_return (Some (js ''key_unavailable''))
       | Some k \<Rightarrow> io_bind (io_lift (verifyManifestProof E (ManifestProof_obj (ar_proof r)) (Manifest_obj (ar_manifest r)) k now))
                     (\<lambda>c. io_return (check_of c))"
  let ?rest = "\<lambda>opKey proofCheck as (views, level, valid).
     io_bind (io_lift (keyResolverPath ?key)) (\<lambda>path.
     io_bind (io_lift (wellKnownKeysUrl (ow_operator_domain (mf_ownership (ar_manifest r))))) (\<lambda>url.
       io_return \<lparr>env_agent_id = ar_agent_id r, env_status = ar_status r, env_registered_at = ar_registered_at r,
         env_manifest = ar_manifest r, env_manifest_digest = ar_manifest_digest r, env_proof = ar_proof r,
         env_proof_check = proofCheck, env_operator_key_id = ?key, env_operator_key = opKey,
         env_registry_path = path, env_well_known_url = url, env_level = level, env_valid_assertions = valid,
         env_total_assertions = length as, env_assertions = views\<rparr>))"
  from assms(2) have "io_bind (getKey S ?key) (\<lambda>opKey. io_bind (?pc opKey) (\<lambda>check.
      io_bind (listAssertionsForSubject S (ar_agent_id r)) (\<lambda>as.
      io_bind (envelope_loop E S r now as [] L1_REGISTERED 0) (?rest opKey check as)))) s = (Inr e, s')"
    by (simp only: buildEnvelope_def)
  then obtain opKey t1 where k: "getKey S ?key s = (Inr opKey, t1)"
    and 1: "io_bind (?pc opKey) (\<lambda>check. io_bind (listAssertionsForSubject S (ar_agent_id r)) (\<lambda>as.
      io_bind (envelope_loop E S r now as [] L1_REGISTERED 0) (?rest opKey check as))) t1 = (Inr e, s')"
    by (rule io_bindE)
  from getKeyD [OF assms(1) k] have t1: "t1 = s" "vw_keys (view s) ?key = opKey" by simp_all
  from 1 [unfolded t1(1)] obtain check t2 where pc: "?pc opKey s = (Inr check, t2)"
    and 2: "io_bind (listAssertionsForSubject S (ar_agent_id r)) (\<lambda>as.
      io_bind (envelope_loop E S r now as [] L1_REGISTERED 0) (?rest opKey check as)) t2 = (Inr e, s')"
    by (rule io_bindE)
  have t2: "t2 = s" and check: "(check = None) = (\<exists>d. opKey = Some d
      \<and> accepted (verifyManifestProof E (ManifestProof_obj (ar_proof r)) (Manifest_obj (ar_manifest r)) d now))"
  proof (atomize (full), cases opKey)
    case (Some d)
    obtain x where "verifyManifestProof E (ManifestProof_obj (ar_proof r)) (Manifest_obj (ar_manifest r)) d now = Inr x"
      using returns_manifest_proof [of E "ManifestProof_obj (ar_proof r)" "Manifest_obj (ar_manifest r)" d now]
      by (auto simp: returns_def)
    then show "t2 = s \<and> (check = None) = (\<exists>d. opKey = Some d
      \<and> accepted (verifyManifestProof E (ManifestProof_obj (ar_proof r)) (Manifest_obj (ar_manifest r)) d now))"
      using pc Some by (auto simp: check_of_None)
  qed (use pc in auto)
  from 2 [unfolded t2] obtain "as" t3 where l: "listAssertionsForSubject S (ar_agent_id r) s = (Inr as, t3)"
    and 3: "io_bind (envelope_loop E S r now as [] L1_REGISTERED 0) (?rest opKey check as) t3 = (Inr e, s')"
    by (rule io_bindE)
  note list = listAssertionsD [OF assms(1) l]
  from 3 list obtain vln t4 where loop: "envelope_loop E S r now as [] L1_REGISTERED 0 s = (Inr vln, t4)"
    and 4: "?rest opKey check as vln t4 = (Inr e, s')" by (auto elim: io_bindE)
  obtain views level n where vln: "vln = (views, level, n)" by (cases vln) auto
  from envelope_loop_view [OF assms(1) loop [unfolded vln]] obtain cs where
    facts: "t4 = s" "views = zip as cs" "map (\<lambda>c. c = None) cs = map valid as" "n = length (filter valid as)"
      "level = L1_REGISTERED \<or> (\<exists>a \<in> set as. valid a \<and> level = va_level a)"
      "\<forall>a \<in> set as. valid a \<longrightarrow> LEVEL_RANK (va_level a) \<le> LEVEL_RANK level"
    by (auto simp: valid_def)
  from 4 [unfolded vln] have e: "s' = t4" "env_agent_id e = ar_agent_id r" "env_manifest e = ar_manifest r" "env_proof e = ar_proof r"
    "env_status e = ar_status r" "env_proof_check e = check" "env_level e = level" "env_valid_assertions e = n"
    "env_total_assertions e = length as" "env_assertions e = views"
    by (auto simp: io_bind_eq)
  from facts list check t1 show ?thesis unfolding e by blast
qed

end

end
