(* ===== verification/Registry_Properties.thy ===== *)
theory Registry_Properties
  imports Registry_Invariants
begin

section \<open>Properties of the registry\<close>

text \<open>
  What the invariants of \<open>Registry_Invariants\<close> mean for the application: histories of requests
  only extend the registry, everything in it was verified, the envelope says what the verifier
  finds, a registration happens exactly under its conditions and then resolves, and authority
  writes need the token.  The two properties at the end show what happens when the store
  operations of one registration are separated: by another registration, or by a failure.
\<close>

subsection \<open>A platform for the API\<close>

definition dec_register :: "jsval \<Rightarrow> manifest \<times> manifest_proof \<times> key_document" where
  "dec_register v = (dec_manifest (get_member (js ''manifest'') v), dec_proof (get_member (js ''proof'') v),
     dec_key (get_member (js ''key_document'') v))"

definition dec_issue :: "jsval \<Rightarrow> assertion" where
  "dec_issue v = dec_assertion (get_member (js ''assertion'') v)"

lemma dec_register_decoder: "decoder dec_register RegisterBody_obj"
  unfolding decoder_def
proof (intro conjI allI impI)
  fix v w assume "same_json v w"
  note m = this [THEN same_json_member]
  show "dec_register v = dec_register w" unfolding dec_register_def
    by (simp only: decoder_cong [OF dec_manifest_decoder m] decoder_cong [OF dec_proof_decoder m] decoder_cong [OF dec_key_decoder m])
next
  fix x show "dec_register (RegisterBody_obj x) = x"
    by (cases x) (simp add: dec_register_def get_member_def js_inject decoder_obj [OF dec_manifest_decoder]
        decoder_obj [OF dec_proof_decoder] decoder_obj [OF dec_key_decoder] del: js_simps)
qed

lemma dec_issue_decoder: "decoder dec_issue IssueAssertionBody_obj"
  unfolding decoder_def
proof (intro conjI allI impI)
  fix v w assume "same_json v w"
  note m = this [THEN same_json_member]
  show "dec_issue v = dec_issue w" unfolding dec_issue_def by (simp only: decoder_cong [OF dec_assertion_decoder m])
next
  fix x show "dec_issue (IssueAssertionBody_obj x) = x"
    by (simp add: dec_issue_def IssueAssertionBody_obj_def get_member_def decoder_obj [OF dec_assertion_decoder])
qed

definition reference_api :: api_platform where
  "reference_api = platform.extend reference_platform
     \<lparr>parse_RegisterBody = checked dec_register RegisterBody_obj (RegisterBody_ok reference_runtime),
      parse_IssueAssertionBody = checked dec_issue IssueAssertionBody_obj (Assertion_ok reference_runtime)\<rparr>"

lemma reference_api_platform [simp]: "platform.truncate reference_api = reference_platform"
  by (simp add: reference_api_def platform.defs)

lemma reference_api_checks:
  "Manifest_ok reference_api = Manifest_ok reference_runtime" "ManifestProof_ok reference_api = ManifestProof_ok reference_runtime"
  "Assertion_ok reference_api = Assertion_ok reference_runtime" "KeyDocument_ok reference_api = KeyDocument_ok reference_runtime"
proof -
  have env: "Date_parse reference_api = Date_parse reference_runtime" "email_ok reference_api = email_ok reference_runtime"
    by (simp_all add: reference_api_def reference_platform_def reference_runtime_def platform.defs Date_parse_def fun_eq_iff)
  then have rfc: "Rfc3339Utc reference_api = Rfc3339Utc reference_runtime" by (simp add: fun_eq_iff Rfc3339Utc_def)
  show "Manifest_ok reference_api = Manifest_ok reference_runtime" "ManifestProof_ok reference_api = ManifestProof_ok reference_runtime"
    "Assertion_ok reference_api = Assertion_ok reference_runtime" "KeyDocument_ok reference_api = KeyDocument_ok reference_runtime"
    by (simp_all only: fun_eq_iff env rfc Manifest_ok_def ManifestProof_ok_def ManifestProofPayload_ok_def Assertion_ok_def
      AssertionPayload_ok_def assertionRules_def KeyDocument_ok_def) simp_all
qed

lemma reference_api_schemas: "api_schemas reference_api"
  unfolding api_schemas_def reference_api_platform
proof (intro conjI reference_schemas)
  have "parse_RegisterBody reference_api = checked dec_register RegisterBody_obj (RegisterBody_ok reference_runtime)"
    "parse_IssueAssertionBody reference_api = checked dec_issue IssueAssertionBody_obj (Assertion_ok reference_runtime)"
    by (simp_all add: reference_api_def platform.defs)
  moreover have "RegisterBody_ok reference_api = RegisterBody_ok reference_runtime"
    by (simp add: fun_eq_iff reference_api_checks)
  moreover note reference_api_checks(3)
  ultimately show "zod_parser (parse_RegisterBody reference_api) RegisterBody_obj (RegisterBody_ok reference_api)"
    "zod_parser (parse_IssueAssertionBody reference_api) IssueAssertionBody_obj (Assertion_ok reference_api)"
    by (simp_all add: checked_parser dec_register_decoder dec_issue_decoder)
qed

subsection \<open>Registration on MemoryStore\<close>

lemma memory_run [simp]:
  "getAgent (MemoryStore le) i s = (Inr (ms_agents s i), s)"
  "createAgent (MemoryStore le) r s = (if ms_agents s (ar_agent_id r) \<noteq> None then (Inr False, s)
     else (Inr True, s\<lparr>ms_agents := (ms_agents s)(ar_agent_id r \<mapsto> r)\<rparr>))"
  "getKey (MemoryStore le) k s = (Inr (map_option KeyDocument_obj (ms_keys s k)), s)"
  "putKey (MemoryStore le) d s = (Inr (), s\<lparr>ms_keys := (ms_keys s)(kd_key_id d \<mapsto> d)\<rparr>)"
  "appendEvent (MemoryStore le) e s = (Inr (), s\<lparr>ms_events := ms_events s @ [e]\<rparr>)"
  by (simp_all add: memory_defs)

lemma memory_key_conflict:
  "key_conflict (MemoryStore le) k s = (Inr (\<exists>k'. ms_keys s (kd_key_id k) = Some k' \<and> k' \<noteq> k), s)"
proof -
  have "json_text (KeyDocument_obj k') = json_text (KeyDocument_obj k) \<longleftrightarrow> k' = k" for k'
    using publishable_same_text [OF KeyDocument_plain, of k' k] KeyDocument_inject [of k' k] by (auto simp: same_json_def)
  then show ?thesis by (simp add: key_conflict_def io_bind_def split: option.split)
qed

definition good_clock :: "request_env \<Rightarrow> bool" where
  "good_clock V \<longleftrightarrow> (\<forall>n. \<exists>t. rq_ms V n = Some t \<and> 0 \<le> t \<and> t < 2 ^ 48 \<and> length (rq_random V n) = 10)"

lemma fresh_ulid_total: "good_clock V \<Longrightarrow> \<exists>u. \<forall>s. fresh_ulid V n s = (Inr u, s)"
  unfolding good_clock_def fresh_ulid_def using generateUlid_ok by (metis io_run(3) map_sum.simps(2) id_apply)

definition agent_of :: "platform \<Rightarrow> manifest \<Rightarrow> manifest_proof \<Rightarrow> jstr \<Rightarrow> agent_record" where
  "agent_of E m p ts = \<lparr>ar_agent_id = mf_agent_id m, ar_manifest = m, ar_manifest_digest = manifest_digest E m, ar_proof = p,
     ar_status = ACTIVE, ar_registered_at = ts, ar_updated_at = ts\<rparr>"

text \<open>The state after a registration, with its two events.\<close>

definition registered_state ::
  "platform \<Rightarrow> manifest \<Rightarrow> manifest_proof \<Rightarrow> key_document \<Rightarrow> jstr \<Rightarrow> jstr \<Rightarrow> jstr \<Rightarrow> memory_store \<Rightarrow> memory_store" where
  "registered_state E m p k ts u w s = s\<lparr>ms_agents := (ms_agents s)(mf_agent_id m \<mapsto> agent_of E m p ts),
     ms_keys := (ms_keys s)(kd_key_id k \<mapsto> k),
     ms_events := ms_events s @ [event u (mf_agent_id m) KeyPublished ts [(js ''key_id'', kd_key_id k)],
       event w (mf_agent_id m) AgentRegistered ts [(js ''manifest_digest'', manifest_digest E m)]]\<rparr>"

lemma memory_write_registration:
  assumes "good_clock V"
  obtains u w where "\<And>s. write_registration E (MemoryStore le) V m p k ts s =
    (if ms_agents s (mf_agent_id m) = None then (Inr (Some (agent_of E m p ts)), registered_state E m p k ts u w s)
     else (Inr None, s))"
proof -
  obtain u w where u: "\<And>s :: memory_store. fresh_ulid V 0 s = (Inr u, s)" and w: "\<And>s :: memory_store. fresh_ulid V (Suc 0) s = (Inr w, s)"
    using fresh_ulid_total [OF assms] by metis
  show thesis
  proof (rule that [of u w])
    fix s
    show "write_registration E (MemoryStore le) V m p k ts s =
      (if ms_agents s (mf_agent_id m) = None then (Inr (Some (agent_of E m p ts)), registered_state E m p k ts u w s)
       else (Inr None, s))"
      by (simp add: write_registration_def io_bind_def u w agent_of_def registered_state_def Let_def)
  qed
qed

text \<open>When a registration is due.\<close>

definition admissible :: "platform \<Rightarrow> request_env \<Rightarrow> memory_store \<Rightarrow> manifest \<Rightarrow> manifest_proof \<Rightarrow> key_document \<Rightarrow> bool" where
  "admissible P V s m p k \<longleftrightarrow> kd_key_id k = mp_key_id p \<and> kd_role k = OperatorRole \<and> kd_controller k = mf_agent_id m
     \<and> (\<exists>now reg. registrationTime P (mp_created_at p) (Date_parse P (rq_now V 0)) = Inr (RegistrationAt now reg)
          \<and> accepted (verifyManifestProof P (ManifestProof_obj p) (Manifest_obj m) (KeyDocument_obj k) now))
     \<and> ms_agents s (mf_agent_id m) = None \<and> (\<forall>k'. ms_keys s (kd_key_id k) = Some k' \<longrightarrow> k' = k)"

definition refused_with :: "(exn + http_response) \<times> 's \<Rightarrow> 's \<Rightarrow> bool" where
  "refused_with x s \<longleftrightarrow> snd x = s \<and> (case fst x of Inl e \<Rightarrow> True | Inr r \<Rightarrow> hr_status r = 400 \<or> hr_status r = 409)"

lemma refused_simps [simp]:
  "refused_with (Inr (err 400 c t xs), s) s" "refused_with (Inr (err 409 c t xs), s) s" "refused_with (Inl e, s) s"
  by (simp_all add: refused_with_def err_def send_def)

lemma parsed_body:
  assumes "api_schemas E" "json_doc body" "parse_RegisterBody E body = Inr (m, p, k)"
  shows "Manifest_ok E m" "ManifestProof_ok E p" "KeyDocument_ok E k"
  using assms zod_parser_ok [of "parse_RegisterBody E" RegisterBody_obj "RegisterBody_ok E" body "(m, p, k)"]
  by (simp_all add: api_schemas_def)

lemma key_path_total: "KeyDocument_ok E k \<Longrightarrow> \<exists>path. keyResolverPath (kd_key_id k) = Inr path"
  by (auto simp: KeyDocument_ok_def KeyId_def keyId_iff keyResolverPath_def keyIdToWire_def)

lemma verify_cases:
  obtains c ds where "verifyManifestProof P pf mi ki now = Inr (VerifyOk c ds)" "accepted (verifyManifestProof P pf mi ki now)"
    | f t where "verifyManifestProof P pf mi ki now = Inr (VerifyFail f t)" "\<not> accepted (verifyManifestProof P pf mi ki now)"
  using returns_manifest_proof [of P pf mi ki now] unfolding returns_def by (cases rule: verify_result.exhaust) (metis accepted_simps verify_result.exhaust)+

text \<open>C14: A registration on MemoryStore succeeds exactly when it is due: the key document is the proof's, an operator
  key of the agent, the proof verifies at the evaluation instant, the agent is new and no other document is
  published under the key's identifier. It then writes the agent, the key and two events; otherwise nothing is
  written and the answer is 400, 409 or a failure.\<close>

theorem registration_exact:
  assumes "api_schemas E" "good_clock V" "json_doc body"
  shows "case parse_RegisterBody E body of
      Inl issues \<Rightarrow> post_agents E (MemoryStore le) V body s = (Inr (err 400 (js ''schema_validation_failed'') (zodMessage issues) []), s)
    | Inr (m, p, k) \<Rightarrow>
        if admissible (platform.truncate E) V s m p k
        then \<exists>r u w. post_agents E (MemoryStore le) V body s
               = (Inr r, registered_state (platform.truncate E) m p k (rq_now V 1) u w s) \<and> hr_status r = 201
        else refused_with (post_agents E (MemoryStore le) V body s) s"
proof (cases "parse_RegisterBody E body")
  case (Inr b)
  obtain m p k where b: "b = (m, p, k)" by (cases b)
  let ?P = "platform.truncate E"
  obtain path where path: "keyResolverPath (kd_key_id k) = Inr path"
    using key_path_total parsed_body(3) [OF assms(1,3)] Inr b by blast
  then have path': "kd_key_id k = mp_key_id p \<Longrightarrow> keyResolverPath (mp_key_id p) = Inr path" by simp
  obtain u w where wr: "\<And>s. write_registration ?P (MemoryStore le) V m p k (rq_now V 1) s =
    (if ms_agents s (mf_agent_id m) = None then (Inr (Some (agent_of ?P m p (rq_now V 1))), registered_state ?P m p k (rq_now V 1) u w s)
     else (Inr None, s))"
    using memory_write_registration [OF assms(2)] by metis
  note run = post_agents_def Let_def Inr b io_bind_def memory_key_conflict wr path'
  show ?thesis
  proof (cases "registrationTime ?P (mp_created_at p) (Date_parse ?P (rq_now V 0))")
    case (Inl e)
    then show ?thesis by (simp add: run admissible_def del: js_simps)
  next
    case (Inr rt)
    show ?thesis
    proof (cases rt)
      case (RegistrationAt now reg)
      show ?thesis
        by (rule verify_cases [of ?P "ManifestProof_obj p" "Manifest_obj m" "KeyDocument_obj k" now])
           (auto simp: run Inr RegistrationAt admissible_def send_def simp del: js_simps One_nat_def)
    qed (simp add: run Inr admissible_def del: js_simps)
  qed
qed (simp add: post_agents_def)

definition sample_env :: request_env where
  "sample_env = \<lparr>rq_now = \<lambda>n. sample_instant 3, rq_ms = \<lambda>n. Some 1767398400000, rq_random = \<lambda>n. replicate 10 0\<rparr>"

definition sample_body :: jsval where
  "sample_body = RegisterBody_obj (sample_manifest, sample_proof, sample_key OperatorRole)"

definition any_order :: "jstr \<Rightarrow> jstr \<Rightarrow> bool" where
  "any_order a b = True"

lemma sample_clock [simp]: "good_clock sample_env" "rq_now sample_env n = sample_instant 3"
  by (simp_all add: good_clock_def sample_env_def)

lemma sample_proof_fields [simp]:
  "mp_created_at sample_proof = sample_instant 2" "mp_expires_at sample_proof = sample_instant 6" "mp_key_id sample_proof = sample_key_id"
  by (simp_all add: sample_proof_def signed_proof_def proof_payload_def manifest_proof_payload.defs manifest_proof.defs)

lemma sample_registration_time:
  "registrationTime reference_platform (sample_instant 2) (Some 1767398400000)
     = Inr (RegistrationAt (iso_string 1767398400000) (iso_string 1767398400000))"
  by (simp add: registrationTime_def MAX_FORWARD_SKEW_MS_def Let_def)

lemma sample_window_now: "in_window reference_platform (sample_instant 2) (sample_instant 6) (iso_string 1767398400000)"
  using iso_roundtrip(1) [of 1767398400000] by (simp add: in_window_def)

lemma sample_admissible:
  "ms_agents s sample_agent = None \<Longrightarrow> ms_keys s sample_key_id = None
    \<Longrightarrow> admissible reference_platform sample_env s sample_manifest sample_proof (sample_key OperatorRole)"
  using sample_registration_time sample_window_now by (auto simp: admissible_def simp del: js_simps)

lemma sample_body_parse:
  "json_doc sample_body" "parse_RegisterBody reference_api sample_body = Inr (sample_manifest, sample_proof, sample_key OperatorRole)"
proof -
  have doc: "json_doc (ManifestProof_obj p)" "json_doc (Manifest_obj m)" "json_doc (KeyDocument_obj k)" for p m k
    by (simp_all add: document_json_doc)
  then show d: "json_doc sample_body" by (simp add: sample_body_def js_inject del: js_simps)
  have "RegisterBody_ok reference_api (sample_manifest, sample_proof, sample_key OperatorRole)"
  proof -
    obtain p' where p': "parse_ManifestProof reference_platform (ManifestProof_obj sample_proof) = Inr p'"
      using sample_proof_verdict [THEN iffD2, OF sample_window_now] by (auto simp: verifyManifestProof_accepted)
    moreover have "zod_parser (parse_ManifestProof reference_platform) ManifestProof_obj (ManifestProof_ok reference_platform)"
      using reference_schemas by (simp add: zod_schemas_def)
    ultimately have "ManifestProof_ok reference_platform sample_proof"
      using reparsed(1) [OF reference_schemas p'] doc(1) by (simp add: zod_parserD)
    then show ?thesis by (simp add: reference_api_checks reference_checks)
  qed
  then show "parse_RegisterBody reference_api sample_body = Inr (sample_manifest, sample_proof, sample_key OperatorRole)"
    using reference_api_schemas d unfolding api_schemas_def by (auto simp: zod_parserD sample_body_def same_json_def)
qed

theorem registration_exact_witness:
  "\<exists>r u w. post_agents reference_api (MemoryStore any_order) sample_env sample_body empty_memory
     = (Inr r, registered_state reference_platform sample_manifest sample_proof (sample_key OperatorRole) (sample_instant 3) u w empty_memory)
     \<and> hr_status r = 201"
  using registration_exact [OF reference_api_schemas sample_clock(1) sample_body_parse(1), of any_order empty_memory]
    sample_admissible [of empty_memory] by (simp add: sample_body_parse(2) empty_memory_def del: js_simps One_nat_def)

subsection \<open>Histories\<close>

text \<open>C15: The registry is append-only: over every store that keeps the contract, whatever requests it has served and
  whichever store operations failed, an agent record, an assertion and a logged event stay as they are, and a key
  document stays up to the order of its members.\<close>

theorem registry_is_append_only:
  assumes "registry S good view" "zod_schemas (platform.truncate E)" "good s" "view_verified (platform.truncate E) (view s)"
  shows "extends_view (view s) (view (serve_all E S token qs s))"
  using registry.run_serve_all [OF assms, of token qs] steps_extend by blast

lemma empty_verified: "memory_good empty_memory" "view_verified E (memory_view empty_memory)" "memory_view empty_memory = empty_view"
    "view_verified E empty_view"
  by (simp_all add: memory_good_def memory_view_def empty_memory_def view_verified_def empty_view_def)

theorem registry_is_append_only_witness:
  "extends_view (memory_view empty_memory)
     (memory_view (serve_all reference_api (MemoryStore any_order) None [(sample_env, PostAgents sample_body), (sample_env, GetProof sample_agent)] empty_memory))"
  by (rule registry_is_append_only [OF memory_registry]) (simp_all add: reference_schemas empty_verified)

text \<open>C16: Nothing unverified is in the registry: after any history from the empty registry, a stored agent carries the
  digest of its manifest and a proof that verified for some key, and a stored assertion verified against some
  manifest.\<close>

theorem registry_content_verified:
  assumes "registry S good view" "zod_schemas (platform.truncate E)" "good s" "view s = empty_view"
  shows "(case vw_agents (view (serve_all E S token qs s)) i of None \<Rightarrow> True
      | Some r \<Rightarrow> ar_agent_id r = i \<and> mf_agent_id (ar_manifest r) = i
          \<and> ar_manifest_digest r = manifest_digest (platform.truncate E) (ar_manifest r)
          \<and> (\<exists>k now. proof_holds (platform.truncate E) (ar_proof r) (ar_manifest r) k now))
    \<and> (case vw_assertions (view (serve_all E S token qs s)) j of None \<Rightarrow> True
      | Some a \<Rightarrow> va_assertion_id a = j \<and> (\<exists>k m now. assertion_holds (platform.truncate E) a k now (Some m)))"
proof -
  have "view_verified (platform.truncate E) (view s)" unfolding assms(4) by (rule reachable_verified) simp
  then have v: "view_verified (platform.truncate E) (view (serve_all E S token qs s))"
    using registry.run_serve_all [OF assms(1-3)] by blast
  then have a: "vw_agents (view (serve_all E S token qs s)) i = Some r
      \<Longrightarrow> ar_agent_id r = i \<and> (\<exists>k. registered (platform.truncate E) r k)" for r
    by (simp add: view_verified_def)
  from v have b: "vw_assertions (view (serve_all E S token qs s)) j = Some a
      \<Longrightarrow> va_assertion_id a = j \<and> (\<exists>k m now. assertion_holds (platform.truncate E) a k now (Some m))" for a
    by (simp add: view_verified_def)
  show ?thesis
    by (intro conjI; split option.split; intro conjI allI impI TrueI) (use a b in \<open>auto simp: registered_def\<close>)
qed

theorem registry_content_verified_witness:
  "case ms_agents (serve_all reference_api (MemoryStore any_order) None [(sample_env, PostAgents sample_body)] empty_memory) sample_agent of
     None \<Rightarrow> True | Some r \<Rightarrow> (\<exists>k now. proof_holds reference_platform (ar_proof r) (ar_manifest r) k now)"
  using registry_content_verified [where E = reference_api and token = None and i = sample_agent
      and qs = "[(sample_env, PostAgents sample_body)]", OF memory_registry [of any_order] _ empty_verified(1,3),
      unfolded reference_api_platform, OF reference_schemas, THEN conjunct1]
  by (simp add: memory_view_def split: option.splits)

subsection \<open>The envelope\<close>

text \<open>C17: The envelope of an agent says what the verifier finds in the stored data: each assertion of the agent is
  listed with its verdict, the valid ones are counted, and the level is L1 or the level of a valid assertion, never
  below that of another valid one; the proof check is that of the stored operator key.\<close>

theorem envelope_reports_verdicts:
  assumes "registry S good view" "good s" "buildEnvelope E S r now s = (Inr e, s')"
  defines "valid \<equiv> assertion_valid E (view s) now (Some (Manifest_obj (ar_manifest r)))"
  shows "s' = s
    \<and> set (map fst (env_assertions e)) = {a \<in> ran (vw_assertions (view s)). va_subject a = ar_agent_id r}
    \<and> (\<forall>(a, c) \<in> set (env_assertions e). (c = None) = valid a)
    \<and> env_valid_assertions e = card {a \<in> ran (vw_assertions (view s)). va_subject a = ar_agent_id r \<and> valid a}
    \<and> env_total_assertions e = card {a \<in> ran (vw_assertions (view s)). va_subject a = ar_agent_id r}
    \<and> (env_level e = L1_REGISTERED \<or> (\<exists>a \<in> ran (vw_assertions (view s)). va_subject a = ar_agent_id r \<and> valid a \<and> env_level e = va_level a))
    \<and> (\<forall>a \<in> ran (vw_assertions (view s)). va_subject a = ar_agent_id r \<and> valid a \<longrightarrow> LEVEL_RANK (va_level a) \<le> LEVEL_RANK (env_level e))
    \<and> (env_proof_check e = None) = (\<exists>d. vw_keys (view s) (mp_key_id (ar_proof r)) = Some d
         \<and> accepted (verifyManifestProof E (ManifestProof_obj (ar_proof r)) (Manifest_obj (ar_manifest r)) d now))"
proof -
  let ?A = "{a \<in> ran (vw_assertions (view s)). va_subject a = ar_agent_id r}"
  from registry.buildEnvelope_view [OF assms(1-3), folded valid_def] obtain "as" cs where
    facts: "s' = s" "env_assertions e = zip as cs" "map (\<lambda>c. c = None) cs = map valid as" "set as = ?A" "distinct as"
      "env_total_assertions e = length as" "env_valid_assertions e = length (filter valid as)"
      "env_level e = L1_REGISTERED \<or> (\<exists>a \<in> set as. valid a \<and> env_level e = va_level a)"
      "\<forall>a \<in> set as. valid a \<longrightarrow> LEVEL_RANK (va_level a) \<le> LEVEL_RANK (env_level e)"
      "(env_proof_check e = None) = (\<exists>d. vw_keys (view s) (mp_key_id (ar_proof r)) = Some d
         \<and> accepted (verifyManifestProof E (ManifestProof_obj (ar_proof r)) (Manifest_obj (ar_manifest r)) d now))"
    by (elim conjE exE) (rule that)
  have len: "length cs = length as" using facts(3) by (metis length_map)
  have "(c = None) = valid a" if "(a, c) \<in> set (zip as cs)" for a c
    using that facts(3) len by (auto simp: in_set_zip list_eq_iff_nth_eq)
  moreover have "length (filter valid as) = card {a \<in> ?A. valid a}"
    using facts(4,5) by (metis distinct_card distinct_filter set_filter)
  moreover have "length as = card ?A" using facts(4,5) by (metis distinct_card)
  ultimately show ?thesis using facts len by (auto simp: conj_ac)
qed

lemma memory_check_assertion: "\<exists>c. check_assertion E (MemoryStore le) a now cm s = (Inr c, s)"
proof (cases "ms_keys s (va_key_id a)")
  case (Some k)
  obtain v where "verifyVerificationAssertion E (Assertion_obj a) (KeyDocument_obj k) now cm = Inr v"
    using returns_assertion [of E "Assertion_obj a" "KeyDocument_obj k" now cm] by (auto simp: returns_def)
  with Some show ?thesis by (simp add: check_assertion_def io_bind_def)
qed (simp add: check_assertion_def io_bind_def)

lemma memory_envelope_loop: "\<exists>x. envelope_loop E (MemoryStore le) r now as views level n s = (Inr x, s)"
proof (induction "as" arbitrary: views level n)
  case (Cons a as)
  obtain c where "check_assertion E (MemoryStore le) a now (Some (Manifest_obj (ar_manifest r))) s = (Inr c, s)"
    using memory_check_assertion by blast
  then show ?case using Cons.IH by (simp add: io_bind_def Let_def)
qed simp

lemma memory_buildEnvelope:
  assumes "keyResolverPath (mp_key_id (ar_proof r)) = Inr path" "wellKnownKeysUrl (ow_operator_domain (mf_ownership (ar_manifest r))) = Inr url"
  shows "\<exists>e. buildEnvelope E (MemoryStore le) r now s = (Inr e, s)"
proof -
  have v: "map_sum Protocol id (verifyManifestProof E (ManifestProof_obj (ar_proof r)) (Manifest_obj (ar_manifest r)) d now) \<noteq> Inl x" for d x
    using returns_manifest_proof [of E "ManifestProof_obj (ar_proof r)" "Manifest_obj (ar_manifest r)" d now] by (auto simp: returns_def)
  have list: "\<exists>xs. listAssertionsForSubject (MemoryStore le) (ar_agent_id r) s = (Inr xs, s)"
    by (simp add: memory_defs)
  then obtain xs where xs: "listAssertionsForSubject (MemoryStore le) (ar_agent_id r) s = (Inr xs, s)" by blast
  obtain x where "envelope_loop E (MemoryStore le) r now xs [] L1_REGISTERED 0 s = (Inr x, s)"
    using memory_envelope_loop by blast
  then show ?thesis using assms xs v
    by (cases x; cases "ms_keys s (mp_key_id (ar_proof r))") (simp_all add: buildEnvelope_def io_bind_def split: sum.split)
qed

lemma agent_links:
  assumes "Manifest_ok E m" "KeyDocument_ok E' k" "kd_key_id k = mp_key_id p"
  shows "\<exists>path url. keyResolverPath (mp_key_id p) = Inr path \<and> wellKnownKeysUrl (ow_operator_domain (mf_ownership m)) = Inr url"
  using key_path_total [OF assms(2)] assms(1,3) by (auto simp: wellKnownKeysUrl_def assertHostname_def Manifest_ok_def)

lemma sample_envelope:
  "\<exists>e. buildEnvelope reference_platform (MemoryStore any_order) (agent_of reference_platform sample_manifest sample_proof (sample_instant 3))
       (sample_instant 3) s = (Inr e, s)"
proof -
  let ?r = "agent_of reference_platform sample_manifest sample_proof (sample_instant 3)"
  have "Manifest_ok reference_platform sample_manifest" "KeyDocument_ok reference_platform (sample_key OperatorRole)"
    by (simp_all add: reference_checks)
  from agent_links [OF this, of sample_proof] obtain path url where
    "keyResolverPath (mp_key_id (ar_proof ?r)) = Inr path" "wellKnownKeysUrl (ow_operator_domain (mf_ownership (ar_manifest ?r))) = Inr url"
    by (auto simp: agent_of_def)
  from memory_buildEnvelope [OF this] show ?thesis .
qed

theorem envelope_reports_verdicts_witness:
  "\<exists>e. buildEnvelope reference_platform (MemoryStore any_order) (agent_of reference_platform sample_manifest sample_proof (sample_instant 3))
       (sample_instant 3) empty_memory = (Inr e, empty_memory)
     \<and> env_valid_assertions e = 0 \<and> env_level e = L1_REGISTERED \<and> env_proof_check e \<noteq> None"
proof -
  obtain e where e: "buildEnvelope reference_platform (MemoryStore any_order)
      (agent_of reference_platform sample_manifest sample_proof (sample_instant 3)) (sample_instant 3) empty_memory = (Inr e, empty_memory)"
    using sample_envelope by blast
  have "ran (\<lambda>i. None) = ({} :: assertion set)" by auto
  with envelope_reports_verdicts [OF memory_registry empty_verified(1) e] e show ?thesis
    by (simp add: empty_verified(3) empty_view_def)
qed



subsection \<open>The evaluation instant\<close>

text \<open>The evaluation instant of a registration lies between the registry's clock and 120 seconds later, and the
  recorded instant is the registry's clock; a registration is refused for its clock exactly when its proof was created
  more than 120 seconds ahead.\<close>

theorem registration_instant_bounds:
  assumes "-62167219200000 \<le> t" "t < 253402300800000"
  shows "case registrationTime E createdAt (Some t) of
      Inl e \<Rightarrow> False
    | Inr (ClockSkewTooLarge message) \<Rightarrow> (\<exists>c. Date_parse E createdAt = Some c \<and> t + 120000 < c)
    | Inr (RegistrationAt now registeredAt) \<Rightarrow> Date_parse E registeredAt = Some t
        \<and> (\<exists>n. Date_parse E now = Some n \<and> t \<le> n \<and> n \<le> t + 120000
              \<and> (case Date_parse E createdAt of None \<Rightarrow> n = t | Some c \<Rightarrow> n = max t c))"
  using iso_roundtrip(1) [OF assms]
  by (auto simp: registrationTime_def Let_def MAX_FORWARD_SKEW_MS_def Date_parse_def date_parse_def max_def
      simp del: js_simps split: option.split)

theorem registration_instant_bounds_witness:
  "case registrationTime reference_platform (sample_instant 4) (Some 1767398400000) of
     Inl e \<Rightarrow> False | Inr (ClockSkewTooLarge message) \<Rightarrow> True | Inr (RegistrationAt now registeredAt) \<Rightarrow> False"
  using registration_instant_bounds [of 1767398400000 reference_platform "sample_instant 4"]
  by (auto split: sum.splits registration_time.splits)

subsection \<open>Authority\<close>

text \<open>C19: An authority write needs the configured token: without a non-empty token, or with any other header than its
  bearer header, both routes answer 503 or 401 and no store operation runs, whatever the store.\<close>

theorem authority_gate:
  "(case requireAuthority token header of
      None \<Rightarrow> (\<exists>t. token = Some t \<and> t \<noteq> [] \<and> header = Some (js ''Bearer '' @ t))
    | Some denied \<Rightarrow> hr_status denied = (if token = None \<or> token = Some [] then 503 else 401)
        \<and> post_assertion E S V token header agentId body s = (Inr denied, s)
        \<and> post_authority_key P S token header body s = (Inr denied, s))"
proof (cases token)
  case (Some t)
  then show ?thesis
    by (cases header) (auto simp: requireAuthority_def post_assertion_def post_authority_key_def err_def send_def js_append)
qed (simp add: requireAuthority_def post_assertion_def post_authority_key_def err_def send_def)

subsection \<open>Registrations that overlap or fail\<close>

text \<open>C20: The reading and the writing of a registration are separate store operations. When two registrations of
  different agents name one key identifier with different documents and both read before either writes, both succeed
  and the first agent's key is replaced, so that its proof no longer verifies; one after the other, the second is
  refused with a conflict.\<close>

theorem interleaved_registrations_replace_key:
  assumes "good_clock V" "good_clock V'" "kd_key_id k = kd_key_id k'" "k \<noteq> k'" "mf_agent_id m \<noteq> mf_agent_id m'"
    and "ms_keys s (kd_key_id k) = None" "ms_agents s (mf_agent_id m) = None" "ms_agents s (mf_agent_id m') = None"
  shows "key_conflict (MemoryStore le) k s = (Inr False, s) \<and> key_conflict (MemoryStore le) k' s = (Inr False, s)
    \<and> (\<exists>s1 s2 r r'. write_registration E (MemoryStore le) V m p k ts s = (Inr (Some r), s1)
         \<and> key_conflict (MemoryStore le) k' s1 = (Inr True, s1)
         \<and> write_registration E (MemoryStore le) V' m' p' k' ts' s1 = (Inr (Some r'), s2)
         \<and> ms_agents s2 (mf_agent_id m) = Some r \<and> ms_keys s2 (kd_key_id k) = Some k')"
proof -
  obtain u w where 1: "\<And>s. write_registration E (MemoryStore le) V m p k ts s =
    (if ms_agents s (mf_agent_id m) = None then (Inr (Some (agent_of E m p ts)), registered_state E m p k ts u w s) else (Inr None, s))"
    using memory_write_registration [OF assms(1)] by metis
  obtain u' w' where 2: "\<And>s. write_registration E (MemoryStore le) V' m' p' k' ts' s =
    (if ms_agents s (mf_agent_id m') = None then (Inr (Some (agent_of E m' p' ts')), registered_state E m' p' k' ts' u' w' s) else (Inr None, s))"
    using memory_write_registration [OF assms(2)] by metis
  from assms show ?thesis by (simp add: memory_key_conflict 1 2) (simp add: registered_state_def)
qed

definition other_manifest :: manifest where
  "other_manifest = sample_manifest\<lparr>mf_agent_id := js ''agenid:01BX5ZZKBKACTAV9WEVGEMMVRZ''\<rparr>"

definition other_key :: key_document where
  "other_key = (sample_key OperatorRole)\<lparr>kd_controller := js ''agenid:01BX5ZZKBKACTAV9WEVGEMMVRZ''\<rparr>"

theorem interleaved_registrations_replace_key_witness:
  "\<exists>s1 s2 r r'. write_registration reference_platform (MemoryStore any_order) sample_env sample_manifest sample_proof (sample_key OperatorRole)
         (sample_instant 3) empty_memory = (Inr (Some r), s1)
     \<and> write_registration reference_platform (MemoryStore any_order) sample_env other_manifest sample_proof other_key
         (sample_instant 3) s1 = (Inr (Some r'), s2)
     \<and> ms_keys s2 sample_key_id = Some other_key"
proof -
  have "sample_agent \<noteq> js ''agenid:01BX5ZZKBKACTAV9WEVGEMMVRZ''" by code_simp
  then have differ: "sample_key OperatorRole \<noteq> other_key" "mf_agent_id sample_manifest \<noteq> mf_agent_id other_manifest"
    using sample_key_fields(2) [of OperatorRole] by (auto simp: other_key_def other_manifest_def dest: arg_cong [of _ _ kd_controller] simp del: js_simps)
  have "kd_key_id (sample_key OperatorRole) = kd_key_id other_key" by (simp add: other_key_def)
  from interleaved_registrations_replace_key [OF sample_clock(1) sample_clock(1) this differ,
      of empty_memory any_order reference_platform sample_proof "sample_instant 3" sample_proof "sample_instant 3"]
  show ?thesis by (auto simp: empty_memory_def)
qed

text \<open>C21: The writes of a registration are not one transaction: when publishing the key fails, the agent is already
  registered, without a published key, and repeating the request cannot repair it: it is refused because the agent
  exists.\<close>

theorem failed_key_write_strands_agent:
  assumes "ms_agents s (mf_agent_id m) = None"
  shows "\<exists>t. write_registration E ((MemoryStore le)\<lparr>putKey := \<lambda>k. io_throw (StoreError cause)\<rparr>) V m p k ts s = (Inl (StoreError cause), t)
    \<and> ms_agents t (mf_agent_id m) \<noteq> None \<and> ms_keys t = ms_keys s
    \<and> write_registration E (MemoryStore le) V m p k ts t = (Inr None, t)"
  using assms(1) by (simp add: write_registration_def io_bind_def Let_def)

theorem failed_key_write_strands_agent_witness:
  "\<exists>t. write_registration reference_platform ((MemoryStore any_order)\<lparr>putKey := \<lambda>k. io_throw (StoreError [])\<rparr>) sample_env
         sample_manifest sample_proof (sample_key OperatorRole) (sample_instant 3) empty_memory = (Inl (StoreError []), t)
     \<and> ms_keys t sample_key_id = None \<and> ms_agents t sample_agent \<noteq> None"
proof -
  have "ms_agents empty_memory (mf_agent_id sample_manifest) = None" by (simp add: empty_memory_def)
  from failed_key_write_strands_agent [OF this, where E = reference_platform and le = any_order and cause = "[]" and V = sample_env
      and p = sample_proof and k = "sample_key OperatorRole" and ts = "sample_instant 3"]
  show ?thesis by (auto simp: empty_memory_def)
qed

end
