(* ===== verification/Rate_Limit.thy ===== *)
theory Rate_Limit
  imports Registry_Properties
begin

section \<open>Rate limiting and the same-origin gate\<close>

text \<open>
  \<open>packages/web/lib/rate-limit.ts\<close> and \<open>packages/web/lib/same-origin.ts\<close>.  The in-process window is
  the module's \<open>Map\<close>, in insertion order; the durable window is a database procedure and a
  parameter.  Header values are byte strings, so that \<open>toLowerCase\<close> is needed on Latin-1 only.
\<close>

subsection \<open>Header text\<close>

type_synonym headers = "jstr \<Rightarrow> jstr option" \<comment> \<open>\<open>Headers.get\<close>\<close>

definition trim :: "jstr \<Rightarrow> jstr" where
  "trim s = rev (dropWhile is_space (rev (dropWhile is_space s)))"

definition lower_latin1 :: "code_unit \<Rightarrow> code_unit" where
  "lower_latin1 c = (if is_upper c \<or> 0xC0 \<le> c \<and> c \<le> 0xDE \<and> c \<noteq> 0xD7 then c + 32 else c)"

definition toLowerCase :: "jstr \<Rightarrow> jstr" where
  "toLowerCase s = map lower_latin1 s"

definition first_part :: "char \<Rightarrow> jstr \<Rightarrow> jstr" where
  "first_part c s = hd (split_on (jc c) s)"

definition or_empty :: "jstr option \<Rightarrow> jstr" where
  "or_empty v = (case v of None \<Rightarrow> [] | Some s \<Rightarrow> s)"

subsection \<open>Policies\<close>

record rate_limit_policy =
  pl_name :: jstr
  pl_limit :: nat
  pl_windowSeconds :: nat
  pl_burst :: nat

definition policy :: "string \<Rightarrow> nat \<Rightarrow> nat \<Rightarrow> rate_limit_policy" where
  "policy name limit burst = \<lparr>pl_name = js name, pl_limit = limit, pl_windowSeconds = 60, pl_burst = burst\<rparr>"

definition POLICY_register :: rate_limit_policy where "POLICY_register = policy ''register'' 30 10"
definition POLICY_bindBatch :: rate_limit_policy where "POLICY_bindBatch = policy ''bind-batch'' 10 5"
definition POLICY_relay :: rate_limit_policy where "POLICY_relay = policy ''relay'' 12 4"
definition POLICY_probe :: rate_limit_policy where "POLICY_probe = policy ''probe'' 40 15"
definition POLICY_read :: rate_limit_policy where "POLICY_read = policy ''read'' 240 80"

definition MAX_BATCH_SIZE :: nat where
  "MAX_BATCH_SIZE = 25"

subsection \<open>Client identity\<close>

definition TRUSTED_IP_HEADERS :: "jstr list" where
  "TRUSTED_IP_HEADERS = [js ''x-real-ip'', js ''x-vercel-forwarded-for'']"

text \<open>\<open>split("::")\<close>.\<close>

fun split_colons :: "jstr \<Rightarrow> jstr list" where
  "split_colons [] = [[]]"
| "split_colons [c] = [[c]]"
| "split_colons (c # d # s) =
     (if c = jc CHR '':'' \<and> d = jc CHR '':'' then [] # split_colons s
      else (case split_colons (d # s) of [] \<Rightarrow> [[c]] | p # ps \<Rightarrow> (c # p) # ps))"

definition hextets :: "jstr \<Rightarrow> jstr list" where
  "hextets s = filter (\<lambda>h. h \<noteq> []) (split_on (jc CHR '':'') s)"

definition normalizeClientIp :: "jstr \<Rightarrow> jstr" where
  "normalizeClientIp raw =
     (let ip = toLowerCase (trim raw) in
      if jc CHR '':'' \<notin> set ip then ip
      else
        let parts = split_colons (first_part CHR ''%'' ip);
            left = hextets (hd parts)
        in (case tl parts of
              [] \<Rightarrow> join_with (js '':'') (take 4 left) @ js ''::/64''
            | second # rest \<Rightarrow>
                let right = hextets second;
                    missing = 8 - int (length left) - int (length right);
                    full = left @ replicate (nat (max missing 0)) (js ''0'') @ right
                in join_with (js '':'') (take 4 full) @ js ''::/64''))"

definition clientKey :: "platform \<Rightarrow> headers \<Rightarrow> jstr" where
  "clientKey E h =
     (let trusted = (case find (\<lambda>n. or_empty (h n) \<noteq> []) TRUSTED_IP_HEADERS of
            None \<Rightarrow> [] | Some n \<Rightarrow> first_part CHR '','' (or_empty (h n)));
          source = (if trusted = [] then first_part CHR '','' (or_empty (h (js ''x-forwarded-for''))) else trusted)
      in if trim source = [] then js ''unknown''
         else take 32 (hex (sha256 E (utf8_encode (normalizeClientIp source)))))"

subsection \<open>The in-process window\<close>

text \<open>An instant is \<open>None\<close> when it is NaN, and a NaN window start equals none.\<close>

record memory_window =
  mw_windowStart :: "int option"
  mw_count :: nat

definition MEMORY_MAX_KEYS :: nat where
  "MEMORY_MAX_KEYS = 10000"

definition window_start :: "rate_limit_policy \<Rightarrow> int option \<Rightarrow> int option" where
  "window_start p nowMs = map_option (\<lambda>t. let w = int (pl_windowSeconds p) * 1000 in t div w * w) nowMs"

type_synonym windows = "(jstr \<times> memory_window) list"

definition memoryHit :: "jstr \<Rightarrow> rate_limit_policy \<Rightarrow> int option \<Rightarrow> windows \<Rightarrow> bool \<times> windows" where
  "memoryHit bucket p nowMs memory =
     (let start = window_start p nowMs in
      case map_of memory bucket of
        Some w \<Rightarrow>
          if start \<noteq> None \<and> mw_windowStart w = start
          then (mw_count w + 1 \<le> pl_burst p, AList.update bucket (w\<lparr>mw_count := mw_count w + 1\<rparr>) memory)
          else (True, AList.update bucket \<lparr>mw_windowStart = start, mw_count = 1\<rparr>
                        (if MEMORY_MAX_KEYS \<le> length memory then [] else memory))
      | None \<Rightarrow>
          (True, AList.update bucket \<lparr>mw_windowStart = start, mw_count = 1\<rparr>
                   (if MEMORY_MAX_KEYS \<le> length memory then [] else memory)))"

definition resetMemoryLimiter :: "windows \<Rightarrow> windows" where
  "resetMemoryLimiter memory = []"

subsection \<open>The durable window\<close>

datatype refused_by = Instance | Registry

record rate_limit_decision =
  rd_allowed :: bool
  rd_limit :: nat
  rd_remaining :: nat
  rd_resetSeconds :: "int option"
  rd_refusedBy :: "refused_by option"
  rd_degraded :: bool

record rpc_row =
  row_allowed :: bool
  row_hits :: nat
  row_reset_at :: jstr

text \<open>The two procedures of the database: an error message or the first row, an error message or nothing.\<close>

record 'd limiter_db =
  rate_limit_hit :: "jstr \<Rightarrow> nat \<Rightarrow> nat \<Rightarrow> jstr \<Rightarrow> ('d, jstr + rpc_row option) io"
  rate_limit_sweep :: "jstr \<Rightarrow> ('d, jstr option) io"

definition SWEEP_ONE_IN :: nat where
  "SWEEP_ONE_IN = 200"

definition SWEEP_RETENTION_MS :: int where
  "SWEEP_RETENTION_MS = 24 * 60 * 60 * 1000"

text \<open>Every failure is logged and dropped.\<close>

definition sweepExpired :: "'d limiter_db \<Rightarrow> int option \<Rightarrow> ('d, unit) io" where
  "sweepExpired D nowMs =
     io_catch
       (case nowMs of None \<Rightarrow> io_throw RangeError
        | Some t \<Rightarrow> io_bind (rate_limit_sweep D (iso_string (t - SWEEP_RETENTION_MS))) (\<lambda>error. io_return ()))
       (\<lambda>e. io_return ())"

text \<open>\<open>Math.max(0, Math.ceil(x / 1000))\<close> of the time left.\<close>

definition seconds_until :: "int option \<Rightarrow> int option \<Rightarrow> int option" where
  "seconds_until reset now = (case (reset, now) of (Some r, Some t) \<Rightarrow> Some (max 0 (- ((t - r) div 1000))) | _ \<Rightarrow> None)"

definition durableHit ::
  "platform \<Rightarrow> 'd limiter_db \<Rightarrow> jstr \<Rightarrow> rate_limit_policy \<Rightarrow> jstr \<Rightarrow> bool \<Rightarrow> ('d, bool \<times> nat \<times> int option) io" where
  "durableHit E D bucket p nowIso sweep =
     io_bind (rate_limit_hit D bucket (pl_windowSeconds p) (pl_limit p) nowIso) (\<lambda>r.
     case r of Inl message \<Rightarrow> io_throw (StoreError message)
     | Inr found \<Rightarrow>
       io_bind (if sweep then sweepExpired D (Date_parse E nowIso) else io_return ()) (\<lambda>_.
       case found of None \<Rightarrow> io_throw (StoreError (js ''rate_limit_hit returned no row''))
       | Some row \<Rightarrow> io_return (row_allowed row, row_hits row, seconds_until (Date_parse E (row_reset_at row)) (Date_parse E nowIso))))"

subsection \<open>The check\<close>

text \<open>The state of the limiter: the module's map and the database.\<close>

record 'd limiter =
  lm_memory :: windows
  lm_db :: 'd

definition on_db :: "('d, 'a) io \<Rightarrow> ('d limiter, 'a) io" where
  "on_db m s = (case m (lm_db s) of (r, d) \<Rightarrow> (r, s\<lparr>lm_db := d\<rparr>))"

text \<open>\<open>now\<close>, the subject and the sample for the sweep are the options' or the defaults drawn outside.\<close>

definition checkRateLimit ::
  "platform \<Rightarrow> 'd limiter_db \<Rightarrow> jstr \<Rightarrow> rate_limit_policy \<Rightarrow> jstr \<Rightarrow> bool \<Rightarrow> ('d limiter, rate_limit_decision) io" where
  "checkRateLimit E D subject p nowIso sweep s =
     (let bucket = pl_name p @ js '':'' @ subject;
          (within_burst, memory) = memoryHit bucket p (Date_parse E nowIso) (lm_memory s);
          s' = s\<lparr>lm_memory := memory\<rparr>
      in if \<not> within_burst
         then io_return \<lparr>rd_allowed = False, rd_limit = pl_limit p, rd_remaining = 0, rd_resetSeconds = Some (int (pl_windowSeconds p)),
                rd_refusedBy = Some Instance, rd_degraded = False\<rparr> s'
         else io_catch
           (io_bind (on_db (durableHit E D bucket p nowIso sweep)) (\<lambda>(allowed, hits, resetSeconds).
              io_return \<lparr>rd_allowed = allowed, rd_limit = pl_limit p, rd_remaining = pl_limit p - hits, rd_resetSeconds = resetSeconds,
                rd_refusedBy = (if allowed then None else Some Registry), rd_degraded = False\<rparr>))
           (\<lambda>e. io_return \<lparr>rd_allowed = True, rd_limit = pl_limit p, rd_remaining = pl_burst p - 1,
                rd_resetSeconds = Some (int (pl_windowSeconds p)), rd_refusedBy = None, rd_degraded = True\<rparr>) s')"

subsection \<open>Responses\<close>

definition seconds_text :: "int option \<Rightarrow> jstr" where
  "seconds_text n = (case n of None \<Rightarrow> js ''NaN'' | Some i \<Rightarrow> dec_int i)"

definition seconds_json :: "int option \<Rightarrow> jsval" where
  "seconds_json n = (case n of None \<Rightarrow> JNull | Some i \<Rightarrow> num_of (nat i))"

definition rateLimitHeaders :: "rate_limit_decision \<Rightarrow> (jstr \<times> jstr) list" where
  "rateLimitHeaders d = [(js ''ratelimit-limit'', dec (rd_limit d)), (js ''ratelimit-remaining'', dec (rd_remaining d)),
     (js ''ratelimit-reset'', seconds_text (rd_resetSeconds d))]"

definition tooManyRequests :: "rate_limit_decision \<Rightarrow> (jstr \<times> jstr) list \<Rightarrow> http_response" where
  "tooManyRequests d extraHeaders =
     \<lparr>hr_status = 429,
      hr_headers = [(js ''content-type'', js ''application/json''), (js ''retry-after'', seconds_text (rd_resetSeconds d)),
        (js ''cache-control'', js ''no-store'')] @ rateLimitHeaders d @ extraHeaders,
      hr_body = Some (JObj [(js ''error'', JStr (js ''rate_limited'')),
        (js ''message'', JStr (js ''too many requests; retry after the interval in the retry-after header'')),
        (js ''retry_after_seconds'', seconds_json (rd_resetSeconds d))])\<rparr>"

subsection \<open>The same-origin gate\<close>

text \<open>\<open>url_host\<close> is \<open>new URL(s).host\<close>, \<open>None\<close> where the constructor throws.  \<open>None\<close> is allowed, else the reason.\<close>

definition requestHost :: "(jstr \<Rightarrow> jstr option) \<Rightarrow> headers \<Rightarrow> jstr \<Rightarrow> jstr option" where
  "requestHost url_host h url =
     (let host = toLowerCase (trim (first_part CHR '','' (or_empty
          (case h (js ''x-forwarded-host'') of Some v \<Rightarrow> Some v | None \<Rightarrow> h (js ''host'')))))
      in if host \<noteq> [] then Some host else map_option toLowerCase (url_host url))"

definition checkSameOrigin :: "(jstr \<Rightarrow> jstr option) \<Rightarrow> headers \<Rightarrow> jstr \<Rightarrow> jstr option" where
  "checkSameOrigin url_host h url =
     (case h (js ''sec-fetch-site'') of
        Some site \<Rightarrow> if toLowerCase site = js ''same-origin'' then None else Some (js ''request is not same-origin'')
      | None \<Rightarrow>
          (case h (js ''origin'') of
             None \<Rightarrow> Some (js ''no Origin or Sec-Fetch-Site header'')
           | Some origin \<Rightarrow>
               if origin = [] then Some (js ''no Origin or Sec-Fetch-Site header'')
               else (case url_host origin of
                   None \<Rightarrow> Some (js ''Origin header is not a URL'')
                 | Some oh \<Rightarrow>
                     (case requestHost url_host h url of
                        None \<Rightarrow> Some (js ''Origin does not match this site'')
                      | Some host \<Rightarrow> if host \<noteq> [] \<and> toLowerCase oh = host then None
                                     else Some (js ''Origin does not match this site'')))))"

definition isJsonContentType :: "headers \<Rightarrow> bool" where
  "isJsonContentType h =
     (case h (js ''content-type'') of None \<Rightarrow> False
      | Some ct \<Rightarrow> ct \<noteq> [] \<and> toLowerCase (trim (first_part CHR '';'' ct)) = js ''application/json'')"

subsection \<open>The floor holds\<close>

text \<open>A sequence of checks: whether each is allowed.\<close>

record limiter_request =
  lr_subject :: jstr
  lr_policy :: rate_limit_policy
  lr_now :: jstr
  lr_sweep :: bool

definition bucket_of :: "limiter_request \<Rightarrow> jstr" where
  "bucket_of q = pl_name (lr_policy q) @ js '':'' @ lr_subject q"

fun check_all :: "platform \<Rightarrow> 'd limiter_db \<Rightarrow> limiter_request list \<Rightarrow> 'd limiter \<Rightarrow> (limiter_request \<times> bool) list" where
  "check_all E D [] s = []"
| "check_all E D (q # qs) s =
     (case checkRateLimit E D (lr_subject q) (lr_policy q) (lr_now q) (lr_sweep q) s of
        (Inl e, s') \<Rightarrow> (q, False) # check_all E D qs s'
      | (Inr d, s') \<Rightarrow> (q, rd_allowed d) # check_all E D qs s')"

text \<open>How much of its burst a bucket has used in a window.\<close>

definition used :: "jstr \<Rightarrow> int \<Rightarrow> windows \<Rightarrow> nat" where
  "used b start memory = (case map_of memory b of None \<Rightarrow> 0
     | Some w \<Rightarrow> if mw_windowStart w = Some start then mw_count w else 0)"

lemma checkRateLimit_memory:
  "\<exists>d s'. checkRateLimit E D sub p now sweep s = (Inr d, s')
    \<and> lm_memory s' = snd (memoryHit (pl_name p @ js '':'' @ sub) p (Date_parse E now) (lm_memory s))
    \<and> (rd_allowed d \<longrightarrow> fst (memoryHit (pl_name p @ js '':'' @ sub) p (Date_parse E now) (lm_memory s)))"
proof -
  let ?b = "pl_name p @ js '':'' @ sub"
  obtain ok m where hit: "memoryHit ?b p (Date_parse E now) (lm_memory s) = (ok, m)" by fastforce
  obtain r t where db: "durableHit E D ?b p now sweep (lm_db s) = (r, t)" by fastforce
  show ?thesis
    by (cases ok; cases r; cases "projr r")
      (simp_all add: checkRateLimit_def hit db io_catch_def io_bind_def on_db_def Let_def del: js_simps)
qed

lemma length_update_le: "length (AList.update k v al) \<le> Suc (length al)"
  by (induction al) auto

lemma memoryHit_length: "length memory < MEMORY_MAX_KEYS \<Longrightarrow> length (snd (memoryHit b p t memory)) \<le> Suc (length memory)"
  by (auto simp: memoryHit_def Let_def length_update_le split: option.split)

lemma memoryHit_other: "length memory < MEMORY_MAX_KEYS \<Longrightarrow> b \<noteq> c \<Longrightarrow> used b start (snd (memoryHit c p t memory)) = used b start memory"
  by (auto simp: memoryHit_def Let_def used_def update_conv' split: option.split)

lemma memoryHit_used:
  assumes "length memory < MEMORY_MAX_KEYS" "window_start p t = Some start"
  shows "used b start (snd (memoryHit b p t memory)) = used b start memory + 1"
    "fst (memoryHit b p t memory) \<Longrightarrow> used b start memory + 1 \<le> max 1 (pl_burst p)"
  using assms by (auto simp: memoryHit_def Let_def used_def update_conv' split: option.splits if_splits)

lemma floor_count:
  assumes "length (lm_memory s) + length qs \<le> MEMORY_MAX_KEYS"
    and "\<forall>q \<in> set qs. bucket_of q = b \<longrightarrow> pl_burst (lr_policy q) = burst \<and> window_start (lr_policy q) (Date_parse E (lr_now q)) = Some start"
  shows "length (filter (\<lambda>(q, ok). bucket_of q = b \<and> ok) (check_all E D qs s)) + used b start (lm_memory s)
    \<le> max (used b start (lm_memory s)) (max 1 burst)"
  using assms
proof (induction qs arbitrary: s)
  case (Cons q qs)
  let ?p = "lr_policy q" and ?t = "Date_parse E (lr_now q)"
  obtain d s' where c: "checkRateLimit E D (lr_subject q) ?p (lr_now q) (lr_sweep q) s = (Inr d, s')"
    and m: "lm_memory s' = snd (memoryHit (bucket_of q) ?p ?t (lm_memory s))"
    and ok: "rd_allowed d \<Longrightarrow> fst (memoryHit (bucket_of q) ?p ?t (lm_memory s))"
    unfolding bucket_of_def using checkRateLimit_memory by blast
  have len: "length (lm_memory s) < MEMORY_MAX_KEYS" using Cons.prems(1) by simp
  have IH: "length (filter (\<lambda>(q, ok). bucket_of q = b \<and> ok) (check_all E D qs s')) + used b start (lm_memory s')
    \<le> max (used b start (lm_memory s')) (max 1 burst)"
    using Cons.prems memoryHit_length [OF len, of "bucket_of q" ?p ?t] by (intro Cons.IH) (auto simp: m)
  show ?case
  proof (cases "bucket_of q = b")
    case True
    with Cons.prems(2) have w: "window_start ?p ?t = Some start" "pl_burst ?p = burst" by auto
    note u = memoryHit_used [OF len w(1), of b]
    have "used b start (lm_memory s') = used b start (lm_memory s) + 1" using u(1) m True by simp
    moreover have "rd_allowed d \<Longrightarrow> used b start (lm_memory s) + 1 \<le> max 1 burst" using u(2) ok True w(2) by simp
    ultimately show ?thesis using IH c True by (cases "rd_allowed d") auto
  next
    case False
    then have "used b start (lm_memory s') = used b start (lm_memory s)" using memoryHit_other [OF len] m by metis
    with IH c False show ?thesis by simp
  qed
qed simp


definition failing_db :: "unit limiter_db" where
  "failing_db = \<lparr>rate_limit_hit = \<lambda>b w l t. io_throw (StoreError []), rate_limit_sweep = \<lambda>t. io_throw (StoreError [])\<rparr>"

definition sample_check :: limiter_request where
  "sample_check = \<lparr>lr_subject = js ''c'', lr_policy = POLICY_relay, lr_now = sample_instant 2, lr_sweep = True\<rparr>"



definition full_memory :: windows where
  "full_memory = (js ''b'', \<lparr>mw_windowStart = Some 0, mw_count = 100\<rparr>) # replicate 10000 (js ''x'', \<lparr>mw_windowStart = Some 0, mw_count = 1\<rparr>)"


end
