(* ===== verification/Trust_Presentation.thy ===== *)
theory Trust_Presentation
  imports Rate_Limit
begin

section \<open>Trust presentation\<close>

text \<open>
  \<open>packages/web/lib/trust-presentation.ts\<close>: what a verification level and an envelope look like to
  a human.
  The input is any JavaScript value, because it comes out of a JSON document of the network.
\<close>

subsection \<open>Presentations\<close>

definition middle_dot :: jstr where "middle_dot = [0xB7]"

definition slate :: jstr where "slate = js ''#94a3b8''"
definition amber :: jstr where "amber = js ''#f59e0b''"
definition mint :: jstr where "mint = js ''#10b981''"
definition red :: jstr where "red = js ''#ef4444''"

datatype trust_tone = VerifiedTone | DeclaredTone | NeutralTone | AlertTone

record trust_presentation =
  tp_level :: "jstr option"
  tp_verified :: bool
  tp_tone :: trust_tone
  tp_color :: jstr
  tp_badgeLabel :: jstr
  tp_embedLabel :: jstr
  tp_cardLabel :: jstr
  tp_pillLabel :: jstr
  tp_summary :: jstr

definition L1_trust :: trust_presentation where
  "L1_trust = \<lparr>tp_level = Some (js ''L1_REGISTERED''), tp_verified = False, tp_tone = DeclaredTone, tp_color = amber,
     tp_badgeLabel = js ''REGISTERED'', tp_embedLabel = js ''AGENID REGISTERED'',
     tp_cardLabel = js ''L1 '' @ middle_dot @ js '' Registered'',
     tp_pillLabel = js ''REGISTERED '' @ middle_dot @ js '' not yet verified'',
     tp_summary = js ''{name} '' @ em_dash @ js '' registered by {operator}. Self-declared, not independently verified.''\<rparr>"

definition L2_trust :: trust_presentation where
  "L2_trust = \<lparr>tp_level = Some (js ''L2_DOMAIN_VERIFIED''), tp_verified = True, tp_tone = VerifiedTone, tp_color = mint,
     tp_badgeLabel = js ''VERIFIED L2'', tp_embedLabel = js ''AGENID VERIFIED '' @ middle_dot @ js '' L2'',
     tp_cardLabel = js ''L2 '' @ middle_dot @ js '' Domain Verified'', tp_pillLabel = js ''AGENID VERIFIED'',
     tp_summary = js ''{name} '' @ em_dash @ js '' operated by {operator}. Domain control verified by an authority.''\<rparr>"

definition L3_trust :: trust_presentation where
  "L3_trust = \<lparr>tp_level = Some (js ''L3_ORGANIZATION_VERIFIED''), tp_verified = True, tp_tone = VerifiedTone, tp_color = mint,
     tp_badgeLabel = js ''VERIFIED L3'', tp_embedLabel = js ''AGENID VERIFIED '' @ middle_dot @ js '' L3'',
     tp_cardLabel = js ''L3 '' @ middle_dot @ js '' Organization Verified'', tp_pillLabel = js ''AGENID VERIFIED'',
     tp_summary = js ''{name} '' @ em_dash @ js '' operated by {operator}. Legal entity verified by an authority.''\<rparr>"

definition L4_trust :: trust_presentation where
  "L4_trust = \<lparr>tp_level = Some (js ''L4_DEPLOYMENT_VERIFIED''), tp_verified = True, tp_tone = VerifiedTone, tp_color = mint,
     tp_badgeLabel = js ''VERIFIED L4'', tp_embedLabel = js ''AGENID VERIFIED '' @ middle_dot @ js '' L4'',
     tp_cardLabel = js ''L4 '' @ middle_dot @ js '' Deployment Verified'', tp_pillLabel = js ''AGENID VERIFIED'',
     tp_summary = js ''{name} '' @ em_dash @ js '' operated by {operator}. Deployment verified by an authority.''\<rparr>"

text \<open>A \<open>Map\<close>: no inherited members.\<close>

definition LEVELS :: "(jstr \<times> trust_presentation) list" where
  "LEVELS = [(js ''L1_REGISTERED'', L1_trust), (js ''L2_DOMAIN_VERIFIED'', L2_trust),
     (js ''L3_ORGANIZATION_VERIFIED'', L3_trust), (js ''L4_DEPLOYMENT_VERIFIED'', L4_trust)]"

definition HEALTHY_STATUSES :: "jstr list" where
  "HEALTHY_STATUSES = [js ''ACTIVE'', js ''CHANGED'', js ''STALE'']"

definition ALERT_STATUSES :: "jstr list" where
  "ALERT_STATUSES = [js ''SUSPENDED'', js ''REVOKED'']"

definition UNKNOWN_TRUST :: trust_presentation where
  "UNKNOWN_TRUST = \<lparr>tp_level = None, tp_verified = False, tp_tone = NeutralTone, tp_color = slate,
     tp_badgeLabel = js ''UNVERIFIED'', tp_embedLabel = js ''AGENID '' @ middle_dot @ js '' UNVERIFIED'',
     tp_cardLabel = js ''Unrecognized verification state'', tp_pillLabel = js ''NOT VERIFIED'',
     tp_summary = js ''{name} '' @ em_dash @ js '' this registry reports a verification state this page does not recognize. Treat it as unverified.''\<rparr>"

definition NOT_REGISTERED_TRUST :: trust_presentation where
  "NOT_REGISTERED_TRUST = \<lparr>tp_level = None, tp_verified = False, tp_tone = NeutralTone, tp_color = slate,
     tp_badgeLabel = js ''NOT REGISTERED'', tp_embedLabel = js ''AGENID '' @ middle_dot @ js '' NOT REGISTERED'',
     tp_cardLabel = js ''Not registered'', tp_pillLabel = js ''NOT REGISTERED'',
     tp_summary = js ''{name} has no record in this registry.''\<rparr>"

definition MALFORMED_ID_TRUST :: trust_presentation where
  "MALFORMED_ID_TRUST = \<lparr>tp_level = None, tp_verified = False, tp_tone = NeutralTone, tp_color = slate,
     tp_badgeLabel = js ''NOT AN AGENID'', tp_embedLabel = js ''AGENID '' @ middle_dot @ js '' NOT AN AGENID'',
     tp_cardLabel = js ''Not an AgenID'', tp_pillLabel = js ''NOT AN AGENID'',
     tp_summary = js ''Not a well-formed agenid:<ULID>.''\<rparr>"

definition UNAVAILABLE_TRUST :: trust_presentation where
  "UNAVAILABLE_TRUST = \<lparr>tp_level = None, tp_verified = False, tp_tone = NeutralTone, tp_color = slate,
     tp_badgeLabel = js ''UNAVAILABLE'', tp_embedLabel = js ''AGENID '' @ middle_dot @ js '' unavailable'',
     tp_cardLabel = js ''Registry unavailable'', tp_pillLabel = js ''UNAVAILABLE'',
     tp_summary = js ''This registry could not be reached. The identity'' @ quote_mark @ js ''s status is unknown, not disproven.''\<rparr>"

definition PROOF_INVALID_TRUST :: trust_presentation where
  "PROOF_INVALID_TRUST = \<lparr>tp_level = None, tp_verified = False, tp_tone = AlertTone, tp_color = red,
     tp_badgeLabel = js ''PROOF INVALID'', tp_embedLabel = js ''AGENID PROOF INVALID'',
     tp_cardLabel = js ''Proof invalid'', tp_pillLabel = js ''PROOF INVALID'',
     tp_summary = js ''The operator proof for this agent does not verify.''\<rparr>"

text \<open>Called on the two alert statuses only, on which \<open>toLowerCase\<close> is that of Latin-1.\<close>

definition revokedTrust :: "jstr \<Rightarrow> trust_presentation" where
  "revokedTrust status = \<lparr>tp_level = None, tp_verified = False, tp_tone = AlertTone, tp_color = red,
     tp_badgeLabel = status, tp_embedLabel = js ''AGENID '' @ status, tp_cardLabel = status, tp_pillLabel = status,
     tp_summary = js ''This identity is '' @ toLowerCase status @ js ''.''\<rparr>"

definition presentTrustLevel :: "jsval \<Rightarrow> trust_presentation" where
  "presentTrustLevel level = (case level of JStr s \<Rightarrow> (case map_of LEVELS s of Some p \<Rightarrow> p | None \<Rightarrow> UNKNOWN_TRUST) | _ \<Rightarrow> UNKNOWN_TRUST)"

definition recognizedStatuses :: "jstr list \<times> jstr list" where
  "recognizedStatuses = (HEALTHY_STATUSES, ALERT_STATUSES)"

definition supportedTrustLevels :: "jstr list" where
  "supportedTrustLevels = map fst LEVELS"

text \<open>An envelope is a plain object here: what \<open>JSON.parse\<close> or the registry gives.\<close>

definition presentEnvelopeTrust :: "jsval \<Rightarrow> trust_presentation" where
  "presentEnvelopeTrust env =
     (case env of JObj ms \<Rightarrow>
        (case get_member (js ''status'') env of
           JStr status \<Rightarrow>
             if status \<in> set ALERT_STATUSES then revokedTrust status
             else if status \<notin> set HEALTHY_STATUSES then UNAVAILABLE_TRUST
             else if get_member (js ''ok'') (get_member (js ''proof_check'') env) \<noteq> JBool True then PROOF_INVALID_TRUST
             else presentTrustLevel (get_member (js ''level'') (get_member (js ''verification'') env))
         | _ \<Rightarrow> UNAVAILABLE_TRUST)
      | _ \<Rightarrow> UNAVAILABLE_TRUST)"

subsection \<open>Summaries\<close>

text \<open>\<open>String.prototype.replace\<close> with a global literal pattern: the replacement's \<open>$\<close> patterns are expanded.\<close>

fun expand_replacement :: "jstr \<Rightarrow> jstr \<Rightarrow> jstr \<Rightarrow> jstr \<Rightarrow> jstr" where
  "expand_replacement before m after [] = []"
| "expand_replacement before m after [c] = [c]"
| "expand_replacement before m after (c # d # s) =
     (if c = jc CHR ''$'' \<and> d = jc CHR ''$'' then c # expand_replacement before m after s
      else if c = jc CHR ''$'' \<and> d = jc CHR ''&'' then m @ expand_replacement before m after s
      else if c = jc CHR ''$'' \<and> d = 0x60 then before @ expand_replacement before m after s
      else if c = jc CHR ''$'' \<and> d = 0x27 then after @ expand_replacement before m after s
      else c # expand_replacement before m after (d # s))"

function replace_from :: "jstr \<Rightarrow> jstr \<Rightarrow> jstr \<Rightarrow> jstr \<Rightarrow> jstr" where
  "replace_from pat repl before s =
     (case s of [] \<Rightarrow> []
      | c # cs \<Rightarrow>
          (case strip_prefix pat s of
             Some after \<Rightarrow> if pat = [] then s else expand_replacement before pat after repl @ replace_from pat repl (before @ pat) after
           | None \<Rightarrow> c # replace_from pat repl (before @ [c]) cs))"
  by pat_completeness auto

lemma strip_prefix_shorter: "strip_prefix p s = Some r \<Longrightarrow> p \<noteq> [] \<Longrightarrow> length r < length s"
  by (auto simp: strip_prefix_Some_iff)

termination replace_from
  by (relation "measure (\<lambda>(pat, repl, before, s). length s)") (auto dest: strip_prefix_shorter)

declare replace_from.simps [simp del]

definition replace_all :: "jstr \<Rightarrow> jstr \<Rightarrow> jstr \<Rightarrow> jstr" where
  "replace_all pat repl s = replace_from pat repl [] s"

definition trustSummary :: "trust_presentation \<Rightarrow> jstr \<Rightarrow> jstr option \<Rightarrow> jstr" where
  "trustSummary p name operator =
     replace_all (js ''{operator}'') (case operator of None \<Rightarrow> js ''its operator'' | Some x \<Rightarrow> x)
       (replace_all (js ''{name}'') name (tp_summary p))"

definition TRUST_SURFACE :: "trust_tone \<Rightarrow> jstr" where
  "TRUST_SURFACE t = (case t of
       VerifiedTone \<Rightarrow> js ''border-mint/40 shadow-[0_0_0_1px_rgba(16,185,129,0.18),0_24px_64px_-24px_rgba(16,185,129,0.35)]''
     | DeclaredTone \<Rightarrow> js ''border-amber/30'' | NeutralTone \<Rightarrow> js ''border-line'' | AlertTone \<Rightarrow> js ''border-red/50'')"

definition TRUST_GLYPH :: "trust_tone \<Rightarrow> jstr" where
  "TRUST_GLYPH t = (case t of VerifiedTone \<Rightarrow> [0x2713] | DeclaredTone \<Rightarrow> [0x25CB] | NeutralTone \<Rightarrow> [0x2013] | AlertTone \<Rightarrow> [0x2717])"

subsection \<open>Text in SVG\<close>

fun esc :: "jstr \<Rightarrow> jstr" where
  "esc [] = []"
| "esc (c # s) =
     (if c = jc CHR ''&'' then js ''&amp;'' else if c = jc CHR ''<'' then js ''&lt;''
      else if c = jc CHR ''>'' then js ''&gt;'' else if c = 0x22 then js ''&quot;'' else [c]) @ esc s"


subsection \<open>It fails closed\<close>

lemma LEVELS_verified:
  "tp_verified (presentTrustLevel v) \<longleftrightarrow> v \<in> {JStr (js ''L2_DOMAIN_VERIFIED''), JStr (js ''L3_ORGANIZATION_VERIFIED''), JStr (js ''L4_DEPLOYMENT_VERIFIED'')}"
  by (cases v) (auto simp: presentTrustLevel_def LEVELS_def L1_trust_def L2_trust_def L3_trust_def L4_trust_def UNKNOWN_TRUST_def
      js_inject simp del: js_simps)

lemma presentation_verified:
  "tp_verified (presentEnvelopeTrust env) \<longleftrightarrow>
     (\<exists>ms status. env = JObj ms \<and> get_member (js ''status'') env = JStr status \<and> status \<in> set HEALTHY_STATUSES)
     \<and> get_member (js ''ok'') (get_member (js ''proof_check'') env) = JBool True
     \<and> get_member (js ''level'') (get_member (js ''verification'') env)
         \<in> {JStr (js ''L2_DOMAIN_VERIFIED''), JStr (js ''L3_ORGANIZATION_VERIFIED''), JStr (js ''L4_DEPLOYMENT_VERIFIED'')}"
proof (cases env)
  case (JObj ms)
  have apart: "status \<in> set ALERT_STATUSES \<Longrightarrow> status \<notin> set HEALTHY_STATUSES" for status
    by (auto simp: ALERT_STATUSES_def HEALTHY_STATUSES_def js_inject simp del: js_simps)
  show ?thesis
  proof (cases "get_member (js ''status'') env")
    case (JStr status)
    show ?thesis unfolding presentEnvelopeTrust_def JObj JStr [unfolded JObj] jsval.case
      using apart [of status] LEVELS_verified by (auto simp: revokedTrust_def UNAVAILABLE_TRUST_def PROOF_INVALID_TRUST_def simp del: js_simps)
  qed (simp_all add: presentEnvelopeTrust_def JObj UNAVAILABLE_TRUST_def del: js_simps)
qed (simp_all add: presentEnvelopeTrust_def UNAVAILABLE_TRUST_def del: js_simps)

lemma envelope_members:
  "get_member (js ''status'') (Envelope_obj e) = JStr (status_text (env_status e))"
  "get_member (js ''ok'') (get_member (js ''proof_check'') (Envelope_obj e)) = JBool (env_proof_check e = None)"
  "get_member (js ''level'') (get_member (js ''verification'') (Envelope_obj e)) = JStr (level_text (env_level e))"
  by (simp_all add: Envelope_obj_def Verification_obj_def Check_obj_def get_member_def js_inject del: js_simps split: option.split)

lemma status_healthy: "status_text st \<in> set HEALTHY_STATUSES \<longleftrightarrow> st \<in> {ACTIVE, CHANGED, STALE}"
  by (cases st) (simp_all add: HEALTHY_STATUSES_def js_inject del: js_simps)

lemma level_verified: "JStr (level_text l) \<in> {JStr (js ''L2_DOMAIN_VERIFIED''), JStr (js ''L3_ORGANIZATION_VERIFIED''), JStr (js ''L4_DEPLOYMENT_VERIFIED'')}
    \<longleftrightarrow> l \<noteq> L1_REGISTERED"
  by (cases l) (simp_all add: js_inject del: js_simps)

text \<open>C22: The presentation of a resolved agent is that of a verified one exactly when its status is a healthy one, its
  operator proof verifies with the stored key, and the registry holds an assertion above L1 for it that verifies
  against its current manifest: nothing else in the registry or in the envelope earns the green badge.\<close>

theorem verified_presentation_is_earned:
  assumes "registry S good view" "good s" "buildEnvelope E S r now s = (Inr e, s')"
  shows "tp_verified (presentEnvelopeTrust (Envelope_obj e)) \<longleftrightarrow>
    ar_status r \<in> {ACTIVE, CHANGED, STALE}
    \<and> (\<exists>d. vw_keys (view s) (mp_key_id (ar_proof r)) = Some d
         \<and> accepted (verifyManifestProof E (ManifestProof_obj (ar_proof r)) (Manifest_obj (ar_manifest r)) d now))
    \<and> (\<exists>a \<in> ran (vw_assertions (view s)). va_subject a = ar_agent_id r \<and> va_level a \<noteq> L1_REGISTERED
         \<and> assertion_valid E (view s) now (Some (Manifest_obj (ar_manifest r))) a)"
proof -
  let ?valid = "assertion_valid E (view s) now (Some (Manifest_obj (ar_manifest r)))"
  from registry.buildEnvelope_view [OF assms] obtain "as" where
    facts: "set as = {a \<in> ran (vw_assertions (view s)). va_subject a = ar_agent_id r}"
      "env_level e = L1_REGISTERED \<or> (\<exists>a \<in> set as. ?valid a \<and> env_level e = va_level a)"
      "\<forall>a \<in> set as. ?valid a \<longrightarrow> LEVEL_RANK (va_level a) \<le> LEVEL_RANK (env_level e)"
      "(env_proof_check e = None) = (\<exists>d. vw_keys (view s) (mp_key_id (ar_proof r)) = Some d
         \<and> accepted (verifyManifestProof E (ManifestProof_obj (ar_proof r)) (Manifest_obj (ar_manifest r)) d now))"
      "env_status e = ar_status r"
    by (elim conjE exE) (rule that)
  have "env_level e \<noteq> L1_REGISTERED \<longleftrightarrow> (\<exists>a \<in> set as. va_level a \<noteq> L1_REGISTERED \<and> ?valid a)"
  proof
    assume "\<exists>a \<in> set as. va_level a \<noteq> L1_REGISTERED \<and> ?valid a"
    then obtain a where a: "a \<in> set as" "va_level a \<noteq> L1_REGISTERED" "?valid a" by blast
    then have "2 \<le> LEVEL_RANK (va_level a)" by (cases "va_level a") simp_all
    with a facts(3) have "2 \<le> LEVEL_RANK (env_level e)" by fastforce
    then show "env_level e \<noteq> L1_REGISTERED" by auto
  qed (use facts(2) in auto)
  then have "env_level e \<noteq> L1_REGISTERED \<longleftrightarrow> (\<exists>a \<in> ran (vw_assertions (view s)). va_subject a = ar_agent_id r
      \<and> va_level a \<noteq> L1_REGISTERED \<and> ?valid a)" using facts(1) by auto
  moreover have "(\<exists>ms. Envelope_obj e = JObj ms)" by (simp add: Envelope_obj_def)
  ultimately show ?thesis unfolding presentation_verified envelope_members level_verified jsval.inject
    using status_healthy [of "env_status e"] facts(4,5) by auto
qed

theorem verified_presentation_is_earned_witness:
  "\<exists>e. buildEnvelope reference_platform (MemoryStore any_order) (agent_of reference_platform sample_manifest sample_proof (sample_instant 3))
       (sample_instant 3) empty_memory = (Inr e, empty_memory)
     \<and> \<not> tp_verified (presentEnvelopeTrust (Envelope_obj e))"
proof -
  obtain e where e: "buildEnvelope reference_platform (MemoryStore any_order)
      (agent_of reference_platform sample_manifest sample_proof (sample_instant 3)) (sample_instant 3) empty_memory = (Inr e, empty_memory)"
    using sample_envelope by blast
  have "ran (\<lambda>i. None) = ({} :: assertion set)" by auto
  with verified_presentation_is_earned [OF memory_registry empty_verified(1) e] e show ?thesis
    by (simp add: empty_verified(3) empty_view_def)
qed

end
