(* ===== verification/Web_Registry.thy ===== *)
theory Web_Registry
  imports Trust_Presentation
begin

section \<open>The web registry\<close>

text \<open>
  The Next.js deployment: \<open>packages/web/lib/register.ts\<close>, \<open>lib/api.ts\<close>, \<open>lib/serve-key.ts\<close> and the route
  handlers that use them (\<open>app/api/v1/agents\<close>, \<open>app/api/resolve\<close>, \<open>app/v1/keys\<close>, \<open>app/api/retell/bind\<close>,
  \<open>app/api/retell/declare\<close>, \<open>app/api/v1/verify\<close>).  The state of a route is that of the rate limiter and that of
  the store.  A request brings its headers, its body (\<open>None\<close> when it is not JSON) and the instant of the limiter;
  \<open>fetch\<close> is a parameter.  Of a schema issue the model keeps the path and the message.
\<close>

subsection \<open>Requests and responses\<close>

record web_request =
  wr_headers :: headers
  wr_url :: jstr
  wr_body :: "jsval option"
  wr_now :: jstr
  wr_sweep :: bool

definition on_limiter :: "('d limiter, 'a) io \<Rightarrow> ('d limiter \<times> 's, 'a) io" where
  "on_limiter m s = (case m (fst s) of (r, l) \<Rightarrow> (r, (l, snd s)))"

definition on_store :: "('s, 'a) io \<Rightarrow> ('l \<times> 's, 'a) io" where
  "on_store m s = (case m (snd s) of (r, t) \<Rightarrow> (r, (fst s, t)))"

definition JSON_CORS :: "(jstr \<times> jstr) list" where
  "JSON_CORS = [(js ''content-type'', js ''application/json''), (js ''access-control-allow-origin'', js ''*'')]"

definition json_response :: "nat \<Rightarrow> jsval \<Rightarrow> (jstr \<times> jstr) list \<Rightarrow> http_response" where
  "json_response status body extra = \<lparr>hr_status = status, hr_headers = JSON_CORS @ extra, hr_body = Some body\<rparr>"

definition json_error :: "nat \<Rightarrow> jstr \<Rightarrow> jstr \<Rightarrow> (jstr \<times> jsval) list \<Rightarrow> (jstr \<times> jstr) list \<Rightarrow> http_response" where
  "json_error status code message members extra =
     json_response status (JObj ([(js ''error'', JStr code), (js ''message'', JStr message)] @ members)) extra"

definition invalid_json :: "(jstr \<times> jstr) list \<Rightarrow> http_response" where
  "invalid_json extra = json_error 400 (js ''invalid_json'') (js ''request body must be JSON'') [] extra"

text \<open>The first step of every public route: a refused request is answered before its body is read.\<close>

definition limited ::
  "platform \<Rightarrow> 'd limiter_db \<Rightarrow> rate_limit_policy \<Rightarrow> web_request \<Rightarrow> (jstr \<times> jstr) list
   \<Rightarrow> ((jstr \<times> jstr) list \<Rightarrow> ('d limiter \<times> 's, http_response) io) \<Rightarrow> ('d limiter \<times> 's, http_response) io" where
  "limited E D p q extra handler =
     io_bind (on_limiter (checkRateLimit E D (clientKey E (wr_headers q)) p (wr_now q) (wr_sweep q))) (\<lambda>rl.
       if \<not> rd_allowed rl then io_return (tooManyRequests rl extra) else handler (rateLimitHeaders rl))"

definition any_origin :: "(jstr \<times> jstr) list" where
  "any_origin = [(js ''access-control-allow-origin'', js ''*'')]"

definition options_response :: "jstr \<Rightarrow> http_response" where
  "options_response methods = \<lparr>hr_status = 204, hr_headers = JSON_CORS @
     [(js ''access-control-allow-methods'', methods), (js ''access-control-allow-headers'', js ''content-type'')], hr_body = None\<rparr>"

subsection \<open>registerAgent\<close>

definition REGISTER_MEMBERS :: "jstr list" where
  "REGISTER_MEMBERS = [js ''manifest'', js ''proof'', js ''key_document'']"

datatype register_result =
    Registered agent_record key_document manifest
  | RegisterFail nat jstr jstr "issues option"

definition schema_failed :: "jstr \<Rightarrow> issues option \<Rightarrow> register_result" where
  "schema_failed message issues = RegisterFail 400 (js ''schema_validation_failed'') message issues"

text \<open>The part inside \<open>try\<close>: every exception becomes a 503.\<close>

definition register_in_store ::
  "platform \<Rightarrow> 's registry_store \<Rightarrow> request_env \<Rightarrow> manifest \<Rightarrow> manifest_proof \<Rightarrow> key_document \<Rightarrow> jstr \<Rightarrow> ('s, register_result) io" where
  "register_in_store E S V manifest proof doc now =
     io_catch
       (io_bind (key_conflict S doc) (\<lambda>conflict.
        if conflict
        then io_return (RegisterFail 409 (js ''key_conflict'') (js ''a different key document is already published under this key_id'') None)
        else io_bind (write_registration E S V manifest proof doc now) (\<lambda>created.
          case created of
            None \<Rightarrow> io_return (RegisterFail 409 (js ''agent_exists'') (js ''agent_id is already registered'') None)
          | Some r \<Rightarrow> io_return (Registered r doc manifest))))
       (\<lambda>e. io_return (RegisterFail 503 (js ''registry_unavailable'') (js ''the registry could not be written to'') None))"

definition register_checked ::
  "platform \<Rightarrow> 's registry_store \<Rightarrow> request_env \<Rightarrow> manifest \<Rightarrow> manifest_proof \<Rightarrow> key_document \<Rightarrow> ('s, register_result) io" where
  "register_checked E S V manifest proof doc =
     (if kd_key_id doc \<noteq> mp_key_id proof
      then io_return (RegisterFail 400 (js ''key_id_mismatch'') (js ''key_document.key_id must equal proof.key_id'') None)
      else if kd_role doc \<noteq> OperatorRole
      then io_return (RegisterFail 400 (js ''key_role_mismatch'') (js ''registration key must have role=operator'') None)
      else if kd_controller doc \<noteq> mf_agent_id manifest
      then io_return (RegisterFail 400 (js ''key_controller_mismatch'') (js ''operator key controller must equal manifest.agent_id'') None)
      else if \<not> isValidAgentId (mf_agent_id manifest)
      then io_return (RegisterFail 400 (js ''invalid_agent_id'') (js ''expected agenid:<ULID>'') None)
      else (case registrationTime E (mp_created_at proof) (Date_parse E (rq_now V 0)) of
         Inl e \<Rightarrow> io_throw e
       | Inr (ClockSkewTooLarge message) \<Rightarrow> io_return (RegisterFail 400 (js ''clock_skew_too_large'') message None)
       | Inr (RegistrationAt now registeredAt) \<Rightarrow>
         io_bind (io_lift (verifyManifestProof E (ManifestProof_obj proof) (Manifest_obj manifest) (KeyDocument_obj doc) now)) (\<lambda>check.
         case check of
           VerifyFail code message \<Rightarrow> io_return (RegisterFail 400 (failure_text code) message None)
         | VerifyOk c ds \<Rightarrow> register_in_store E S V manifest proof doc registeredAt)))"

definition registerAgent :: "platform \<Rightarrow> 's registry_store \<Rightarrow> request_env \<Rightarrow> jsval \<Rightarrow> ('s, register_result) io" where
  "registerAgent E S V body =
     (case body of
        JObj ms \<Rightarrow>
          (let unknown = filter (\<lambda>k. k \<notin> set REGISTER_MEMBERS) (object_keys body) in
           if unknown \<noteq> []
           then io_return (schema_failed (js ''registration payload has unrecognized members'')
             (Some (map (\<lambda>k. ([k], js ''unrecognized key: '' @ k)) unknown)))
           else (case parse_Manifest E (get_member (js ''manifest'') body) of
               Inl issues \<Rightarrow> io_return (schema_failed (js ''manifest failed schema validation'') (Some issues))
             | Inr manifest \<Rightarrow>
           (case parse_ManifestProof E (get_member (js ''proof'') body) of
               Inl issues \<Rightarrow> io_return (schema_failed (js ''proof failed schema validation'') (Some issues))
             | Inr proof \<Rightarrow>
           (case parse_KeyDocument E (get_member (js ''key_document'') body) of
               Inl issues \<Rightarrow> io_return (schema_failed (js ''key_document failed schema validation'') (Some issues))
             | Inr doc \<Rightarrow> register_checked E S V manifest proof doc))))
      | _ \<Rightarrow> io_return (schema_failed (js ''registration payload must be a JSON object'') None))"

definition L1_DISCLOSURES :: "jstr list" where
  "L1_DISCLOSURES =
     [js ''L1_REGISTERED means this agent is registered here and its operator self-declaration verifies. It is not a third-party verification of the operator, the domain, or the organization.'',
      js ''Levels above L1 require an authority-signed VerificationAssertion. AgenID'' @ quote_mark
        @ js ''s root authority key ceremony has not been performed, so none can be issued yet.'']"

definition texts :: "jstr list \<Rightarrow> jsval" where
  "texts ts = JArr (map JStr ts)"

definition Issues_obj :: "issues option \<Rightarrow> (jstr \<times> jsval) list" where
  "Issues_obj issues = (case issues of None \<Rightarrow> []
     | Some xs \<Rightarrow> [(js ''issues'', JArr (map (\<lambda>(path, message). JObj [(js ''path'', texts path), (js ''message'', JStr message)]) xs))])"

subsection \<open>POST /api/v1/agents\<close>

text \<open>\<open>fetch\<close> of the upstream registry: the status and the JSON body (\<open>None\<close> when it does not parse), or an exception.\<close>

type_synonym 's upstream = "jstr \<Rightarrow> jsval option \<Rightarrow> ('s, nat \<times> jsval option) io"

definition registered_response :: "agent_record \<Rightarrow> (jstr \<times> jstr) list \<Rightarrow> http_response" where
  "registered_response r rlHeaders =
     json_response 201 (JObj [(js ''agent_id'', JStr (ar_agent_id r)), (js ''status'', JStr (status_text (ar_status r))),
       (js ''verification'', JObj [(js ''level'', JStr (js ''L1_REGISTERED''))]),
       (js ''manifest_digest'', JObj [(js ''alg'', JStr (js ''sha-256'')), (js ''value'', JStr (ar_manifest_digest r))]),
       (js ''registered_at'', JStr (ar_registered_at r)),
       (js ''links'', JObj [(js ''card'', JStr (js ''/a/'' @ ar_agent_id r)), (js ''envelope'', JStr (js ''/api/resolve/'' @ ar_agent_id r))]),
       (js ''disclosures'', texts L1_DISCLOSURES)]) rlHeaders"

definition upstream_write :: "'s upstream \<Rightarrow> jstr \<Rightarrow> jsval \<Rightarrow> (jstr \<times> jstr) list \<Rightarrow> ('s, http_response) io" where
  "upstream_write fetch apiUrl body rlHeaders =
     io_catch
       (io_bind (fetch (apiUrl @ js ''/v1/agents'') (Some body)) (\<lambda>(status, reply).
          case reply of None \<Rightarrow> io_throw (StoreError (js ''invalid JSON''))
          | Some v \<Rightarrow> io_return (json_response status v rlHeaders)))
       (\<lambda>e. io_return (json_error 503 (js ''registry_unavailable'') (js ''upstream registry could not be reached'') [] rlHeaders))"

definition web_post_agents ::
  "platform \<Rightarrow> 'd limiter_db \<Rightarrow> 's registry_store \<Rightarrow> 's upstream \<Rightarrow> jstr option \<Rightarrow> request_env \<Rightarrow> web_request
   \<Rightarrow> ('d limiter \<times> 's, http_response) io" where
  "web_post_agents E D S fetch apiUrl V q =
     limited E D POLICY_register q any_origin (\<lambda>rlHeaders.
       case wr_body q of None \<Rightarrow> io_return (invalid_json rlHeaders)
       | Some body \<Rightarrow>
         (case apiUrl of
            Some url \<Rightarrow> on_store (upstream_write fetch url body rlHeaders)
          | None \<Rightarrow>
            io_bind (on_store (registerAgent E S V body)) (\<lambda>result. io_return
              (case result of
                 RegisterFail status code message issues \<Rightarrow> json_error status code message (Issues_obj issues) rlHeaders
               | Registered r doc manifest \<Rightarrow> registered_response r rlHeaders))))"

definition web_options_agents :: http_response where
  "web_options_agents = options_response (js ''POST, OPTIONS'')"

end
