(* ===== verification/Web_Routes.thy ===== *)
theory Web_Routes
  imports Web_Registry
begin

section \<open>The routes of the web registry\<close>

text \<open>
  \<open>packages/web/lib/api.ts\<close> and \<open>lib/serve-key.ts\<close>, and the handlers of \<open>app/api/resolve\<close>, \<open>app/v1/keys\<close>,
  \<open>app/badge/[agenid]/shield.svg\<close>, \<open>app/api/retell/bind\<close>, \<open>app/api/retell/declare\<close> and \<open>app/api/v1/verify\<close>.
\<close>

subsection \<open>Resolution\<close>

text \<open>A status, the envelope and the error: an HTTP registry may answer any JSON for either.\<close>

record envelope_result =
  er_status :: nat
  er_envelope :: "jsval option"
  er_error :: "jsval option"

text \<open>JavaScript truthiness of a JSON value.\<close>

fun truthy :: "jsval \<Rightarrow> bool" where
  "truthy JNull = False"
| "truthy JUndefined = False"
| "truthy (JBool b) = b"
| "truthy (JNum (NumFin neg s n)) = (s \<noteq> 0)"
| "truthy (JNum NumNaN) = False"
| "truthy (JStr s) = (s \<noteq> [])"
| "truthy (JBigInt i) = (i \<noteq> 0)"
| "truthy _ = True"

definition envelope_of :: "envelope_result \<Rightarrow> jsval option" where
  "envelope_of r = (case er_envelope r of None \<Rightarrow> None | Some v \<Rightarrow> if truthy v then Some v else None)"

definition envelope_error :: "nat \<Rightarrow> jsval \<Rightarrow> envelope_result" where
  "envelope_error status e = \<lparr>er_status = status, er_envelope = None, er_error = Some e\<rparr>"

definition response_ok :: "nat \<Rightarrow> bool" where
  "response_ok status \<longleftrightarrow> 200 \<le> status \<and> status \<le> 299"

text \<open>\<open>(await r.json()).error ?? error\<close>, where reading a member of \<open>null\<close> throws and is ignored.\<close>

definition registry_error :: "jsval option \<Rightarrow> jsval" where
  "registry_error reply = (case reply of None \<Rightarrow> JStr (js ''registry_error'')
     | Some v \<Rightarrow> (case get_member (js ''error'') v of JNull \<Rightarrow> JStr (js ''registry_error'')
                  | JUndefined \<Rightarrow> JStr (js ''registry_error'') | e \<Rightarrow> e))"

definition fetchEnvelopeOverHttp :: "'s upstream \<Rightarrow> jstr \<Rightarrow> jstr \<Rightarrow> ('s, envelope_result) io" where
  "fetchEnvelopeOverHttp fetch apiUrl agentId =
     io_catch
       (io_bind (fetch (apiUrl @ js ''/v1/agents/'' @ agentId) None) (\<lambda>(status, reply).
          if \<not> response_ok status then io_return (envelope_error status (registry_error reply))
          else (case reply of None \<Rightarrow> io_throw (StoreError (js ''invalid JSON''))
                | Some v \<Rightarrow> io_return \<lparr>er_status = 200, er_envelope = Some v, er_error = None\<rparr>)))
       (\<lambda>e. io_return (envelope_error 503 (JStr (js ''registry_unavailable''))))"

definition fetchEnvelopeInProcess :: "platform \<Rightarrow> 's registry_store \<Rightarrow> jstr \<Rightarrow> jstr \<Rightarrow> ('s, envelope_result) io" where
  "fetchEnvelopeInProcess E S now agentId =
     io_catch
       (io_bind (getAgent S agentId) (\<lambda>found.
          case found of None \<Rightarrow> io_return (envelope_error 404 (JStr (js ''agent_not_found'')))
          | Some r \<Rightarrow> io_bind (buildEnvelope E S r now) (\<lambda>e.
              io_return \<lparr>er_status = 200, er_envelope = Some (Envelope_obj e), er_error = None\<rparr>)))
       (\<lambda>e. io_return (envelope_error 503 (JStr (js ''registry_unavailable''))))"

definition fetchEnvelope ::
  "platform \<Rightarrow> 's registry_store \<Rightarrow> 's upstream \<Rightarrow> jstr option \<Rightarrow> jstr \<Rightarrow> jstr \<Rightarrow> ('s, envelope_result) io" where
  "fetchEnvelope E S fetch apiUrl now agentId =
     (if \<not> isValidAgentId agentId then io_return (envelope_error 400 (JStr (js ''invalid_agent_id'')))
      else (case apiUrl of Some url \<Rightarrow> fetchEnvelopeOverHttp fetch url agentId
            | None \<Rightarrow> fetchEnvelopeInProcess E S now agentId))"

text \<open>\<open>GET /api/resolve/<agenid>\<close>: the parameter is decoded once more, which throws on a malformed escape.\<close>

definition no_store :: "(jstr \<times> jstr) list" where
  "no_store = [(js ''cache-control'', js ''no-store'')]"

definition get_resolve ::
  "platform \<Rightarrow> 's registry_store \<Rightarrow> 's upstream \<Rightarrow> jstr option \<Rightarrow> jstr \<Rightarrow> jstr \<Rightarrow> ('s, http_response) io" where
  "get_resolve E S fetch apiUrl now param =
     (case decodeURIComponent param of None \<Rightarrow> io_throw (StoreError (js ''URIError''))
      | Some agentId \<Rightarrow>
        io_bind (fetchEnvelope E S fetch apiUrl now agentId) (\<lambda>r. io_return
          (case envelope_of r of
             None \<Rightarrow> json_response (er_status r)
               (JObj ((case er_error r of None \<Rightarrow> [] | Some e \<Rightarrow> [(js ''error'', e)]) @ [(js ''agent_id'', JStr param)])) no_store
           | Some e \<Rightarrow> json_response 200 e no_store)))"

subsection \<open>Keys\<close>

definition httpGetKey :: "'s upstream \<Rightarrow> jstr \<Rightarrow> jstr \<Rightarrow> ('s, jsval option) io" where
  "httpGetKey fetch apiUrl keyId =
     io_bind (io_lift (keyResolverPath keyId)) (\<lambda>path.
     io_bind (fetch (apiUrl @ path) None) (\<lambda>(status, reply).
       if status = 404 then io_return None
       else if \<not> response_ok status then io_throw (StoreError (js ''registry responded '' @ dec status))
       else (case reply of None \<Rightarrow> io_throw (StoreError (js ''invalid JSON''))
             | Some v \<Rightarrow> io_return (if v = JNull then None else Some v))))"

definition keyReader :: "'s registry_store \<Rightarrow> 's upstream \<Rightarrow> jstr option \<Rightarrow> jstr \<Rightarrow> ('s, jsval option) io" where
  "keyReader S fetch apiUrl = (case apiUrl of Some url \<Rightarrow> httpGetKey fetch url | None \<Rightarrow> getKey S)"

definition fetchKeyDocumentByRawPath ::
  "platform \<Rightarrow> 's registry_store \<Rightarrow> 's upstream \<Rightarrow> jstr option \<Rightarrow> jstr \<Rightarrow> jstr option \<Rightarrow> ('s, key_resolution) io" where
  "fetchKeyDocumentByRawPath E S fetch apiUrl rawUrl frameworkSegment =
     resolveKeyFromRawPath E (keyReader S fetch apiUrl) rawUrl frameworkSegment"

definition fetchKeyDocumentByRawQuery ::
  "platform \<Rightarrow> 's registry_store \<Rightarrow> 's upstream \<Rightarrow> jstr option \<Rightarrow> jstr \<Rightarrow> ('s, key_resolution) io" where
  "fetchKeyDocumentByRawQuery E S fetch apiUrl rawUrl = resolveKeyFromRawQuery E (keyReader S fetch apiUrl) rawUrl"

definition fetchKeyDocument ::
  "platform \<Rightarrow> 's registry_store \<Rightarrow> 's upstream \<Rightarrow> jstr option \<Rightarrow> jstr option \<Rightarrow> key_reference_position \<Rightarrow> ('s, key_resolution) io" where
  "fetchKeyDocument E S fetch apiUrl ref position = resolveKeyDocument E (keyReader S fetch apiUrl) ref position"

definition fetchKeyDocumentByQuery ::
  "platform \<Rightarrow> 's registry_store \<Rightarrow> 's upstream \<Rightarrow> jstr option \<Rightarrow> jstr list \<Rightarrow> ('s, key_resolution) io" where
  "fetchKeyDocumentByQuery E S fetch apiUrl values = resolveKeyFromQuery E (keyReader S fetch apiUrl) values"

definition web_keyPreflight :: http_response where
  "web_keyPreflight = \<lparr>hr_status = 204, hr_headers = [(js ''access-control-allow-origin'', js ''*''),
     (js ''access-control-allow-methods'', KEY_ALLOWED_METHODS), (js ''access-control-max-age'', js ''86400'')], hr_body = None\<rparr>"

definition keyMethodNotAllowed :: http_response where
  "keyMethodNotAllowed = \<lparr>hr_status = 405, hr_headers = KEY_RESPONSE_HEADERS @ [(js ''allow'', KEY_ALLOWED_METHODS)],
     hr_body = Some (JObj [(js ''error'', JStr (js ''method_not_allowed'')),
       (js ''message'', JStr (js ''key discovery is read-only: use GET or OPTIONS''))])\<rparr>"

definition web_respond :: "key_resolution \<Rightarrow> http_response" where
  "web_respond r = (case r of
       KeyServed d \<Rightarrow> \<lparr>hr_status = 200, hr_headers = KEY_RESPONSE_HEADERS, hr_body = Some (KeyDocument_obj d)\<rparr>
     | KeyRefused status code message keyId \<Rightarrow> \<lparr>hr_status = status, hr_headers = KEY_RESPONSE_HEADERS,
         hr_body = Some (JObj ([(js ''error'', JStr code), (js ''message'', JStr (key_error_message message))]
           @ (case keyId of None \<Rightarrow> [] | Some k \<Rightarrow> [(js ''key_id'', JStr k)])))\<rparr>)"

definition serveKeyPath ::
  "platform \<Rightarrow> 's registry_store \<Rightarrow> 's upstream \<Rightarrow> jstr option \<Rightarrow> jstr \<Rightarrow> jstr option \<Rightarrow> ('s, http_response) io" where
  "serveKeyPath E S fetch apiUrl rawUrl frameworkSegment =
     io_bind (fetchKeyDocumentByRawPath E S fetch apiUrl rawUrl frameworkSegment) (\<lambda>r. io_return (web_respond r))"

definition serveKeyQuery ::
  "platform \<Rightarrow> 's registry_store \<Rightarrow> 's upstream \<Rightarrow> jstr option \<Rightarrow> jstr \<Rightarrow> ('s, http_response) io" where
  "serveKeyQuery E S fetch apiUrl rawUrl =
     io_bind (fetchKeyDocumentByRawQuery E S fetch apiUrl rawUrl) (\<lambda>r. io_return (web_respond r))"

subsection \<open>The README badge\<close>

text \<open>What the badge says: presentation, title and maximal age.  Its drawing (widths in floating-point pixels) is not
  modelled.  The names in an envelope are strings.\<close>

definition shield ::
  "platform \<Rightarrow> 's registry_store \<Rightarrow> 's upstream \<Rightarrow> jstr option \<Rightarrow> jstr \<Rightarrow> jstr \<Rightarrow> ('s, trust_presentation \<times> jstr \<times> nat) io" where
  "shield E S fetch apiUrl now param =
     (case decodeURIComponent param of None \<Rightarrow> io_throw (StoreError (js ''URIError''))
      | Some i \<Rightarrow>
        if \<not> isValidAgentId i then io_return (MALFORMED_ID_TRUST, trustSummary MALFORMED_ID_TRUST i None, 3600)
        else
          io_bind (fetchEnvelope E S fetch apiUrl now i) (\<lambda>r.
          case envelope_of r of
            None \<Rightarrow> io_return (NOT_REGISTERED_TRUST, trustSummary NOT_REGISTERED_TRUST i None, 60)
          | Some env \<Rightarrow>
              let name = (case get_member (js ''name'') (get_member (js ''identity'') (get_member (js ''manifest'') env)) of JStr n \<Rightarrow> n | _ \<Rightarrow> i);
                  operator = (case get_member (js ''operator'') (get_member (js ''ownership'') (get_member (js ''manifest'') env)) of
                    JStr n \<Rightarrow> Some n | _ \<Rightarrow> None);
                  p = presentEnvelopeTrust env
              in io_return (p, trustSummary p name operator, 60)))"

subsection \<open>POST /api/retell/bind\<close>

definition text_or_empty :: "jsval \<Rightarrow> jsval" where
  "text_or_empty v = (case v of JStr s \<Rightarrow> JStr s | _ \<Rightarrow> JStr [])"

definition bound_agent :: "jsval \<Rightarrow> agent_record \<Rightarrow> key_document \<Rightarrow> jsval" where
  "bound_agent a r doc = JObj [(js ''agent_id'', JStr (ar_agent_id r)),
     (js ''retell_agent_id'', text_or_empty (get_member (js ''retell_agent_id'') a)),
     (js ''agent_name'', text_or_empty (get_member (js ''agent_name'') a)),
     (js ''manifest_digest'', JStr (ar_manifest_digest r)), (js ''key_id'', JStr (kd_key_id doc)),
     (js ''proof_expires_at'', JStr (mp_expires_at (ar_proof r))), (js ''registered_at'', JStr (ar_registered_at r)),
     (js ''links'', JObj [(js ''card'', JStr (js ''/a/'' @ ar_agent_id r)), (js ''envelope'', JStr (js ''/api/resolve/'' @ ar_agent_id r))])]"

text \<open>The loop: the responses of the agents registered so far, and one environment per agent.\<close>

fun bind_loop ::
  "platform \<Rightarrow> 's registry_store \<Rightarrow> (nat \<Rightarrow> request_env) \<Rightarrow> (jstr \<times> jstr) list \<Rightarrow> jsval list \<Rightarrow> nat \<Rightarrow> jsval list
   \<Rightarrow> ('s, http_response + jsval list) io" where
  "bind_loop E S V rlh [] i regs = io_return (Inr regs)"
| "bind_loop E S V rlh (a # as) i regs =
     (if \<not> truthy a \<or> \<not> truthy (get_member (js ''manifest'') a) \<or> \<not> truthy (get_member (js ''proof'') a) \<or> \<not> truthy (get_member (js ''key_document'') a)
      then io_return (Inl (json_response 400 (JObj [(js ''error'', JStr (js ''incomplete_agent'')), (js ''index'', num_of i),
             (js ''message'', JStr (js ''agents['' @ dec i @ js ''] must include manifest, proof, and key_document''))]) rlh))
      else
        io_bind (registerAgent E S (V i) (JObj [(js ''manifest'', get_member (js ''manifest'') a),
            (js ''proof'', get_member (js ''proof'') a), (js ''key_document'', get_member (js ''key_document'') a)])) (\<lambda>result.
        case result of
          RegisterFail status code message issues \<Rightarrow>
            io_return (Inl (json_error status code message
              ([(js ''index'', num_of i), (js ''registered_before_failure'', JArr (map (get_member (js ''agent_id'')) regs))]
                @ Issues_obj issues) rlh))
        | Registered r doc manifest \<Rightarrow> bind_loop E S V rlh as (i + 1) (regs @ [bound_agent a r doc])))"

definition bind_agents ::
  "platform \<Rightarrow> 's registry_store \<Rightarrow> (nat \<Rightarrow> request_env) \<Rightarrow> (jstr \<times> jstr) list \<Rightarrow> jsval \<Rightarrow> ('s, http_response) io" where
  "bind_agents E S V rlh b =
     (case get_member (js ''domain'') b of
        JStr domain \<Rightarrow>
          if domain = [] then io_return (json_error 400 (js ''invalid_domain'') (js ''`domain` is required'') [] rlh)
          else (case get_member (js ''agents'') b of
            JArr as \<Rightarrow>
              if as = [] then io_return (json_error 400 (js ''invalid_agents'')
                (js ''`agents` must be a non-empty array of signed agent submissions'') [] rlh)
              else if MAX_BATCH_SIZE < length as
              then io_return (json_error 400 (js ''batch_too_large'')
                (js ''a batch may contain at most '' @ dec MAX_BATCH_SIZE @ js '' agents; split the fleet across requests'')
                [(js ''max_batch_size'', num_of MAX_BATCH_SIZE)] rlh)
              else io_bind (bind_loop E S V rlh as 0 []) (\<lambda>result. io_return
                (case result of
                   Inl failure \<Rightarrow> failure
                 | Inr regs \<Rightarrow> json_response 201 (JObj [(js ''ok'', JBool True), (js ''domain'', JStr domain),
                     (js ''level'', JStr (js ''L1_REGISTERED'')), (js ''agents'', JArr regs), (js ''persisted'', JBool True),
                     (js ''disclosures'', texts L1_DISCLOSURES)]) rlh))
          | _ \<Rightarrow> io_return (json_error 400 (js ''invalid_agents'')
                (js ''`agents` must be a non-empty array of signed agent submissions'') [] rlh))
      | _ \<Rightarrow> io_return (json_error 400 (js ''invalid_domain'') (js ''`domain` is required'') [] rlh))"

definition post_bind ::
  "platform \<Rightarrow> 'd limiter_db \<Rightarrow> 's registry_store \<Rightarrow> (nat \<Rightarrow> request_env) \<Rightarrow> web_request \<Rightarrow> ('d limiter \<times> 's, http_response) io" where
  "post_bind E D S V q =
     limited E D POLICY_bindBatch q any_origin (\<lambda>rlh.
       case wr_body q of None \<Rightarrow> io_return (invalid_json rlh)
       | Some body \<Rightarrow> on_store (bind_agents E S V rlh body))"

definition options_bind :: http_response where
  "options_bind = options_response (js ''POST, OPTIONS'')"


subsection \<open>POST /api/retell/declare\<close>

text \<open>\<open>now\<close> is the caller's when it is a string, else the clock's.\<close>

definition DECLARED_DISCLOSURES :: "jstr list" where
  "DECLARED_DISCLOSURES =
     [js ''DECLARED is an operator self-declaration. It attests who signed, not that any third party checked them.'',
      js ''Levels above DECLARED require an authority-signed VerificationAssertion. AgenID'' @ quote_mark
        @ js ''s root authority key ceremony has not been performed, so no such assertion can currently be issued.'',
      js ''This result was not written to any registry: no durable write path is deployed.'']"

definition invalid_part :: "string \<Rightarrow> issues \<Rightarrow> http_response" where
  "invalid_part code issues = json_response 400 (JObj ((js ''error'', JStr (js code)) # Issues_obj (Some issues))) []"

definition declare_manifest :: "platform \<Rightarrow> jstr \<Rightarrow> jsval \<Rightarrow> agenid_error + http_response" where
  "declare_manifest E clock body =
     (case parse_Manifest E (get_member (js ''manifest'') body) of
        Inl issues \<Rightarrow> Inr (invalid_part ''invalid_manifest'' issues)
      | Inr m \<Rightarrow>
     (case parse_ManifestProof E (get_member (js ''proof'') body) of
        Inl issues \<Rightarrow> Inr (invalid_part ''invalid_proof'' issues)
      | Inr p \<Rightarrow>
     (case parse_KeyDocument E (get_member (js ''key_document'') body) of
        Inl issues \<Rightarrow> Inr (invalid_part ''invalid_key_document'' issues)
      | Inr k \<Rightarrow>
        let evaluatedAt = (case get_member (js ''now'') body of JStr now \<Rightarrow> now | _ \<Rightarrow> clock) in
        rbind (verifyManifestProof E (ManifestProof_obj p) (Manifest_obj m) (KeyDocument_obj k) evaluatedAt) (\<lambda>result.
        case result of
          VerifyFail code message \<Rightarrow>
            Inr (json_response 422 (JObj [(js ''ok'', JBool False), (js ''level'', JNull), (js ''code'', JStr (failure_text code)),
              (js ''message'', JStr message), (js ''evaluated_at'', JStr evaluatedAt)]) [])
        | VerifyOk c ds \<Rightarrow>
            rbind (manifestDigestHex E m) (\<lambda>digest.
            Inr (json_response 200 (JObj [(js ''ok'', JBool True), (js ''level'', JStr (js ''DECLARED'')), (js ''agent_id'', JStr (mf_agent_id m)),
              (js ''manifest_digest'', JObj [(js ''alg'', JStr (js ''sha-256'')), (js ''value'', JStr digest)]),
              (js ''key_id'', JStr (mp_key_id p)), (js ''evaluated_at'', JStr evaluatedAt), (js ''persisted'', JBool False),
              (js ''disclosures'', texts DECLARED_DISCLOSURES)]) []))))))"

definition post_declare :: "platform \<Rightarrow> 'd limiter_db \<Rightarrow> jstr \<Rightarrow> web_request \<Rightarrow> ('d limiter \<times> 's, http_response) io" where
  "post_declare E D clock q =
     limited E D POLICY_register q [] (\<lambda>rlh.
       case wr_body q of None \<Rightarrow> io_return (invalid_json [])
       | Some body \<Rightarrow> io_lift (declare_manifest E clock body))"

definition options_declare :: http_response where
  "options_declare = options_response (js ''POST, OPTIONS'')"

subsection \<open>POST /api/v1/verify\<close>

definition hex_text :: "nat \<Rightarrow> jstr \<Rightarrow> bool" where
  "hex_text n s \<longleftrightarrow> length s = n \<and> list_all is_hex s"

definition decodeSignature :: "jstr \<Rightarrow> bytes" where
  "decodeSignature signature = (if hex_text 128 signature then fromHex signature else b64uDecode signature)"

definition is_object :: "jsval \<Rightarrow> bool" where
  "is_object v = (case v of JArr vs \<Rightarrow> True | JObj ms \<Rightarrow> True | JInstance c ms \<Rightarrow> True | _ \<Rightarrow> False)"

definition verify_signature :: "platform \<Rightarrow> jsval \<Rightarrow> http_response" where
  "verify_signature E body =
     (if \<not> is_object body then json_error 400 (js ''invalid_body'') (js ''expected a JSON object'') [] []
      else if \<not> is_object (get_member (js ''manifest'') body)
      then json_error 400 (js ''invalid_manifest'') (js ''`manifest` must be a JSON object'') [] []
      else (case get_member (js ''signature'') body of
          JStr signature \<Rightarrow>
            if signature = [] then json_error 400 (js ''invalid_signature'') (js ''`signature` must be a base64url or hex-encoded Ed25519 signature'') [] []
            else (case get_member (js ''public_key_hex'') body of
              JStr publicKey \<Rightarrow>
                if \<not> hex_text 64 publicKey
                then json_error 400 (js ''invalid_public_key'') (js ''`public_key_hex` must be a 64-character hex-encoded Ed25519 public key'') [] []
                else (case canonicalizeToBytes (get_member (js ''manifest'') body) of
                    Inl e \<Rightarrow> json_response 400 (JObj [(js ''ok'', JBool False), (js ''valid'', JBool False),
                      (js ''error'', JStr (js ''verification_failed'')), (js ''message'', JStr (error_message e))]) []
                  | Inr b \<Rightarrow>
                    let valid = verifyBytes E (fromHex publicKey) b (decodeSignature signature) in
                    json_response 200 (JObj [(js ''ok'', JBool valid), (js ''valid'', JBool valid), (js ''algorithm'', JStr (js ''Ed25519'')),
                      (js ''canonicalization'', JStr (js ''RFC 8785 JCS'')), (js ''canonical_sha256_hex'', JStr (hex (sha256 E b)))]) [])
            | _ \<Rightarrow> json_error 400 (js ''invalid_public_key'') (js ''`public_key_hex` must be a 64-character hex-encoded Ed25519 public key'') [] [])
        | _ \<Rightarrow> json_error 400 (js ''invalid_signature'') (js ''`signature` must be a base64url or hex-encoded Ed25519 signature'') [] []))"

definition post_verify :: "platform \<Rightarrow> 'd limiter_db \<Rightarrow> web_request \<Rightarrow> ('d limiter \<times> 's, http_response) io" where
  "post_verify E D q =
     limited E D POLICY_read q [] (\<lambda>rlh.
       case wr_body q of None \<Rightarrow> io_return (invalid_json [])
       | Some body \<Rightarrow> io_return (verify_signature E body))"

definition options_verify :: http_response where
  "options_verify = options_response (js ''POST, OPTIONS'')"

end
