(* ===== verification/JSON_Members.thy ===== *)
theory JSON_Members
  imports Registry_Store
begin

section \<open>Equal documents, member by member\<close>

text \<open>When two objects are the same document: what \<open>same_json\<close> means for their members.\<close>

lemma same_json_permuted:
  assumes "mset ms = mset ns" "distinct (map fst ms)"
  shows "same_json (JObj ms) (JObj ns)"
proof -
  have "inj_on fst (set ms)" using assms(2) by (simp add: distinct_map)
  then have "sort_key fst ms = sort_key fst ns"
    using assms(1) by (intro sort_key_inj_key_eq) simp_all
  then show ?thesis by (simp add: same_json_def jnorm_obj del: jnorm.simps)
qed

lemma mset_distinct_fst:
  assumes "distinct (map fst xs)" "distinct (map fst ys)" "map_of xs = map_of ys"
  shows "mset xs = mset ys"
proof -
  have "set xs = set ys" using assms by (metis graph_map_of_if_distinct_dom)
  then show ?thesis using assms(1,2) by (metis distinct_map set_eq_iff_mset_eq_distinct)
qed

lemma jnorm_members: "map_of (map (\<lambda>(k, v). (k, jnorm v)) ms) k = map_option jnorm (map_of ms k)"
  by (induction ms) auto

lemma same_json_members:
  assumes "distinct (map fst ms)" "distinct (map fst ns)"
  shows "same_json (JObj ms) (JObj ns) \<longleftrightarrow>
    fst ` set ms = fst ` set ns \<and> (\<forall>k \<in> fst ` set ms. same_json (get_member k (JObj ms)) (get_member k (JObj ns)))"
proof
  assume s: "same_json (JObj ms) (JObj ns)"
  then have "map (\<lambda>(k, v). (k, jnorm v)) (sort_key fst ms) = map (\<lambda>(k, v). (k, jnorm v)) (sort_key fst ns)"
    by (simp add: same_json_def jnorm_obj del: jnorm.simps)
  then have "map fst (sort_key fst ms) = map fst (sort_key fst ns)"
    by (metis (mono_tags, lifting) list.map_comp map_eq_conv case_prod_unfold comp_apply fst_conv)
  then have "fst ` set ms = fst ` set ns" by (metis list.set_map set_sort)
  with s same_json_member show "fst ` set ms = fst ` set ns \<and> (\<forall>k \<in> fst ` set ms. same_json (get_member k (JObj ms)) (get_member k (JObj ns)))"
    by blast
next
  assume a: "fst ` set ms = fst ` set ns \<and> (\<forall>k \<in> fst ` set ms. same_json (get_member k (JObj ms)) (get_member k (JObj ns)))"
  let ?n = "map (\<lambda>(k, v). (k, jnorm v))"
  have fsts: "map fst (?n xs) = map fst xs" for xs :: "(jstr \<times> jsval) list" by (induction xs) auto
  have "map_of (?n ms) k = map_of (?n ns) k" for k
  proof (cases "k \<in> fst ` set ms")
    case True
    then obtain v w where vw: "map_of ms k = Some v" "map_of ns k = Some w" using a by (metis map_of_eq_None_iff not_None_eq)
    from a True have "same_json (get_member k (JObj ms)) (get_member k (JObj ns))" by blast
    with vw show ?thesis by (simp add: jnorm_members same_json_def get_member_def)
  next
    case False
    then have "map_of ms k = None" "map_of ns k = None" using a by (simp_all add: map_of_eq_None_iff)
    then show ?thesis by (simp add: jnorm_members)
  qed
  then have "mset (?n ms) = mset (?n ns)" using assms by (intro mset_distinct_fst) (simp_all only: fsts fun_eq_iff simp_thms)
  moreover have "inj_on fst (set (?n ms))" using assms(1) fsts [of ms] by (metis distinct_map)
  ultimately have "sort_key fst (?n ms) = sort_key fst (?n ns)" by (intro sort_key_inj_key_eq) simp_all
  then show "same_json (JObj ms) (JObj ns)" by (simp add: same_json_def)
qed

lemma same_json_object: "same_json v (JObj ns) \<Longrightarrow> \<exists>ms. v = JObj ms"
  by (cases v) (auto simp: same_json_def)

end
