(* ===== verification/Supabase_Store.thy ===== *)
theory Supabase_Store
  imports Registry_Properties JSON_Members
begin

section \<open>The durable store\<close>

text \<open>
  \<open>packages/api/src/supabase-store.ts\<close>: the same interface over four Postgres tables.  The client is a
  parameter: one operation per query the store makes, each answering an error (code and message) or
  data.  What the store relies on is the locale \<open>postgres\<close>: a row is stored under its primary key,
  a \<open>timestamptz\<close> column comes back as the same instant in another spelling, and a \<open>jsonb\<close> column as
  the same document with its members in another order.  Under it, \<open>SupabaseStore\<close> keeps the contract
  \<open>registry\<close> of the interface.
\<close>

subsection \<open>Rows\<close>

record agent_row =
  aw_agent_id :: jstr
  aw_manifest :: manifest
  aw_manifest_digest :: jstr
  aw_proof :: manifest_proof
  aw_status :: agent_status
  aw_registered_at :: jstr
  aw_updated_at :: jstr

record key_row =
  kw_key_id :: jstr
  kw_document :: jsval

record assertion_row =
  sw_assertion_id :: jstr
  sw_subject :: jstr
  sw_level :: verification_level
  sw_key_id :: jstr
  sw_document :: assertion
  sw_verified_at :: jstr

record event_row =
  ew_event_id :: jstr
  ew_agent_id :: jstr
  ew_type :: event_type
  ew_occurred_at :: jstr
  ew_detail_ref :: "(jstr \<times> jstr) list"

record pg_error =
  pg_code :: jstr
  pg_message :: jstr

text \<open>The queries: \<open>select ... eq ... maybeSingle\<close>, \<open>upsert\<close>, \<open>insert\<close>, \<open>select ... eq ... order\<close>.\<close>

record 's pg_client =
  agents_select :: "jstr \<Rightarrow> ('s, pg_error + agent_row option) io"
  agents_upsert :: "agent_row \<Rightarrow> ('s, pg_error option) io"
  agents_insert :: "agent_row \<Rightarrow> ('s, pg_error option) io"
  keys_select :: "jstr \<Rightarrow> ('s, pg_error + jsval option) io"
  keys_upsert :: "key_row \<Rightarrow> ('s, pg_error option) io"
  assertions_select :: "jstr \<Rightarrow> ('s, pg_error + assertion option) io"
  assertions_upsert :: "assertion_row \<Rightarrow> ('s, pg_error option) io"
  assertions_by_subject :: "jstr \<Rightarrow> ('s, pg_error + assertion list option) io"
  events_insert :: "event_row \<Rightarrow> ('s, pg_error option) io"
  events_by_agent :: "jstr \<Rightarrow> ('s, pg_error + event_row list option) io"

subsection \<open>SupabaseStore\<close>

definition toUtcZ :: "('r runtime_scheme) \<Rightarrow> jstr \<Rightarrow> jstr" where
  "toUtcZ E ts = (case Date_parse E ts of None \<Rightarrow> ts | Some ms \<Rightarrow> iso_string ms)"

definition toAgentRecord :: "('r runtime_scheme) \<Rightarrow> agent_row \<Rightarrow> agent_record" where
  "toAgentRecord E row = \<lparr>ar_agent_id = aw_agent_id row, ar_manifest = aw_manifest row, ar_manifest_digest = aw_manifest_digest row,
     ar_proof = aw_proof row, ar_status = aw_status row, ar_registered_at = toUtcZ E (aw_registered_at row),
     ar_updated_at = toUtcZ E (aw_updated_at row)\<rparr>"

definition agentRow :: "agent_record \<Rightarrow> agent_row" where
  "agentRow r = \<lparr>aw_agent_id = ar_agent_id r, aw_manifest = ar_manifest r, aw_manifest_digest = ar_manifest_digest r,
     aw_proof = ar_proof r, aw_status = ar_status r, aw_registered_at = ar_registered_at r, aw_updated_at = ar_updated_at r\<rparr>"

definition PG_UNIQUE_VIOLATION :: jstr where
  "PG_UNIQUE_VIOLATION = js ''23505''"

definition store_error :: "string \<Rightarrow> pg_error \<Rightarrow> exn" where
  "store_error operation e = StoreError (js ''SupabaseStore.'' @ js operation @ js '': '' @ pg_message e)"

text \<open>Data or an exception; success or an exception.\<close>

definition or_throw :: "string \<Rightarrow> ('s, pg_error + 'a) io \<Rightarrow> ('s, 'a) io" where
  "or_throw operation m = io_bind m (\<lambda>r. case r of Inl e \<Rightarrow> io_throw (store_error operation e) | Inr x \<Rightarrow> io_return x)"

definition done_or_throw :: "string \<Rightarrow> ('s, pg_error option) io \<Rightarrow> ('s, unit) io" where
  "done_or_throw operation m = io_bind m (\<lambda>r. case r of Some e \<Rightarrow> io_throw (store_error operation e) | None \<Rightarrow> io_return ())"

definition supabase_getAgent :: "platform \<Rightarrow> 's pg_client \<Rightarrow> jstr \<Rightarrow> ('s, agent_record option) io" where
  "supabase_getAgent E C agentId =
     io_bind (or_throw ''getAgent'' (agents_select C agentId)) (\<lambda>row. io_return (map_option (toAgentRecord E) row))"

definition supabase_putAgent :: "'s pg_client \<Rightarrow> agent_record \<Rightarrow> ('s, unit) io" where
  "supabase_putAgent C r = done_or_throw ''putAgent'' (agents_upsert C (agentRow r))"

definition supabase_createAgent :: "'s pg_client \<Rightarrow> agent_record \<Rightarrow> ('s, bool) io" where
  "supabase_createAgent C r =
     io_bind (agents_insert C (agentRow r)) (\<lambda>error.
       case error of None \<Rightarrow> io_return True
       | Some e \<Rightarrow> if pg_code e = PG_UNIQUE_VIOLATION then io_return False else io_throw (store_error ''createAgent'' e))"

definition supabase_getKey :: "'s pg_client \<Rightarrow> jstr \<Rightarrow> ('s, jsval option) io" where
  "supabase_getKey C keyId = or_throw ''getKey'' (keys_select C keyId)"

definition supabase_putKey :: "'s pg_client \<Rightarrow> key_document \<Rightarrow> ('s, unit) io" where
  "supabase_putKey C doc = done_or_throw ''putKey'' (keys_upsert C \<lparr>kw_key_id = kd_key_id doc, kw_document = KeyDocument_obj doc\<rparr>)"

definition supabase_getAssertion :: "'s pg_client \<Rightarrow> jstr \<Rightarrow> ('s, assertion option) io" where
  "supabase_getAssertion C assertionId = or_throw ''getAssertion'' (assertions_select C assertionId)"

definition supabase_putAssertion :: "'s pg_client \<Rightarrow> assertion \<Rightarrow> ('s, unit) io" where
  "supabase_putAssertion C a =
     done_or_throw ''putAssertion'' (assertions_upsert C \<lparr>sw_assertion_id = va_assertion_id a, sw_subject = va_subject a,
       sw_level = va_level a, sw_key_id = va_key_id a, sw_document = a, sw_verified_at = va_verified_at a\<rparr>)"

definition supabase_listAssertionsForSubject :: "'s pg_client \<Rightarrow> jstr \<Rightarrow> ('s, assertion list) io" where
  "supabase_listAssertionsForSubject C subject =
     io_bind (or_throw ''listAssertionsForSubject'' (assertions_by_subject C subject)) (\<lambda>data.
       io_return (case data of None \<Rightarrow> [] | Some docs \<Rightarrow> docs))"

definition supabase_appendEvent :: "'s pg_client \<Rightarrow> ledger_event \<Rightarrow> ('s, unit) io" where
  "supabase_appendEvent C e =
     done_or_throw ''appendEvent'' (events_insert C \<lparr>ew_event_id = le_event_id e, ew_agent_id = le_agent_id e, ew_type = le_type e,
       ew_occurred_at = le_occurred_at e, ew_detail_ref = le_detail_ref e\<rparr>)"

definition supabase_listEvents :: "platform \<Rightarrow> 's pg_client \<Rightarrow> jstr \<Rightarrow> ('s, ledger_event list) io" where
  "supabase_listEvents E C agentId =
     io_bind (or_throw ''listEvents'' (events_by_agent C agentId)) (\<lambda>data.
       io_return (map (\<lambda>e. \<lparr>le_event_id = ew_event_id e, le_agent_id = ew_agent_id e, le_type = ew_type e,
           le_occurred_at = toUtcZ E (ew_occurred_at e), le_detail_ref = ew_detail_ref e\<rparr>)
         (case data of None \<Rightarrow> [] | Some rows \<Rightarrow> rows)))"

definition SupabaseStore :: "platform \<Rightarrow> 's pg_client \<Rightarrow> 's registry_store" where
  "SupabaseStore E C = \<lparr>getAgent = supabase_getAgent E C, putAgent = supabase_putAgent C, createAgent = supabase_createAgent C,
     getKey = supabase_getKey C, putKey = supabase_putKey C, getAssertion = supabase_getAssertion C,
     putAssertion = supabase_putAssertion C, listAssertionsForSubject = supabase_listAssertionsForSubject C,
     appendEvent = supabase_appendEvent C, listEvents = supabase_listEvents E C\<rparr>"

text \<open>Both settings must be there; the client is made from them.\<close>

definition supabaseStoreFromEnv :: "platform \<Rightarrow> (jstr \<Rightarrow> jstr \<Rightarrow> 's pg_client) \<Rightarrow> (jstr \<Rightarrow> jstr option) \<Rightarrow> 's registry_store option" where
  "supabaseStoreFromEnv E createClient env =
     (case env (js ''SUPABASE_URL'') of None \<Rightarrow> None | Some url \<Rightarrow>
     (case env (js ''SUPABASE_SERVICE_ROLE_KEY'') of None \<Rightarrow> None | Some key \<Rightarrow>
        if url = [] \<or> key = [] then None else Some (SupabaseStore E (createClient url key))))"

subsection \<open>What Postgres promises\<close>

record database =
  db_agents :: "jstr \<Rightarrow> agent_row option"
  db_keys :: "jstr \<Rightarrow> jsval option"
  db_assertions :: "jstr \<Rightarrow> assertion_row option"
  db_events :: "event_row list"

text \<open>A \<open>timestamptz\<close> column keeps the instant, not the spelling.\<close>

definition same_agent_row :: "agent_row \<Rightarrow> agent_row \<Rightarrow> bool" where
  "same_agent_row a b \<longleftrightarrow> a\<lparr>aw_registered_at := [], aw_updated_at := []\<rparr> = b\<lparr>aw_registered_at := [], aw_updated_at := []\<rparr>"

definition same_event_row :: "event_row \<Rightarrow> event_row \<Rightarrow> bool" where
  "same_event_row a b \<longleftrightarrow> a\<lparr>ew_occurred_at := []\<rparr> = b\<lparr>ew_occurred_at := []\<rparr>"

definition agent_row_stored :: "agent_row \<Rightarrow> database \<Rightarrow> database \<Rightarrow> bool" where
  "agent_row_stored w d d' \<longleftrightarrow> (\<exists>w'. same_agent_row w' w \<and> d' = d\<lparr>db_agents := (db_agents d)(aw_agent_id w \<mapsto> w')\<rparr>)"

text \<open>A query leaves the tables alone; a statement that reports success has its effect, one that does not has it or not.\<close>

definition pg_reads :: "('s \<Rightarrow> database) \<Rightarrow> ('s, pg_error + 'a) io \<Rightarrow> 's \<Rightarrow> ('a \<Rightarrow> bool) \<Rightarrow> bool" where
  "pg_reads db m s P \<longleftrightarrow> snd (m s) = s \<and> (\<forall>x. fst (m s) = Inr (Inr x) \<longrightarrow> P x)"

definition pg_writes :: "('s \<Rightarrow> bool) \<Rightarrow> ('s \<Rightarrow> database) \<Rightarrow> ('s, pg_error option) io \<Rightarrow> 's \<Rightarrow> (database \<Rightarrow> database \<Rightarrow> bool) \<Rightarrow> bool" where
  "pg_writes good db m s W \<longleftrightarrow> good (snd (m s))
     \<and> (if fst (m s) = Inr None then W (db s) (db (snd (m s))) else db (snd (m s)) = db s \<or> W (db s) (db (snd (m s))))"

locale postgres =
  fixes C :: "'s pg_client" and good :: "'s \<Rightarrow> bool" and db :: "'s \<Rightarrow> database"
  assumes agents_select: "good s \<Longrightarrow> pg_reads db (agents_select C i) s (\<lambda>x. x = db_agents (db s) i)"
    and agents_upsert: "good s \<Longrightarrow> pg_writes good db (agents_upsert C w) s (agent_row_stored w)"
    and agents_insert: "good s \<Longrightarrow> pg_writes good db (agents_insert C w) s
      (\<lambda>d d'. if db_agents d (aw_agent_id w) \<noteq> None then d' = d else agent_row_stored w d d')"
    and agents_insert_unique: "good s \<Longrightarrow> fst (agents_insert C w s) = Inr None \<Longrightarrow> db_agents (db s) (aw_agent_id w) = None"
    and agents_insert_violation: "good s \<Longrightarrow> fst (agents_insert C w s) = Inr (Some e) \<Longrightarrow> pg_code e = PG_UNIQUE_VIOLATION
      \<Longrightarrow> db_agents (db s) (aw_agent_id w) \<noteq> None"
    and keys_select: "good s \<Longrightarrow> pg_reads db (keys_select C k) s (\<lambda>x. x = db_keys (db s) k)"
    and keys_upsert: "good s \<Longrightarrow> plain (kw_document kw) \<Longrightarrow> pg_writes good db (keys_upsert C kw) s
      (\<lambda>d d'. \<exists>doc. same_json doc (kw_document kw) \<and> plain doc \<and> d' = d\<lparr>db_keys := (db_keys d)(kw_key_id kw \<mapsto> doc)\<rparr>)"
    and assertions_select: "good s \<Longrightarrow> pg_reads db (assertions_select C j) s (\<lambda>x. x = map_option sw_document (db_assertions (db s) j))"
    and assertions_upsert: "good s \<Longrightarrow> pg_writes good db (assertions_upsert C v) s
      (\<lambda>d d'. \<exists>t. d' = d\<lparr>db_assertions := (db_assertions d)(sw_assertion_id v \<mapsto> v\<lparr>sw_verified_at := t\<rparr>)\<rparr>)"
    and assertions_by_subject: "good s \<Longrightarrow> pg_reads db (assertions_by_subject C sub) s
      (\<lambda>x. \<exists>rows. mset_set {row \<in> ran (db_assertions (db s)). sw_subject row = sub} = mset rows
         \<and> (case x of None \<Rightarrow> rows = [] | Some docs \<Rightarrow> docs = map sw_document rows))"
    and events_insert: "good s \<Longrightarrow> pg_writes good db (events_insert C ev) s
      (\<lambda>d d'. \<exists>ev'. same_event_row ev' ev \<and> d' = d\<lparr>db_events := db_events d @ [ev']\<rparr>)"
    and events_by_agent: "good s \<Longrightarrow> pg_reads db (events_by_agent C i) s
      (\<lambda>x. mset (case x of None \<Rightarrow> [] | Some rows \<Rightarrow> rows) = mset (filter (\<lambda>r. ew_agent_id r = i) (db_events (db s))))"
    and finite_assertions: "good s \<Longrightarrow> finite (dom (db_assertions (db s)))"

text \<open>The store keeps more: it wrote every row, so a row's document is a plain one and matches its columns.\<close>

definition rows_match :: "database \<Rightarrow> bool" where
  "rows_match d \<longleftrightarrow> (\<forall>k doc. db_keys d k = Some doc \<longrightarrow> plain doc)
     \<and> (\<forall>j row. db_assertions d j = Some row \<longrightarrow> sw_assertion_id row = j \<and> va_assertion_id (sw_document row) = j
          \<and> va_subject (sw_document row) = sw_subject row)"

definition toLedgerEvent :: "platform \<Rightarrow> event_row \<Rightarrow> ledger_event" where
  "toLedgerEvent E e = \<lparr>le_event_id = ew_event_id e, le_agent_id = ew_agent_id e, le_type = ew_type e,
     le_occurred_at = toUtcZ E (ew_occurred_at e), le_detail_ref = ew_detail_ref e\<rparr>"

definition supabase_view :: "platform \<Rightarrow> database \<Rightarrow> registry_view" where
  "supabase_view E d = \<lparr>vw_agents = (\<lambda>i. map_option (toAgentRecord E) (db_agents d i)), vw_keys = db_keys d,
     vw_assertions = (\<lambda>j. map_option sw_document (db_assertions d j)), vw_events = map (toLedgerEvent E) (db_events d)\<rparr>"

lemma same_agent_row_record: "same_agent_row a (agentRow r) \<Longrightarrow> same_agent (toAgentRecord E a) r"
  by (cases a; cases r) (simp add: same_agent_row_def same_agent_def toAgentRecord_def agentRow_def)

lemma same_event_row_record:
  "same_event_row a \<lparr>ew_event_id = le_event_id e, ew_agent_id = le_agent_id e, ew_type = le_type e,
       ew_occurred_at = le_occurred_at e, ew_detail_ref = le_detail_ref e\<rparr> \<Longrightarrow> same_event (toLedgerEvent E a) e"
  by (cases a; cases e) (simp add: same_event_row_def same_event_def toLedgerEvent_def)

lemma agent_row_written:
  "agent_row_stored (agentRow r) d d' \<Longrightarrow> agent_written r (supabase_view E d) (supabase_view E d') \<and> (rows_match d \<longrightarrow> rows_match d')"
  unfolding agent_row_stored_def agent_written_def
  by (auto simp: supabase_view_def rows_match_def fun_eq_iff agentRow_def [of r, THEN arg_cong [of _ _ aw_agent_id]]
      dest!: same_agent_row_record [of _ r E] intro!: exI)

lemma reads_or_throw:
  "pg_reads db m s P \<Longrightarrow> (\<And>x. P x \<Longrightarrow> Q (f x)) \<Longrightarrow> reads view (io_bind (or_throw op m) (\<lambda>x. io_return (f x))) s Q"
  "pg_reads db m s Q' \<Longrightarrow> (\<And>x. Q' x \<Longrightarrow> Q'' x) \<Longrightarrow> reads view (or_throw op m) s Q''"
  by (cases "m s"; auto simp: pg_reads_def reads_def or_throw_def io_bind_def split: sum.split)+

lemma writes_done:
  assumes "pg_writes good db m s W"
    and "\<And>t. good t \<Longrightarrow> W (db s) (db t) \<Longrightarrow> V (view s) (view t) \<and> good' t"
    and "\<And>t. good t \<Longrightarrow> db t = db s \<Longrightarrow> view t = view s \<and> good' t"
  shows "writes good' view (done_or_throw op m) s V"
proof -
  obtain r t where m: "m s = (r, t)" by (cases "m s") blast
  with assms(1) have t: "good t" "if r = Inr None then W (db s) (db t) else db t = db s \<or> W (db s) (db t)"
    by (auto simp: pg_writes_def split: if_splits)
  show ?thesis
    using t assms(2,3) [OF t(1)] m
    by (cases r) (auto simp: writes_def done_or_throw_def io_bind_def split: option.split if_splits)
qed

definition rows_good :: "('s \<Rightarrow> bool) \<Rightarrow> ('s \<Rightarrow> database) \<Rightarrow> 's \<Rightarrow> bool" where
  "rows_good good db s \<longleftrightarrow> good s \<and> rows_match (db s)"

lemma agent_row_good:
  "good t \<Longrightarrow> rows_good good db s \<Longrightarrow> agent_row_stored (agentRow r) (db s) (db t) \<Longrightarrow>
    agent_written r (supabase_view E (db s)) (supabase_view E (db t)) \<and> rows_good good db t"
  using agent_row_written [of r "db s" "db t" E] by (simp add: rows_good_def)

lemma same_rows_good:
  "good t \<Longrightarrow> rows_good good db s \<Longrightarrow> db t = db s \<Longrightarrow> supabase_view E (db t) = supabase_view E (db s) \<and> rows_good good db t"
  by (simp add: rows_good_def)

lemma rows_distinct_documents:
  assumes "rows_match d" "finite (dom (db_assertions d))"
    and "mset_set {row \<in> ran (db_assertions d). sw_subject row = sub} = mset rows"
  shows "set (map sw_document rows) = {a \<in> ran (\<lambda>j. map_option sw_document (db_assertions d j)). va_subject a = sub}"
    and "distinct (map sw_document rows)"
proof -
  have fin: "finite {row \<in> ran (db_assertions d). sw_subject row = sub}" using assms(2) by (simp add: finite_ran)
  have m: "\<And>j row. db_assertions d j = Some row \<Longrightarrow>
      sw_assertion_id row = j \<and> va_assertion_id (sw_document row) = j \<and> va_subject (sw_document row) = sw_subject row"
    using assms(1) by (simp add: rows_match_def)
  have set: "set rows = {row \<in> ran (db_assertions d). sw_subject row = sub}"
    using assms(3) fin by (metis finite_set_mset_mset_set set_mset_mset)
  have "distinct rows" using assms(3) fin
    by (metis card_distinct set size_mset size_mset_set)
  moreover have "inj_on sw_document (set rows)"
  proof (rule inj_onI)
    fix x y assume a: "x \<in> set rows" "y \<in> set rows" "sw_document x = sw_document y"
    then obtain i j where "db_assertions d i = Some x" "db_assertions d j = Some y" unfolding set by (auto simp: ran_def)
    with m a(3) show "x = y" by (metis option.inject)
  qed
  ultimately show "distinct (map sw_document rows)" by (simp add: distinct_map)
  show "set (map sw_document rows) = {a \<in> ran (\<lambda>j. map_option sw_document (db_assertions d j)). va_subject a = sub}"
    unfolding list.set_map set using m by (fastforce simp: ran_def)
qed

lemmas supabase_defs = SupabaseStore_def supabase_getAgent_def supabase_putAgent_def supabase_createAgent_def supabase_getKey_def
  supabase_putKey_def supabase_getAssertion_def supabase_putAssertion_def supabase_listAssertionsForSubject_def
  supabase_appendEvent_def supabase_listEvents_def

context postgres begin

lemma store_getAgent:
  "good s \<Longrightarrow> reads (\<lambda>s. supabase_view E (db s)) (supabase_getAgent E C i) s (\<lambda>x. x = vw_agents (supabase_view E (db s)) i)"
  unfolding supabase_getAgent_def by (rule reads_or_throw(1) [OF agents_select]) (simp_all add: supabase_view_def)

lemma store_listAssertions:
  assumes "good s" "rows_match (db s)"
  shows "reads (\<lambda>s. supabase_view E (db s)) (supabase_listAssertionsForSubject C sub) s
    (\<lambda>xs. set xs = {a \<in> ran (vw_assertions (supabase_view E (db s))). va_subject a = sub} \<and> distinct xs)"
  unfolding supabase_listAssertionsForSubject_def
proof (rule reads_or_throw(1) [OF assertions_by_subject [OF assms(1)]], goal_cases)
  case (1 x)
  then obtain rows where r: "mset_set {row \<in> ran (db_assertions (db s)). sw_subject row = sub} = mset rows"
    "case x of None \<Rightarrow> rows = [] | Some docs \<Rightarrow> docs = map sw_document rows" by blast
  then have "(case x of None \<Rightarrow> [] | Some docs \<Rightarrow> docs) = map sw_document rows" by (simp split: option.splits)
  with rows_distinct_documents [OF assms(2) finite_assertions [OF assms(1)] r(1)] show ?case
    by (simp add: supabase_view_def)
qed

lemma store_listEvents:
  "good s \<Longrightarrow> reads (\<lambda>s. supabase_view E (db s)) (supabase_listEvents E C i) s
    (\<lambda>xs. mset xs = mset (filter (\<lambda>e. le_agent_id e = i) (vw_events (supabase_view E (db s)))))"
  unfolding supabase_listEvents_def toLedgerEvent_def [symmetric]
proof (rule reads_or_throw(1) [OF events_by_agent], assumption, goal_cases)
  case (1 x)
  have f: "filter (\<lambda>e. le_agent_id e = i) (map (toLedgerEvent E) evs) = map (toLedgerEvent E) (filter (\<lambda>r. ew_agent_id r = i) evs)" for evs
    by (induction evs) (simp_all add: toLedgerEvent_def)
  from 1(2) show ?case by (simp only: supabase_view_def registry_view.select_convs f mset_map)
qed

lemma store_createAgent:
  assumes "good s" "rows_match (db s)"
  shows "writes (rows_good good db) (\<lambda>s. supabase_view E (db s)) (supabase_createAgent C r) s
      (\<lambda>v w. if vw_agents v (ar_agent_id r) \<noteq> None then w = v else agent_written r v w)"
    and "fst (supabase_createAgent C r s) = Inr b \<Longrightarrow> b = (vw_agents (supabase_view E (db s)) (ar_agent_id r) = None)"
proof -
  have id: "aw_agent_id (agentRow r) = ar_agent_id r" by (simp add: agentRow_def)
  have none: "vw_agents (supabase_view E (db s)) i = map_option (toAgentRecord E) (db_agents (db s) i)" for i
    by (simp add: supabase_view_def)
  obtain x t where x: "agents_insert C (agentRow r) s = (x, t)" by (cases "agents_insert C (agentRow r) s") blast
  note w = agents_insert [OF assms(1), of "agentRow r"] and u = agents_insert_unique [OF assms(1), of "agentRow r"]
    and v = agents_insert_violation [OF assms(1), of "agentRow r"]
  have t: "good t" using w x by (simp add: pg_writes_def)
  have rg: "rows_good good db s" using assms by (simp add: rows_good_def)
  note steps = agent_row_good [where E = E, OF t rg] same_rows_good [where E = E, OF t rg]
  show "writes (rows_good good db) (\<lambda>s. supabase_view E (db s)) (supabase_createAgent C r) s
      (\<lambda>v w. if vw_agents v (ar_agent_id r) \<noteq> None then w = v else agent_written r v w)"
    using w u v x steps
    by (auto simp: writes_def pg_writes_def supabase_createAgent_def io_bind_def id none split: sum.splits option.splits if_splits)
  show "fst (supabase_createAgent C r s) = Inr b \<Longrightarrow> b = (vw_agents (supabase_view E (db s)) (ar_agent_id r) = None)"
    using u v x by (auto simp: supabase_createAgent_def io_bind_def id none split: sum.splits option.splits if_splits)
qed

end


lemma supabase_contract:
  "postgres C good db \<Longrightarrow> registry (SupabaseStore E C) (rows_good good db) (\<lambda>s. supabase_view E (db s))"
proof (unfold_locales, goal_cases)
  case (1 s a)
  then show ?case unfolding SupabaseStore_def registry_store.select_convs rows_good_def by (blast intro: postgres.store_getAgent)
next
  case (2 s k)
  then show ?case unfolding SupabaseStore_def registry_store.select_convs supabase_getKey_def rows_good_def
    by (intro reads_or_throw(2) [OF postgres.keys_select [where good = good]]) (auto simp: supabase_view_def)
next
  case (3 s i)
  then show ?case unfolding SupabaseStore_def registry_store.select_convs supabase_getAssertion_def rows_good_def
    by (intro reads_or_throw(2) [OF postgres.assertions_select [where good = good]]) (auto simp: supabase_view_def)
next
  case (4 s sub)
  then show ?case unfolding SupabaseStore_def registry_store.select_convs rows_good_def by (blast intro: postgres.store_listAssertions)
next
  case (5 s a)
  then show ?case unfolding SupabaseStore_def registry_store.select_convs rows_good_def by (blast intro: postgres.store_listEvents)
next
  case (6 s r)
  show ?case unfolding SupabaseStore_def registry_store.select_convs supabase_putAgent_def
    using 6 by (intro writes_done [OF postgres.agents_upsert [OF 6(1)]]) (auto simp: rows_good_def dest: agent_row_written [where E = E])
next
  case (7 s r)
  then show ?case unfolding SupabaseStore_def registry_store.select_convs rows_good_def [of good db s]
    by (elim conjE) (rule postgres.store_createAgent(1))
next
  case (8 s r b)
  then show ?case unfolding SupabaseStore_def registry_store.select_convs rows_good_def 
    by (metis postgres.store_createAgent(2))
next
  case (9 s kd)
  show ?case unfolding SupabaseStore_def registry_store.select_convs supabase_putKey_def
    using 9 by (intro writes_done [OF postgres.keys_upsert [OF 9(1)]])
      (auto simp: rows_good_def rows_match_def key_written_def supabase_view_def KeyDocument_plain split: if_splits)
next
  case (10 s as)
  show ?case unfolding SupabaseStore_def registry_store.select_convs supabase_putAssertion_def
    using 10 by (intro writes_done [OF postgres.assertions_upsert [OF 10(1)]])
      (auto simp: rows_good_def rows_match_def assertion_written_def supabase_view_def split: if_splits)
next
  case (11 s ev)
  show ?case unfolding SupabaseStore_def registry_store.select_convs supabase_appendEvent_def
    using 11 by (intro writes_done [OF postgres.events_insert [OF 11(1)]])
      (auto simp: rows_good_def rows_match_def event_written_def supabase_view_def dest: same_event_row_record)
next
  case (12 s k d)
  then show ?case by (simp add: rows_good_def rows_match_def supabase_view_def)
next
  case (13 s i as)
  then show ?case by (auto simp: rows_good_def rows_match_def supabase_view_def)
qed

subsection \<open>A database\<close>

text \<open>
  A concrete client with the behaviour Postgres documents: \<open>jsonb\<close> orders members by the length of
  the name and then by the name, \<open>timestamptz\<close> comes back with a numeric offset, an insert under a taken
  primary key reports \<open>23505\<close>.
\<close>

record pg_tables =
  pt_agents :: "jstr \<Rightarrow> agent_row option"
  pt_keys :: "jstr \<Rightarrow> jsval option"
  pt_assertions :: "(jstr \<times> assertion_row) list"
  pt_events :: "event_row list"

definition empty_tables :: pg_tables where
  "empty_tables = \<lparr>pt_agents = (\<lambda>i. None), pt_keys = (\<lambda>i. None), pt_assertions = [], pt_events = []\<rparr>"

definition tables_db :: "pg_tables \<Rightarrow> database" where
  "tables_db t = \<lparr>db_agents = pt_agents t, db_keys = pt_keys t, db_assertions = map_of (pt_assertions t), db_events = pt_events t\<rparr>"

fun jsonb :: "jsval \<Rightarrow> jsval" where
  "jsonb (JArr vs) = JArr (map jsonb vs)"
| "jsonb (JObj ms) = JObj (sort_key (\<lambda>m. length (fst m)) (sort_key fst (map (\<lambda>(k, v). (k, jsonb v)) ms)))"
| "jsonb v = v"

definition timestamptz :: "jstr \<Rightarrow> jstr" where
  "timestamptz t = (if t \<noteq> [] \<and> [last t] = js ''Z'' then butlast t @ js ''+00:00'' else t)"

definition pg_select :: "('s \<Rightarrow> 'a) \<Rightarrow> ('s, pg_error + 'a) io" where
  "pg_select f t = (Inr (Inr (f t)), t)"

definition pg_update :: "('s \<Rightarrow> 's) \<Rightarrow> ('s, pg_error option) io" where
  "pg_update f t = (Inr None, f t)"

definition store_agent :: "agent_row \<Rightarrow> pg_tables \<Rightarrow> pg_tables" where
  "store_agent row t = t\<lparr>pt_agents := (pt_agents t)(aw_agent_id row \<mapsto>
     row\<lparr>aw_registered_at := timestamptz (aw_registered_at row), aw_updated_at := timestamptz (aw_updated_at row)\<rparr>)\<rparr>"

definition reference_pg :: "pg_tables pg_client" where
  "reference_pg = \<lparr>
     agents_select = (\<lambda>i. pg_select (\<lambda>t. pt_agents t i)),
     agents_upsert = (\<lambda>row. pg_update (store_agent row)),
     agents_insert = (\<lambda>row t. if pt_agents t (aw_agent_id row) \<noteq> None
       then (Inr (Some \<lparr>pg_code = PG_UNIQUE_VIOLATION, pg_message = js ''duplicate key''\<rparr>), t) else pg_update (store_agent row) t),
     keys_select = (\<lambda>k. pg_select (\<lambda>t. pt_keys t k)),
     keys_upsert = (\<lambda>row. pg_update (\<lambda>t. t\<lparr>pt_keys := (pt_keys t)(kw_key_id row \<mapsto> jsonb (kw_document row))\<rparr>)),
     assertions_select = (\<lambda>j. pg_select (\<lambda>t. map_option sw_document (map_of (pt_assertions t) j))),
     assertions_upsert = (\<lambda>row. pg_update (\<lambda>t. t\<lparr>pt_assertions := AList.update (sw_assertion_id row)
       (row\<lparr>sw_verified_at := timestamptz (sw_verified_at row)\<rparr>) (pt_assertions t)\<rparr>)),
     assertions_by_subject = (\<lambda>sub. pg_select (\<lambda>t. Some (map sw_document
       (filter (\<lambda>r. sw_subject r = sub) (map snd (pt_assertions t)))))),
     events_insert = (\<lambda>row. pg_update (\<lambda>t. t\<lparr>pt_events := pt_events t @ [row\<lparr>ew_occurred_at := timestamptz (ew_occurred_at row)\<rparr>]\<rparr>)),
     events_by_agent = (\<lambda>i. pg_select (\<lambda>t. Some (filter (\<lambda>r. ew_agent_id r = i) (pt_events t))))\<rparr>"

definition tables_good :: "pg_tables \<Rightarrow> bool" where
  "tables_good t \<longleftrightarrow> distinct (map fst (pt_assertions t)) \<and> (\<forall>(i, r) \<in> set (pt_assertions t). sw_assertion_id r = i)"

lemma jsonb_sorted: "jsonb (JObj ms) = JObj ns \<Longrightarrow> sorted (map (\<lambda>m. length (fst m)) ns)"
  by auto

lemma jsonb_plain: "plain v \<Longrightarrow> same_json (jsonb v) v \<and> plain (jsonb v)"
proof (induction v)
  case (JArr vs)
  then show ?case by (simp add: same_json_arrays list_all2_conv_all_nth list_all_length)
next
  case (JObj ms)
  let ?ns = "map (\<lambda>(k, v). (k, jsonb v)) ms" and ?s = "\<lambda>xs :: (jstr \<times> jsval) list. sort_key (\<lambda>m. length (fst m)) (sort_key fst xs)"
  have v: "same_json (jsonb v) v \<and> plain (jsonb v)" if "(k, v) \<in> set ms" for k v
    using JObj that by (fastforce simp: list_all_iff)
  have fst_ns: "map fst ?ns = map fst ms" by (induction ms) auto
  have m: "mset (?s ?ns) = mset ?ns" by simp
  have d: "distinct (map fst ?ns)" "distinct (map fst ms)" using JObj(2) by (simp_all only: fst_ns plain.simps)
  have "mset (map fst (?s ?ns)) = mset (map fst ?ns)" by (simp only: mset_map m)
  then have ds: "distinct (map fst (?s ?ns))" using d(1) by (rule mset_eq_imp_distinct_iff [THEN iffD2])
  have "jnorm (JObj (?s ?ns)) = jnorm (JObj ?ns)"
    using same_json_permuted [OF m ds] by (simp only: same_json_def)
  also have "\<dots> = jnorm (JObj ms)"
    using v by (auto simp: same_json_def intro!: arg_cong [of _ _ "sort_key fst"])
  finally have "same_json (jsonb (JObj ms)) (JObj ms)" by (simp add: same_json_def)
  moreover have "plain (jsonb (JObj ms))" using ds v by (auto simp: list_all_iff)
  ultimately show ?case by blast
qed (simp_all add: same_json_def)

lemmas reference_pg_defs = reference_pg_def pg_select_def pg_update_def pg_reads_def pg_writes_def tables_db_def

lemma stored_agent:
  "agent_row_stored r (tables_db t) (tables_db (store_agent r t)) \<and> (tables_good t \<longrightarrow> tables_good (store_agent r t))"
  by (auto simp: agent_row_stored_def store_agent_def tables_db_def same_agent_row_def tables_good_def
      intro!: exI [of _ "r\<lparr>aw_registered_at := timestamptz (aw_registered_at r), aw_updated_at := timestamptz (aw_updated_at r)\<rparr>"])

lemma tables_assertions:
  assumes "tables_good t"
  shows "distinct (map snd (pt_assertions t))" "ran (map_of (pt_assertions t)) = set (map snd (pt_assertions t))"
proof -
  have d: "distinct (map fst (pt_assertions t))" using assms by (simp add: tables_good_def)
  have "map sw_assertion_id (map snd (pt_assertions t)) = map fst (pt_assertions t)"
    using assms by (auto simp: tables_good_def)
  with d show "distinct (map snd (pt_assertions t))" by (metis distinct_map)
  show "ran (map_of (pt_assertions t)) = set (map snd (pt_assertions t))" using d by (simp add: ran_distinct)
qed

lemma tables_good_update:
  assumes "tables_good t" "sw_assertion_id r = i"
  shows "tables_good (t\<lparr>pt_assertions := AList.update i r (pt_assertions t)\<rparr>)"
proof -
  let ?al = "AList.update i r (pt_assertions t)"
  have d: "distinct (map fst ?al)" using assms by (simp add: tables_good_def distinct_update)
  have "sw_assertion_id b = j" if "(j, b) \<in> set ?al" for j b
  proof -
    from d that have "map_of ?al j = Some b" by simp
    then show ?thesis using assms by (auto simp: update_conv' tables_good_def split: if_splits dest!: map_of_SomeD)
  qed
  with d show ?thesis by (auto simp: tables_good_def)
qed

lemma reference_postgres: "postgres reference_pg tables_good tables_db"
proof (unfold_locales, goal_cases)
  case (2 s w)
  then show ?case using stored_agent [of w s] by (simp add: reference_pg_def pg_update_def pg_writes_def)
next
  case (3 s w)
  have db: "db_agents (tables_db s) = pt_agents s" by (simp add: tables_db_def)
  show ?case using 3 stored_agent [of w s] by (simp add: reference_pg_def pg_update_def pg_writes_def db)
next
  case (7 s w)
  then show ?case using jsonb_plain [of "kw_document w"]
    by (auto simp: reference_pg_defs tables_good_def intro!: exI [of _ "jsonb (kw_document w)"])
next
  case (9 s v)
  show ?case using tables_good_update [OF 9, of "v\<lparr>sw_verified_at := timestamptz (sw_verified_at v)\<rparr>" "sw_assertion_id v"]
    by (auto simp: reference_pg_defs update_conv' intro!: exI [of _ "timestamptz (sw_verified_at v)"])
next
  case (10 s sub)
  let ?rows = "filter (\<lambda>r. sw_subject r = sub) (map snd (pt_assertions s))"
  have "{row \<in> ran (map_of (pt_assertions s)). sw_subject row = sub} = set ?rows"
    by (auto simp: tables_assertions(2) [OF 10])
  moreover have "mset_set (set ?rows) = mset ?rows"
    by (intro mset_set_set distinct_filter tables_assertions(1) [OF 10])
  ultimately show ?case by (auto simp: reference_pg_defs intro!: exI [of _ ?rows])
next
  case (11 s e)
  then show ?case
    by (auto simp: reference_pg_defs tables_good_def same_event_row_def intro!: exI [of _ "e\<lparr>ew_occurred_at := timestamptz (ew_occurred_at e)\<rparr>"])
next
  case (13 s)
  then show ?case by (simp add: tables_db_def finite_dom_map_of)
qed (auto simp: reference_pg_defs split: if_splits)

interpretation reference_db: postgres reference_pg tables_good tables_db
  by (rule reference_postgres)

text \<open>C25: \<open>SupabaseStore\<close> refines the registry interface: over any client with Postgres' documented behaviour
  (\<open>postgres\<close>), its ten operations keep the contract \<open>registry\<close>, the one \<open>MemoryStore\<close> keeps and every theorem on
  the registry rests on, with the tables as its state and the abstraction \<open>supabase_view\<close>.\<close>

theorem supabase_refines_registry:
  "postgres C good db \<Longrightarrow> registry (SupabaseStore E C) (rows_good good db) (\<lambda>s. supabase_view E (db s))"
  by (rule supabase_contract)

theorem supabase_refines_registry_witness:
  "registry (SupabaseStore reference_platform reference_pg) (rows_good tables_good tables_db) (\<lambda>s. supabase_view reference_platform (tables_db s))
   \<and> rows_good tables_good tables_db empty_tables"
  using supabase_refines_registry [where E = reference_platform, OF reference_postgres]
  by (simp add: rows_good_def rows_match_def tables_good_def tables_db_def empty_tables_def)

lemma jsonb_moves_members: "jsonb (KeyDocument_obj k) \<noteq> KeyDocument_obj k"
proof
  assume "jsonb (KeyDocument_obj k) = KeyDocument_obj k"
  then have "sorted (map (\<lambda>m. length (fst m)) (case KeyDocument_obj k of JObj ms \<Rightarrow> ms | _ \<Rightarrow> []))"
    unfolding KeyDocument_obj_def jsval.case by (rule jsonb_sorted)
  then show False by (simp add: KeyDocument_obj_def js_def)
qed



text \<open>C26: Whether the durable registry takes a key document it already holds for a different one depends on the order in
  which Postgres returns its members.  Publishing the identical document again conflicts exactly when the stored
  \<open>jsonb\<close> has another order; \<open>jsonb\<close>'s documented order is another one for every key document; and the in-process
  store, holding the same document, reports no conflict.\<close>

theorem republished_key_conflicts:
  assumes "postgres C good db" "good s" "rows_match (db s)" "db_keys (db s) (kd_key_id k) = Some d"
    and "keys_select C (kd_key_id k) s = (Inr (Inr found), s')" "ms_keys m (kd_key_id k) = Some k"
  shows "key_conflict (SupabaseStore E C) k s = (Inr (d \<noteq> KeyDocument_obj k), s)
    \<and> jsonb (KeyDocument_obj k) \<noteq> KeyDocument_obj k
    \<and> key_conflict (MemoryStore le) k m = (Inr False, m)"
proof -
  have "pg_reads db (keys_select C (kd_key_id k)) s (\<lambda>x. x = db_keys (db s) (kd_key_id k))"
    using postgres.keys_select [OF assms(1,2)] .
  then have "keys_select C (kd_key_id k) s = (Inr (Inr (Some d)), s)" using assms(4,5) by (simp add: pg_reads_def)
  then have "getKey (SupabaseStore E C) (kd_key_id k) s = (Inr (Some d), s)"
    by (simp add: SupabaseStore_def supabase_getKey_def or_throw_def io_bind_def)
  moreover have "plain d" using assms(3,4) by (simp add: rows_match_def)
  ultimately have "key_conflict (SupabaseStore E C) k s = (Inr (d \<noteq> KeyDocument_obj k), s)"
    by (simp add: key_conflict_def io_bind_def json_text_inject KeyDocument_plain)
  moreover have "key_conflict (MemoryStore le) k m = (Inr False, m)" using assms(6) by (simp add: memory_key_conflict)
  ultimately show ?thesis using jsonb_moves_members by blast
qed

definition published_tables :: pg_tables where
  "published_tables = snd (supabase_putKey reference_pg (sample_key PrincipalRole) empty_tables)"

definition published_memory :: memory_store where
  "published_memory = snd (memory_putKey (sample_key PrincipalRole) empty_memory)"

theorem republished_key_conflicts_witness:
  "key_conflict (SupabaseStore reference_platform reference_pg) (sample_key PrincipalRole) published_tables = (Inr True, published_tables)
   \<and> key_conflict (MemoryStore any_order) (sample_key PrincipalRole) published_memory = (Inr False, published_memory)"
proof -
  let ?k = "sample_key PrincipalRole"
  have t: "published_tables = empty_tables\<lparr>pt_keys := [kd_key_id ?k \<mapsto> jsonb (KeyDocument_obj ?k)]\<rparr>"
    by (simp add: published_tables_def supabase_putKey_def done_or_throw_def io_bind_def reference_pg_defs empty_tables_def)
  have m: "ms_keys published_memory (kd_key_id ?k) = Some ?k"
    by (simp add: published_memory_def memory_putKey_def)
  have r: "rows_match (tables_db published_tables)"
    using jsonb_plain [OF KeyDocument_plain [of ?k]] by (simp add: t rows_match_def tables_db_def empty_tables_def)
  have d: "db_keys (tables_db published_tables) (kd_key_id ?k) = Some (jsonb (KeyDocument_obj ?k))"
    by (simp add: t tables_db_def)
  have s: "keys_select reference_pg (kd_key_id ?k) published_tables = (Inr (Inr (Some (jsonb (KeyDocument_obj ?k)))), published_tables)"
    by (simp add: t reference_pg_defs)
  have g: "tables_good published_tables" by (simp add: t tables_good_def empty_tables_def)
  show ?thesis
    using republished_key_conflicts [where E = reference_platform and le = any_order, OF reference_postgres g r d s m] by simp
qed

end
