(* ===== verification/Directory.thy ===== *)
theory Directory
  imports Web_Routes Supabase_Store
begin

section \<open>The public directory\<close>

text \<open>
  \<open>packages/web/lib/directory.ts\<close> and its route \<open>app/api/v1/directory\<close>: an operator lists or delists an agent with a
  consent signed by the agent's operator key.  The state is that of the registry store beside that of the
  directory store; the instant of the registry's clock is an argument.  What is proved: a consent that was
  applied is refused ever after, in any sequence of consents under any clocks; the operator can delist; and
  two consents whose store operations interleave can leave the older one.
\<close>

subsection \<open>The directory store\<close>

record directory_consent =
  dc_agent_id :: jstr
  dc_key_id :: jstr
  dc_listed :: bool
  dc_created_at :: jstr
  dc_signature :: jstr

record directory_record =
  dr_agent_id :: jstr
  dr_listed :: bool
  dr_consent :: jsval
  dr_consent_created_at :: jstr
  dr_updated_at :: jstr

record 'd directory_store =
  ds_get :: "jstr \<Rightarrow> ('d, directory_record option) io"
  ds_put :: "directory_record \<Rightarrow> ('d, unit) io"
  ds_listListed :: "nat \<Rightarrow> ('d, directory_record list) io"

definition CONSENT_WINDOW_MS :: int where
  "CONSENT_WINDOW_MS = 5 * 60 * 1000"

definition DIRECTORY_PAGE_MAX :: nat where
  "DIRECTORY_PAGE_MAX = 200"

text \<open>A \<open>Map\<close> of records, in insertion order; \<open>le\<close> is \<open>localeCompare\<close>, not positive.\<close>

type_synonym directory_rows = "(jstr \<times> directory_record) list"

definition MemoryDirectoryStore :: "(jstr \<Rightarrow> jstr \<Rightarrow> bool) \<Rightarrow> directory_rows directory_store" where
  "MemoryDirectoryStore le = \<lparr>ds_get = (\<lambda>agentId rows. (Inr (map_of rows agentId), rows)),
     ds_put = (\<lambda>r rows. (Inr (), AList.update (dr_agent_id r) r rows)),
     ds_listListed = (\<lambda>limit rows. (Inr (take limit (sort_by (\<lambda>a b. le (dr_updated_at b) (dr_updated_at a))
       (filter dr_listed (map snd rows)))), rows))\<rparr>"

text \<open>\<open>new Date(t).toISOString()\<close> throws on an invalid date.\<close>

definition toZ :: "('r runtime_scheme) \<Rightarrow> jstr \<Rightarrow> exn + jstr" where
  "toZ E t = (case Date_parse E t of None \<Rightarrow> Inl RangeError | Some ms \<Rightarrow> Inr (iso_string ms))"

text \<open>The durable one: three queries of a client, and rows whose instants may be respelled.\<close>

record 'd listings_client =
  listings_select :: "jstr \<Rightarrow> ('d, pg_error + directory_record option) io"
  listings_upsert :: "directory_record \<Rightarrow> ('d, pg_error option) io"
  listings_listed :: "nat \<Rightarrow> ('d, pg_error + directory_record list option) io"

definition directory_row :: "platform \<Rightarrow> directory_record \<Rightarrow> exn + directory_record" where
  "directory_row E r = rbind (toZ E (dr_consent_created_at r)) (\<lambda>c. rbind (toZ E (dr_updated_at r)) (\<lambda>u.
     Inr (r\<lparr>dr_consent_created_at := c, dr_updated_at := u\<rparr>)))"

definition directory_read_failed :: "pg_error \<Rightarrow> exn" where
  "directory_read_failed e = StoreError (js ''directory read failed: '' @ pg_message e)"

fun directory_rows_of :: "platform \<Rightarrow> directory_record list \<Rightarrow> exn + directory_record list" where
  "directory_rows_of E [] = Inr []"
| "directory_rows_of E (r # rs) = rbind (directory_row E r) (\<lambda>x. rbind (directory_rows_of E rs) (\<lambda>xs. Inr (x # xs)))"

definition io_result :: "exn + 'a \<Rightarrow> ('s, 'a) io" where
  "io_result r s = (r, s)"

definition SupabaseDirectoryStore :: "platform \<Rightarrow> 'd listings_client \<Rightarrow> 'd directory_store" where
  "SupabaseDirectoryStore E C = \<lparr>
     ds_get = (\<lambda>agentId. io_bind (listings_select C agentId) (\<lambda>r. case r of
        Inl e \<Rightarrow> io_throw (directory_read_failed e)
      | Inr None \<Rightarrow> io_return None
      | Inr (Some x) \<Rightarrow> io_result (map_sum id Some (directory_row E x)))),
     ds_put = (\<lambda>record. io_bind (listings_upsert C record) (\<lambda>r. case r of
        Some e \<Rightarrow> io_throw (StoreError (js ''directory write failed: '' @ pg_message e))
      | None \<Rightarrow> io_return ())),
     ds_listListed = (\<lambda>limit. io_bind (listings_listed C limit) (\<lambda>r. case r of
        Inl e \<Rightarrow> io_throw (directory_read_failed e)
      | Inr xs \<Rightarrow> io_result (directory_rows_of E (case xs of None \<Rightarrow> [] | Some ys \<Rightarrow> ys))))\<rparr>"

subsection \<open>Parsing a consent\<close>

definition DIRECTORY_CONSENT_TYPE :: jstr where
  "DIRECTORY_CONSENT_TYPE = js ''agenid.directory.consent.v1''"

definition CONSENT_MEMBERS :: "jstr list" where
  "CONSENT_MEMBERS = map js [''type'', ''agent_id'', ''key_id'', ''listed'', ''created_at'', ''signature'']"

definition quoted :: "jstr \<Rightarrow> jstr" where
  "quoted s = js [CHR 0x22] @ s @ js [CHR 0x22]"

definition text_member :: "string \<Rightarrow> jsval \<Rightarrow> jstr option" where
  "text_member k v = (case get_member (js k) v of JStr s \<Rightarrow> Some s | _ \<Rightarrow> None)"

text \<open>\<open>typeof o.k !== "string" || !check(o.k)\<close> is a refusal.\<close>

definition checked_text :: "string \<Rightarrow> (jstr \<Rightarrow> bool) \<Rightarrow> jsval \<Rightarrow> string \<Rightarrow> jstr + jstr" where
  "checked_text k check v message = (case text_member k v of None \<Rightarrow> Inl (js message)
     | Some s \<Rightarrow> if check s then Inr s else Inl (js message))"

definition parseConsent :: "('r runtime_scheme) \<Rightarrow> jsval \<Rightarrow> jstr + directory_consent" where
  "parseConsent E body =
     (case body of
        JObj ms \<Rightarrow>
          (case filter (\<lambda>k. k \<notin> set CONSENT_MEMBERS) (object_keys body) of
             k # ks \<Rightarrow> Inl (js ''unknown member: '' @ take 40 k)
           | [] \<Rightarrow>
             if get_member (js ''type'') body \<noteq> JStr DIRECTORY_CONSENT_TYPE
             then Inl (js ''type must be '' @ quoted DIRECTORY_CONSENT_TYPE)
             else
               rbind (checked_text ''agent_id'' isValidAgentId body ''agent_id must be agenid:<ULID>'') (\<lambda>agentId.
               rbind (checked_text ''key_id'' isValidKeyId body ''key_id must be agenid:key:<ULID>'') (\<lambda>keyId.
               case get_member (js ''listed'') body of
                 JBool listed \<Rightarrow>
                   rbind (checked_text ''created_at'' (Rfc3339Utc E) body ''created_at must be an RFC 3339 UTC timestamp'') (\<lambda>createdAt.
                   rbind (checked_text ''signature'' (\<lambda>s. s \<noteq> [] \<and> list_all is_base64url s \<and> length s \<le> 200) body
                     ''signature must be base64url'') (\<lambda>signature.
                   Inr \<lparr>dc_agent_id = agentId, dc_key_id = keyId, dc_listed = listed, dc_created_at = createdAt, dc_signature = signature\<rparr>))
               | _ \<Rightarrow> Inl (js ''listed must be a boolean''))))
      | _ \<Rightarrow> Inl (js ''body must be a JSON object''))"

subsection \<open>Applying a consent\<close>

datatype consent_result = ConsentApplied directory_record | ConsentFail nat jstr jstr

definition consent_fail :: "nat \<Rightarrow> string \<Rightarrow> string \<Rightarrow> consent_result" where
  "consent_fail status error message = ConsentFail status (js error) (js message)"

definition on_registry :: "('s, 'a) io \<Rightarrow> ('s \<times> 'd, 'a) io" where
  "on_registry m s = (case m (fst s) of (r, t) \<Rightarrow> (r, (t, snd s)))"

definition on_directory :: "('d, 'a) io \<Rightarrow> ('s \<times> 'd, 'a) io" where
  "on_directory m s = (case m (snd s) of (r, t) \<Rightarrow> (r, (fst s, t)))"

text \<open>\<open>try\<close>: the value, or nothing when it throws.\<close>

definition io_try :: "('s, 'a) io \<Rightarrow> ('s, 'a option) io" where
  "io_try m = io_catch (io_bind m (\<lambda>x. io_return (Some x))) (\<lambda>e. io_return None)"

definition registry_unreadable :: "string \<Rightarrow> consent_result" where
  "registry_unreadable message = consent_fail 503 ''registry_unavailable'' message"

text \<open>The agent and, when there is one, its key.\<close>

definition consent_subject :: "'s registry_store \<Rightarrow> directory_consent \<Rightarrow> ('s, agent_record option \<times> jsval option) io" where
  "consent_subject S c =
     io_bind (getAgent S (dc_agent_id c)) (\<lambda>agent.
       case agent of None \<Rightarrow> io_return (None, None)
       | Some a \<Rightarrow> io_bind (getKey S (dc_key_id c)) (\<lambda>key. io_return (Some a, key)))"

definition consent_signature_valid :: "platform \<Rightarrow> jsval \<Rightarrow> jsval \<Rightarrow> directory_consent \<Rightarrow> bool" where
  "consent_signature_valid E key body c =
     (case text_member ''public_key_b64u'' key of None \<Rightarrow> False
      | Some public_key \<Rightarrow>
         (case signingInputOf body of Inl e \<Rightarrow> False
          | Inr b \<Rightarrow> verifyBytes E (b64uDecode public_key) b (b64uDecode (dc_signature c))))"

text \<open>What the consent must satisfy before the directory is read: the refusal, or nothing.\<close>

definition consent_refusal :: "platform \<Rightarrow> agent_record option \<times> jsval option \<Rightarrow> jsval \<Rightarrow> directory_consent \<Rightarrow> consent_result option" where
  "consent_refusal E subject body c =
     (case subject of
        (None, key) \<Rightarrow> Some (consent_fail 404 ''agent_not_found'' ''no agent is registered under this identifier'')
      | (Some agent, key) \<Rightarrow>
        if ar_status agent \<noteq> ACTIVE then Some (consent_fail 409 ''agent_not_active'' ''only an ACTIVE agent can be listed'')
        else if mp_key_id (ar_proof agent) \<noteq> dc_key_id c
        then Some (ConsentFail 403 (js ''key_not_operator'')
          (js ''key_id is not the operator key that signed this agent'' @ quote_mark @ js ''s manifest proof''))
        else (case key of
          None \<Rightarrow> Some (ConsentFail 403 (js ''key_not_operator'')
            (js ''key_id does not resolve to this agent'' @ quote_mark @ js ''s operator key''))
        | Some k \<Rightarrow>
            if get_member (js ''role'') k \<noteq> JStr (js ''operator'') \<or> get_member (js ''controller'') k \<noteq> JStr (dc_agent_id c)
            then Some (ConsentFail 403 (js ''key_not_operator'')
              (js ''key_id does not resolve to this agent'' @ quote_mark @ js ''s operator key''))
            else if get_member (js ''status'') k \<noteq> JStr (js ''active'')
            then Some (consent_fail 403 ''key_not_active'' ''the operator key is not active'')
            else if \<not> consent_signature_valid E k body c
            then Some (consent_fail 403 ''signature_invalid'' ''the signature does not verify against the operator key'')
            else None))"

definition superseded :: "platform \<Rightarrow> directory_consent \<Rightarrow> directory_record option \<Rightarrow> bool" where
  "superseded E c previous = (case previous of None \<Rightarrow> False
     | Some r \<Rightarrow> date_le (Date_parse E (dc_created_at c)) (Date_parse E (dr_consent_created_at r)))"

definition consent_expired :: "platform \<Rightarrow> int \<Rightarrow> directory_consent \<Rightarrow> bool" where
  "consent_expired E now c = (case Date_parse E (dc_created_at c) of None \<Rightarrow> False | Some t \<Rightarrow> CONSENT_WINDOW_MS < \<bar>now - t\<bar>)"

definition record_of :: "directory_consent \<Rightarrow> jsval \<Rightarrow> jstr \<Rightarrow> int \<Rightarrow> directory_record" where
  "record_of c body created now = \<lparr>dr_agent_id = dc_agent_id c, dr_listed = dc_listed c, dr_consent = body,
     dr_consent_created_at = created, dr_updated_at = iso_string now\<rparr>"

text \<open>The two halves that touch the directory: reading the previous consent, writing the new one.\<close>

definition directory_previous :: "'d directory_store \<Rightarrow> jstr \<Rightarrow> ('s \<times> 'd, directory_record option option) io" where
  "directory_previous D agentId = io_try (on_directory (ds_get D agentId))"

definition record_consent :: "platform \<Rightarrow> 'd directory_store \<Rightarrow> int \<Rightarrow> jsval \<Rightarrow> directory_consent \<Rightarrow> ('s \<times> 'd, consent_result) io" where
  "record_consent E D now body c =
     io_bind (io_result (toZ E (dc_created_at c))) (\<lambda>created.
     let r = record_of c body created now in
     io_bind (io_try (on_directory (ds_put D r))) (\<lambda>written.
     io_return (case written of
         None \<Rightarrow> registry_unreadable ''the directory could not be written; nothing was changed''
       | Some u \<Rightarrow> ConsentApplied r)))"

definition applyDirectoryConsent ::
  "platform \<Rightarrow> 's registry_store \<Rightarrow> 'd directory_store \<Rightarrow> int \<Rightarrow> jsval \<Rightarrow> ('s \<times> 'd, consent_result) io" where
  "applyDirectoryConsent E S D now body =
     (case parseConsent E body of
        Inl message \<Rightarrow> io_return (ConsentFail 400 (js ''invalid_consent'') message)
      | Inr c \<Rightarrow>
        if consent_expired E now c
        then io_return (consent_fail 400 ''consent_expired'' ''created_at must be within five minutes of the registry clock; sign a fresh consent'')
        else
          io_bind (io_try (on_registry (consent_subject S c))) (\<lambda>subject.
          case subject of
            None \<Rightarrow> io_return (registry_unreadable ''the registry could not be read; nothing was changed'')
          | Some x \<Rightarrow>
            (case consent_refusal E x body c of
               Some refused \<Rightarrow> io_return refused
             | None \<Rightarrow>
               io_bind (directory_previous D (dc_agent_id c)) (\<lambda>previous.
               case previous of
                 None \<Rightarrow> io_return (registry_unreadable ''the directory could not be read; nothing was changed'')
               | Some p \<Rightarrow>
                   if superseded E c p
                   then io_return (consent_fail 409 ''consent_superseded'' ''a newer consent is already recorded for this agent'')
                   else record_consent E D now body c))))"

subsection \<open>The route\<close>

definition DIRECTORY_DISCLOSURES :: "jstr list" where
  "DIRECTORY_DISCLOSURES =
     [js ''A listing is the operator'' @ quote_mark @ js ''s own request, signed with the agent'' @ quote_mark
        @ js ''s operator key. It is not an endorsement, a ranking or a verification.'',
      js ''Being listed changes no verification level. Each agent'' @ quote_mark @ js ''s level is read from its resolution envelope.'',
      js ''An operator can remove the listing at any time by signing a consent with listed: false.'']"

definition directory_response :: "nat \<Rightarrow> jsval \<Rightarrow> (jstr \<times> jstr) list \<Rightarrow> http_response" where
  "directory_response status body extra = json_response status body (no_store @ extra)"

definition listed_agent :: "agent_record \<Rightarrow> directory_record \<Rightarrow> jsval" where
  "listed_agent a r = JObj [(js ''agent_id'', JStr (ar_agent_id a)), (js ''name'', JStr (id_name (mf_identity (ar_manifest a)))),
     (js ''operator'', JStr (ow_operator (mf_ownership (ar_manifest a)))),
     (js ''operator_domain'', JStr (ow_operator_domain (mf_ownership (ar_manifest a)))),
     (js ''listed_at'', JStr (dr_updated_at r)), (js ''card'', JStr (js ''/a/'' @ ar_agent_id a))]"

text \<open>The loop of \<open>GET\<close>: rows without an ACTIVE agent are left out.\<close>

fun listed_agents :: "'s registry_store \<Rightarrow> directory_record list \<Rightarrow> ('s, jsval list) io" where
  "listed_agents S [] = io_return []"
| "listed_agents S (r # rs) =
     io_bind (getAgent S (dr_agent_id r)) (\<lambda>found.
     io_bind (listed_agents S rs) (\<lambda>rest. io_return
       (case found of None \<Rightarrow> rest
        | Some a \<Rightarrow> if ar_status a \<noteq> ACTIVE then rest else listed_agent a r # rest)))"

definition get_directory :: "'s registry_store \<Rightarrow> 'd directory_store \<Rightarrow> ('s \<times> 'd, http_response) io" where
  "get_directory S D =
     io_catch
       (io_bind (on_directory (ds_listListed D DIRECTORY_PAGE_MAX)) (\<lambda>rows.
        io_bind (on_registry (listed_agents S rows)) (\<lambda>agents. io_return
          (directory_response 200 (JObj [(js ''agents'', JArr agents), (js ''count'', num_of (length agents)),
             (js ''disclosures'', texts DIRECTORY_DISCLOSURES)]) []))))
       (\<lambda>e. io_return (directory_response 503 (JObj [(js ''error'', JStr (js ''registry_unavailable'')),
          (js ''message'', JStr (js ''the directory could not be read''))]) []))"

definition post_directory ::
  "platform \<Rightarrow> 'l limiter_db \<Rightarrow> 's registry_store \<Rightarrow> 'd directory_store \<Rightarrow> int \<Rightarrow> web_request
   \<Rightarrow> ('l limiter \<times> 's \<times> 'd, http_response) io" where
  "post_directory E L S D now q =
     limited E L POLICY_register q any_origin (\<lambda>rlHeaders.
       case wr_body q of
         None \<Rightarrow> io_return (json_error 400 (js ''invalid_json'') (js ''request body must be JSON'') [] (no_store @ rlHeaders))
       | Some body \<Rightarrow>
         io_bind (on_store (applyDirectoryConsent E S D now body)) (\<lambda>result. io_return
           (case result of
              ConsentFail status code message \<Rightarrow> json_error status code message [] (no_store @ rlHeaders)
            | ConsentApplied r \<Rightarrow> directory_response 200 (JObj [(js ''agent_id'', JStr (dr_agent_id r)), (js ''listed'', JBool (dr_listed r)),
                (js ''updated_at'', JStr (dr_updated_at r)),
                (js ''links'', JObj [(js ''directory'', JStr (js ''/agents'')), (js ''card'', JStr (js ''/a/'' @ dr_agent_id r))]),
                (js ''disclosures'', texts DIRECTORY_DISCLOSURES)]) rlHeaders)))"

definition options_directory :: http_response where
  "options_directory = \<lparr>hr_status = 204, hr_headers = JSON_CORS @ no_store @
     [(js ''access-control-allow-methods'', js ''GET, POST, OPTIONS''), (js ''access-control-allow-headers'', js ''content-type'')], hr_body = None\<rparr>"

subsection \<open>What a directory store promises\<close>

text \<open>For each agent the instant of the recorded consent, and whether it lists the agent.\<close>

type_synonym directory_view = "jstr \<Rightarrow> (int \<times> bool) option"

definition shows_record :: "platform \<Rightarrow> directory_record \<Rightarrow> (int \<times> bool) \<Rightarrow> bool" where
  "shows_record E r x \<longleftrightarrow> Date_parse E (dr_consent_created_at r) = Some (fst x) \<and> dr_listed r = snd x"

locale directory =
  fixes E :: platform and D :: "'d directory_store" and good :: "'d \<Rightarrow> bool" and view :: "'d \<Rightarrow> directory_view"
  assumes get: "good d \<Longrightarrow> snd (ds_get D i d) = d \<and> (\<forall>x. fst (ds_get D i d) = Inr x \<longrightarrow> rel_option (shows_record E) x (view d i))"
    and put: "good d \<Longrightarrow> shows_record E r x \<Longrightarrow> good (snd (ds_put D r d))
      \<and> (case fst (ds_put D r d) of
           Inl e \<Rightarrow> view (snd (ds_put D r d)) = view d \<or> view (snd (ds_put D r d)) = (view d)(dr_agent_id r \<mapsto> x)
         | Inr u \<Rightarrow> view (snd (ds_put D r d)) = (view d)(dr_agent_id r \<mapsto> x))"
    and listed: "good d \<Longrightarrow> snd (ds_listListed D n d) = d
      \<and> (\<forall>rs. fst (ds_listListed D n d) = Inr rs \<longrightarrow> length rs \<le> n
           \<and> (\<forall>r \<in> set rs. \<exists>t. view d (dr_agent_id r) = Some (t, True)))"

text \<open>A clock between five minutes after 1970 and five minutes before the year 10000.\<close>

definition clock_ok :: "int \<Rightarrow> bool" where
  "clock_ok now \<longleftrightarrow> CONSENT_WINDOW_MS \<le> now \<and> now + CONSENT_WINDOW_MS < 253402300800000"

lemma consent_instant:
  assumes "parseConsent E body = Inr c"
  obtains t where "Date_parse E (dc_created_at c) = Some t"
  using assms
  by (auto simp: parseConsent_def rbind_def checked_text_def Rfc3339Utc_def split: jsval.splits list.splits if_splits sum.splits option.splits)

lemma recorded_instant:
  assumes "Date_parse E (dc_created_at c) = Some t" "\<not> consent_expired E now c" "clock_ok now"
  shows "shows_record E (record_of c body (iso_string t) now) (t, dc_listed c)"
proof -
  have "-62167219200000 \<le> t" "t < 253402300800000"
    using assms by (auto simp: consent_expired_def clock_ok_def CONSENT_WINDOW_MS_def split: if_splits)
  from iso_roundtrip(1) [OF this] show ?thesis
    by (simp add: shows_record_def record_of_def Date_parse_def date_parse_def)
qed

text \<open>One consent against the directory: unchanged, or a strictly newer entry for its agent.\<close>

definition newer_entry :: "directory_view \<Rightarrow> directory_view \<Rightarrow> jstr \<Rightarrow> int \<Rightarrow> bool \<Rightarrow> bool" where
  "newer_entry v w i t b \<longleftrightarrow> w = v(i \<mapsto> (t, b)) \<and> (case v i of None \<Rightarrow> True | Some (t', b') \<Rightarrow> t' < t)"

lemma refusal_fails: "consent_refusal E y body c = Some x \<Longrightarrow> x \<noteq> ConsentApplied a"
  by (auto simp: consent_refusal_def consent_fail_def split: if_splits option.splits prod.splits)

context directory begin

lemma previous_read:
  assumes "good d" "directory_previous D i (s, d) = (r, (s', d'))"
  shows "s' = s \<and> d' = d \<and> (\<forall>p. r = Inr (Some p) \<longrightarrow> rel_option (shows_record E) p (view d i))"
  using get [OF assms(1), of i] assms(2)
  by (cases "ds_get D i d")
     (auto simp: directory_previous_def io_try_def io_catch_def io_bind_def on_directory_def split: sum.splits prod.splits)

lemma not_superseded_newer:
  assumes "rel_option (shows_record E) p (view d i)" "Date_parse E (dc_created_at c) = Some t"
  shows "\<not> superseded E c p \<longleftrightarrow> (case view d i of None \<Rightarrow> True | Some (t', b') \<Rightarrow> t' < t)"
  using assms by (auto simp: superseded_def shows_record_def option_rel_Some2 split: option.splits elim: option.rel_cases)

lemma record_step:
  assumes "good d" "Date_parse E (dc_created_at c) = Some t" "\<not> consent_expired E now c" "clock_ok now"
  shows "\<exists>d'. record_consent E D now body c (s, d) =
      (Inr (if \<exists>u. fst (ds_put D (record_of c body (iso_string t) now) d) = Inr u
            then ConsentApplied (record_of c body (iso_string t) now)
            else registry_unreadable ''the directory could not be written; nothing was changed''), (s, d'))
    \<and> good d' \<and> (view d' = view d \<or> view d' = (view d)(dc_agent_id c \<mapsto> (t, dc_listed c)))
    \<and> ((\<exists>u. fst (ds_put D (record_of c body (iso_string t) now) d) = Inr u) \<longrightarrow> view d' = (view d)(dc_agent_id c \<mapsto> (t, dc_listed c)))"
proof -
  let ?r = "record_of c body (iso_string t) now"
  have i: "dr_agent_id ?r = dc_agent_id c" by (simp add: record_of_def)
  show ?thesis
    using put [OF assms(1) recorded_instant [OF assms(2-4), of body]] assms(2)
    by (cases "ds_put D ?r d"; cases "fst (ds_put D ?r d)")
       (auto simp: record_consent_def io_result_def io_bind_def toZ_def Let_def io_try_def io_catch_def on_directory_def i)
qed

lemma apply_step:
  assumes "good d" "clock_ok now" "applyDirectoryConsent E S D now body (s, d) = (r, (s', d'))"
  shows "good d' \<and> (view d' = view d \<or> (\<exists>c t. parseConsent E body = Inr c \<and> Date_parse E (dc_created_at c) = Some t
      \<and> newer_entry (view d) (view d') (dc_agent_id c) t (dc_listed c)))
    \<and> (\<forall>a. r = Inr (ConsentApplied a) \<longrightarrow> (\<exists>c t. parseConsent E body = Inr c \<and> Date_parse E (dc_created_at c) = Some t
      \<and> newer_entry (view d) (view d') (dc_agent_id c) t (dc_listed c)))"
proof (cases "parseConsent E body")
  case (Inl m)
  then show ?thesis using assms by (auto simp: applyDirectoryConsent_def)
next
  case (Inr c)
  obtain t where t: "Date_parse E (dc_created_at c) = Some t" using consent_instant [OF Inr] by blast
  note run = applyDirectoryConsent_def Inr io_bind_def
  show ?thesis
  proof (cases "consent_expired E now c")
    case True
    then show ?thesis using assms by (auto simp: run consent_fail_def)
  next
    case False
    obtain x s1 where x: "io_try (on_registry (consent_subject S c)) (s, d) = (x, (s1, d))"
      by (cases "consent_subject S c s"; cases "fst (consent_subject S c s)")
         (auto simp: io_try_def io_catch_def io_bind_def on_registry_def)
    obtain p s2 d2 where p: "directory_previous D (dc_agent_id c) (s1, d) = (p, (s2, d2))"
      by (metis prod.exhaust)
    note prev = previous_read [OF assms(1) p]
    obtain d3 where d3: "record_consent E D now body c (s1, d) =
      (Inr (if \<exists>u. fst (ds_put D (record_of c body (iso_string t) now) d) = Inr u
            then ConsentApplied (record_of c body (iso_string t) now)
            else registry_unreadable ''the directory could not be written; nothing was changed''), (s1, d3))"
      "good d3" "view d3 = view d \<or> view d3 = (view d)(dc_agent_id c \<mapsto> (t, dc_listed c))"
      "(\<exists>u. fst (ds_put D (record_of c body (iso_string t) now) d) = Inr u) \<longrightarrow> view d3 = (view d)(dc_agent_id c \<mapsto> (t, dc_listed c))"
      using record_step [OF assms(1) t False assms(2), of body s1] by blast
    show ?thesis
    proof (cases "\<exists>y q. x = Inr (Some y) \<and> consent_refusal E y body c = None \<and> p = Inr (Some q) \<and> \<not> superseded E c q")
      case True
      then obtain y q where yq: "x = Inr (Some y)" "consent_refusal E y body c = None" "p = Inr (Some q)" "\<not> superseded E c q" by blast
      have "case view d (dc_agent_id c) of None \<Rightarrow> True | Some (t', b') \<Rightarrow> t' < t"
        using not_superseded_newer [OF _ t, of q d "dc_agent_id c"] prev yq(3,4) by blast
      moreover have "(r, (s', d')) = record_consent E D now body c (s1, d)"
        using assms(3) False x p prev yq by (simp add: run)
      ultimately show ?thesis using d3 Inr t
        by (auto simp: newer_entry_def registry_unreadable_def consent_fail_def split: if_splits)
    next
      case False': False
      then have "d' = d" "\<forall>a. r \<noteq> Inr (ConsentApplied a)"
        using assms(3) False x p prev refusal_fails [of E _ body c]
        by (auto simp: run registry_unreadable_def consent_fail_def split: sum.splits option.splits if_splits)
      then show ?thesis using assms(1) by blast
    qed
  qed
qed

end

fun run_consents :: "platform \<Rightarrow> 's registry_store \<Rightarrow> 'd directory_store \<Rightarrow> ('s \<times> int \<times> jsval) list \<Rightarrow> 'd \<Rightarrow> 'd" where
  "run_consents E S D [] d = d"
| "run_consents E S D ((s, now, body) # h) d = run_consents E S D h (snd (snd (applyDirectoryConsent E S D now body (s, d))))"

text \<open>An entry at least as new as \<open>t\<close>.\<close>

definition settled :: "directory_view \<Rightarrow> jstr \<Rightarrow> int \<Rightarrow> bool" where
  "settled v i t \<longleftrightarrow> (\<exists>t' b. v i = Some (t', b) \<and> t \<le> t')"

lemma newer_settled: "settled v i t \<Longrightarrow> newer_entry v w j u b \<Longrightarrow> settled w i t"
  by (auto simp: settled_def newer_entry_def split: option.splits)

context directory begin

lemma run_settled:
  assumes "good d" "settled (view d) i t" "list_all (\<lambda>(s, now, b). clock_ok now) h"
  shows "good (run_consents E S D h d) \<and> settled (view (run_consents E S D h d)) i t"
  using assms
proof (induction h arbitrary: d)
  case (Cons x h)
  obtain s now body where x: "x = (s, now, body)" by (cases x)
  obtain r s' d' where a: "applyDirectoryConsent E S D now body (s, d) = (r, (s', d'))" by (metis prod.exhaust)
  have now: "clock_ok now" "list_all (\<lambda>(s, now, b). clock_ok now) h" using Cons.prems(3) x by simp_all
  have "good d'" "settled (view d') i t"
    using apply_step [OF Cons.prems(1) now(1) a] newer_settled Cons.prems(2) by metis+
  with Cons.IH [OF _ _ now(2)] a x show ?case by simp
qed simp

lemma settled_refuses:
  assumes "good d" "settled (view d) (dc_agent_id c) t" "clock_ok now"
    and "parseConsent E body = Inr c" "Date_parse E (dc_created_at c) = Some t"
    and "applyDirectoryConsent E S D now body (s, d) = (r, (s', d'))"
  shows "view d' = view d \<and> (\<forall>a. r \<noteq> Inr (ConsentApplied a))"
proof -
  have "\<not> newer_entry (view d) w (dc_agent_id c) t b" for w b
    using assms(2) by (auto simp: settled_def newer_entry_def)
  then show ?thesis using apply_step [OF assms(1,3,6)] assms(4,5) by auto
qed

lemma applied_settled:
  assumes "good d" "clock_ok now" "applyDirectoryConsent E S D now body (s, d) = (Inr (ConsentApplied a), (s', d'))"
    and "parseConsent E body = Inr c" "Date_parse E (dc_created_at c) = Some t"
  shows "good d' \<and> view d' (dc_agent_id c) = Some (t, dc_listed c)"
  using apply_step [OF assms(1,2,3)] assms(4,5) by (auto simp: newer_entry_def)

end

subsection \<open>MemoryDirectoryStore keeps it\<close>

definition directory_good :: "platform \<Rightarrow> directory_rows \<Rightarrow> bool" where
  "directory_good E rows \<longleftrightarrow> distinct (map fst rows)
     \<and> (\<forall>(i, r) \<in> set rows. dr_agent_id r = i \<and> Date_parse E (dr_consent_created_at r) \<noteq> None)"

definition directory_view :: "platform \<Rightarrow> directory_rows \<Rightarrow> directory_view" where
  "directory_view E rows i = map_option (\<lambda>r. (the (Date_parse E (dr_consent_created_at r)), dr_listed r)) (map_of rows i)"

lemma directory_good_update:
  assumes "directory_good E rows" "Date_parse E (dr_consent_created_at r) \<noteq> None"
  shows "directory_good E (AList.update (dr_agent_id r) r rows)"
proof -
  let ?al = "AList.update (dr_agent_id r) r rows"
  have d: "distinct (map fst ?al)" using assms by (simp add: directory_good_def distinct_update)
  have "dr_agent_id b = j \<and> Date_parse E (dr_consent_created_at b) \<noteq> None" if "(j, b) \<in> set ?al" for j b
  proof -
    from d that have "map_of ?al j = Some b" by simp
    then show ?thesis using assms by (auto simp: update_conv' directory_good_def split: if_splits dest!: map_of_SomeD)
  qed
  with d show ?thesis by (auto simp: directory_good_def)
qed

lemma memory_directory: "directory E (MemoryDirectoryStore le) (directory_good E) (directory_view E)"
proof (unfold_locales, goal_cases)
  case (1 d i)
  then show ?case
    by (cases "map_of d i")
       (auto simp: MemoryDirectoryStore_def directory_view_def shows_record_def directory_good_def dest: map_of_SomeD)
next
  case (2 d r x)
  then show ?case using directory_good_update [OF 2(1), of r]
    by (auto simp: MemoryDirectoryStore_def directory_view_def shows_record_def update_conv' fun_eq_iff)
next
  case (3 d n)
  have "\<exists>t. directory_view E d (dr_agent_id r) = Some (t, True)" if "r \<in> set (map snd d)" "dr_listed r" for r
    using 3 that by (force simp: directory_good_def directory_view_def)
  then show ?case by (auto simp: MemoryDirectoryStore_def dest!: in_set_takeD)
qed

interpretation memory_listings: directory E "MemoryDirectoryStore le" "directory_good E" "directory_view E" for E le
  by (rule memory_directory)

subsection \<open>Replay, delisting, interleaving\<close>

text \<open>C28: No consent is applied twice, and none older than an applied one.  After a consent was applied, and after any
  further consents, on any state of the registry and at any instants, a consent of the same agent that was not made
  strictly later (in particular the same one, however its signature is spelled) is refused and changes nothing.\<close>

theorem consent_never_replayed:
  assumes "directory_good E d" "clock_ok now" "list_all (\<lambda>(s, now, b). clock_ok now) h" "clock_ok now'"
    and "applyDirectoryConsent E S (MemoryDirectoryStore le) now body (s, d) = (Inr (ConsentApplied a), (s1, d1))"
    and "parseConsent E body = Inr c" "parseConsent E body' = Inr c'" "dc_agent_id c' = dc_agent_id c"
    and "date_le (Date_parse E (dc_created_at c')) (Date_parse E (dc_created_at c))"
  shows "case applyDirectoryConsent E S (MemoryDirectoryStore le) now' body' (s', run_consents E S (MemoryDirectoryStore le) h d1) of
      (r, (s2, d2)) \<Rightarrow> (\<forall>a. r \<noteq> Inr (ConsentApplied a))
        \<and> directory_view E d2 = directory_view E (run_consents E S (MemoryDirectoryStore le) h d1)"
proof -
  let ?d = "run_consents E S (MemoryDirectoryStore le) h d1"
  obtain t t' where t: "Date_parse E (dc_created_at c) = Some t" "Date_parse E (dc_created_at c') = Some t'" "t' \<le> t"
    using consent_instant [OF assms(6)] consent_instant [OF assms(7)] assms(9) by (metis date_le.simps(1))
  have "directory_good E d1" "directory_view E d1 (dc_agent_id c) = Some (t, dc_listed c)"
    using memory_listings.applied_settled [OF assms(1,2,5,6) t(1)] by blast+
  then have "directory_good E ?d" "settled (directory_view E ?d) (dc_agent_id c') t'"
    using memory_listings.run_settled [OF _ _ assms(3), of E d1 "dc_agent_id c'" t' S le] t(3) assms(8) by (auto simp: settled_def)
  moreover obtain r s2 d2 where "applyDirectoryConsent E S (MemoryDirectoryStore le) now' body' (s', ?d) = (r, (s2, d2))"
    by (metis prod.exhaust)
  ultimately show ?thesis
    using memory_listings.settled_refuses [OF _ _ assms(4,7) t(2), of ?d S le s' r s2 d2] by simp
qed

text \<open>C30: Two consents of one agent whose store operations interleave leave the older one in force: both read the directory
  before either is written, the newer is written first, and the older then replaces it, although the rule is that a
  consent must be strictly newer than the recorded one and on the state it replaces the older one is superseded.  A
  delisting that races with an earlier request to list is lost.\<close>

theorem interleaved_consents_keep_older:
  assumes "Date_parse E (dc_created_at c) = Some t" "Date_parse E (dc_created_at c') = Some t'" "t < t'"
    and "dc_agent_id c' = dc_agent_id c" "\<not> consent_expired E now c" "\<not> consent_expired E now c'" "clock_ok now"
    and "directory_good E d" "\<not> superseded E c (map_of d (dc_agent_id c))" "\<not> superseded E c' (map_of d (dc_agent_id c))"
  shows "\<exists>d1 d2 r r'. directory_previous (MemoryDirectoryStore le) (dc_agent_id c) (s, d) = (Inr (Some (map_of d (dc_agent_id c))), (s, d))
    \<and> record_consent E (MemoryDirectoryStore le) now body' c' (s, d) = (Inr (ConsentApplied r'), (s, d1))
    \<and> superseded E c (map_of d1 (dc_agent_id c))
    \<and> record_consent E (MemoryDirectoryStore le) now body c (s, d1) = (Inr (ConsentApplied r), (s, d2))
    \<and> directory_view E d2 (dc_agent_id c) = Some (t, dc_listed c)"
proof -
  let ?r = "record_of c body (iso_string t) now" and ?r' = "record_of c' body' (iso_string t') now"
  have i: "dr_agent_id ?r = dc_agent_id c" "dr_agent_id ?r' = dc_agent_id c" using assms(4) by (simp_all add: record_of_def)
  have rec: "shows_record E ?r (t, dc_listed c)" "shows_record E ?r' (t', dc_listed c')"
    using recorded_instant assms by blast+
  have "superseded E c (Some ?r')" using rec(2) assms(1,3) by (simp add: superseded_def shows_record_def)
  moreover have "directory_view E (AList.update (dc_agent_id c) ?r (AList.update (dc_agent_id c) ?r' d)) (dc_agent_id c) = Some (t, dc_listed c)"
    using rec(1) by (simp add: directory_view_def update_conv' shows_record_def)
  ultimately show ?thesis
    using assms(1,2) i
    by (auto simp: directory_previous_def record_consent_def MemoryDirectoryStore_def io_try_def io_catch_def io_bind_def on_directory_def
        io_result_def toZ_def Let_def update_conv')
qed

text \<open>A consent as an operator makes it.\<close>

definition consent_payload :: "jstr \<Rightarrow> jstr \<Rightarrow> bool \<Rightarrow> jstr \<Rightarrow> (jstr \<times> jsval) list" where
  "consent_payload agentId keyId listed createdAt = [(js ''type'', JStr DIRECTORY_CONSENT_TYPE), (js ''agent_id'', JStr agentId),
     (js ''key_id'', JStr keyId), (js ''listed'', JBool listed), (js ''created_at'', JStr createdAt)]"

definition signed_consent :: "platform \<Rightarrow> bytes \<Rightarrow> jstr \<Rightarrow> jstr \<Rightarrow> bool \<Rightarrow> jstr \<Rightarrow> jsval" where
  "signed_consent E sk agentId keyId listed createdAt =
     JObj (consent_payload agentId keyId listed createdAt
       @ [(js ''signature'', JStr (b64uEncode (ed25519_sign E sk (doc_bytes (JObj (consent_payload agentId keyId listed createdAt))))))])"

lemma consent_members:
  "get_member (js ''type'') (signed_consent E sk a k b t) = JStr DIRECTORY_CONSENT_TYPE"
  "get_member (js ''agent_id'') (signed_consent E sk a k b t) = JStr a"
  "get_member (js ''key_id'') (signed_consent E sk a k b t) = JStr k"
  "get_member (js ''listed'') (signed_consent E sk a k b t) = JBool b"
  "get_member (js ''created_at'') (signed_consent E sk a k b t) = JStr t"
  "get_member (js ''signature'') (signed_consent E sk a k b t)
     = JStr (b64uEncode (ed25519_sign E sk (doc_bytes (JObj (consent_payload a k b t)))))"
  by (simp_all add: signed_consent_def consent_payload_def get_member_def js_inject del: js_simps)

lemma signed_consent_parses:
  assumes "ed25519_lengths E" "length sk = 32" "isValidAgentId a" "isValidKeyId k" "Rfc3339Utc E t"
  shows "parseConsent E (signed_consent E sk a k b t) = Inr \<lparr>dc_agent_id = a, dc_key_id = k, dc_listed = b, dc_created_at = t,
    dc_signature = b64uEncode (ed25519_sign E sk (doc_bytes (JObj (consent_payload a k b t))))\<rparr>"
proof -
  have sig: "list_all is_base64url x" "length x = 86" if "x = b64uEncode (ed25519_sign E sk m)" for x m
    using signature_text_ok [OF assms(1,2), of m] that by (simp_all add: Ed25519SignatureB64u_def)
  have keys: "filter (\<lambda>k. k \<notin> set CONSENT_MEMBERS) (object_keys (signed_consent E sk a k b t)) = []"
    by (simp add: signed_consent_def consent_payload_def object_keys_def CONSENT_MEMBERS_def del: js_simps)
  obtain ms where ms: "signed_consent E sk a k b t = JObj ms" by (simp add: signed_consent_def)
  have "b64uEncode (ed25519_sign E sk m) \<noteq> []" for m
    using sig(2) [OF refl, of m] by (metis list.size(3) zero_neq_numeral)
  then show ?thesis
    using assms(3-5) sig keys consent_members [of E sk a k b t] unfolding ms
    by (simp add: parseConsent_def checked_text_def text_member_def del: js_simps)
qed

lemma consent_document: "document (JObj (consent_payload a k b t))"
  by (simp add: consent_payload_def document_def js_inject del: js_simps)

lemma signed_consent_verifies:
  assumes "ed25519_lengths E" "ed25519_correct E" "controls E sk k" "parseConsent E (signed_consent E sk a i b t) = Inr c"
    and "dc_signature c = b64uEncode (ed25519_sign E sk (doc_bytes (JObj (consent_payload a i b t))))"
  shows "consent_signature_valid E (KeyDocument_obj k) (signed_consent E sk a i b t) c"
proof -
  have "js ''signature'' \<notin> fst ` set (consent_payload a i b t)" by (simp add: consent_payload_def js_inject del: js_simps)
  then have "signingInputOf (signed_consent E sk a i b t) = Inr (doc_bytes (JObj (consent_payload a i b t)))"
    by (simp add: signingInputOf_def signed_consent_def strip_signed canonical_document [OF consent_document] del: js_simps)
  moreover have "text_member ''public_key_b64u'' (KeyDocument_obj k) = Some (kd_public_key_b64u k)"
    by (simp add: text_member_def KeyDocument_obj_def get_member_def js_inject del: js_simps)
  ultimately show ?thesis
    using signed_by_own [OF assms(1-3), of "JObj (consent_payload a i b t)"] assms(5)
    by (simp add: consent_signature_valid_def signed_by_def)
qed

text \<open>An agent whose operator key, published and active, is the one its proof names.\<close>

definition operator_of :: "platform \<Rightarrow> bytes \<Rightarrow> key_document \<Rightarrow> jstr \<Rightarrow> memory_store \<Rightarrow> bool" where
  "operator_of E sk k i s \<longleftrightarrow> controls E sk k \<and> kd_role k = OperatorRole \<and> kd_controller k = i \<and> kd_status k = KeyActive
     \<and> isValidAgentId i \<and> isValidKeyId (kd_key_id k) \<and> ms_keys s (kd_key_id k) = Some k
     \<and> (\<exists>a. ms_agents s i = Some a \<and> ar_status a = ACTIVE \<and> mp_key_id (ar_proof a) = kd_key_id k)"

lemma operator_accepted:
  assumes "ed25519_lengths E" "ed25519_correct E" "operator_of E sk k i s" "Rfc3339Utc E T"
  obtains c x where "parseConsent E (signed_consent E sk i (kd_key_id k) b T) = Inr c"
    "consent_subject (MemoryStore le) c s = (Inr x, s)"
    "consent_refusal E x (signed_consent E sk i (kd_key_id k) b T) c = None"
    "dc_agent_id c = i" "dc_listed c = b" "dc_created_at c = T"
proof -
  let ?body = "signed_consent E sk i (kd_key_id k) b T"
  from assms(3) obtain a where op: "controls E sk k" "kd_role k = OperatorRole" "kd_controller k = i" "kd_status k = KeyActive"
    "isValidAgentId i" "isValidKeyId (kd_key_id k)" "ms_keys s (kd_key_id k) = Some k"
    "ms_agents s i = Some a" "ar_status a = ACTIVE" "mp_key_id (ar_proof a) = kd_key_id k" by (auto simp: operator_of_def)
  then have len: "length sk = 32" by (simp add: controls_def)
  obtain c where c: "parseConsent E ?body = Inr c" "dc_agent_id c = i" "dc_key_id c = kd_key_id k" "dc_listed c = b" "dc_created_at c = T"
    "dc_signature c = b64uEncode (ed25519_sign E sk (doc_bytes (JObj (consent_payload i (kd_key_id k) b T))))"
    by (rule that [OF signed_consent_parses [OF assms(1) len op(5,6) assms(4), of b]]) simp_all
  have valid: "consent_signature_valid E (KeyDocument_obj k) ?body c"
    using signed_consent_verifies [OF assms(1,2) op(1) c(1)] c(6) by simp
  have fields: "get_member (js ''role'') (KeyDocument_obj k) = JStr (js ''operator'')"
    "get_member (js ''controller'') (KeyDocument_obj k) = JStr i" "get_member (js ''status'') (KeyDocument_obj k) = JStr (js ''active'')"
    using op by (simp_all add: KeyDocument_obj_def get_member_def js_inject del: js_simps)
  show thesis
  proof (rule that [OF c(1) _ _ c(2,4,5)])
    show "consent_subject (MemoryStore le) c s = (Inr (Some a, Some (KeyDocument_obj k)), s)"
      using op c(2,3) by (simp add: consent_subject_def io_bind_def)
    show "consent_refusal E (Some a, Some (KeyDocument_obj k)) ?body c = None"
      using op c(2,3) fields valid by (simp add: consent_refusal_def del: js_simps)
  qed
qed

text \<open>C29: An operator can delist.  Whenever the agent's operator key is published and active, a fresh consent with
  \<open>listed: false\<close> that was made later than the recorded one is applied, whatever the directory holds, and no page of
  the directory then contains the agent.\<close>

theorem operator_can_delist:
  assumes "ed25519_lengths E" "ed25519_correct E" "operator_of E sk k i s" "Rfc3339Utc E T"
    and "Date_parse E T = Some t" "\<bar>now - t\<bar> \<le> CONSENT_WINDOW_MS" "clock_ok now" "directory_good E d"
    and "case directory_view E d i of None \<Rightarrow> True | Some (t', b) \<Rightarrow> t' < t"
  shows "\<exists>r d'. applyDirectoryConsent E (MemoryStore le) (MemoryDirectoryStore le') now (signed_consent E sk i (kd_key_id k) False T) (s, d)
      = (Inr (ConsentApplied r), (s, d'))
    \<and> (\<forall>n rs. fst (ds_listListed (MemoryDirectoryStore le') n d') = Inr rs \<longrightarrow> i \<notin> dr_agent_id ` set rs)"
proof -
  let ?body = "signed_consent E sk i (kd_key_id k) False T" and ?D = "MemoryDirectoryStore le'"
  obtain c x where c: "parseConsent E ?body = Inr c" "consent_subject (MemoryStore le) c s = (Inr x, s)"
    "consent_refusal E x ?body c = None" "dc_agent_id c = i" "dc_listed c = False" "dc_created_at c = T"
    using operator_accepted [OF assms(1-4), of False le] .
  have t: "Date_parse E (dc_created_at c) = Some t" and fresh: "\<not> consent_expired E now c"
    using assms(5,6) c(6) by (simp_all add: consent_expired_def)
  have prev: "directory_previous ?D i (s, d) = (Inr (Some (map_of d i)), (s, d))"
    by (simp add: directory_previous_def io_try_def io_catch_def io_bind_def on_directory_def MemoryDirectoryStore_def)
  then have "rel_option (shows_record E) (map_of d i) (directory_view E d i)"
    using memory_listings.previous_read [OF assms(8), of le' i s] by blast
  then have "\<not> superseded E c (map_of d i)"
    using memory_listings.not_superseded_newer [OF _ t, of "map_of d i" d i] assms(9) by blast
  moreover have "io_try (on_registry (consent_subject (MemoryStore le) c)) (s, d) = (Inr (Some x), (s, d))"
    using c(2) by (simp add: io_try_def io_catch_def io_bind_def on_registry_def)
  ultimately have run: "applyDirectoryConsent E (MemoryStore le) ?D now ?body (s, d) = record_consent E ?D now ?body c (s, d)"
    using c fresh prev by (simp add: applyDirectoryConsent_def io_bind_def)
  have put: "fst (ds_put ?D r d) = Inr ()" for r by (simp add: MemoryDirectoryStore_def)
  obtain d' where d': "record_consent E ?D now ?body c (s, d) = (Inr (ConsentApplied (record_of c ?body (iso_string t) now)), (s, d'))"
    "directory_good E d'" "directory_view E d' = (directory_view E d)(i \<mapsto> (t, False))"
    using memory_listings.record_step [OF assms(8) t fresh assms(7), of le' ?body s] c(4,5) put by auto
  have "i \<notin> dr_agent_id ` set rs" if "fst (ds_listListed ?D n d') = Inr rs" for n rs
    using memory_listings.listed [OF d'(2), of le' n] that d'(3) by (auto split: if_splits)
  with run d'(1) show ?thesis by auto
qed

subsection \<open>Examples\<close>

definition sample_time :: "int \<Rightarrow> jstr" where
  "sample_time n = iso_string (1767398400000 + n)"

definition sample_consent :: "bool \<Rightarrow> int \<Rightarrow> jsval" where
  "sample_consent b n = signed_consent reference_platform sample_secret sample_agent sample_key_id b (sample_time n)"

definition sample_registry :: memory_store where
  "sample_registry = registered_state reference_platform sample_manifest sample_proof (sample_key OperatorRole) (sample_instant 3)
     sample_ulid sample_ulid empty_memory"

lemma sample_operator: "operator_of reference_platform sample_secret (sample_key OperatorRole) sample_agent sample_registry"
proof -
  have "kd_status (sample_key OperatorRole) = KeyActive" by (simp add: sample_key_def)
  moreover have "isValidKeyId sample_key_id" "isValidAgentId sample_agent" using sample_ids by (simp_all add: KeyId_def)
  ultimately show ?thesis
    by (simp add: operator_of_def sample_registry_def registered_state_def agent_of_def)
qed

lemma sample_time_parses:
  assumes "\<bar>n\<bar> \<le> 1000"
  shows "Date_parse reference_platform (sample_time n) = Some (1767398400000 + n)" "Rfc3339Utc reference_platform (sample_time n)"
proof -
  have r: "-62167219200000 \<le> 1767398400000 + n" "1767398400000 + n < 253402300800000" using assms by simp_all
  show "Date_parse reference_platform (sample_time n) = Some (1767398400000 + n)"
    using iso_roundtrip(1) [OF r] by (simp add: sample_time_def Date_parse_def date_parse_def)
  then show "Rfc3339Utc reference_platform (sample_time n)"
    using iso_roundtrip(2) [OF r] by (simp add: Rfc3339Utc_def sample_time_def)
qed

lemma sample_clock_ok: "clock_ok 1767398400000"
  by (simp add: clock_ok_def CONSENT_WINDOW_MS_def)

theorem operator_can_delist_witness:
  "\<exists>r d'. applyDirectoryConsent reference_platform (MemoryStore any_order) (MemoryDirectoryStore any_order) 1767398400000
      (sample_consent False 0) (sample_registry, []) = (Inr (ConsentApplied r), (sample_registry, d'))"
  using operator_can_delist [where k = "sample_key OperatorRole" and T = "sample_time 0" and t = 1767398400000 and d = "[]"
      and now = 1767398400000 and le = any_order and le' = any_order, OF reference_crypto(2,3) sample_operator]
    sample_time_parses [of 0] sample_clock_ok
  by (auto simp: CONSENT_WINDOW_MS_def directory_good_def directory_view_def sample_consent_def)

lemmas sample_operator_accepted = operator_accepted [OF reference_crypto(2,3) sample_operator sample_time_parses(2), of n b any_order for n b,
  unfolded sample_key_fields(3), folded sample_consent_def]

text \<open>A request to list, made a millisecond before the request to delist that is in force.\<close>

lemma sample_applied:
  "\<exists>r d. applyDirectoryConsent reference_platform (MemoryStore any_order) (MemoryDirectoryStore any_order) 1767398400000
      (sample_consent b 0) (sample_registry, []) = (Inr (ConsentApplied r), (sample_registry, d))"
proof -
  have T: "Rfc3339Utc reference_platform (sample_time 0)" "Date_parse reference_platform (sample_time 0) = Some 1767398400000"
    using sample_time_parses [of 0] by simp_all
  obtain c x where c: "parseConsent reference_platform (sample_consent b 0) = Inr c" "consent_subject (MemoryStore any_order) c sample_registry = (Inr x, sample_registry)"
    "consent_refusal reference_platform x (sample_consent b 0) c = None" "dc_created_at c = sample_time 0"
    by (rule sample_operator_accepted [of 0 b]) (simp, rule that)
  then show ?thesis using T(2)
    by (simp add: applyDirectoryConsent_def io_bind_def io_try_def io_catch_def on_registry_def on_directory_def consent_expired_def
        CONSENT_WINDOW_MS_def directory_previous_def MemoryDirectoryStore_def superseded_def record_consent_def io_result_def toZ_def Let_def)
qed

lemma sample_consent_parses:
  "parseConsent reference_platform (sample_consent b n) = Inr c \<Longrightarrow> \<bar>n\<bar> \<le> 1000
    \<Longrightarrow> dc_agent_id c = sample_agent \<and> dc_listed c = b \<and> dc_created_at c = sample_time n"
  using sample_operator_accepted [of n b] by (metis sum.inject(2))

theorem consent_never_replayed_witness:
  "\<exists>a d1. applyDirectoryConsent reference_platform (MemoryStore any_order) (MemoryDirectoryStore any_order) 1767398400000
      (sample_consent True 0) (sample_registry, []) = (Inr (ConsentApplied a), (sample_registry, d1))
    \<and> (\<forall>a'. fst (applyDirectoryConsent reference_platform (MemoryStore any_order) (MemoryDirectoryStore any_order) 1767398400000
      (sample_consent True 0) (sample_registry, run_consents reference_platform (MemoryStore any_order) (MemoryDirectoryStore any_order)
         [(sample_registry, 1767398400000, sample_consent False 1)] d1)) \<noteq> Inr (ConsentApplied a'))"
proof -
  obtain a d1 where a: "applyDirectoryConsent reference_platform (MemoryStore any_order) (MemoryDirectoryStore any_order) 1767398400000
      (sample_consent True 0) (sample_registry, []) = (Inr (ConsentApplied a), (sample_registry, d1))"
    using sample_applied [of True] by blast
  obtain c where c: "parseConsent reference_platform (sample_consent True 0) = Inr c"
    by (rule sample_operator_accepted [of 0]) simp_all
  have "date_le (Date_parse reference_platform (dc_created_at c)) (Date_parse reference_platform (dc_created_at c))"
    using sample_consent_parses [OF c] sample_time_parses [of 0] by simp
  from consent_never_replayed [OF _ sample_clock_ok _ sample_clock_ok a c c refl this,
      of "[(sample_registry, 1767398400000, sample_consent False 1)]" sample_registry]
  show ?thesis using a by (auto simp: directory_good_def sample_clock_ok split: prod.splits)
qed

theorem interleaved_consents_keep_older_witness:
  "\<exists>c c' d1 d2 r r'. parseConsent reference_platform (sample_consent True 0) = Inr c \<and> parseConsent reference_platform (sample_consent False 1) = Inr c'
    \<and> record_consent reference_platform (MemoryDirectoryStore any_order) 1767398400000 (sample_consent False 1) c' (sample_registry, [])
        = (Inr (ConsentApplied r'), (sample_registry, d1))
    \<and> record_consent reference_platform (MemoryDirectoryStore any_order) 1767398400000 (sample_consent True 0) c (sample_registry, d1)
        = (Inr (ConsentApplied r), (sample_registry, d2))
    \<and> directory_view reference_platform d2 sample_agent = Some (1767398400000, True)"
proof -
  have T: "Rfc3339Utc reference_platform (sample_time n)" "Date_parse reference_platform (sample_time n) = Some (1767398400000 + n)"
    if "\<bar>n\<bar> \<le> 1000" for n using sample_time_parses [OF that] by simp_all
  obtain c c' where c: "parseConsent reference_platform (sample_consent True 0) = Inr c"
    "parseConsent reference_platform (sample_consent False 1) = Inr c'"
    using sample_operator_accepted [of 0 True] sample_operator_accepted [of 1 False] by (metis abs_one abs_zero one_le_numeral zero_le_numeral)
  have f: "dc_agent_id c = sample_agent" "dc_listed c" "dc_created_at c = sample_time 0"
    "dc_agent_id c' = sample_agent" "\<not> dc_listed c'" "dc_created_at c' = sample_time 1"
    using sample_consent_parses [OF c(1)] sample_consent_parses [OF c(2)] by auto
  have "\<exists>d1 d2 r r'. directory_previous (MemoryDirectoryStore any_order) (dc_agent_id c) (sample_registry, []) = (Inr (Some (map_of [] (dc_agent_id c))), (sample_registry, []))
    \<and> record_consent reference_platform (MemoryDirectoryStore any_order) 1767398400000 (sample_consent False 1) c' (sample_registry, []) = (Inr (ConsentApplied r'), (sample_registry, d1))
    \<and> superseded reference_platform c (map_of d1 (dc_agent_id c))
    \<and> record_consent reference_platform (MemoryDirectoryStore any_order) 1767398400000 (sample_consent True 0) c (sample_registry, d1) = (Inr (ConsentApplied r), (sample_registry, d2))
    \<and> directory_view reference_platform d2 (dc_agent_id c) = Some (1767398400000, dc_listed c)"
    using f T [of 0] T [of 1] sample_clock_ok
    by (intro interleaved_consents_keep_older [where t = 1767398400000 and t' = 1767398400001])
      (simp_all add: consent_expired_def CONSENT_WINDOW_MS_def directory_good_def superseded_def)
  then show ?thesis using c f by auto
qed

end
