(* ===== verification/Web_Properties.thy ===== *)
theory Web_Properties
  imports Web_Routes Supabase_Store
begin

section \<open>Properties of the web registry\<close>

text \<open>
  The two registration endpoints, Fastify's and the web application's, are one function of the
  request and the store; the routes around them.
\<close>

subsection \<open>Two parsers of one body\<close>

lemma api_checks:
  fixes E :: api_platform
  shows "Manifest_ok (platform.truncate E) = Manifest_ok E" "ManifestProof_ok (platform.truncate E) = ManifestProof_ok E"
    "KeyDocument_ok (platform.truncate E) = KeyDocument_ok E"
proof -
  have env: "Date_parse (platform.truncate E) = Date_parse E" "email_ok (platform.truncate E) = email_ok E"
    by (simp_all add: platform.defs Date_parse_def fun_eq_iff)
  then have rfc: "Rfc3339Utc (platform.truncate E) = Rfc3339Utc E" by (simp add: fun_eq_iff Rfc3339Utc_def)
  show "Manifest_ok (platform.truncate E) = Manifest_ok E" "ManifestProof_ok (platform.truncate E) = ManifestProof_ok E"
    "KeyDocument_ok (platform.truncate E) = KeyDocument_ok E"
    by (simp_all only: fun_eq_iff env rfc Manifest_ok_def ManifestProof_ok_def ManifestProofPayload_ok_def KeyDocument_ok_def) simp_all
qed

text \<open>The three schemas are of objects: an absent member is no object.\<close>

definition rejects_undefined :: "platform \<Rightarrow> bool" where
  "rejects_undefined P \<longleftrightarrow> (\<forall>x. parse_Manifest P JUndefined \<noteq> Inr x) \<and> (\<forall>x. parse_ManifestProof P JUndefined \<noteq> Inr x)
     \<and> (\<forall>x. parse_KeyDocument P JUndefined \<noteq> Inr x)"

lemma get_member_json_doc: "json_doc (JObj ms) \<Longrightarrow> k \<in> fst ` set ms \<Longrightarrow> json_doc (get_member k (JObj ms))"
  by (force simp: get_member_def list_all_iff split: option.split dest: map_of_SomeD simp: map_of_eq_None_iff)

lemma get_member_absent: "k \<notin> fst ` set ms \<Longrightarrow> get_member k (JObj ms) = JUndefined"
  by (simp add: get_member_def map_of_eq_None_iff [THEN iffD2])

definition register_members :: "jsval \<Rightarrow> bool" where
  "register_members body \<longleftrightarrow> (\<exists>ms. body = JObj ms \<and> fst ` set ms \<subseteq> set REGISTER_MEMBERS)"

lemma register_body_members:
  fixes E :: api_platform
  assumes "api_schemas E" "json_doc body" "rejects_undefined (platform.truncate E)"
  shows "parse_RegisterBody E body = Inr (m, p, k) \<longleftrightarrow> register_members body
    \<and> parse_Manifest (platform.truncate E) (get_member (js ''manifest'') body) = Inr m
    \<and> parse_ManifestProof (platform.truncate E) (get_member (js ''proof'') body) = Inr p
    \<and> parse_KeyDocument (platform.truncate E) (get_member (js ''key_document'') body) = Inr k" (is "_ \<longleftrightarrow> ?R")
proof -
  let ?P = "platform.truncate E"
  have z: "zod_parser (parse_RegisterBody E) RegisterBody_obj (RegisterBody_ok E)"
    "zod_parser (parse_Manifest ?P) Manifest_obj (Manifest_ok E)"
    "zod_parser (parse_ManifestProof ?P) ManifestProof_obj (ManifestProof_ok E)"
    "zod_parser (parse_KeyDocument ?P) KeyDocument_obj (KeyDocument_ok E)"
    using assms(1) by (simp_all add: api_schemas_def zod_schemas_def api_checks)
  let ?ns = "[(js ''manifest'', Manifest_obj m), (js ''proof'', ManifestProof_obj p), (js ''key_document'', KeyDocument_obj k)]"
  have d: "distinct (map fst ?ns)" by (simp add: js_inject del: js_simps)
  have keys: "fst ` set ?ns = set REGISTER_MEMBERS" by (simp add: REGISTER_MEMBERS_def)
  show ?thesis
  proof (cases "\<exists>ms. body = JObj ms")
    case True
    then obtain ms where ms: "body = JObj ms" by blast
    have dm: "distinct (map fst ms)" using assms(2) by (simp add: ms)
    have eq: "same_json (JObj ms) (JObj ?ns) \<longleftrightarrow> fst ` set ms = set REGISTER_MEMBERS
        \<and> (\<forall>i \<in> set REGISTER_MEMBERS. same_json (get_member i (JObj ms)) (get_member i (JObj ?ns)))"
      unfolding same_json_members [OF dm d] keys by blast
    show ?thesis
    proof (cases "fst ` set ms = set REGISTER_MEMBERS")
      case True
      have doc: "i \<in> set REGISTER_MEMBERS \<Longrightarrow> json_doc (get_member i body)" for i
        using get_member_json_doc [of ms i] assms(2) True by (simp add: ms)
      have docs: "json_doc (get_member (js ''manifest'') body)" "json_doc (get_member (js ''proof'') body)"
        "json_doc (get_member (js ''key_document'') body)"
        by (rule doc; simp add: REGISTER_MEMBERS_def)+
      have "same_json body (RegisterBody_obj (m, p, k)) \<longleftrightarrow>
          same_json (get_member (js ''manifest'') body) (Manifest_obj m)
          \<and> same_json (get_member (js ''proof'') body) (ManifestProof_obj p)
          \<and> same_json (get_member (js ''key_document'') body) (KeyDocument_obj k)"
        unfolding RegisterBody_obj.simps ms eq using True
        by (simp add: REGISTER_MEMBERS_def get_member_def [of _ "JObj ?ns"] js_inject del: js_simps)
      moreover have "register_members body" using True by (auto simp: register_members_def ms)
      ultimately show ?thesis
        by (simp only: zod_parserD [OF z(1) assms(2)] zod_parserD [OF z(2) docs(1)] zod_parserD [OF z(3) docs(2)]
            zod_parserD [OF z(4) docs(3)] RegisterBody_ok.simps) blast
    next
      case False
      then have "\<not> same_json body (RegisterBody_obj (m, p, k))" unfolding RegisterBody_obj.simps ms eq by blast
      moreover have "\<not> ?R"
      proof
        assume r: ?R
        then have "i \<in> fst ` set ms" if "i \<in> set REGISTER_MEMBERS" for i
          using get_member_absent [of i ms] that assms(3) unfolding ms REGISTER_MEMBERS_def rejects_undefined_def
          by (auto simp del: js_simps) metis+
        with r False show False by (auto simp: register_members_def ms)
      qed
      ultimately show ?thesis using zod_parserD [OF z(1) assms(2)] by blast
    qed
  next
    case False
    then have "\<not> same_json body (RegisterBody_obj (m, p, k))" using same_json_object by (metis RegisterBody_obj.simps)
    with False show ?thesis using zod_parserD [OF z(1) assms(2)] by (auto simp: register_members_def)
  qed
qed

subsection \<open>Two registries, one registration\<close>

definition result_status :: "register_result \<Rightarrow> nat \<times> jsval" where
  "result_status r = (case r of Registered a k m \<Rightarrow> (201, JUndefined) | RegisterFail status code message issues \<Rightarrow> (status, JStr code))"

definition response_status :: "http_response \<Rightarrow> nat \<times> jsval" where
  "response_status r = (hr_status r, case hr_body r of None \<Rightarrow> JUndefined | Some b \<Rightarrow> get_member (js ''error'') b)"

lemma response_status_simps [simp]:
  "response_status (err status code message extra) = (status, JStr code)"
  "response_status (send 201 (JObj [(js ''agent_id'', a), (js ''status'', b), (js ''verification'', c), (js ''registered_at'', d), (js ''links'', e)])) = (201, JUndefined)"
  by (simp_all add: response_status_def err_def send_def get_member_def js_inject del: js_simps)

lemma result_status_simps [simp]:
  "result_status (Registered a k m) = (201, JUndefined)" "result_status (RegisterFail status code message issues) = (status, JStr code)"
  by (simp_all add: result_status_def)

text \<open>A body the schema refuses is refused member by member.\<close>

lemma register_refused:
  assumes "\<And>m p k. \<not> (register_members body \<and> parse_Manifest P (get_member (js ''manifest'') body) = Inr m
    \<and> parse_ManifestProof P (get_member (js ''proof'') body) = Inr p
    \<and> parse_KeyDocument P (get_member (js ''key_document'') body) = Inr k)"
  shows "\<exists>message issues. registerAgent P S V body = io_return (schema_failed message issues)"
proof (cases "\<exists>ms. body = JObj ms")
  case True
  then obtain ms where ms: "body = JObj ms" by blast
  have u: "filter (\<lambda>k. k \<notin> set REGISTER_MEMBERS) (object_keys body) = [] \<longleftrightarrow> register_members body"
    by (auto simp: ms object_keys_def register_members_def filter_empty_conv)
  show ?thesis
    using assms u unfolding registerAgent_def Let_def ms
    by (auto split: sum.splits) blast
qed (cases body; auto simp: registerAgent_def)

lemma register_parsed:
  assumes "register_members body" "parse_Manifest P (get_member (js ''manifest'') body) = Inr m"
    "parse_ManifestProof P (get_member (js ''proof'') body) = Inr p" "parse_KeyDocument P (get_member (js ''key_document'') body) = Inr k"
  shows "registerAgent P S V body = register_checked P S V m p k"
proof -
  obtain ms where ms: "body = JObj ms" "fst ` set ms \<subseteq> set REGISTER_MEMBERS" using assms(1) by (auto simp: register_members_def)
  then have "filter (\<lambda>k. k \<notin> set REGISTER_MEMBERS) (object_keys body) = []"
    by (auto simp: object_keys_def filter_empty_conv)
  then show ?thesis using assms(2-4) unfolding registerAgent_def Let_def ms(1) by simp
qed


definition still_env :: request_env where
  "still_env = sample_env\<lparr>rq_now := (\<lambda>n. iso_string 1767398400000)\<rparr>"

lemma reference_rejects_undefined: "rejects_undefined reference_platform"
  by (simp add: rejects_undefined_def reference_platform_def platform.defs checked_def Let_def same_json_def
      Manifest_obj_def ManifestProof_obj_def KeyDocument_obj_def)


end
