(* ===== verification/Browser_Signing.thy ===== *)
theory Browser_Signing
  imports Directory Web_Properties
begin

section \<open>Signing in the browser\<close>

text \<open>
  \<open>packages/web/lib/client-crypto.ts\<close>: the onboarding page signs manifests and directory consents with code of its
  own, a second implementation of canonicalization, of the encodings and of ULIDs beside the one of core.  Each part is
  modelled as it is written and shown to agree with core's; together, what the page signs is what the registry
  accepts.  \<open>@noble/curves\<close> and the Web Crypto digest are the platform's; random bytes and clock readings are arguments.
\<close>

subsection \<open>Encodings\<close>

text \<open>\<open>b.toString(16).padStart(2, "0")\<close>, one byte after the other.\<close>

definition to_hex :: "nat \<Rightarrow> jstr" where
  "to_hex n = (if n < 16 then [hex_digit n] else [hex_digit (n div 16), hex_digit (n mod 16)])"

definition padStart :: "nat \<Rightarrow> char \<Rightarrow> jstr \<Rightarrow> jstr" where
  "padStart n c s = replicate (n - length s) (jc c) @ s"

definition hexEncode :: "bytes \<Rightarrow> jstr" where
  "hexEncode bs = concat (map (\<lambda>b. padStart 2 CHR ''0'' (to_hex (unat b))) bs)"

text \<open>\<open>btoa\<close> of the bytes: the standard alphabet, padded to a multiple of four.\<close>

definition base64_char :: "nat \<Rightarrow> code_unit" where
  "base64_char n = (if n < 26 then of_nat (65 + n) else if n < 52 then of_nat (71 + n)
     else if n < 62 then of_nat (n - 4) else if n = 62 then jc CHR ''+'' else jc CHR ''/'')"

definition btoa :: "bytes \<Rightarrow> jstr" where
  "btoa bs = map base64_char (bytes_sextets bs) @ replicate ((3 - length bs mod 3) mod 3) (jc CHR ''='')"

definition replace_unit :: "char \<Rightarrow> char \<Rightarrow> jstr \<Rightarrow> jstr" where
  "replace_unit a b s = map (\<lambda>c. if c = jc a then jc b else c) s"

definition strip_end :: "char \<Rightarrow> jstr \<Rightarrow> jstr" where
  "strip_end c s = rev (dropWhile (\<lambda>x. x = jc c) (rev s))"

definition browser_b64uEncode :: "bytes \<Rightarrow> jstr" where
  "browser_b64uEncode bs = strip_end CHR ''='' (replace_unit CHR ''/'' CHR ''_'' (replace_unit CHR ''+'' CHR ''-'' (btoa bs)))"

subsection \<open>Canonicalization\<close>

definition browser_serialize_fails :: "jsval \<Rightarrow> jstr" where
  "browser_serialize_fails v = js ''Unserializable value: '' @ type_of v"

text \<open>
  A member whose value is undefined is skipped.  As in core, the members are visited in key order, and the first error
  is the one thrown.
\<close>

fun jcsSerialize :: "jsval \<Rightarrow> jstr + jstr"
and jcs_items :: "jsval list \<Rightarrow> jstr + jstr list"
and jcs_members :: "(jstr \<times> jsval) list \<Rightarrow> (jstr \<times> (jstr + jstr)) list" where
  "jcsSerialize JNull = Inr (js ''null'')"
| "jcsSerialize (JBool b) = Inr (if b then js ''true'' else js ''false'')"
| "jcsSerialize (JNum n) = (case n of NumFin neg s e \<Rightarrow> Inr (num_token n) | _ \<Rightarrow> Inl (js ''Non-finite number in JCS''))"
| "jcsSerialize (JStr s) = Inr (quote s)"
| "jcsSerialize (JArr vs) = rbind (jcs_items vs) (\<lambda>items. Inr (js ''['' @ join_with (js '','') items @ js '']''))"
| "jcsSerialize (JObj ms) =
     rbind (map_result (\<lambda>(k, r). rbind r (\<lambda>t. Inr (quote k @ js '':'' @ t))) (sort_key fst (jcs_members ms)))
       (\<lambda>members. Inr (js ''{'' @ join_with (js '','') members @ js ''}''))"
| "jcsSerialize (JInstance c ms) =
     rbind (map_result (\<lambda>(k, r). rbind r (\<lambda>t. Inr (quote k @ js '':'' @ t))) (sort_key fst (jcs_members ms)))
       (\<lambda>members. Inr (js ''{'' @ join_with (js '','') members @ js ''}''))"
| "jcsSerialize v = Inl (browser_serialize_fails v)"
| "jcs_items [] = Inr []"
| "jcs_items (v # vs) = rbind (jcsSerialize v) (\<lambda>t. rbind (jcs_items vs) (\<lambda>ts. Inr (t # ts)))"
| "jcs_members [] = []"
| "jcs_members ((k, v) # ms) = (if v = JUndefined then jcs_members ms else (k, jcsSerialize v) # jcs_members ms)"

definition browser_canonicalizeToBytes :: "jsval \<Rightarrow> jstr + bytes" where
  "browser_canonicalizeToBytes v = rbind (jcsSerialize v) (\<lambda>t. Inr (utf8_encode t))"

definition sha256Hex :: "platform \<Rightarrow> bytes \<Rightarrow> jstr" where
  "sha256Hex E b = hexEncode (sha256 E b)"

subsection \<open>ULIDs\<close>

text \<open>\<open>t & 0x1f\<close> and \<open>buffer >> k\<close> are 32-bit operations; \<open>t / 32\<close> is a number.\<close>

fun browser_time :: "nat \<Rightarrow> int \<Rightarrow> jstr \<Rightarrow> jstr" where
  "browser_time 0 t ts = ts"
| "browser_time (Suc i) t ts = browser_time i (t div 32) (CROCKFORD ! unat ((word_of_int t :: 32 word) AND 0x1f) # ts)"

fun browser_emit :: "32 word \<Rightarrow> nat \<Rightarrow> jstr \<Rightarrow> jstr \<times> nat" where
  "browser_emit buffer bits rnd =
     (if 5 \<le> bits
      then browser_emit buffer (bits - 5) (rnd @ [CROCKFORD ! unat (signed_drop_bit (bits - 5) buffer AND 0x1f)])
      else (rnd, bits))"

declare browser_emit.simps [simp del]

fun browser_random :: "bytes \<Rightarrow> 32 word \<Rightarrow> nat \<Rightarrow> jstr \<Rightarrow> jstr" where
  "browser_random [] buffer bits rnd = rnd"
| "browser_random (b # bs) buffer bits rnd =
     (let buffer' = push_bit 8 buffer OR ucast b; (rnd', bits') = browser_emit buffer' (bits + 8) rnd
      in browser_random bs buffer' bits' rnd')"

definition encodeUlid :: "int \<Rightarrow> bytes \<Rightarrow> jstr" where
  "encodeUlid t rnd = browser_time 10 t [] @ browser_random (take 10 rnd) 0 0 []"

text \<open>One reading of the clock and ten random bytes per identifier.\<close>

record ulid_source =
  us_time :: int
  us_random :: bytes

definition browser_generateUlid :: "ulid_source \<Rightarrow> jstr" where
  "browser_generateUlid u = encodeUlid (us_time u) (us_random u)"

subsection \<open>Agreement with core\<close>

lemma hexEncode_eq: "hexEncode = hex"
proof
  fix bs
  have "unat b < 256" for b :: byte using unat_byte_less [of b] .
  then have "padStart 2 CHR ''0'' (to_hex (unat b)) = [hex_digit (unat b div 16), hex_digit (unat b mod 16)]" for b :: byte
    by (auto simp: padStart_def to_hex_def hex_digit_def numeral_2_eq_2 div_eq_0_iff)
  then show "hexEncode bs = hex bs" by (simp add: hexEncode_def hex_def)
qed

lemma base64_table:
  "list_all (\<lambda>n. (if (if base64_char n = jc CHR ''+'' then jc CHR ''-'' else base64_char n) = jc CHR ''/'' then jc CHR ''_''
      else if base64_char n = jc CHR ''+'' then jc CHR ''-'' else base64_char n) = sextet_char n \<and> sextet_char n \<noteq> jc CHR ''='') [0..<64]"
  by code_simp

lemma base64_char_replaced:
  "n < 64 \<Longrightarrow> (if (if base64_char n = jc CHR ''+'' then jc CHR ''-'' else base64_char n) = jc CHR ''/'' then jc CHR ''_''
      else if base64_char n = jc CHR ''+'' then jc CHR ''-'' else base64_char n) = sextet_char n"
  "n < 64 \<Longrightarrow> sextet_char n \<noteq> jc CHR ''=''"
  using base64_table unfolding list_all_iff by (simp_all only: set_upt atLeastLessThan_iff Ball_def le0 simp_thms)

lemma dropWhile_replicate: "P x \<Longrightarrow> dropWhile P (replicate n x @ xs) = dropWhile P xs"
  by (induction n) auto

lemma strip_end_padding:
  "list_all (\<lambda>x. x \<noteq> jc c) s \<Longrightarrow> strip_end c (s @ replicate n (jc c)) = s"
  by (cases s rule: rev_cases) (auto simp: strip_end_def dropWhile_replicate)

lemma browser_b64uEncode_eq: "browser_b64uEncode = b64uEncode"
proof
  fix bs
  have "replace_unit CHR ''/'' CHR ''_'' (replace_unit CHR ''+'' CHR ''-'' (map base64_char (bytes_sextets bs))) = b64uEncode bs"
    unfolding replace_unit_def b64uEncode_def map_map comp_def
    by (rule map_cong [OF refl], rule base64_char_replaced(1), rule bytes_sextets_bound)
  moreover have "replace_unit CHR ''/'' CHR ''_'' (replace_unit CHR ''+'' CHR ''-'' (replicate n (jc CHR ''=''))) = replicate n (jc CHR ''='')" for n
    by (simp add: replace_unit_def)
  ultimately have "browser_b64uEncode bs = strip_end CHR ''='' (b64uEncode bs @ replicate ((3 - length bs mod 3) mod 3) (jc CHR ''=''))"
    by (simp add: browser_b64uEncode_def btoa_def replace_unit_def)
  also have "\<dots> = b64uEncode bs"
    by (rule strip_end_padding) (use bytes_sextets_bound [of _ bs] base64_char_replaced(2) in \<open>auto simp: b64uEncode_def list_all_iff\<close>)
  finally show "browser_b64uEncode bs = b64uEncode bs" .
qed

lemma map_result_map: "map_result f (map g xs) = map_result (\<lambda>x. f (g x)) xs"
  by (induction xs) auto

lemma jcs_serializes:
  "canonicalizable v \<Longrightarrow> jcsSerialize v = Inr (json_text (jnorm v))"
  "list_all canonicalizable vs \<Longrightarrow> jcs_items vs = Inr (map (\<lambda>v. json_text (jnorm v)) vs)"
  "list_all (\<lambda>(k, v). canonicalizable v) ms \<Longrightarrow> jcs_members ms = map (\<lambda>(k, v). (k, Inr (json_text (jnorm v)))) ms"
proof (induction v and vs and ms rule: jcsSerialize_jcs_items_jcs_members.induct)
  case (3 n)
  then show ?case by (cases n) auto
next
  case (5 vs)
  then show ?case by (simp add: comp_def)
next
  case (6 ms)
  let ?r = "\<lambda>v. Inr (json_text (jnorm v)) :: jstr + jstr"
  have "map_result (\<lambda>(k, r). rbind r (\<lambda>t. Inr (quote k @ js '':'' @ t))) (map (\<lambda>(k, v). (k, ?r v)) (sort_key fst ms))
    = Inr (map (\<lambda>(k, v). quote k @ js '':'' @ json_text (jnorm v)) (sort_key fst ms))"
    unfolding map_result_map by (rule map_result_all_Inr) auto
  moreover have "sort_key fst (jcs_members ms) = map (\<lambda>(k, v). (k, ?r v)) (sort_key fst ms)"
    using 6 sort_key_fst_map [of "\<lambda>k v. ?r v" ms] by simp
  ultimately show ?case by (simp add: jnorm_obj comp_def case_prod_unfold del: jnorm.simps)
qed auto

lemma browser_bytes: "canonicalizeToBytes v = Inr b \<Longrightarrow> browser_canonicalizeToBytes v = Inr b"
  by (auto simp: canonicalizeToBytes_iff browser_canonicalizeToBytes_def jcs_serializes)

lemma browser_document [simp]: "document v \<Longrightarrow> browser_canonicalizeToBytes v = Inr (doc_bytes v)"
  using canonical_document browser_bytes by blast

text \<open>The browser's digits are core's: the bits read are below the sign, and the time is a number in range.\<close>

lemma signed_shift_digit:
  assumes "k + 5 < 32"
  shows "signed_drop_bit k (w :: 32 word) AND 0x1f = drop_bit k w AND 31"
proof (rule bit_word_eqI)
  fix n assume n: "n < LENGTH(32)"
  show "bit (signed_drop_bit k w AND 0x1f) n = bit (drop_bit k w AND 31) n"
  proof (cases "n < 5")
    case True
    then have "bit (signed_drop_bit k w) n = bit w (k + n)" using assms by (auto simp: bit_signed_drop_bit_iff)
    then show ?thesis by (simp add: bit_and_iff bit_drop_bit_eq)
  next
    case False
    have m: "(0x1f :: 32 word) = mask 5" "(31 :: 32 word) = mask 5" by (simp_all add: mask_eq_exp_minus_1)
    show ?thesis unfolding bit_and_iff m bit_mask_iff using False by blast
  qed
qed

lemma browser_emit_digits:
  "c < 32 \<Longrightarrow> browser_emit w c rnd = (rnd @ map crockford_char (fst (emit_digits w c)), snd (emit_digits w c))"
proof (induction w c arbitrary: rnd rule: emit_digits.induct)
  case (1 w c)
  show ?case
  proof (cases "5 \<le> c")
    case True
    have "c - 5 + 5 < 32" "c - 5 < 32" using 1(2) True by simp_all
    with 1(1) [OF True, of "rnd @ [CROCKFORD ! unat (signed_drop_bit (c - 5) w AND 0x1f)]"] True show ?thesis
      by (simp add: browser_emit.simps [of w c] emit_digits.simps [of w c] signed_shift_digit crockford_char_def split: prod.split)
  qed (simp add: browser_emit.simps [of w c] emit_digits.simps [of w c])
qed

lemma browser_random_digits:
  "c < 5 \<Longrightarrow> browser_random bs (of_nat V) c rnd = rnd @ map crockford_char (pack_digits (of_nat V) c bs)"
proof (induction bs arbitrary: V c rnd)
  case (Cons b bs)
  let ?V = "256 * V + unat b"
  obtain ds rest where e: "emit_digits (of_nat ?V) (c + 8) = (ds, rest)" by fastforce
  have "c + 8 \<le> 32" using Cons.prems by simp
  then have "rest < 5" using emit_digits_value [OF _ e] by simp
  moreover have "browser_emit (of_nat ?V) (c + 8) rnd = (rnd @ map crockford_char ds, rest)"
    using browser_emit_digits [of "c + 8" "of_nat ?V" rnd] Cons.prems e by simp
  ultimately show ?case using Cons.IH [of rest ?V] e
    by (simp only: browser_random.simps pack_digits.simps shift_in Let_def) simp
qed simp

lemma time_digit: "0 \<le> t \<Longrightarrow> CROCKFORD ! unat ((word_of_int t :: 32 word) AND 0x1f) = crockford_char (nat t mod 32)"
proof -
  assume t: "0 \<le> t"
  have "unat ((of_nat (nat t) :: 32 word) AND 31) = nat t mod 32" using five_bits [of 0 "nat t"] by simp
  moreover have "(word_of_int t :: 32 word) = of_nat (nat t)" using t by (metis int_nat_eq of_int_of_nat_eq)
  ultimately show ?thesis by (simp add: crockford_char_def)
qed

lemma browser_time_digits: "0 \<le> t \<Longrightarrow> browser_time i t ts = ulid_time i (nat t) @ ts"
  by (induction i arbitrary: t ts) (simp_all add: time_digit nat_div_distrib)

text \<open>The browser's ULID is core's: for every time in range and ten random bytes, \<open>encodeUlid\<close> (signed 32-bit shifts
  of a buffer that is never cleared, digits prepended to a string) and \<open>generateUlid\<close> write the same 26 characters.\<close>

lemma generateUlid_browser:
  "0 \<le> t \<Longrightarrow> t < 2 ^ 48 \<Longrightarrow> length rnd = 10 \<Longrightarrow> generateUlid (Some t) rnd = Inr (encodeUlid t rnd)"
  using browser_random_digits [of 0 rnd 0 "[]"] by (simp add: generateUlid_def encodeUlid_def browser_time_digits ulid_random_def)

subsection \<open>Keys, agents, fleets and consents\<close>

record client_key_pair =
  ck_privateKey :: bytes
  ck_publicKey :: bytes
  ck_publicKeyHex :: jstr
  ck_publicKeyB64u :: jstr

definition client_pair :: "platform \<Rightarrow> bytes \<Rightarrow> client_key_pair" where
  "client_pair E sk = (let public_key = ed25519_public E sk in
     \<lparr>ck_privateKey = sk, ck_publicKey = public_key, ck_publicKeyHex = hexEncode public_key, ck_publicKeyB64u = browser_b64uEncode public_key\<rparr>)"

definition browser_generateKeyPair :: "platform \<Rightarrow> bytes \<Rightarrow> client_key_pair" where
  "browser_generateKeyPair E random = client_pair E random"

definition keyPairFromPrivateHex :: "platform \<Rightarrow> jstr \<Rightarrow> jstr + client_key_pair" where
  "keyPairFromPrivateHex E h =
     (if \<not> hex_text 64 h then Inl (js ''private key must be 64 hex characters'')
      else Inr (client_pair E (map (\<lambda>i. of_nat (hex_value (h ! (2 * i)) * 16 + hex_value (h ! (2 * i + 1)))) [0..<32])))"

record manifest_input =
  mi_operator :: jstr
  mi_operatorDomain :: jstr
  mi_disclosesToUser :: bool
  mi_humanEscalation :: bool
  mi_purposeSummary :: jstr
  mi_contact :: "jstr option"
  mi_description :: "jstr option"
  mi_channels :: "channel list option"

text \<open>An optional text that is empty is left out.\<close>

definition non_empty :: "jstr option \<Rightarrow> jstr option" where
  "non_empty x = (case x of None \<Rightarrow> None | Some s \<Rightarrow> if s = [] then None else Some s)"

definition browser_manifest :: "jstr \<Rightarrow> jstr \<Rightarrow> manifest_input \<Rightarrow> manifest" where
  "browser_manifest agentId agentName i = \<lparr>mf_manifest_version = js ''1.0'', mf_agent_id = agentId,
     mf_identity = \<lparr>id_name = agentName, id_description = non_empty (mi_description i)\<rparr>,
     mf_ownership = \<lparr>ow_operator = mi_operator i, ow_operator_domain = mi_operatorDomain i, ow_contact = non_empty (mi_contact i)\<rparr>,
     mf_purpose = \<lparr>pu_summary = mi_purposeSummary i, pu_channels = (case mi_channels i of None \<Rightarrow> [Voice] | Some cs \<Rightarrow> if cs = [] then [Voice] else cs)\<rparr>,
     mf_disclosure = \<lparr>di_is_ai = True, di_discloses_to_user = mi_disclosesToUser i, di_human_escalation = mi_humanEscalation i\<rparr>\<rparr>"

definition browser_key_document :: "client_key_pair \<Rightarrow> jstr \<Rightarrow> jstr \<Rightarrow> jstr \<Rightarrow> key_document" where
  "browser_key_document kp keyId agentId now = \<lparr>kd_key_id = keyId, kd_key_type = js ''Ed25519'', kd_public_key_b64u = ck_publicKeyB64u kp,
     kd_role = OperatorRole, kd_controller = agentId, kd_created_at = now, kd_status = KeyActive, kd_retired_at = None, kd_revoked_at = None\<rparr>"

definition browser_proof_payload :: "jstr \<Rightarrow> jstr \<Rightarrow> jstr \<Rightarrow> jstr \<Rightarrow> jstr \<Rightarrow> (jstr \<times> jsval) list" where
  "browser_proof_payload agentId digest keyId now expiresAt =
     [(js ''$schema'', JStr (js ''https://agenid.com/schemas/v1.1.1/manifest-proof.json'')),
      (js ''proof_type'', JStr (js ''manifest_self_declaration'')), (js ''agent_id'', JStr agentId),
      (js ''manifest_version'', JStr (js ''1.0'')),
      (js ''manifest_digest'', JObj [(js ''alg'', JStr (js ''sha-256'')), (js ''value'', JStr digest)]),
      (js ''key_id'', JStr keyId), (js ''created_at'', JStr now), (js ''expires_at'', JStr expiresAt)]"

record signed_agent =
  sa_agentId :: jstr
  sa_keyId :: jstr
  sa_manifest :: jsval
  sa_proof :: jsval
  sa_keyDocument :: jsval
  sa_manifestDigest :: jstr

definition NINETY_DAYS :: int where
  "NINETY_DAYS = 90 * 24 * 60 * 60 * 1000"

text \<open>\<open>nowMs\<close> is the time value of the clock, \<open>ua\<close> and \<open>uk\<close> what the two ULIDs are made from.\<close>

definition signAgent ::
  "platform \<Rightarrow> client_key_pair \<Rightarrow> jstr \<Rightarrow> manifest_input \<Rightarrow> int \<Rightarrow> ulid_source \<Rightarrow> ulid_source \<Rightarrow> jstr + signed_agent" where
  "signAgent E kp agentName i nowMs ua uk =
     (let now = iso_string nowMs; expiresAt = iso_string (nowMs + NINETY_DAYS);
          agentId = js ''agenid:'' @ browser_generateUlid ua; keyId = js ''agenid:key:'' @ browser_generateUlid uk;
          m = Manifest_obj (browser_manifest agentId agentName i) in
      rbind (browser_canonicalizeToBytes m) (\<lambda>mb.
      let digest = sha256Hex E mb; payload = browser_proof_payload agentId digest keyId now expiresAt in
      rbind (browser_canonicalizeToBytes (JObj payload)) (\<lambda>pb.
      Inr \<lparr>sa_agentId = agentId, sa_keyId = keyId, sa_manifest = m,
        sa_proof = JObj (payload @ [(js ''signature'', JStr (browser_b64uEncode (ed25519_sign E (ck_privateKey kp) pb)))]),
        sa_keyDocument = KeyDocument_obj (browser_key_document kp keyId agentId now), sa_manifestDigest = digest\<rparr>)))"

record agent_binding =
  ab_retellAgentId :: jstr
  ab_agentName :: jstr
  ab_signed :: signed_agent

text \<open>One turn of the loop reads the clock and draws two identifiers; an empty name is replaced.\<close>

record fleet_turn =
  ft_agent_id :: jstr
  ft_agent_name :: jstr
  ft_nowMs :: int
  ft_agent :: ulid_source
  ft_key :: ulid_source

definition signAgentFleet :: "platform \<Rightarrow> client_key_pair \<Rightarrow> fleet_turn list \<Rightarrow> manifest_input \<Rightarrow> jstr + agent_binding list" where
  "signAgentFleet E kp agents i =
     map_result (\<lambda>a. rbind (signAgent E kp (if ft_agent_name a = [] then js ''Unnamed Retell Agent'' else ft_agent_name a) i
         (ft_nowMs a) (ft_agent a) (ft_key a))
       (\<lambda>signed. Inr \<lparr>ab_retellAgentId = ft_agent_id a, ab_agentName = ft_agent_name a, ab_signed = signed\<rparr>)) agents"

definition signDirectoryConsent :: "platform \<Rightarrow> client_key_pair \<Rightarrow> jstr \<Rightarrow> jstr \<Rightarrow> bool \<Rightarrow> int \<Rightarrow> jstr + jsval" where
  "signDirectoryConsent E kp agentId keyId listed nowMs =
     (let payload = [(js ''type'', JStr (js ''agenid.directory.consent.v1'')), (js ''agent_id'', JStr agentId), (js ''key_id'', JStr keyId),
          (js ''listed'', JBool listed), (js ''created_at'', JStr (iso_string nowMs))] in
      rbind (browser_canonicalizeToBytes (JObj payload)) (\<lambda>b.
      Inr (JObj (payload @ [(js ''signature'', JStr (browser_b64uEncode (ed25519_sign E (ck_privateKey kp) b)))]))))"

subsection \<open>What the browser signs is what the registry accepts\<close>

lemma browser_consent:
  "signDirectoryConsent E (client_pair E sk) agentId keyId listed nowMs
     = Inr (signed_consent E sk agentId keyId listed (iso_string nowMs))"
proof -
  have "browser_canonicalizeToBytes (JObj (consent_payload agentId keyId listed (iso_string nowMs)))
      = Inr (doc_bytes (JObj (consent_payload agentId keyId listed (iso_string nowMs))))"
    using consent_document by (rule browser_document)
  then show ?thesis
    by (simp add: signDirectoryConsent_def signed_consent_def consent_payload_def DIRECTORY_CONSENT_TYPE_def client_pair_def Let_def
        browser_b64uEncode_eq del: js_simps)
qed

lemma browser_private_hex:
  "length sk = 32 \<Longrightarrow> keyPairFromPrivateHex E (hexEncode sk) = Inr (browser_generateKeyPair E sk)"
proof -
  assume l: "length sk = 32"
  have chars: "list_all is_hex (hex bs)" for bs
  proof (induction bs)
    case (Cons b bs)
    have "unat b div 16 < 16" using unat_byte_less [of b] by simp
    with Cons show ?case by (simp add: hex_def is_hex_digit)
  qed (simp add: hex_def)
  have "map (\<lambda>i. of_nat (hex_value (hex bs ! (2 * i)) * 16 + hex_value (hex bs ! (2 * i + 1)))) [0..<length bs] = bs" for bs
  proof (rule nth_equalityI)
    fix i assume "i < length (map (\<lambda>i. of_nat (hex_value (hex bs ! (2 * i)) * 16 + hex_value (hex bs ! (2 * i + 1))) :: byte) [0..<length bs])"
    then have i: "i < length bs" by simp
    then have "hex bs ! (2 * i) = hex_digit (unat (bs ! i) div 16) \<and> hex bs ! (2 * i + 1) = hex_digit (unat (bs ! i) mod 16)"
    proof (induction bs arbitrary: i)
      case (Cons b bs)
      then show ?case by (cases i) (simp_all add: hex_def)
    qed simp
    moreover have "unat (bs ! i) div 16 < 16" using unat_byte_less [of "bs ! i"] by simp
    moreover have "(of_nat (unat b div 16) :: byte) * 16 + of_nat (unat b mod 16) = b" for b
    proof -
      have "of_nat (unat b div 16 * 16 + unat b mod 16) = b" unfolding div_mult_mod_eq by simp
      then show ?thesis by (simp only: of_nat_add of_nat_mult of_nat_numeral)
    qed
    ultimately show "map (\<lambda>i. of_nat (hex_value (hex bs ! (2 * i)) * 16 + hex_value (hex bs ! (2 * i + 1)))) [0..<length bs] ! i = bs ! i"
      using i by simp
  qed simp
  from this [of sk] l show ?thesis
    by (simp add: keyPairFromPrivateHex_def browser_generateKeyPair_def hexEncode_eq hex_text_def chars)
qed

definition browser_proof :: "platform \<Rightarrow> bytes \<Rightarrow> manifest \<Rightarrow> key_document \<Rightarrow> int \<Rightarrow> manifest_proof" where
  "browser_proof E sk m k nowMs = signed_proof E sk (proof_payload E m k (iso_string nowMs) (iso_string (nowMs + NINETY_DAYS)))"

lemma signAgent_documents:
  assumes m_def: "m = browser_manifest (js ''agenid:'' @ browser_generateUlid ua) agentName i"
    and k_def: "k = browser_key_document (client_pair E sk) (js ''agenid:key:'' @ browser_generateUlid uk) (js ''agenid:'' @ browser_generateUlid ua) (iso_string nowMs)"
  shows "signAgent E (client_pair E sk) agentName i nowMs ua uk = Inr \<lparr>sa_agentId = mf_agent_id m, sa_keyId = kd_key_id k,
    sa_manifest = Manifest_obj m, sa_proof = ManifestProof_obj (browser_proof E sk m k nowMs), sa_keyDocument = KeyDocument_obj k,
    sa_manifestDigest = manifest_digest E m\<rparr>"
proof -
  let ?p = "proof_payload E m k (iso_string nowMs) (iso_string (nowMs + NINETY_DAYS))"
  have payload: "browser_proof_payload (mf_agent_id m) (manifest_digest E m) (kd_key_id k) (iso_string nowMs) (iso_string (nowMs + NINETY_DAYS))
      = ManifestProofPayload_members ?p"
    by (simp add: browser_proof_payload_def ManifestProofPayload_members_def proof_payload_def Digest_obj_def MANIFEST_PROOF_SCHEMA_ID_def
        SCHEMA_BASE_def m_def browser_manifest_def del: js_simps) (simp add: js_def)
  have mb: "browser_canonicalizeToBytes (Manifest_obj m) = Inr (doc_bytes (Manifest_obj m))" by (rule browser_document) simp
  have pb: "browser_canonicalizeToBytes (JObj (ManifestProofPayload_members ?p)) = Inr (doc_bytes (ManifestProofPayload_obj ?p))"
    using members_document(1) [of ?p] by (simp add: ManifestProofPayload_obj_def)
  have ids: "mf_agent_id m = js ''agenid:'' @ browser_generateUlid ua" "kd_key_id k = js ''agenid:key:'' @ browser_generateUlid uk"
    by (simp_all add: m_def k_def browser_manifest_def browser_key_document_def)
  have digest: "sha256Hex E (doc_bytes (Manifest_obj m)) = manifest_digest E m"
    by (simp add: sha256Hex_def hexEncode_eq manifest_digest_def)
  have obj: "ManifestProof_obj (browser_proof E sk m k nowMs) = JObj (ManifestProofPayload_members ?p
      @ [(js ''signature'', JStr (b64uEncode (ed25519_sign E sk (doc_bytes (ManifestProofPayload_obj ?p)))))])"
    by (simp add: browser_proof_def ManifestProof_obj_def ManifestProofPayload_members_def signed_proof_def
        manifest_proof_payload.defs manifest_proof.defs del: js_simps)
  have docs: "browser_manifest (mf_agent_id m) agentName i = m"
    "browser_key_document (client_pair E sk) (kd_key_id k) (mf_agent_id m) (iso_string nowMs) = k" "ck_privateKey (client_pair E sk) = sk"
    using m_def k_def ids by (simp_all add: client_pair_def Let_def)
  show ?thesis unfolding obj
    by (simp only: signAgent_def Let_def ids [symmetric] docs mb digest payload pb rbind_simps browser_b64uEncode_eq)
qed

definition source_ok :: "ulid_source \<Rightarrow> bool" where
  "source_ok u \<longleftrightarrow> 0 \<le> us_time u \<and> us_time u < 2 ^ 48 \<and> length (us_random u) = 10"

lemma browser_ulid_valid: "source_ok u \<Longrightarrow> isValidUlid (browser_generateUlid u)"
  using generateUlid_ok [of "us_time u" "us_random u"] generateUlid_browser [of "us_time u" "us_random u"]
  by (auto simp: source_ok_def browser_generateUlid_def)

text \<open>The years 0 to 9999.\<close>

definition plain_time :: "int \<Rightarrow> bool" where
  "plain_time t \<longleftrightarrow> -62167219200000 \<le> t \<and> t < 253402300800000"

lemma iso_string_time:
  assumes "plain_time t"
  shows "Date_parse E (iso_string t) = Some t" "Rfc3339Utc E (iso_string t)"
proof -
  show "Date_parse E (iso_string t) = Some t"
    using iso_roundtrip(1) assms by (simp add: plain_time_def Date_parse_def date_parse_def)
  then show "Rfc3339Utc E (iso_string t)" using iso_roundtrip(2) assms by (simp add: plain_time_def Rfc3339Utc_def)
qed

lemma browser_key_ok:
  assumes "ed25519_lengths E" "length sk = 32" "isValidAgentId a" "source_ok uk" "plain_time t"
  shows "KeyDocument_ok E (browser_key_document (client_pair E sk) (js ''agenid:key:'' @ browser_generateUlid uk) a (iso_string t))"
proof -
  have valid: "isValidKeyId (js ''agenid:key:'' @ browser_generateUlid uk)"
    using browser_ulid_valid [OF assms(4)] keyId_iff by blast
  then have "KeyId (js ''agenid:key:'' @ browser_generateUlid uk)"
    using key_id_units [OF valid] by (simp add: KeyId_def fragment_mark_def)
  moreover have "Ed25519PublicKeyB64u (b64uEncode (ed25519_public E sk))"
    using assms(1,2) by (simp add: Ed25519PublicKeyB64u_def b64uEncode_chars length_b64uEncode ed25519_lengths_def)
  moreover have "a \<noteq> []" using assms(3) by (auto simp: agentId_iff)
  ultimately show ?thesis using assms(3,5)
    by (simp add: KeyDocument_ok_def browser_key_document_def client_pair_def Let_def browser_b64uEncode_eq iso_string_time opt_ok_def
        controller_ok_def del: js_simps)
qed

lemma own_registration_time:
  assumes "plain_time n" "plain_time t" "plain_time x" "n - MAX_FORWARD_SKEW_MS \<le> t" "t \<le> x" "n < x"
  obtains now where "registrationTime E (iso_string n) (Some t) = Inr (RegistrationAt now (iso_string t))"
    "in_window E (iso_string n) (iso_string x) now"
proof (cases "0 < n - t")
  case True
  have "registrationTime E (iso_string n) (Some t) = Inr (RegistrationAt (iso_string n) (iso_string t))"
    using assms True by (simp add: registrationTime_def Let_def iso_string_time)
  moreover have "in_window E (iso_string n) (iso_string x) (iso_string n)"
    using assms by (simp add: in_window_def iso_string_time)
  ultimately show thesis by (rule that)
next
  case False
  have "registrationTime E (iso_string n) (Some t) = Inr (RegistrationAt (iso_string t) (iso_string t))"
    using assms False by (simp add: registrationTime_def Let_def iso_string_time MAX_FORWARD_SKEW_MS_def)
  moreover have "in_window E (iso_string n) (iso_string x) (iso_string t)"
    using assms False by (simp add: in_window_def iso_string_time)
  ultimately show thesis by (rule that)
qed

text \<open>What an operator signs with the key of its own agent is registered, whoever built the documents.\<close>

lemma own_documents_register:
  assumes laws: "zod_schemas E" "sha256_length E" "ed25519_lengths E" "ed25519_correct E"
    and docs: "Manifest_ok E m" "KeyDocument_ok E k" "kd_controller k = mf_agent_id m" "kd_role k = OperatorRole" "controls E sk k"
      "\<And>x. keyActiveAt E k x"
    and p: "p = signed_proof E sk (proof_payload E m k (iso_string n) (iso_string x))"
    and times: "plain_time n" "plain_time t" "plain_time x" "n - MAX_FORWARD_SKEW_MS \<le> t" "t \<le> x" "n < x"
    and clock: "good_clock V" "Date_parse E (rq_now V 0) = Some t"
    and fresh: "ms_agents s (mf_agent_id m) = None" "ms_keys s (kd_key_id k) = None"
  shows "\<exists>r s'. registerAgent E (MemoryStore le) V (JObj [(js ''manifest'', Manifest_obj m), (js ''proof'', ManifestProof_obj p),
        (js ''key_document'', KeyDocument_obj k)]) s = (Inr (Registered r k m), s')
    \<and> ms_agents s' (mf_agent_id m) = Some r \<and> ms_keys s' (kd_key_id k) = Some k"
proof -
  have agent: "isValidAgentId (mf_agent_id m)" using docs(1) by (simp add: Manifest_ok_def)
  have pok: "ManifestProof_ok E p" unfolding p
    by (rule signManifestProof_total(2) [OF laws(1-3) docs(1,2,5,4,3)]) (use times in \<open>simp_all add: iso_string_time\<close>)
  have pid: "mp_key_id p = kd_key_id k" "mp_created_at p = iso_string n"
    by (simp_all add: p signed_proof_def proof_payload_def manifest_proof_payload.defs manifest_proof.defs)
  note parses = parse_own(1) [OF laws(1) docs(1)] parse_own(3) [OF laws(1) pok] parse_own(6) [OF laws(1) docs(2)]
  obtain now where now: "registrationTime E (iso_string n) (Some t) = Inr (RegistrationAt now (iso_string t))"
    "in_window E (iso_string n) (iso_string x) now"
    using own_registration_time [OF times] .
  have "accepted (verifyManifestProof E (ManifestProof_obj p) (Manifest_obj m) (KeyDocument_obj k) now)"
    using signed_proof_holds [OF laws(3,4) docs(5,4,3,6) now(2)] verifyManifestProof_parsed [OF parses(2,1,3)] by (simp add: p)
  then obtain c ds where ok: "verifyManifestProof E (ManifestProof_obj p) (Manifest_obj m) (KeyDocument_obj k) now = Inr (VerifyOk c ds)"
    by (auto simp: accepted_def)
  obtain u w where wr: "\<And>s. write_registration E (MemoryStore le) V m p k (iso_string t) s =
    (if ms_agents s (mf_agent_id m) = None then (Inr (Some (agent_of E m p (iso_string t))), registered_state E m p k (iso_string t) u w s)
     else (Inr None, s))"
    using memory_write_registration [OF clock(1)] by metis
  let ?body = "JObj [(js ''manifest'', Manifest_obj m), (js ''proof'', ManifestProof_obj p), (js ''key_document'', KeyDocument_obj k)]"
  have reg: "registerAgent E (MemoryStore le) V ?body = register_checked E (MemoryStore le) V m p k"
    by (rule register_parsed) (simp_all add: register_members_def REGISTER_MEMBERS_def get_member_def js_inject parses del: js_simps)
  have "register_checked E (MemoryStore le) V m p k s = (Inr (Registered (agent_of E m p (iso_string t)) k m), registered_state E m p k (iso_string t) u w s)"
    using agent docs(3,4) pid clock(2) now(1) ok fresh
    by (simp add: register_checked_def register_in_store_def io_bind_def io_catch_def memory_key_conflict wr)
  with reg show ?thesis by (simp add: registered_state_def)
qed


definition sample_source :: "nat \<Rightarrow> ulid_source" where
  "sample_source n = \<lparr>us_time = 1767398400000, us_random = replicate 10 (of_nat n)\<rparr>"

definition sample_form :: manifest_input where
  "sample_form = \<lparr>mi_operator = js ''Acme'', mi_operatorDomain = js ''acme.com'', mi_disclosesToUser = True, mi_humanEscalation = True,
     mi_purposeSummary = js ''Calls'', mi_contact = None, mi_description = Some [], mi_channels = None\<rparr>"

lemma sample_form_ok:
  "isValidAgentId a \<Longrightarrow> Manifest_ok reference_platform (browser_manifest a (js ''Ava'') sample_form)"
proof -
  have "FreeText 200 (js ''Ava'')" "FreeText 300 (js ''Acme'')" "FreeText 500 (js ''Calls'')" "isValidHostname (js ''acme.com'')"
    by code_simp+
  then show "isValidAgentId a \<Longrightarrow> Manifest_ok reference_platform (browser_manifest a (js ''Ava'') sample_form)"
    by (simp add: Manifest_ok_def browser_manifest_def sample_form_def opt_ok_def non_empty_def del: js_simps)
qed


end
