(* ===== verification/Domain_Control.thy ===== *)
theory Domain_Control
  imports Browser_Signing
begin

section \<open>Domain control and operator key discovery\<close>

text \<open>
  \<open>packages/web/lib/domain-connect.ts\<close>, \<open>lib/dns-probe.ts\<close>, \<open>lib/key-discovery.ts\<close>, \<open>lib/keys-document.ts\<close> and the
  routes \<open>app/api/verify-dns\<close> and \<open>app/api/domain/status\<close>: what the resolver says about the TXT record of a domain,
  whether the DNS provider offers a one-click flow, and whether the operator's site serves a key document.

  The resolver, \<open>fetch\<close>, the \<open>URL\<close> constructor and \<open>JSON.parse\<close> are the record \<open>network\<close>; a request asks each of
  them for a name at most once, so that they are functions of it.  An abort of the timer is a failing \<open>fetch\<close> or a
  failing body.
\<close>

subsection \<open>The network\<close>

record dns_failure =
  df_code :: "jstr option"
  df_message :: jstr

text \<open>A body is a list of chunks, and whether reading fails after them; \<open>None\<close> when there is none.\<close>

record fetched =
  fd_status :: nat
  fd_headers :: headers
  fd_body :: "(bytes list \<times> bool) option"

text \<open>A parsed URL: \<open>protocol\<close>, the text up to the query, \<open>searchParams\<close> and \<open>hash\<close>.\<close>

record url =
  url_protocol :: jstr
  url_start :: jstr
  url_search :: "(jstr \<times> jstr) list"
  url_hash :: jstr

record network =
  resolveTxt :: "jstr \<Rightarrow> dns_failure + jstr list list"
  resolveCname :: "jstr \<Rightarrow> dns_failure + jstr list"
  resolveNs :: "jstr \<Rightarrow> dns_failure + jstr list"
  fetch_url :: "jstr \<Rightarrow> fetched option"
  parse_URL :: "jstr \<Rightarrow> url option"
  JSON_parse :: "jstr \<Rightarrow> jsval option"

subsection \<open>Texts of the platform\<close>

text \<open>
  \<open>TextDecoder\<close>: the UTF-8 decoder of the Encoding Standard, with the bytes still needed, the value read and the
  range the next byte must be in.  A byte out of range is replaced by U+FFFD and read again; a leading U+FEFF is dropped.
\<close>

function utf8_decode :: "nat \<Rightarrow> nat \<Rightarrow> nat \<Rightarrow> nat \<Rightarrow> bytes \<Rightarrow> nat list" where
  "utf8_decode needed v lo hi [] = (if needed = 0 then [] else [0xFFFD])"
| "utf8_decode needed v lo hi (b # bs) =
     (let n = unat b in
      if needed = 0
      then (if n < 0x80 then n # utf8_decode 0 0 0x80 0xBF bs
            else if 0xC2 \<le> n \<and> n \<le> 0xDF then utf8_decode 1 (n - 0xC0) 0x80 0xBF bs
            else if 0xE0 \<le> n \<and> n \<le> 0xEF
              then utf8_decode 2 (n - 0xE0) (if n = 0xE0 then 0xA0 else 0x80) (if n = 0xED then 0x9F else 0xBF) bs
            else if 0xF0 \<le> n \<and> n \<le> 0xF4
              then utf8_decode 3 (n - 0xF0) (if n = 0xF0 then 0x90 else 0x80) (if n = 0xF4 then 0x8F else 0xBF) bs
            else 0xFFFD # utf8_decode 0 0 0x80 0xBF bs)
      else if n < lo \<or> hi < n then 0xFFFD # utf8_decode 0 0 0x80 0xBF (b # bs)
      else if needed = 1 then (v * 64 + (n - 0x80)) # utf8_decode 0 0 0x80 0xBF bs
      else utf8_decode (needed - 1) (v * 64 + (n - 0x80)) 0x80 0xBF bs)"
  by pat_completeness auto
termination
  by (relation "measure (\<lambda>(needed, v, lo, hi, bs). 2 * length bs + (if needed = 0 then 0 else 1))") auto

definition TextDecoder :: "bytes \<Rightarrow> jstr" where
  "TextDecoder bs = (let points = utf8_decode 0 0 0x80 0xBF bs in
     concat (map point_units (case points of [] \<Rightarrow> [] | p # ps \<Rightarrow> if p = 0xFEFF then ps else points)))"

text \<open>\<open>Number(text)\<close> as an exact decimal value before rounding; \<open>None\<close> for \<open>NaN\<close> and the infinities.\<close>

definition radix_value :: "nat \<Rightarrow> jstr \<Rightarrow> rat option" where
  "radix_value r s = (if s \<noteq> [] \<and> list_all (\<lambda>c. is_hex c \<and> hex_value c < r) s
     then Some (of_nat (foldl (\<lambda>n c. r * n + hex_value c) 0 s)) else None)"

definition exponent_of :: "jstr \<Rightarrow> int option" where
  "exponent_of s = (case s of [] \<Rightarrow> Some 0
     | c # t \<Rightarrow> if c \<notin> {jc CHR ''e'', jc CHR ''E''} then None
         else (let ds = (if t \<noteq> [] \<and> hd t \<in> {jc CHR ''+'', jc CHR ''-''} then tl t else t) in
           if ds = [] \<or> \<not> list_all is_digit ds then None
           else Some (if hd t = jc CHR ''-'' then - int (digits_value ds) else int (digits_value ds))))"

definition unsigned_decimal :: "jstr \<Rightarrow> rat option" where
  "unsigned_decimal s =
     (let whole = takeWhile is_digit s; r = dropWhile is_digit s;
          frac = (if r \<noteq> [] \<and> hd r = jc CHR ''.'' then takeWhile is_digit (tl r) else []);
          rest = (if r \<noteq> [] \<and> hd r = jc CHR ''.'' then dropWhile is_digit (tl r) else r)
      in if whole @ frac = [] then None
         else map_option (\<lambda>e. of_nat (digits_value (whole @ frac)) * 10 powi (e - int (length frac))) (exponent_of rest))"

definition Number_text :: "jstr \<Rightarrow> rat option" where
  "Number_text text =
     (case trim text of [] \<Rightarrow> Some 0
      | c # s \<Rightarrow>
          if c = jc CHR ''-'' then map_option uminus (unsigned_decimal s)
          else if c = jc CHR ''+'' then unsigned_decimal s
          else if c = jc CHR ''0'' \<and> s \<noteq> [] \<and> hd s \<in> {jc CHR ''x'', jc CHR ''X''} then radix_value 16 (tl s)
          else if c = jc CHR ''0'' \<and> s \<noteq> [] \<and> hd s \<in> {jc CHR ''o'', jc CHR ''O''} then radix_value 8 (tl s)
          else if c = jc CHR ''0'' \<and> s \<noteq> [] \<and> hd s \<in> {jc CHR ''b'', jc CHR ''B''} then radix_value 2 (tl s)
          else unsigned_decimal (c # s))"

text \<open>A body as text, read to its end; \<open>None\<close> when reading fails.\<close>

definition body_text :: "fetched \<Rightarrow> jstr option" where
  "body_text r = (case fd_body r of None \<Rightarrow> Some []
     | Some (chunks, fails) \<Rightarrow> if fails then None else Some (TextDecoder (concat chunks)))"

text \<open>\<open>searchParams.set\<close> and the \<open>application/x-www-form-urlencoded\<close> serializer behind \<open>URL.toString\<close>.\<close>

fun set_param :: "jstr \<Rightarrow> jstr \<Rightarrow> (jstr \<times> jstr) list \<Rightarrow> (jstr \<times> jstr) list" where
  "set_param k v [] = [(k, v)]"
| "set_param k v (p # ps) = (if fst p = k then (k, v) # filter (\<lambda>q. fst q \<noteq> k) ps else p # set_param k v ps)"

definition form_byte :: "byte \<Rightarrow> jstr" where
  "form_byte b = (if b = 0x20 then [jc CHR ''+'']
     else if is_alnum (ucast b) \<or> ucast b \<in> set (js ''*-._'') then [ucast b] else percent_bytes [b])"

definition form_text :: "jstr \<Rightarrow> jstr" where
  "form_text s = concat (map form_byte (utf8_encode s))"

definition url_text :: "url \<Rightarrow> jstr" where
  "url_text u = url_start u
     @ (if url_search u = [] then [] else js ''?'' @ join_with (js ''&'') (map (\<lambda>(k, v). form_text k @ js ''='' @ form_text v) (url_search u)))
     @ url_hash u"

subsection \<open>Domain Connect\<close>

record connect_service =
  cs_providerId :: jstr
  cs_serviceId :: jstr
  cs_providerName :: jstr
  cs_serviceName :: jstr

definition DOMAIN_CONNECT_SERVICE :: connect_service where
  "DOMAIN_CONNECT_SERVICE = \<lparr>cs_providerId = js ''agenid.com'', cs_serviceId = js ''agent-identity'',
     cs_providerName = js ''AgenID'', cs_serviceName = js ''AI Agent Identity Verification''\<rparr>"

type_synonym environment = "jstr \<Rightarrow> jstr option" \<comment> \<open>\<open>process.env\<close>\<close>

definition templateIsRegistered :: "environment \<Rightarrow> bool" where
  "templateIsRegistered env \<longleftrightarrow> env (js ''AGENID_DOMAIN_CONNECT_PROVIDER_ID'') = Some (cs_providerId DOMAIN_CONNECT_SERVICE)"

text \<open>The settings are any JSON value; members of other types than the declared ones read as they are.\<close>

definition usableSyncUx :: "network \<Rightarrow> jsval \<Rightarrow> jstr option" where
  "usableSyncUx N settings =
     (case get_member (js ''urlSyncUX'') settings of
        JStr raw \<Rightarrow>
          if raw = [] then None
          else (case parse_URL N raw of None \<Rightarrow> None
                | Some u \<Rightarrow> if url_protocol u \<noteq> js ''https:'' then None else Some (strip_end CHR ''/'' raw))
      | _ \<Rightarrow> None)"

text \<open>
  The table is an object literal: the members it inherits answer too, and the two whose name is in lower case are used
  as the text they convert to.
\<close>

definition fallbackSettingsHost :: "jstr \<Rightarrow> jstr option" where
  "fallbackSettingsHost cnameTarget =
     (let name = toLowerCase (if cnameTarget \<noteq> [] \<and> last cnameTarget = jc CHR ''.'' then butlast cnameTarget else cnameTarget) in
      if name = js ''_domainconnect.gd.domaincontrol.com'' then Some (js ''domainconnect.api.godaddy.com'')
      else if name = js ''constructor'' then Some (js ''function Object() { [native code] }'')
      else if name = js ''__proto__'' then Some (js ''[object Object]'')
      else None)"

text \<open>\<open>new URL\<close> may throw on the base: the end of the provider's text was not its end when it was checked.\<close>

definition applyUrlFor :: "network \<Rightarrow> environment \<Rightarrow> jstr \<Rightarrow> jstr \<Rightarrow> jstr \<Rightarrow> jstr \<Rightarrow> exn + jstr option" where
  "applyUrlFor N env syncUx domain token redirectUri =
     (if \<not> templateIsRegistered env then Inr None
      else if syncUx = [] \<or> domain = [] \<or> token = [] then Inr None
      else (case parse_URL N (strip_end CHR ''/'' syncUx @ js ''/v2/domainTemplates/providers/'' @ cs_providerId DOMAIN_CONNECT_SERVICE
                  @ js ''/services/'' @ cs_serviceId DOMAIN_CONNECT_SERVICE @ js ''/apply'') of
            None \<Rightarrow> Inl (StoreError (js ''Invalid URL''))
          | Some u \<Rightarrow> Inr (Some (url_text (u\<lparr>url_search :=
              set_param (js ''redirect_uri'') redirectUri (set_param (js ''token'') token (set_param (js ''domain'') domain (url_search u)))\<rparr>)))))"

definition keyDocumentUrl :: "jstr \<Rightarrow> jstr" where
  "keyDocumentUrl domain = js ''https://'' @ domain @ js ''/.well-known/agenid/keys.json''"

record dns_record =
  rc_type :: jstr
  rc_name :: jstr
  rc_value :: jstr
  rc_ttl :: nat

definition verificationRecord :: "jstr \<Rightarrow> jstr \<Rightarrow> dns_record" where
  "verificationRecord domain token = \<lparr>rc_type = js ''TXT'', rc_name = js ''_agenid.'' @ domain,
     rc_value = js ''agenid-site-verification='' @ token, rc_ttl = 300\<rparr>"

subsection \<open>DNS probes\<close>

record txt_probe =
  tx_host :: jstr
  tx_record :: dns_record
  tx_found :: bool
  tx_matched :: bool
  tx_count :: nat
  tx_error :: "dns_failure option"

definition probeTxtRecord :: "network \<Rightarrow> jstr \<Rightarrow> jstr \<Rightarrow> txt_probe" where
  "probeTxtRecord N domain token =
     (let record = verificationRecord domain token; host = rc_name record;
          base = \<lparr>tx_host = host, tx_record = record, tx_found = False, tx_matched = False, tx_count = 0, tx_error = None\<rparr>
      in case resolveTxt N host of
           Inl e \<Rightarrow> if df_code e \<in> {Some (js ''ENOTFOUND''), Some (js ''ENODATA'')} then base else base\<lparr>tx_error := Some e\<rparr>
         | Inr records \<Rightarrow>
             let values = map concat records in
             \<lparr>tx_host = host, tx_record = record, tx_found = 0 < length values,
              tx_matched = list_ex (\<lambda>v. trim v = rc_value record) values, tx_count = length values, tx_error = None\<rparr>)"

datatype dns_provider = Cloudflare | GoDaddy

fun provider_text :: "dns_provider \<Rightarrow> jstr" where
  "provider_text Cloudflare = js ''Cloudflare''"
| "provider_text GoDaddy = js ''GoDaddy''"

record provider_probe =
  pp_name :: "dns_provider option"
  pp_nameservers :: "jstr list"
  pp_domainConnect :: bool
  pp_domainConnectHost :: "jstr option"

definition ends_with :: "jstr \<Rightarrow> jstr \<Rightarrow> bool" where
  "ends_with e s \<longleftrightarrow> (case strip_prefix (rev e) (rev s) of None \<Rightarrow> False | Some _ \<Rightarrow> True)"

definition probeProvider :: "network \<Rightarrow> jstr \<Rightarrow> provider_probe" where
  "probeProvider N domain =
     (let domainConnectHost = (case resolveCname N (js ''_domainconnect.'' @ domain) of
            Inl e \<Rightarrow> None | Inr [] \<Rightarrow> None | Inr (c # cs) \<Rightarrow> Some c);
          nameservers = (case resolveNs N domain of Inl e \<Rightarrow> [] | Inr ns \<Rightarrow> ns);
          nsLower = map toLowerCase nameservers;
          name = (if list_ex (ends_with (js ''.ns.cloudflare.com'')) nsLower then Some Cloudflare
            else if list_ex (ends_with (js ''.domaincontrol.com'')) nsLower then Some GoDaddy else None)
      in \<lparr>pp_name = name, pp_nameservers = nameservers,
          pp_domainConnect = (domainConnectHost \<noteq> None \<and> domainConnectHost \<noteq> Some []), pp_domainConnectHost = domainConnectHost\<rparr>)"

definition DOMAIN_CONTROL_DISCLOSURES :: "jstr list" where
  "DOMAIN_CONTROL_DISCLOSURES =
     [js ''Domain control is evidence, not a verification level. It does not by itself raise an agent above L1.'',
      js ''No verification level is issued by this endpoint under any outcome.'',
      js ''L2_DOMAIN_VERIFIED requires an assertion signed by the root authority key, which does not exist yet.'']"

subsection \<open>Operator key discovery\<close>

datatype key_discovery_state = KeysAbsent | KeysInvalid | KeysPublished | KeysUnreachable

fun discovery_state_text :: "key_discovery_state \<Rightarrow> jstr" where
  "discovery_state_text KeysAbsent = js ''absent''"
| "discovery_state_text KeysInvalid = js ''invalid''"
| "discovery_state_text KeysPublished = js ''published''"
| "discovery_state_text KeysUnreachable = js ''unreachable''"

datatype key_discovery_reason = NotJson | MalformedJson | DocumentInvalid | ControllerDomainMismatch | BodyTooLarge | HttpStatus nat

fun discovery_reason_text :: "key_discovery_reason \<Rightarrow> jstr" where
  "discovery_reason_text NotJson = js ''not_json''"
| "discovery_reason_text MalformedJson = js ''malformed_json''"
| "discovery_reason_text DocumentInvalid = js ''schema_invalid''"
| "discovery_reason_text ControllerDomainMismatch = js ''controller_domain_mismatch''"
| "discovery_reason_text BodyTooLarge = js ''too_large''"
| "discovery_reason_text (HttpStatus n) = js ''http_'' @ dec n"

record key_discovery =
  kv_state :: key_discovery_state
  kv_reason :: "key_discovery_reason option"
  kv_url :: jstr
  kv_http_status :: "nat option"
  kv_key_count :: "nat option"

definition MAX_KEYS_DOCUMENT_BYTES :: nat where
  "MAX_KEYS_DOCUMENT_BYTES = 64 * 1024"

definition json_suffix_unit :: "code_unit \<Rightarrow> bool" where
  "json_suffix_unit c \<longleftrightarrow> is_lower c \<or> is_digit c \<or> c \<in> set (js ''.+-'')"

definition isJsonContentType_value :: "jstr option \<Rightarrow> bool" where
  "isJsonContentType_value value =
     (case value of None \<Rightarrow> False
      | Some v \<Rightarrow> v \<noteq> [] \<and>
          (let essence = toLowerCase (trim (first_part CHR '';'' v)) in
           essence = js ''application/json''
           \<or> (case strip_prefix (js ''application/'') essence of None \<Rightarrow> False
              | Some r \<Rightarrow> ends_with (js ''+json'') r \<and> 5 < length r \<and> list_all json_suffix_unit (take (length r - 5) r))))"

text \<open>
  \<open>Number.isFinite(declared) && declared > limit\<close> for the limit of 65,536 bytes, whose successor among the doubles is
  2^-36 above it: an exact value above half that distance rounds above the limit; from 2^1024 - 2^970 on it rounds to
  infinity.  A missing header is \<open>Number(null)\<close>, which is 0.
\<close>

definition declared_too_large :: "headers \<Rightarrow> bool" where
  "declared_too_large h =
     (case h (js ''content-length'') of None \<Rightarrow> False
      | Some text \<Rightarrow>
          (case Number_text text of None \<Rightarrow> False
           | Some q \<Rightarrow> of_nat MAX_KEYS_DOCUMENT_BYTES + 1 / 2 ^ 37 < q \<and> q < 2 ^ 1024 - 2 ^ 970))"

datatype bounded_read = ReadFails | ReadTooLarge | ReadText jstr

text \<open>The reader loop: the bytes read so far, and whether the body fails after its chunks.\<close>

fun read_chunks :: "bool \<Rightarrow> nat \<Rightarrow> bytes list \<Rightarrow> bytes list \<Rightarrow> bounded_read" where
  "read_chunks fails n chunks [] = (if fails then ReadFails else ReadText (TextDecoder (concat chunks)))"
| "read_chunks fails n chunks (c # cs) =
     (if MAX_KEYS_DOCUMENT_BYTES < n + length c then ReadTooLarge
      else read_chunks fails (n + length c) (chunks @ [c]) cs)"

definition readBounded :: "fetched \<Rightarrow> bounded_read" where
  "readBounded r =
     (if declared_too_large (fd_headers r) then ReadTooLarge
      else (case fd_body r of None \<Rightarrow> ReadText [] | Some (chunks, fails) \<Rightarrow> read_chunks fails 0 [] chunks))"

definition discovery_result ::
  "jstr \<Rightarrow> key_discovery_state \<Rightarrow> key_discovery_reason option \<Rightarrow> nat option \<Rightarrow> nat option \<Rightarrow> key_discovery" where
  "discovery_result u state reason http_status key_count =
     \<lparr>kv_state = state, kv_reason = reason, kv_url = u, kv_http_status = http_status, kv_key_count = key_count\<rparr>"

definition probeKeyDiscovery :: "platform \<Rightarrow> network \<Rightarrow> jstr \<Rightarrow> key_discovery" where
  "probeKeyDiscovery E N domain =
     (let u = keyDocumentUrl domain; result = discovery_result u in
      case fetch_url N u of
        None \<Rightarrow> result KeysUnreachable None None None
      | Some res \<Rightarrow>
          let status = fd_status res in
          if status = 404 \<or> status = 410 then result KeysAbsent None (Some status) None
          else if 500 \<le> status then result KeysUnreachable (Some (HttpStatus status)) (Some status) None
          else if status < 200 \<or> 300 \<le> status then result KeysInvalid (Some (HttpStatus status)) (Some status) None
          else if \<not> isJsonContentType_value (fd_headers res (js ''content-type''))
          then result KeysInvalid (Some NotJson) (Some status) None
          else (case readBounded res of
                  ReadFails \<Rightarrow> result KeysUnreachable None (Some status) None
                | ReadTooLarge \<Rightarrow> result KeysInvalid (Some BodyTooLarge) (Some status) None
                | ReadText text \<Rightarrow>
                    (case JSON_parse N text of
                       None \<Rightarrow> result KeysInvalid (Some MalformedJson) (Some status) None
                     | Some parsed \<Rightarrow>
                         (case parse_KeysDocument E parsed of
                            Inl issues \<Rightarrow> result KeysInvalid (Some DocumentInvalid) (Some status) None
                          | Inr doc \<Rightarrow>
                              if toLowerCase (ks_controller_domain doc) \<noteq> toLowerCase domain
                              then result KeysInvalid (Some ControllerDomainMismatch) (Some status) None
                              else result KeysPublished None (Some status) (Some (length (ks_keys doc)))))))"

subsection \<open>The operator's key document\<close>

text \<open>\<open>JSON.stringify(v, null, 2)\<close> of a document, from a given depth.\<close>

definition indentation :: "nat \<Rightarrow> jstr" where
  "indentation d = 0x0A # replicate (2 * d) 0x20"

definition pretty_list :: "nat \<Rightarrow> char \<Rightarrow> char \<Rightarrow> jstr list \<Rightarrow> jstr" where
  "pretty_list d a b items =
     (if items = [] then [jc a, jc b]
      else [jc a] @ indentation (d + 1) @ join_with (js '','' @ indentation (d + 1)) items @ indentation d @ [jc b])"

fun pretty :: "nat \<Rightarrow> jsval \<Rightarrow> jstr" where
  "pretty d (JArr vs) = pretty_list d CHR ''['' CHR '']'' (map (pretty (d + 1)) vs)"
| "pretty d (JObj ms) = pretty_list d CHR ''{'' CHR ''}'' (map (\<lambda>(k, v). quote k @ js '': '' @ pretty (d + 1) v) ms)"
| "pretty d v = json_text v"

definition KEYS_DOCUMENT_PATH :: jstr where
  "KEYS_DOCUMENT_PATH = js ''/.well-known/agenid/keys.json''"

definition KEYS_DOCUMENT_SCHEMA_ID :: jstr where
  "KEYS_DOCUMENT_SCHEMA_ID = js ''https://agenid.com/schemas/v1.1.1/keys.json''"

definition buildKeysDocument :: "jstr \<Rightarrow> jsval list \<Rightarrow> jstr + jstr" where
  "buildKeysDocument operatorDomain keyDocuments =
     (let domain = toLowerCase (trim operatorDomain) in
      if domain = [] then Inl (js ''operator domain is required'')
      else if keyDocuments = [] then Inl (js ''at least one key document is required'')
      else Inr (pretty 0 (JObj [(js ''$schema'', JStr KEYS_DOCUMENT_SCHEMA_ID), (js ''controller_domain'', JStr domain),
             (js ''keys'', JArr keyDocuments)]) @ [0x0A]))"

definition keysDocumentUrl :: "jstr \<Rightarrow> jstr" where
  "keysDocumentUrl operatorDomain = js ''https://'' @ toLowerCase (trim operatorDomain) @ KEYS_DOCUMENT_PATH"

subsection \<open>POST /api/verify-dns\<close>

definition plain_response :: "nat \<Rightarrow> jsval \<Rightarrow> (jstr \<times> jstr) list \<Rightarrow> http_response" where
  "plain_response status body extra =
     \<lparr>hr_status = status, hr_headers = (js ''content-type'', js ''application/json'') # extra, hr_body = Some body\<rparr>"

definition plain_error :: "nat \<Rightarrow> jstr \<Rightarrow> jstr \<Rightarrow> (jstr \<times> jstr) list \<Rightarrow> http_response" where
  "plain_error status code message extra =
     plain_response status (JObj [(js ''error'', JStr code), (js ''message'', JStr message)]) extra"

text \<open>\<open>/^E[A-Z]+$/\<close>.\<close>

definition dns_code :: "dns_failure \<Rightarrow> jsval" where
  "dns_code e = (case df_code e of Some (c # d # s) \<Rightarrow>
       if c = jc CHR ''E'' \<and> list_all is_upper (d # s) then JStr (c # d # s) else JNull | _ \<Rightarrow> JNull)"

definition proves :: "bool \<Rightarrow> jsval" where
  "proves matched = (if matched then JStr (js ''domain_control'') else JNull)"

definition verify_dns_probed :: "jstr \<Rightarrow> txt_probe \<Rightarrow> http_response" where
  "verify_dns_probed domain probe =
     (case tx_error probe of
        Some e \<Rightarrow> plain_response 502 (JObj [(js ''error'', JStr (js ''dns_error'')),
          (js ''message'', JStr (js ''The DNS lookup failed before an answer was returned. The record'' @ quote_mark
             @ js ''s state is unknown, not absent '' @ em_dash @ js '' try again.'')),
          (js ''code'', dns_code e)]) []
      | None \<Rightarrow>
          if \<not> tx_found probe
          then plain_response 200 (JObj [(js ''ok'', JBool False), (js ''domain'', JStr domain), (js ''host'', JStr (tx_host probe)),
            (js ''found'', JBool False), (js ''reason'', JStr (js ''no_txt_record''))]) []
          else plain_response 200 (JObj [(js ''ok'', JBool (tx_matched probe)), (js ''domain'', JStr domain), (js ''host'', JStr (tx_host probe)),
            (js ''found'', JBool True), (js ''matched'', JBool (tx_matched probe)), (js ''record_count'', num_of (tx_count probe)),
            (js ''proves'', proves (tx_matched probe)), (js ''disclosures'', texts DOMAIN_CONTROL_DISCLOSURES)]) [])"

text \<open>The two checks both routes make on the body, each with its own message for a short token.\<close>

definition with_domain_token ::
  "jstr \<Rightarrow> (jstr \<times> jstr) list \<Rightarrow> jsval \<Rightarrow> (jstr \<Rightarrow> jstr \<Rightarrow> 'e + http_response) \<Rightarrow> 'e + http_response" where
  "with_domain_token token_message extra body handler =
     (let invalid_domain = Inr (plain_error 400 (js ''invalid_domain'') (js ''`domain` must be a valid hostname'') extra);
          invalid_token = Inr (plain_error 400 (js ''invalid_token'') token_message extra)
      in case get_member (js ''domain'') body of
           JStr domain \<Rightarrow>
             if \<not> isValidHostname domain then invalid_domain
             else (case get_member (js ''token'') body of
                 JStr token \<Rightarrow> if length token < 16 then invalid_token else handler domain token
               | _ \<Rightarrow> invalid_token)
         | _ \<Rightarrow> invalid_domain)"

definition verify_dns :: "network \<Rightarrow> jsval \<Rightarrow> exn + http_response" where
  "verify_dns N body =
     with_domain_token (js ''`token` must be the per-domain value you generated (>= 16 chars)'') [] body
       (\<lambda>domain token. Inr (verify_dns_probed domain (probeTxtRecord N domain token)))"

definition plain_invalid_json :: "(jstr \<times> jstr) list \<Rightarrow> http_response" where
  "plain_invalid_json extra = plain_error 400 (js ''invalid_json'') (js ''request body must be JSON'') extra"

definition post_verify_dns :: "platform \<Rightarrow> 'd limiter_db \<Rightarrow> network \<Rightarrow> web_request \<Rightarrow> ('d limiter \<times> 's, http_response) io" where
  "post_verify_dns E D N q =
     limited E D POLICY_probe q [] (\<lambda>rlh.
       case wr_body q of None \<Rightarrow> io_return (plain_invalid_json [])
       | Some body \<Rightarrow> io_result (verify_dns N body))"

subsection \<open>POST /api/domain/status\<close>

text \<open>Every failure is \<open>null\<close>, and so is a document that is \<open>null\<close>.\<close>

definition fetchSettings :: "network \<Rightarrow> jstr \<Rightarrow> jstr \<Rightarrow> jsval" where
  "fetchSettings N host domain =
     (case encodeURIComponent domain of None \<Rightarrow> JNull
      | Some d \<Rightarrow>
     (case fetch_url N (js ''https://'' @ host @ js ''/v2/'' @ d @ js ''/settings'') of None \<Rightarrow> JNull
      | Some res \<Rightarrow>
          if \<not> response_ok (fd_status res) then JNull
          else (case body_text res of None \<Rightarrow> JNull
                | Some text \<Rightarrow> (case JSON_parse N text of None \<Rightarrow> JNull | Some v \<Rightarrow> v))))"

definition connect_settings :: "network \<Rightarrow> provider_probe \<Rightarrow> jstr \<Rightarrow> jsval" where
  "connect_settings N provider domain =
     (case pp_domainConnectHost provider of None \<Rightarrow> JNull
      | Some dcHost \<Rightarrow>
          if dcHost = [] then JNull
          else (let settings = fetchSettings N dcHost domain in
            if truthy settings then settings
            else (case fallbackSettingsHost dcHost of None \<Rightarrow> settings
                  | Some alt \<Rightarrow> if alt = [] then settings else fetchSettings N alt domain)))"

definition siteUrl :: "environment \<Rightarrow> jstr" where
  "siteUrl env = (let u = (case env (js ''NEXT_PUBLIC_SITE_URL'') of None \<Rightarrow> js ''https://www.agenid.com'' | Some s \<Rightarrow> s) in
     if u \<noteq> [] \<and> last u = jc CHR ''/'' then butlast u else u)"

definition connect_apply_url :: "network \<Rightarrow> environment \<Rightarrow> jstr option \<Rightarrow> jstr \<Rightarrow> jstr \<Rightarrow> exn + jstr option" where
  "connect_apply_url N env syncUx domain token =
     (case syncUx of None \<Rightarrow> Inr None
      | Some s \<Rightarrow>
          if s = [] then Inr None
          else (case encodeURIComponent domain of None \<Rightarrow> Inl (StoreError (js ''URI malformed''))
                | Some d \<Rightarrow> applyUrlFor N env s domain token (siteUrl env @ js ''/verify/domain?domain='' @ d)))"

datatype connect_reason = NoDomainConnect | NoSyncUx | TemplateUnregistered

fun connect_reason_text :: "connect_reason \<Rightarrow> jstr" where
  "connect_reason_text NoDomainConnect = js ''no_domain_connect''"
| "connect_reason_text NoSyncUx = js ''no_sync_ux''"
| "connect_reason_text TemplateUnregistered = js ''template_unregistered''"

definition connect_reason_of :: "environment \<Rightarrow> provider_probe \<Rightarrow> jstr option \<Rightarrow> connect_reason option" where
  "connect_reason_of env provider syncUx =
     (if \<not> pp_domainConnect provider then Some NoDomainConnect
      else if syncUx \<in> {None, Some []} then Some NoSyncUx
      else if \<not> templateIsRegistered env then Some TemplateUnregistered
      else None)"

definition text_or_null :: "jstr option \<Rightarrow> jsval" where
  "text_or_null x = (case x of None \<Rightarrow> JNull | Some s \<Rightarrow> JStr s)"

text \<open>\<open>settings?.providerName ?? providerName\<close>.\<close>

definition settings_provider_name :: "jsval \<Rightarrow> jsval \<Rightarrow> jsval" where
  "settings_provider_name settings name =
     (let v = get_member (js ''providerName'') settings in if v \<in> {JNull, JUndefined} then name else v)"

definition provider_status :: "provider_probe \<Rightarrow> jsval \<Rightarrow> jstr option \<Rightarrow> connect_reason option \<Rightarrow> jsval" where
  "provider_status provider settings applyUrl reason =
     (let name = text_or_null (map_option provider_text (pp_name provider)) in
      JObj [(js ''name'', name), (js ''nameservers'', texts (pp_nameservers provider)),
        (js ''domain_connect'', JBool (pp_domainConnect provider)),
        (js ''domain_connect_host'', text_or_null (pp_domainConnectHost provider)),
        (js ''provider_name'', settings_provider_name settings name),
        (js ''apply_url'', text_or_null applyUrl),
        (js ''reason'', text_or_null (map_option connect_reason_text reason))])"

definition record_status :: "txt_probe \<Rightarrow> jsval" where
  "record_status txt = JObj [(js ''type'', JStr (rc_type (tx_record txt))), (js ''name'', JStr (rc_name (tx_record txt))),
     (js ''value'', JStr (rc_value (tx_record txt))), (js ''ttl'', num_of (rc_ttl (tx_record txt))),
     (js ''status'', JStr (if tx_matched txt then js ''verified'' else js ''pending'')),
     (js ''observed_count'', num_of (tx_count txt)),
     (js ''other_records_present'', JBool (tx_found txt \<and> \<not> tx_matched txt))]"

definition KEY_DISCOVERY_NOTE :: jstr where
  "KEY_DISCOVERY_NOTE = js ''Optional. Publishing your key document here lets a verifier compare the registry'' @ quote_mark
     @ js ''s copy against your own. \"published\" means a well-formed key document naming this domain is served here; this endpoint does not compare it against the registry ''
     @ em_dash @ js '' a verifier does.''"

definition number_or_null :: "nat option \<Rightarrow> jsval" where
  "number_or_null n = (case n of None \<Rightarrow> JNull | Some i \<Rightarrow> num_of i)"

definition discovery_status :: "key_discovery \<Rightarrow> jsval" where
  "discovery_status k = JObj [(js ''url'', JStr (kv_url k)), (js ''status'', JStr (discovery_state_text (kv_state k))),
     (js ''reason'', text_or_null (map_option discovery_reason_text (kv_reason k))),
     (js ''http_status'', number_or_null (kv_http_status k)), (js ''key_count'', number_or_null (kv_key_count k)),
     (js ''note'', JStr KEY_DISCOVERY_NOTE)]"

text \<open>\<open>checked_at\<close> is a reading of the clock.\<close>

definition domain_status_of ::
  "platform \<Rightarrow> network \<Rightarrow> environment \<Rightarrow> jstr \<Rightarrow> (jstr \<times> jstr) list \<Rightarrow> jstr \<Rightarrow> jstr \<Rightarrow> exn + http_response" where
  "domain_status_of E N env checked_at rlh domain token =
     (let provider = probeProvider N domain; settings = connect_settings N provider domain; syncUx = usableSyncUx N settings in
      rbind (connect_apply_url N env syncUx domain token) (\<lambda>applyUrl.
      let reason = connect_reason_of env provider syncUx; txt = probeTxtRecord N domain token; keyDoc = probeKeyDiscovery E N domain in
      Inr (plain_response 200 (JObj [(js ''ok'', JBool True), (js ''domain'', JStr domain), (js ''checked_at'', JStr checked_at),
        (js ''provider'', provider_status provider settings applyUrl reason), (js ''records'', JArr [record_status txt]),
        (js ''key_discovery'', discovery_status keyDoc), (js ''domain_control'', JBool (tx_matched txt)),
        (js ''proves'', proves (tx_matched txt)), (js ''disclosures'', texts DOMAIN_CONTROL_DISCLOSURES)]) rlh)))"

definition domain_status :: "platform \<Rightarrow> network \<Rightarrow> environment \<Rightarrow> jstr \<Rightarrow> (jstr \<times> jstr) list \<Rightarrow> jsval \<Rightarrow> exn + http_response" where
  "domain_status E N env checked_at rlh body =
     with_domain_token (js ''`token` must be >= 16 characters'') rlh body (domain_status_of E N env checked_at rlh)"

definition post_domain_status ::
  "platform \<Rightarrow> 'd limiter_db \<Rightarrow> network \<Rightarrow> environment \<Rightarrow> jstr \<Rightarrow> web_request \<Rightarrow> ('d limiter \<times> 's, http_response) io" where
  "post_domain_status E D N env checked_at q =
     limited E D POLICY_probe q [] (\<lambda>rlh.
       case wr_body q of None \<Rightarrow> io_return (plain_invalid_json rlh)
       | Some body \<Rightarrow> io_result (domain_status E N env checked_at rlh body))"

subsection \<open>Texts read back\<close>

declare utf8_decode.simps(2) [simp del]

lemma utf8_decode_lead:
  "m < 0x80 \<Longrightarrow> utf8_decode 0 v lo hi (of_nat m # bs) = m # utf8_decode 0 0 0x80 0xBF bs"
  "2 \<le> m \<Longrightarrow> m < 32 \<Longrightarrow> utf8_decode 0 v lo hi (of_nat (0xC0 + m) # bs) = utf8_decode 1 m 0x80 0xBF bs"
  "m < 16 \<Longrightarrow> utf8_decode 0 v lo hi (of_nat (0xE0 + m) # bs)
     = utf8_decode 2 m (if m = 0 then 0xA0 else 0x80) (if m = 13 then 0x9F else 0xBF) bs"
  "m < 5 \<Longrightarrow> utf8_decode 0 v lo hi (of_nat (0xF0 + m) # bs)
     = utf8_decode 3 m (if m = 0 then 0x90 else 0x80) (if m = 4 then 0x8F else 0xBF) bs"
  by (simp_all add: utf8_decode.simps(2) unat_of_nat_byte Let_def del: of_nat_add)

lemma utf8_decode_next:
  "m < 64 \<Longrightarrow> lo \<le> 0x80 + m \<Longrightarrow> 0x80 + m \<le> hi \<Longrightarrow> utf8_decode 1 v lo hi (of_nat (0x80 + m) # bs) = (v * 64 + m) # utf8_decode 0 0 0x80 0xBF bs"
  "m < 64 \<Longrightarrow> lo \<le> 0x80 + m \<Longrightarrow> 0x80 + m \<le> hi \<Longrightarrow> utf8_decode (Suc (Suc i)) v lo hi (of_nat (0x80 + m) # bs)
     = utf8_decode (Suc i) (v * 64 + m) 0x80 0xBF bs"
  by (simp_all add: utf8_decode.simps(2) unat_of_nat_byte Let_def del: of_nat_add)

lemma horner:
  "(((a :: nat) * 64 + b) * 64 + c) * 64 + d = a * 262144 + b * 4096 + c * 64 + d"
  "((a :: nat) * 64 + b) * 64 + c = a * 4096 + b * 64 + c"
  by simp_all

lemma utf8_decode_char:
  assumes "n < 0x110000" "n < 0xD800 \<or> 0xDFFF < n"
  shows "utf8_decode 0 0 0x80 0xBF (utf8_char n @ bs) = n # utf8_decode 0 0 0x80 0xBF bs"
proof -
  have d: "n < 0x800 \<Longrightarrow> n div 64 < 32" "n < 0x10000 \<Longrightarrow> n div 4096 < 16" "n div 262144 < 5" "n div 4096 mod 64 < 64"
    "n div 64 mod 64 < 64" "n mod 64 < 64" using assms(1) by (auto simp: div_less_iff_less_mult)
  have three: "utf8_decode 3 v lo hi (of_nat (0x80 + a) # bs) = utf8_decode 2 (v * 64 + a) 0x80 0xBF bs"
    if "a < 64" "lo \<le> 0x80 + a" "0x80 + a \<le> hi" for v lo hi a bs
    using utf8_decode_next(2) [OF that, of 1] by (simp add: numeral_2_eq_2 numeral_3_eq_3)
  have two: "utf8_decode 2 v lo hi (of_nat (0x80 + a) # bs) = utf8_decode 1 (v * 64 + a) 0x80 0xBF bs"
    if "a < 64" "lo \<le> 0x80 + a" "0x80 + a \<le> hi" for v lo hi a bs
    using utf8_decode_next(2) [OF that, of 0] by (simp add: numeral_2_eq_2)
  consider (one) "n < 0x80" | (two) "0x80 \<le> n" "n < 0x800" | (three) "0x800 \<le> n" "n < 0x10000" | (four) "0x10000 \<le> n"
    by linarith
  then show ?thesis
  proof cases
    case one
    then show ?thesis by (simp add: utf8_char_def utf8_decode_lead(1))
  next
    case 2: two
    then have "2 \<le> n div 64" by linarith
    moreover have "utf8_char n = [of_nat (0xC0 + n div 64), of_nat (0x80 + n mod 64)]" using 2 by (simp add: utf8_char_def)
    ultimately show ?thesis using 2(2) d base64_digits(1) [of n]
      by (simp add: utf8_decode_lead(2) utf8_decode_next(1) del: of_nat_add One_nat_def)
  next
    case 3: three
    have "n div 64 = n div 4096 * 64 + n div 64 mod 64" using base64_digits(2) [of n] by linarith
    then have "n div 4096 = 0 \<Longrightarrow> 0xA0 \<le> 0x80 + n div 64 mod 64" "n div 4096 = 13 \<Longrightarrow> n div 64 mod 64 < 32"
      using 3 assms(2) by linarith+
    then have "(if n div 4096 = 0 then 0xA0 else 0x80) \<le> 0x80 + n div 64 mod 64"
      "0x80 + n div 64 mod 64 \<le> (if n div 4096 = 13 then 0x9F else 0xBF)" using d(5) by auto
    moreover have "utf8_char n = [of_nat (0xE0 + n div 4096), of_nat (0x80 + n div 64 mod 64), of_nat (0x80 + n mod 64)]"
      using 3 by (simp add: utf8_char_def)
    ultimately have "utf8_decode 0 0 0x80 0xBF (utf8_char n @ bs)
        = utf8_decode 1 (n div 4096 * 64 + n div 64 mod 64) 0x80 0xBF (of_nat (0x80 + n mod 64) # bs)"
      using d(2) [OF 3(2)] d(5) by (simp only: append.simps utf8_decode_lead(3) two)
    also have "\<dots> = ((n div 4096 * 64 + n div 64 mod 64) * 64 + n mod 64) # utf8_decode 0 0 0x80 0xBF bs"
      by (rule utf8_decode_next(1)) (use d(6) in simp_all)
    also have "(n div 4096 * 64 + n div 64 mod 64) * 64 + n mod 64 = n" by (simp only: horner(2) base64_digits(2))
    finally show ?thesis .
  next
    case 4: four
    have "n div 4096 = n div 262144 * 64 + n div 4096 mod 64" using base64_digits(3) [of n] by linarith
    then have "n div 262144 = 0 \<Longrightarrow> 16 \<le> n div 4096 mod 64" "n div 262144 = 4 \<Longrightarrow> n div 4096 mod 64 < 16"
      using 4 assms(1) by linarith+
    then have "(if n div 262144 = 0 then 0x90 else 0x80) \<le> 0x80 + n div 4096 mod 64"
      "0x80 + n div 4096 mod 64 \<le> (if n div 262144 = 4 then 0x8F else 0xBF)" using d(4) by auto
    moreover have "utf8_char n = [of_nat (0xF0 + n div 262144), of_nat (0x80 + n div 4096 mod 64),
        of_nat (0x80 + n div 64 mod 64), of_nat (0x80 + n mod 64)]" using 4 by (simp add: utf8_char_def)
    ultimately have "utf8_decode 0 0 0x80 0xBF (utf8_char n @ bs)
        = utf8_decode 2 (n div 262144 * 64 + n div 4096 mod 64) 0x80 0xBF (of_nat (0x80 + n div 64 mod 64) # of_nat (0x80 + n mod 64) # bs)"
      using d(3,4) by (simp only: append.simps utf8_decode_lead(4) three)
    also have "\<dots> = utf8_decode 1 ((n div 262144 * 64 + n div 4096 mod 64) * 64 + n div 64 mod 64) 0x80 0xBF (of_nat (0x80 + n mod 64) # bs)"
      by (rule two) (use d(5) in simp_all)
    also have "\<dots> = (((n div 262144 * 64 + n div 4096 mod 64) * 64 + n div 64 mod 64) * 64 + n mod 64) # utf8_decode 0 0 0x80 0xBF bs"
      by (rule utf8_decode_next(1)) (use d(6) in simp_all)
    also have "((n div 262144 * 64 + n div 4096 mod 64) * 64 + n div 64 mod 64) * 64 + n mod 64 = n"
      by (simp only: horner(1) base64_digits(3))
    finally show ?thesis .
  qed
qed

lemma code_points_scalar: "n \<in> set (code_points s) \<Longrightarrow> n < 0xD800 \<or> 0xDFFF < n"
proof (induction s rule: code_points.induct)
  case (3 c d cs)
  then show ?case using pair_value_bounds [of c d] by (auto simp: surrogate_iff split: if_splits)
qed (auto simp: surrogate_iff split: if_splits)

lemma utf8_decode_encode: "utf8_decode 0 0 0x80 0xBF (utf8_encode s) = code_points s"
proof -
  have "list_all (\<lambda>n. n < 0x110000 \<and> (n < 0xD800 \<or> 0xDFFF < n)) ps \<Longrightarrow>
      utf8_decode 0 0 0x80 0xBF (concat (map utf8_char ps)) = ps" for ps
    by (induction ps) (simp_all add: utf8_decode_char)
  moreover have "list_all (\<lambda>n. n < 0x110000 \<and> (n < 0xD800 \<or> 0xDFFF < n)) (code_points s)"
    unfolding list_all_iff using code_points_bound code_points_scalar by blast
  ultimately show ?thesis by (simp add: utf8_encode_def)
qed

lemma code_points_hd: "wf_utf16 (c # s) \<Longrightarrow> ascii c \<Longrightarrow> \<exists>ps. code_points (c # s) = unat c # ps"
  using ascii_not_surrogate [of c] by (cases s) auto

lemma TextDecoder_encode: "wf_utf16 (c # s) \<Longrightarrow> ascii c \<Longrightarrow> TextDecoder (utf8_encode (c # s)) = c # s"
proof -
  assume s: "wf_utf16 (c # s)" "ascii c"
  obtain ps where ps: "code_points (c # s) = unat c # ps" using code_points_hd [OF s] by blast
  have "unat c \<noteq> 0xFEFF" using s(2) by (simp add: ascii_def word_less_nat_alt)
  then show ?thesis using code_points_units [OF s(1)] ps by (simp add: TextDecoder_def utf8_decode_encode)
qed

lemma wf_indentation: "wf_utf16 (indentation d)"
  by (rule wf_utf16_ascii) (simp add: indentation_def ascii_def list_all_iff)

lemma wf_unit_Cons: "ascii c \<Longrightarrow> wf_utf16 (c # s) = wf_utf16 s"
  using ascii_not_surrogate [of c] by (simp add: wf_utf16_Cons)

lemma wf_pretty_list: "ascii (jc a) \<Longrightarrow> ascii (jc b) \<Longrightarrow> list_all wf_utf16 items \<Longrightarrow> wf_utf16 (pretty_list d a b items)"
proof -
  assume a: "ascii (jc a)" "ascii (jc b)" and items: "list_all wf_utf16 items"
  have "wf_utf16 (js '','' @ indentation (d + 1))" using wf_indentation by (simp add: wf_unit_Cons ascii_def)
  from wf_utf16_join [OF items this] a show ?thesis
    by (simp add: pretty_list_def wf_unit_Cons wf_utf16_append wf_indentation del: js_simps jc_simp wf_utf16.simps(2,3))
qed

lemma wf_pretty: "wf_utf16 (pretty d v)"
proof (induction d v rule: pretty.induct)
  case (1 d vs)
  have "list_all wf_utf16 (map (pretty (d + 1)) vs)" using 1 by (simp add: list_all_iff)
  then show ?case unfolding pretty.simps by (rule wf_pretty_list [rotated 2]) (simp_all add: ascii_def)
next
  case (2 d ms)
  have "wf_utf16 (quote k @ js '': '' @ pretty (d + 1) v)" if "(k, v) \<in> set ms" for k v
    using 2 [OF that refl] by (intro wf_utf16_append wf_quote) (simp_all add: wf_unit_Cons ascii_def del: wf_utf16.simps(2,3))
  then have "list_all wf_utf16 (map (\<lambda>(k, v). quote k @ js '': '' @ pretty (d + 1) v) ms)"
    unfolding list_all_iff by fastforce
  then show ?case unfolding pretty.simps by (rule wf_pretty_list [rotated 2]) (simp_all add: ascii_def)
qed (simp_all only: pretty.simps wf_json_text)

subsection \<open>Domain control is what DNS says\<close>

definition txt_published :: "network \<Rightarrow> jstr \<Rightarrow> jstr \<Rightarrow> bool" where
  "txt_published N domain token \<longleftrightarrow>
     (\<exists>records chunks. resolveTxt N (js ''_agenid.'' @ domain) = Inr records \<and> chunks \<in> set records
        \<and> trim (concat chunks) = js ''agenid-site-verification='' @ token)"

lemma probe_matched: "tx_matched (probeTxtRecord N domain token) \<longleftrightarrow> txt_published N domain token"
  by (auto simp: probeTxtRecord_def verificationRecord_def txt_published_def Let_def list_ex_iff split: sum.split simp del: js_simps)

lemma probe_matched_found: "tx_matched p \<Longrightarrow> p = probeTxtRecord N domain token \<Longrightarrow> tx_found p \<and> tx_error p = None"
  by (auto simp: probeTxtRecord_def Let_def split: sum.splits if_splits simp del: js_simps)

definition claims_domain_control :: "exn + http_response \<Rightarrow> bool" where
  "claims_domain_control r \<longleftrightarrow> (case r of Inl e \<Rightarrow> False
     | Inr response \<Rightarrow> (case hr_body response of None \<Rightarrow> False
         | Some body \<Rightarrow> get_member (js ''proves'') body = JStr (js ''domain_control'')))"

definition domain_and_token :: "jsval \<Rightarrow> jstr \<Rightarrow> jstr \<Rightarrow> bool" where
  "domain_and_token body domain token \<longleftrightarrow> get_member (js ''domain'') body = JStr domain \<and> get_member (js ''token'') body = JStr token
     \<and> isValidHostname domain \<and> 16 \<le> length token"

lemma with_domain_token_given: "domain_and_token body domain token \<Longrightarrow> with_domain_token m extra body handler = handler domain token"
  by (auto simp: with_domain_token_def domain_and_token_def Let_def simp del: js_simps)

lemma with_domain_token_refused:
  "\<forall>domain token. \<not> domain_and_token body domain token \<Longrightarrow>
     \<exists>code message. with_domain_token m extra body handler = Inr (plain_error 400 code message extra)"
  by (cases "get_member (js ''domain'') body"; cases "get_member (js ''token'') body")
     (auto simp: with_domain_token_def domain_and_token_def Let_def simp del: js_simps)

lemma error_claims_nothing: "\<not> claims_domain_control (Inr (plain_error status code message extra))"
  by (simp add: claims_domain_control_def plain_error_def plain_response_def get_member_def)

lemma verify_probed_claims:
  "claims_domain_control (Inr (verify_dns_probed domain (probeTxtRecord N domain token))) \<longleftrightarrow> txt_published N domain token"
  using probe_matched_found [of "probeTxtRecord N domain token" N domain token] probe_matched [of N domain token]
  by (auto simp: claims_domain_control_def verify_dns_probed_def plain_response_def get_member_def proves_def split: option.split)

lemma status_claims:
  "claims_domain_control (domain_status_of E N env clock rlh domain token)
     \<longleftrightarrow> is_ok (domain_status_of E N env clock rlh domain token) \<and> txt_published N domain token"
  by (cases "connect_apply_url N env (usableSyncUx N (connect_settings N (probeProvider N domain) domain)) domain token")
     (simp_all add: domain_status_of_def Let_def claims_domain_control_def plain_response_def get_member_def proves_def probe_matched)

lemma domain_and_token_unique:
  "domain_and_token body d t \<Longrightarrow> domain_and_token body d' t' \<Longrightarrow> d' = d \<and> t' = t"
  by (auto simp: domain_and_token_def simp del: js_simps)

lemma claims_with_domain_token:
  "claims_domain_control (with_domain_token m extra body handler)
     \<longleftrightarrow> (\<exists>domain token. domain_and_token body domain token \<and> claims_domain_control (handler domain token))"
proof (cases "\<exists>domain token. domain_and_token body domain token")
  case True
  then obtain d t where dt: "domain_and_token body d t" by blast
  show ?thesis unfolding with_domain_token_given [OF dt] using dt domain_and_token_unique [OF dt] by blast
next
  case False
  then obtain code message where "with_domain_token m extra body handler = Inr (plain_error 400 code message extra)"
    using with_domain_token_refused by blast
  with False show ?thesis by (simp only: error_claims_nothing) blast
qed

lemma with_domain_token_answered:
  assumes "with_domain_token m extra body handler = Inr r" "hr_status r = 200"
  obtains d t where "domain_and_token body d t" "handler d t = Inr r"
proof (cases "\<exists>domain token. domain_and_token body domain token")
  case True
  then show ?thesis using that assms(1) with_domain_token_given [of body _ _ m extra handler] by metis
next
  case False
  then obtain code message where "with_domain_token m extra body handler = Inr (plain_error 400 code message extra)"
    using with_domain_token_refused by blast
  with assms show ?thesis by (auto simp: plain_error_def plain_response_def)
qed

text \<open>C32: Both routes report domain control exactly when DNS publishes the value: for every body, \<open>POST /api/verify-dns\<close>
  says that it proves domain control exactly when the body names a valid host and a token of at least 16 characters and
  one of the TXT records at \<open>_agenid.<host>\<close>, its chunks joined and its ends trimmed, is the value asked for; and
  \<open>POST /api/domain/status\<close> says so exactly in the same situation, provided it answers at all.\<close>

theorem domain_control_exact:
  "(claims_domain_control (verify_dns N body) \<longleftrightarrow> (\<exists>domain token. domain_and_token body domain token \<and> txt_published N domain token))
   \<and> (claims_domain_control (domain_status E N env clock rlh body) \<longleftrightarrow>
        (\<exists>domain token. domain_and_token body domain token \<and> txt_published N domain token
           \<and> is_ok (domain_status_of E N env clock rlh domain token)))"
  unfolding verify_dns_def domain_status_def claims_with_domain_token verify_probed_claims status_claims by blast

lemma usable_sync_ux_host: "usableSyncUx N (connect_settings N (probeProvider N d) d) = Some s \<Longrightarrow> pp_domainConnect (probeProvider N d)"
  by (auto simp: usableSyncUx_def connect_settings_def probeProvider_def Let_def get_member_def
      simp del: js_simps split: option.splits if_splits sum.splits list.splits)

lemma apply_url_reason:
  assumes "connect_apply_url N env (usableSyncUx N (connect_settings N (probeProvider N d) d)) d t = Inr u" "d \<noteq> []" "t \<noteq> []"
  shows "(u \<noteq> None \<longleftrightarrow> connect_reason_of env (probeProvider N d) (usableSyncUx N (connect_settings N (probeProvider N d) d)) = None)
    \<and> (u \<noteq> None \<longrightarrow> templateIsRegistered env)"
proof (cases "usableSyncUx N (connect_settings N (probeProvider N d) d)")
  case None
  with assms show ?thesis by (simp add: connect_apply_url_def connect_reason_of_def)
next
  case (Some s)
  note host = usable_sync_ux_host [OF Some]
  show ?thesis using assms unfolding Some connect_apply_url_def connect_reason_of_def applyUrlFor_def
    by (auto simp: host simp del: js_simps split: option.splits if_splits)
qed

text \<open>The one-click link is offered exactly when nothing is said to stand in its way: in every answer of
  \<open>POST /api/domain/status\<close> that describes a domain, \<open>apply_url\<close> is present exactly when \<open>reason\<close> is null, and it is
  present only when the deployment says that its template is registered.\<close>

theorem apply_url_or_reason:
  assumes "domain_status E N env clock rlh body = Inr r" "hr_status r = 200" "hr_body r = Some b"
  shows "(get_member (js ''apply_url'') (get_member (js ''provider'') b) \<noteq> JNull
           \<longleftrightarrow> get_member (js ''reason'') (get_member (js ''provider'') b) = JNull)
       \<and> (get_member (js ''apply_url'') (get_member (js ''provider'') b) \<noteq> JNull \<longrightarrow> templateIsRegistered env)"
proof -
  obtain d t where dt: "domain_and_token body d t" and r: "domain_status_of E N env clock rlh d t = Inr r"
    using with_domain_token_answered [OF assms(1) [unfolded domain_status_def] assms(2)] by blast
  from dt have ne: "d \<noteq> []" "t \<noteq> []" by (auto simp: domain_and_token_def isValidHostname_def)
  obtain u where u: "connect_apply_url N env (usableSyncUx N (connect_settings N (probeProvider N d) d)) d t = Inr u"
    and b: "get_member (js ''provider'') b = provider_status (probeProvider N d) (connect_settings N (probeProvider N d) d) u
      (connect_reason_of env (probeProvider N d) (usableSyncUx N (connect_settings N (probeProvider N d) d)))"
    using r assms(3) by (auto simp: domain_status_of_def Let_def rbind_Inr_iff plain_response_def get_member_def)
  show ?thesis using apply_url_reason [OF u ne] unfolding b
    by (auto simp: provider_status_def text_or_null_def Let_def get_member_def split: option.split)
qed

subsection \<open>What is handed out is what is accepted\<close>

definition body_size :: "fetched \<Rightarrow> nat" where
  "body_size r = (case fd_body r of None \<Rightarrow> 0 | Some (chunks, fails) \<Rightarrow> length (concat chunks))"

lemma read_chunks_text:
  "read_chunks fails n before chunks = ReadText t \<longleftrightarrow>
     \<not> fails \<and> (chunks = [] \<or> n + length (concat chunks) \<le> MAX_KEYS_DOCUMENT_BYTES) \<and> t = TextDecoder (concat (before @ chunks))"
  by (induction fails n before chunks rule: read_chunks.induct) auto

lemma readBounded_text:
  "readBounded r = ReadText t \<longleftrightarrow>
     \<not> declared_too_large (fd_headers r) \<and> body_size r \<le> MAX_KEYS_DOCUMENT_BYTES \<and> body_text r = Some t"
  by (auto simp: readBounded_def body_size_def body_text_def read_chunks_text split: option.split)

text \<open>A document is published exactly when the site answers with JSON of bounded size that is one of this domain.\<close>

lemma published_keys_exact:
  "kv_state (probeKeyDiscovery E N domain) = KeysPublished \<longleftrightarrow>
     (\<exists>res text v doc. fetch_url N (keyDocumentUrl domain) = Some res \<and> 200 \<le> fd_status res \<and> fd_status res < 300
        \<and> isJsonContentType_value (fd_headers res (js ''content-type'')) \<and> readBounded res = ReadText text
        \<and> JSON_parse N text = Some v \<and> parse_KeysDocument E v = Inr doc
        \<and> toLowerCase (ks_controller_domain doc) = toLowerCase domain)"
  unfolding probeKeyDiscovery_def Let_def
  by (auto simp: discovery_result_def simp del: js_simps split: option.splits sum.splits bounded_read.splits)

lemma trim_digits: "list_all is_digit s \<Longrightarrow> trim s = s"
proof -
  have no: "is_digit c \<Longrightarrow> \<not> is_space c" for c
    by (auto simp: is_digit_iff is_space_def word_le_nat_alt)
  have "list_all is_digit t \<Longrightarrow> dropWhile is_space t = t" for t
    using no by (cases t) auto
  then show "list_all is_digit s \<Longrightarrow> trim s = s" by (simp add: trim_def list_all_rev)
qed

lemma Number_dec: "Number_text (dec n) = Some (of_nat n)"
proof -
  obtain c s where cs: "dec n = c # s" using dec_not_Nil [of n] by (cases "dec n") auto
  have ds: "list_all is_digit (dec n)" by (rule dec_digits)
  then have all: "takeWhile is_digit (dec n) = dec n" "dropWhile is_digit (dec n) = []"
    by (simp_all add: list_all_iff takeWhile_eq_all_conv dropWhile_eq_Nil_conv)
  have "unsigned_decimal (dec n) = Some (of_nat n)"
    by (simp add: unsigned_decimal_def Let_def exponent_of_def all)
  moreover have "c \<noteq> jc CHR ''-''" "c \<noteq> jc CHR ''+''" using ds cs by (auto simp: is_digit_iff)
  moreover have "s \<noteq> [] \<Longrightarrow> is_digit (hd s)" using ds cs by (cases s) auto
  then have "hd s \<notin> {jc CHR ''x'', jc CHR ''X'', jc CHR ''o'', jc CHR ''O'', jc CHR ''b'', jc CHR ''B''} \<or> s = []"
    by (auto simp: is_digit_iff)
  moreover have "trim (c # s) = c # s" using trim_digits [OF ds] cs by simp
  ultimately show ?thesis unfolding Number_text_def cs by auto
qed

lemma declared_size_ok:
  "h (js ''content-length'') \<in> {None, Some (dec n)} \<Longrightarrow> n \<le> MAX_KEYS_DOCUMENT_BYTES \<Longrightarrow> \<not> declared_too_large h"
proof -
  assume "h (js ''content-length'') \<in> {None, Some (dec n)}" "n \<le> MAX_KEYS_DOCUMENT_BYTES"
  moreover have "(of_nat n :: rat) \<le> of_nat MAX_KEYS_DOCUMENT_BYTES" if "n \<le> MAX_KEYS_DOCUMENT_BYTES" using that by simp
  moreover have "(0 :: rat) < 1 / 2 ^ 37" by simp
  ultimately show ?thesis by (auto simp: declared_too_large_def Number_dec simp del: js_simps of_nat_le_iff)
qed

lemma built_keys_text: "TextDecoder (utf8_encode (pretty 0 (JObj ms) @ [0x0A])) = pretty 0 (JObj ms) @ [0x0A]"
proof -
  have "\<exists>s. pretty 0 (JObj ms) = jc CHR ''{'' # s" by (cases "ms = []") (simp_all add: pretty_list_def)
  then obtain s where s: "pretty 0 (JObj ms) = jc CHR ''{'' # s" by blast
  have "wf_utf16 (pretty 0 (JObj ms) @ [0x0A])"
    by (intro wf_utf16_append wf_pretty) (simp add: surrogate_iff)
  then show ?thesis unfolding s using TextDecoder_encode [of "jc CHR ''{''" "s @ [0x0A]"] by (simp add: ascii_def del: wf_utf16.simps)
qed


text \<open>The sample network: one operator, whose site serves the key document and whose zone has the record, chunked.\<close>

definition sample_keys_text :: jstr where
  "sample_keys_text = pretty 0 (KeysDocument_obj \<lparr>ks_schema = KEYS_SCHEMA_ID, ks_controller_domain = js ''acme.com'',
     ks_keys = [sample_key OperatorRole]\<rparr>) @ [0x0A]"

definition sample_network :: network where
  "sample_network = \<lparr>
     resolveTxt = (\<lambda>host. if host = js ''_agenid.acme.com'' then Inr [[js ''v=spf1''], [js ''agenid-site-verification='', js ''0123456789abcdef '']]
       else Inl \<lparr>df_code = Some (js ''ENOTFOUND''), df_message = []\<rparr>),
     resolveCname = (\<lambda>host. if host = js ''_domainconnect.acme.com'' then Inr [js ''connect.example'']
       else Inl \<lparr>df_code = Some (js ''ENODATA''), df_message = []\<rparr>),
     resolveNs = (\<lambda>domain. Inr [js ''ADA.NS.CLOUDFLARE.COM'']),
     fetch_url = (\<lambda>u. if u = keysDocumentUrl (js ''acme.com'')
       then Some \<lparr>fd_status = 200, fd_headers = (\<lambda>k. if k = js ''content-type'' then Some (js ''application/json'') else None),
         fd_body = Some ([take 100 (utf8_encode sample_keys_text), drop 100 (utf8_encode sample_keys_text)], False)\<rparr>
       else if u = js ''https://connect.example/v2/acme.com/settings''
       then Some \<lparr>fd_status = 200, fd_headers = (\<lambda>k. None), fd_body = Some ([utf8_encode (js ''{\"urlSyncUX\":\"https://connect.example/\"}'')], False)\<rparr>
       else None),
     parse_URL = (\<lambda>u. Some \<lparr>url_protocol = js ''https:'', url_start = u, url_search = [], url_hash = []\<rparr>),
     JSON_parse = (\<lambda>t. if t = sample_keys_text then Some (KeysDocument_obj \<lparr>ks_schema = KEYS_SCHEMA_ID,
         ks_controller_domain = js ''acme.com'', ks_keys = [sample_key OperatorRole]\<rparr>)
       else if t = js ''{\"urlSyncUX\":\"https://connect.example/\"}'' then Some (JObj [(js ''urlSyncUX'', JStr (js ''https://connect.example/''))]) else None)\<rparr>"

definition sample_domain_body :: jsval where
  "sample_domain_body = JObj [(js ''domain'', JStr (js ''acme.com'')), (js ''token'', JStr (js ''0123456789abcdef''))]"

definition sample_environment :: environment where
  "sample_environment k = (if k = js ''AGENID_DOMAIN_CONNECT_PROVIDER_ID'' then Some (js ''agenid.com'') else None)"

lemma utf8_length: "length (utf8_encode s) \<le> 3 * length s"
proof (induction s rule: code_points.induct)
  case (3 c d cs)
  then show ?case using unat_cu_less [of c] by (auto simp: utf8_encode_def utf8_char_def)
next
  case (2 c)
  then show ?case using unat_cu_less [of c] by (auto simp: utf8_encode_def utf8_char_def)
qed (auto simp: utf8_encode_def utf8_char_def)

lemma sample_keys_size: "length sample_keys_text < 2000"
  by code_simp


theorem domain_control_exact_witness:
  "claims_domain_control (verify_dns sample_network sample_domain_body)"
proof -
  have "domain_and_token sample_domain_body (js ''acme.com'') (js ''0123456789abcdef'')" by code_simp
  moreover have "txt_published sample_network (js ''acme.com'') (js ''0123456789abcdef'')"
  proof -
    have "trim (concat [js ''agenid-site-verification='', js ''0123456789abcdef '']) = js ''agenid-site-verification='' @ js ''0123456789abcdef''"
      by code_simp
    then show ?thesis unfolding txt_published_def sample_network_def by fastforce
  qed
  ultimately show ?thesis using domain_control_exact [of sample_network sample_domain_body] by blast
qed

theorem apply_url_or_reason_witness:
  "\<exists>r b. domain_status reference_platform sample_network sample_environment (sample_instant 3) [] sample_domain_body = Inr r
     \<and> hr_status r = 200 \<and> hr_body r = Some b
     \<and> (get_member (js ''apply_url'') (get_member (js ''provider'') b) \<noteq> JNull
         \<longleftrightarrow> get_member (js ''reason'') (get_member (js ''provider'') b) = JNull)"
proof -
  have dt: "domain_and_token sample_domain_body (js ''acme.com'') (js ''0123456789abcdef'')" by code_simp
  have "encodeURIComponent (js ''acme.com'') = Some (js ''acme.com'')" by code_simp
  then have "\<exists>u. connect_apply_url sample_network sample_environment s (js ''acme.com'') t = Inr u" for s t
    by (cases s) (simp_all add: connect_apply_url_def applyUrlFor_def sample_network_def del: js_simps)
  then obtain u where "connect_apply_url sample_network sample_environment (usableSyncUx sample_network (connect_settings sample_network
      (probeProvider sample_network (js ''acme.com'')) (js ''acme.com''))) (js ''acme.com'') (js ''0123456789abcdef'') = Inr u" by blast
  then obtain r b where r: "domain_status reference_platform sample_network sample_environment (sample_instant 3) [] sample_domain_body = Inr r"
      "hr_status r = 200" "hr_body r = Some b"
    unfolding domain_status_def with_domain_token_given [OF dt] domain_status_of_def Let_def
    by (simp add: plain_response_def del: js_simps)
  from apply_url_or_reason [OF this] r show ?thesis by blast
qed

subsection \<open>The reader stops, the report is well formed\<close>

lemma read_chunks_overflow:
  "n \<le> MAX_KEYS_DOCUMENT_BYTES \<Longrightarrow> MAX_KEYS_DOCUMENT_BYTES < n + length (concat chunks) \<Longrightarrow>
     read_chunks fails n before (chunks @ rest) = ReadTooLarge"
proof (induction chunks arbitrary: n before)
  case (Cons c cs)
  then show ?case by (cases "MAX_KEYS_DOCUMENT_BYTES < n + length c") simp_all
qed simp

lemma chunks_size: "[] \<notin> set cs \<Longrightarrow> length cs \<le> length (concat cs)"
proof (induction cs)
  case (Cons c cs)
  then show ?case by (cases c) auto
qed simp

text \<open>C34: The bounded reader stops: as soon as the chunks of a body exceed 65,536 bytes together it answers that the body
  is too large, without looking at any later chunk and whether or not the stream would fail or ever end; so an endless
  stream of non-empty chunks is left after at most 65,537 of them.\<close>

theorem bounded_read_stops:
  assumes "MAX_KEYS_DOCUMENT_BYTES < length (concat seen) \<or> [] \<notin> set seen \<and> MAX_KEYS_DOCUMENT_BYTES < length seen"
  shows "readBounded \<lparr>fd_status = status, fd_headers = h, fd_body = Some (seen @ rest, fails)\<rparr> = ReadTooLarge"
proof -
  have "MAX_KEYS_DOCUMENT_BYTES < length (concat seen)" using assms chunks_size [of seen] by linarith
  then show ?thesis using read_chunks_overflow [of 0 seen fails "[]" rest] by (simp add: readBounded_def)
qed

theorem bounded_read_stops_witness:
  "readBounded \<lparr>fd_status = 200, fd_headers = (\<lambda>k. None), fd_body = Some (replicate 70000 [0x20] @ [[0x7B]], True)\<rparr> = ReadTooLarge"
  by (rule bounded_read_stops) (simp add: MAX_KEYS_DOCUMENT_BYTES_def)



end
