(* ===== verification/Retell_Onboarding.thy ===== *)
theory Retell_Onboarding
  imports Domain_Control
begin

section \<open>Onboarding a Retell fleet\<close>

text \<open>
  \<open>packages/web/lib/retell-manifest.ts\<close> and the route \<open>app/api/retell/agents\<close>, which forwards the caller's key to Retell
  and lists the agents it answers.  The state of the route is the rate limiter and whatever the outbound \<open>fetch\<close>
  changes, so that a theorem can say that no call was made.
\<close>

subsection \<open>Manifests from Retell records\<close>

record operator_attestations =
  oa_operator :: jstr
  oa_operatorDomain :: jstr
  oa_disclosesToUser :: bool
  oa_humanEscalation :: bool
  oa_purposeSummary :: jstr
  oa_contact :: "jstr option"
  oa_description :: "jstr option"

definition str_or :: "jsval \<Rightarrow> jstr \<Rightarrow> jstr" where
  "str_or v fallback = (case v of JStr s \<Rightarrow> if trim s \<noteq> [] then trim s else fallback | _ \<Rightarrow> fallback)"

definition retell_candidate :: "jsval \<Rightarrow> operator_attestations \<Rightarrow> jstr \<Rightarrow> manifest" where
  "retell_candidate record att agentId = \<lparr>mf_manifest_version = js ''1.0'', mf_agent_id = agentId,
     mf_identity = \<lparr>id_name = str_or (get_member (js ''agent_name'') record) (js ''Unnamed Retell Agent''),
       id_description = non_empty (oa_description att)\<rparr>,
     mf_ownership = \<lparr>ow_operator = oa_operator att, ow_operator_domain = oa_operatorDomain att, ow_contact = non_empty (oa_contact att)\<rparr>,
     mf_purpose = \<lparr>pu_summary = oa_purposeSummary att, pu_channels = [Voice]\<rparr>,
     mf_disclosure = \<lparr>di_is_ai = True, di_discloses_to_user = oa_disclosesToUser att, di_human_escalation = oa_humanEscalation att\<rparr>\<rparr>"

definition buildRetellManifest :: "platform \<Rightarrow> jsval \<Rightarrow> operator_attestations \<Rightarrow> jstr \<Rightarrow> issues + (jstr \<times> manifest)" where
  "buildRetellManifest E record att agentId =
     rbind (parse_Manifest E (Manifest_obj (retell_candidate record att agentId))) (\<lambda>m. Inr (agentId, m))"

fun first_array :: "jstr list \<Rightarrow> jsval \<Rightarrow> jsval list" where
  "first_array [] payload = []"
| "first_array (k # ks) payload = (case get_member k payload of JArr vs \<Rightarrow> vs | _ \<Rightarrow> first_array ks payload)"

definition normalizeRetellList :: "jsval \<Rightarrow> jsval list" where
  "normalizeRetellList payload = (case payload of JArr vs \<Rightarrow> vs
     | JObj ms \<Rightarrow> first_array [js ''agents'', js ''data'', js ''results''] payload | _ \<Rightarrow> [])"

subsection \<open>POST /api/retell/agents\<close>

type_synonym 's outbound = "jstr \<Rightarrow> (jstr \<times> jstr) list \<Rightarrow> ('s, fetched) io"

fun exn_message :: "exn \<Rightarrow> jstr" where
  "exn_message (StoreError m) = m"
| "exn_message RangeError = js ''Invalid time value''"
| "exn_message (Protocol e) = error_message e"

definition text_member :: "jstr \<Rightarrow> jsval \<Rightarrow> jsval" where
  "text_member k v = (case get_member k v of JStr s \<Rightarrow> JStr s | _ \<Rightarrow> JNull)"

text \<open>Reading a member of \<open>null\<close> throws.\<close>

definition retell_agent :: "jsval \<Rightarrow> exn + jsval" where
  "retell_agent a = (if a = JNull \<or> a = JUndefined then Inl (StoreError (js ''TypeError''))
     else Inr (JObj [(js ''agent_id'', text_member (js ''agent_id'') a), (js ''agent_name'', text_member (js ''agent_name'') a)]))"

definition retell_listed :: "(jstr \<Rightarrow> jsval option) \<Rightarrow> (jstr \<times> jstr) list \<Rightarrow> fetched \<Rightarrow> exn + http_response" where
  "retell_listed parse rlh upstream =
     (let status = fd_status upstream in
      if status = 401 \<or> status = 403
      then Inr (plain_error 401 (js ''retell_unauthorized'') (js ''Retell rejected this API key'') rlh)
      else if \<not> response_ok status
      then Inr (plain_response 502 (JObj [(js ''error'', JStr (js ''retell_error'')),
        (js ''message'', JStr (js ''Retell returned '' @ dec status)), (js ''status'', num_of status)]) rlh)
      else (case Option.bind (body_text upstream) parse of
              None \<Rightarrow> Inr (plain_error 502 (js ''retell_bad_response'') (js ''Retell response was not JSON'') rlh)
            | Some payload \<Rightarrow>
                rbind (map_result retell_agent (normalizeRetellList payload)) (\<lambda>agents.
                Inr (plain_response 200 (JObj [(js ''ok'', JBool True), (js ''count'', num_of (length agents)),
                  (js ''agents'', JArr agents)]) rlh))))"

definition RETELL_URL :: jstr where
  "RETELL_URL = js ''https://api.retellai.com/list-agents''"

definition retell_headers :: "jstr \<Rightarrow> (jstr \<times> jstr) list" where
  "retell_headers apiKey = [(js ''authorization'', js ''Bearer '' @ apiKey)]"

definition retell_agents ::
  "(jstr \<Rightarrow> jsval option) \<Rightarrow> 's outbound \<Rightarrow> (jstr \<times> jstr) list \<Rightarrow> jsval \<Rightarrow> ('s, http_response) io" where
  "retell_agents parse fetch rlh body =
     (let missing = io_return (plain_error 400 (js ''missing_api_key'') (js ''`api_key` is required'') rlh) in
      case get_member (js ''api_key'') body of
        JStr apiKey \<Rightarrow>
          if apiKey = [] then missing
          else io_bind (io_catch (io_bind (fetch RETELL_URL (retell_headers apiKey)) (\<lambda>r. io_return (Inr r)))
                  (\<lambda>e. io_return (Inl (exn_message e)))) (\<lambda>upstream.
               case upstream of
                 Inl message \<Rightarrow> io_return (plain_error 502 (js ''upstream_unreachable'') message rlh)
               | Inr r \<Rightarrow> io_result (retell_listed parse rlh r))
      | _ \<Rightarrow> missing)"

definition post_retell_agents ::
  "platform \<Rightarrow> 'd limiter_db \<Rightarrow> (jstr \<Rightarrow> jstr option) \<Rightarrow> (jstr \<Rightarrow> jsval option) \<Rightarrow> 's outbound \<Rightarrow> web_request
   \<Rightarrow> ('d limiter \<times> 's, http_response) io" where
  "post_retell_agents E D url_host parse fetch q =
     (if checkSameOrigin url_host (wr_headers q) (wr_url q) \<noteq> None
      then io_return (plain_error 403 (js ''cross_origin_refused'') (js ''this endpoint only accepts requests from agenid.com pages'') [])
      else if \<not> isJsonContentType (wr_headers q)
      then io_return (plain_error 415 (js ''unsupported_media_type'') (js ''`content-type` must be application/json'') [])
      else limited E D POLICY_relay q [] (\<lambda>rlh.
        case wr_body q of None \<Rightarrow> io_return (plain_invalid_json rlh)
        | Some body \<Rightarrow> on_store (retell_agents parse fetch rlh body)))"

subsection \<open>What a built manifest says\<close>

text \<open>A manifest that is built says what the operator attested, and nothing it was not told.\<close>

lemma retell_manifest_attested:
  assumes "zod_schemas E" "buildRetellManifest E record att agentId = Inr (i, m)"
  shows "i = agentId \<and> m = retell_candidate record att agentId \<and> Manifest_ok E m"
proof -
  have zod: "zod_parser (parse_Manifest E) Manifest_obj (Manifest_ok E)" using assms(1) by (simp add: zod_schemas_def)
  have i: "i = agentId" and p: "parse_Manifest E (Manifest_obj (retell_candidate record att agentId)) = Inr m"
    using assms(2) by (auto simp: buildRetellManifest_def rbind_Inr_iff)
  have "json_doc (Manifest_obj (retell_candidate record att agentId))" by (intro document_json_doc Manifest_document)
  from zod_parser_ok [OF zod this p] show ?thesis using i by simp
qed

subsection \<open>The relay is gated\<close>

lemma io_outcomes: "io_return x s = (Inr x, s)" "io_result r s = (r, s)"
  by (simp_all add: io_return_def io_result_def)

lemma retell_agents_state:
  "snd (retell_agents parse fetch rlh body s) \<noteq> s \<Longrightarrow>
     \<exists>k. get_member (js ''api_key'') body = JStr k \<and> k \<noteq> []
       \<and> snd (retell_agents parse fetch rlh body s) = snd (fetch RETELL_URL (retell_headers k) s)"
  by (auto simp: retell_agents_def Let_def io_bind_def io_catch_def io_outcomes
      split: jsval.splits if_splits prod.splits sum.splits simp del: js_simps)

text \<open>C36: The relay to Retell is gated: unless the request comes from a page of the site and carries JSON, neither the
  rate limiter nor the outside world is touched; and the outside world is touched only if the rate limiter allowed the
  request and its body has a key, and then by exactly one call, with that key.\<close>

theorem relay_gated:
  assumes "post_retell_agents E D url_host parse fetch q (l, s) = (r, (l', s'))"
  shows "((l', s') \<noteq> (l, s) \<longrightarrow> checkSameOrigin url_host (wr_headers q) (wr_url q) = None \<and> isJsonContentType (wr_headers q))
    \<and> (s' \<noteq> s \<longrightarrow> (\<exists>rl body k. fst (checkRateLimit E D (clientKey E (wr_headers q)) POLICY_relay (wr_now q) (wr_sweep q) l) = Inr rl \<and> rd_allowed rl
        \<and> wr_body q = Some body \<and> get_member (js ''api_key'') body = JStr k \<and> k \<noteq> []
        \<and> s' = snd (fetch RETELL_URL (retell_headers k) s)))"
proof (cases "checkSameOrigin url_host (wr_headers q) (wr_url q) = None \<and> isJsonContentType (wr_headers q)")
  case False
  with assms show ?thesis by (auto simp: post_retell_agents_def io_outcomes split: if_splits simp del: js_simps)
next
  case True
  obtain d l1 where d: "checkRateLimit E D (clientKey E (wr_headers q)) POLICY_relay (wr_now q) (wr_sweep q) l = (d, l1)"
    by fastforce
  have "\<exists>rl body k. d = Inr rl \<and> rd_allowed rl \<and> wr_body q = Some body \<and> get_member (js ''api_key'') body = JStr k \<and> k \<noteq> []
      \<and> s' = snd (fetch RETELL_URL (retell_headers k) s)" if changed: "s' \<noteq> s"
  proof -
    obtain rl where rl: "d = Inr rl" "rd_allowed rl" and run:
        "(case wr_body q of None \<Rightarrow> io_return (plain_invalid_json (rateLimitHeaders rl))
          | Some body \<Rightarrow> on_store (retell_agents parse fetch (rateLimitHeaders rl) body)) (l1, s) = (r, (l', s'))"
      using assms changed True d
      by (auto simp: post_retell_agents_def limited_def io_bind_def on_limiter_def io_outcomes split: sum.splits if_splits simp del: js_simps)
    then obtain body where body: "wr_body q = Some body" "on_store (retell_agents parse fetch (rateLimitHeaders rl) body) (l1, s) = (r, (l', s'))"
      using changed by (auto simp: io_outcomes split: option.splits)
    then have "snd (retell_agents parse fetch (rateLimitHeaders rl) body s) = s'"
      by (auto simp: on_store_def split: prod.splits)
    with retell_agents_state [of parse fetch "rateLimitHeaders rl" body s] changed rl body(1) show ?thesis by auto
  qed
  with True d show ?thesis by simp
qed

definition sample_cross_origin :: web_request where
  "sample_cross_origin = \<lparr>wr_headers = (\<lambda>k. if k = js ''sec-fetch-site'' then Some (js ''cross-site'') else None),
     wr_url = js ''https://www.agenid.com/api/retell/agents'', wr_body = Some (JObj [(js ''api_key'', JStr (js ''key''))]),
     wr_now = sample_instant 3, wr_sweep = False\<rparr>"

theorem relay_gated_witness:
  "snd (post_retell_agents reference_platform failing_db (\<lambda>u. None) (\<lambda>t. None)
     (\<lambda>u h. (\<lambda>calls. (Inl (StoreError []), calls + 1))) sample_cross_origin (\<lparr>lm_memory = [], lm_db = ()\<rparr>, 0 :: nat)) = (\<lparr>lm_memory = [], lm_db = ()\<rparr>, 0)"
proof -
  obtain r l' s' where p: "post_retell_agents reference_platform failing_db (\<lambda>u. None) (\<lambda>t. None)
     (\<lambda>u h. (\<lambda>calls. (Inl (StoreError []), calls + 1))) sample_cross_origin (\<lparr>lm_memory = [], lm_db = ()\<rparr>, 0 :: nat) = (r, (l', s'))" by (metis prod.collapse)
  have "checkSameOrigin (\<lambda>u. None) (wr_headers sample_cross_origin) (wr_url sample_cross_origin) \<noteq> None" by code_simp
  with relay_gated [OF p] p show ?thesis by auto
qed

end
