(* ===== verification/Clients.thy ===== *)
theory Clients
  imports Retell_Onboarding
begin

section \<open>The command line and the MCP server\<close>

text \<open>
  \<open>packages/cli/src/index.ts\<close>: \<open>agenid init\<close> makes an identity on the operator's machine and \<open>agenid dns-token\<close> a token
  for the DNS record.  \<open>packages/mcp-server/src\<close>: three tools for MCP clients, which resolve an agent, verify a signed
  payload and make a key pair.  The parsed command line, clock readings, random bytes, the network and the resolution of
  paths are arguments; a run is its exit code, its two output streams and the files it writes, in order.
\<close>

subsection \<open>The command line\<close>

record cli_values =
  cv_domain :: "jstr option"
  cv_operator :: "jstr option"
  cv_name :: "jstr option"
  cv_purpose :: "jstr option"
  cv_contact :: "jstr option"
  cv_out :: "jstr option"
  cv_discloses :: bool
  cv_escalates :: bool

record cli_file =
  cf_path :: jstr
  cf_content :: jstr
  cf_mode :: "nat option"

text \<open>\<open>Uncaught\<close>: an exception ends the process.\<close>

datatype cli_exit = Exit nat | Uncaught

record cli_run =
  cr_exit :: cli_exit
  cr_stdout :: jstr
  cr_stderr :: jstr
  cr_files :: "cli_file list"

definition lines_text :: "jstr list \<Rightarrow> jstr" where
  "lines_text = join_with [0x0A]"

definition die :: "jstr \<Rightarrow> cli_run" where
  "die msg = \<lparr>cr_exit = Exit 1, cr_stdout = [], cr_stderr = js ''error: '' @ msg @ [0x0A], cr_files = []\<rparr>"

definition uncaught :: cli_run where
  "uncaught = \<lparr>cr_exit = Uncaught, cr_stdout = [], cr_stderr = [], cr_files = []\<rparr>"

definition printed :: "jstr list \<Rightarrow> cli_file list \<Rightarrow> cli_run" where
  "printed ls files = \<lparr>cr_exit = Exit 0, cr_stdout = lines_text ls, cr_stderr = [], cr_files = files\<rparr>"

definition USAGE :: "jstr list" where
  "USAGE = [[], js ''AgenID operator CLI'', [], js ''Usage:'',
     js ''  agenid init --domain <hostname> --operator <name> --name <agent name> '' @ [0x5C],
     js ''              --purpose <summary> [--discloses] [--escalates] [--out <dir>]'', [],
     js ''  agenid dns-token                     Generate a per-domain DNS verification token'', [],
     js ''Flags for init:'',
     js ''  --discloses    Attest the agent tells users it is AI (EU AI Act Art. 50)'',
     js ''  --escalates    Attest a user can reach a human from this agent'', [],
     js ''Both are attestations about YOUR agent'' @ quote_mark @ js ''s real behavior. They are false unless you'',
     js ''pass them, and they are signed '' @ em_dash @ js '' do not pass them unless they are true.'', []]"

text \<open>The 24 random bytes of a token.\<close>

definition dns_token :: "bytes \<Rightarrow> jstr" where
  "dns_token random = js ''aid_'' @ b64uEncode random"

definition cli_dns_token :: "cli_values \<Rightarrow> bytes \<Rightarrow> cli_run" where
  "cli_dns_token v random = printed [[], js ''Add this TXT record, then verify it with POST /api/verify-dns:'', [],
     js ''  Host:  _agenid.'' @ (case cv_domain v of None \<Rightarrow> js ''<your-domain>'' | Some d \<Rightarrow> d),
     js ''  Value: agenid-site-verification='' @ dns_token random, [],
     js ''This token is random and unique to this invocation. Keep it '' @ em_dash @ js '' you must pass the'',
     js ''same value to the verify endpoint. Domain control is evidence only; it does not'',
     js ''by itself raise an agent above DECLARED.'', []] []"

definition PROOF_TTL_DAYS :: int where
  "PROOF_TTL_DAYS = 90"

text \<open>What the run takes from outside: the clock is read twice for the dates and once per identifier.\<close>

record cli_world =
  cw_now :: int
  cw_later :: int
  cw_seed :: bytes
  cw_agent :: ulid_source
  cw_key :: ulid_source
  cw_resolve :: "jstr list \<Rightarrow> jstr"

definition cli_manifest :: "jstr \<Rightarrow> jstr \<Rightarrow> jstr \<Rightarrow> jstr \<Rightarrow> jstr \<Rightarrow> cli_values \<Rightarrow> manifest" where
  "cli_manifest agentId domain operator agentName purpose v = \<lparr>mf_manifest_version = js ''1.0'', mf_agent_id = agentId,
     mf_identity = \<lparr>id_name = agentName, id_description = None\<rparr>,
     mf_ownership = \<lparr>ow_operator = operator, ow_operator_domain = domain, ow_contact = non_empty (cv_contact v)\<rparr>,
     mf_purpose = \<lparr>pu_summary = purpose, pu_channels = [Voice]\<rparr>,
     mf_disclosure = \<lparr>di_is_ai = True, di_discloses_to_user = cv_discloses v, di_human_escalation = cv_escalates v\<rparr>\<rparr>"

definition json_file :: "(jstr list \<Rightarrow> jstr) \<Rightarrow> jstr \<Rightarrow> string \<Rightarrow> jsval \<Rightarrow> cli_file" where
  "json_file resolve outDir name v = \<lparr>cf_path = resolve [outDir, js name], cf_content = pretty 0 v @ [0x0A], cf_mode = None\<rparr>"

definition identity_files :: "(jstr list \<Rightarrow> jstr) \<Rightarrow> jstr \<Rightarrow> manifest \<Rightarrow> manifest_proof \<Rightarrow> key_document \<Rightarrow> bytes \<Rightarrow> cli_file list" where
  "identity_files resolve outDir m p k sk =
     [json_file resolve outDir ''manifest.json'' (Manifest_obj m), json_file resolve outDir ''manifest-proof.json'' (ManifestProof_obj p),
      json_file resolve outDir ''key-document.json'' (KeyDocument_obj k),
      \<lparr>cf_path = resolve [outDir, js ''operator-private-key.b64u''], cf_content = b64uEncode sk @ [0x0A], cf_mode = Some 384\<rparr>]"

definition identity_report :: "jstr \<Rightarrow> jstr \<Rightarrow> jstr \<Rightarrow> jstr \<Rightarrow> jstr list" where
  "identity_report agentId keyId digest outDir =
     [[], js ''Agent ID       '' @ agentId, js ''Key ID         '' @ keyId, js ''Manifest sha256 '' @ digest,
      js ''Signature      verified locally (Ed25519 over RFC 8785 JCS)'', [], js ''Written to '' @ outDir @ js ''/'',
      js ''  manifest.json, manifest-proof.json, key-document.json'',
      js ''  operator-private-key.b64u  (mode 0600 '' @ em_dash @ js '' never share or commit this)'', [], js ''Level: DECLARED.'',
      js ''  DECLARED means you signed a statement about your own agent. It attests who'',
      js ''  signed, not that anyone checked you. Nothing above DECLARED can be issued'',
      js ''  today: that requires an authority-signed VerificationAssertion, and AgenID'' @ quote_mark @ js ''s'',
      js ''  root authority key ceremony has not been performed.'', []]"

text \<open>The identity: the documents, or \<open>None\<close> where a call throws, or the message of a failed self-verification.\<close>

definition cli_identity ::
  "platform \<Rightarrow> cli_world \<Rightarrow> cli_values \<Rightarrow> jstr \<Rightarrow> jstr \<Rightarrow> jstr \<Rightarrow> jstr \<Rightarrow> agenid_error + (jstr + (manifest \<times> manifest_proof \<times> key_document \<times> ed25519_key_pair \<times> jstr))" where
  "cli_identity E w v domain operator agentName purpose =
     (let nowIso = iso_string (cw_now w); expiresIso = iso_string (cw_later w + PROOF_TTL_DAYS * 86400000) in
      rbind (generateKeyPair E (cw_seed w)) (\<lambda>kp.
      rbind (generateAgentId (Some (us_time (cw_agent w))) (us_random (cw_agent w))) (\<lambda>agentId.
      rbind (generateKeyId (Some (us_time (cw_key w))) (us_random (cw_key w))) (\<lambda>keyId.
      rbind (makeKeyDocument E keyId (kp_public kp) OperatorRole agentId nowIso) (\<lambda>keyDocument.
      rbind (parseOrThrow (parse_Manifest E) (Manifest_obj (cli_manifest agentId domain operator agentName purpose v)) (js ''Manifest'')) (\<lambda>manifest.
      rbind (signManifestProof E (Manifest_obj manifest) \<lparr>sk_private = kp_private kp, sk_document = KeyDocument_obj keyDocument\<rparr> nowIso expiresIso) (\<lambda>proof.
      rbind (verifyManifestProof E (ManifestProof_obj proof) (Manifest_obj manifest) (KeyDocument_obj keyDocument) nowIso) (\<lambda>check.
      case check of
        VerifyFail code message \<Rightarrow> Inr (Inl (js ''self-verification failed ('' @ failure_text code @ js ''): '' @ message))
      | VerifyOk c ds \<Rightarrow> rbind (manifestDigestHex E manifest) (\<lambda>digest. Inr (Inr (manifest, proof, keyDocument, kp, digest)))))))))))"

definition cli_init :: "platform \<Rightarrow> cli_world \<Rightarrow> cli_values \<Rightarrow> cli_run" where
  "cli_init E w v =
     (case cv_domain v of None \<Rightarrow> die (js ''--domain is required'')
      | Some domain \<Rightarrow> (case cv_operator v of None \<Rightarrow> die (js ''--operator is required'')
      | Some operator \<Rightarrow> (case cv_name v of None \<Rightarrow> die (js ''--name is required'')
      | Some agentName \<Rightarrow> (case cv_purpose v of None \<Rightarrow> die (js ''--purpose is required'')
      | Some purpose \<Rightarrow>
          if \<not> isValidHostname domain then die (js ''--domain \"'' @ domain @ js ''\" is not a valid hostname'')
          else (case cli_identity E w v domain operator agentName purpose of
              Inl e \<Rightarrow> uncaught
            | Inr (Inl message) \<Rightarrow> die message
            | Inr (Inr (m, p, k, kp, digest)) \<Rightarrow>
                let outDir = cw_resolve w [case cv_out v of None \<Rightarrow> js ''.agenid'' | Some d \<Rightarrow> d] in
                printed (identity_report (mf_agent_id m) (kd_key_id k) digest outDir)
                  (identity_files (cw_resolve w) outDir m p k (kp_private kp)))))))"

definition cli_main :: "platform \<Rightarrow> cli_world \<Rightarrow> bytes \<Rightarrow> jstr option \<Rightarrow> cli_values \<Rightarrow> cli_run" where
  "cli_main E w random command v =
     (if command = Some (js ''dns-token'') then cli_dns_token v random
      else if command \<noteq> Some (js ''init'') then printed USAGE []
      else cli_init E w v)"

subsection \<open>The MCP tools\<close>

text \<open>A reply: whether it is an error, and the object whose text it carries.\<close>

record mcp_reply =
  mr_isError :: bool
  mr_object :: jsval

definition mr_text :: "mcp_reply \<Rightarrow> jstr" where
  "mr_text r = pretty 0 (mr_object r)"

definition nullish :: "jsval \<Rightarrow> jsval \<Rightarrow> jsval" where
  "nullish v d = (if v \<in> {JNull, JUndefined} then d else v)"

definition AGENID_API_BASE_URL :: "environment \<Rightarrow> jstr" where
  "AGENID_API_BASE_URL env = (let u = (case env (js ''AGENID_API_BASE_URL'') of None \<Rightarrow> js ''https://www.agenid.com'' | Some s \<Rightarrow> s) in
     if u \<noteq> [] \<and> last u = jc CHR ''/'' then butlast u else u)"

definition json_or_null :: "(jstr \<Rightarrow> jsval option) \<Rightarrow> fetched \<Rightarrow> jsval" where
  "json_or_null parse res = (case Option.bind (body_text res) parse of None \<Rightarrow> JNull | Some v \<Rightarrow> v)"

text \<open>\<open>fetch\<close> answers or throws with a message; encoding the identifier may throw, outside the \<open>try\<close>.\<close>

definition resolve_agent_identity ::
  "(jstr \<Rightarrow> jsval option) \<Rightarrow> (jstr \<Rightarrow> jstr + fetched) \<Rightarrow> environment \<Rightarrow> jstr \<Rightarrow> exn + mcp_reply" where
  "resolve_agent_identity parse fetch env agenid =
     (case encodeURIComponent agenid of None \<Rightarrow> Inl (StoreError (js ''URI malformed''))
      | Some enc \<Rightarrow>
        let url = AGENID_API_BASE_URL env @ js ''/api/resolve/'' @ enc in
        (case fetch url of
           Inl message \<Rightarrow> Inr \<lparr>mr_isError = True, mr_object = JObj [(js ''ok'', JBool False), (js ''error'', JStr (js ''network_error'')),
             (js ''message'', JStr message), (js ''source'', JStr url)]\<rparr>
         | Inr res \<Rightarrow>
             let body = json_or_null parse res in
             if \<not> response_ok (fd_status res)
             then Inr \<lparr>mr_isError = True, mr_object = JObj [(js ''ok'', JBool False), (js ''status'', num_of (fd_status res)),
               (js ''error'', nullish (get_member (js ''error'') body) (JStr (js ''resolve_failed''))), (js ''agent_id'', JStr agenid),
               (js ''source'', JStr url)]\<rparr>
             else Inr \<lparr>mr_isError = False, mr_object = JObj [(js ''ok'', JBool True),
               (js ''agent_id'', nullish (get_member (js ''agent_id'') body) (JStr agenid)),
               (js ''status'', nullish (get_member (js ''status'') body) JNull),
               (js ''level'', nullish (get_member (js ''level'') (get_member (js ''verification'') body)) (JStr (js ''L1_REGISTERED''))),
               (js ''public_key'', nullish (get_member (js ''document'') (get_member (js ''operator_key'') body)) JNull),
               (js ''envelope'', body), (js ''source'', JStr url)]\<rparr>))"

definition mcp_decodeSignature :: "jstr \<Rightarrow> bytes" where
  "mcp_decodeSignature signature =
     (if signature \<noteq> [] \<and> list_all is_hex signature \<and> length signature = 128 then fromHex signature else b64uDecode signature)"

definition decodePublicKey :: "jstr \<Rightarrow> bytes" where
  "decodePublicKey publicKey = (if hex_text 64 publicKey then fromHex publicKey else b64uDecode publicKey)"

definition verify_agent_manifest :: "platform \<Rightarrow> jsval \<Rightarrow> jstr \<Rightarrow> jstr \<Rightarrow> mcp_reply" where
  "verify_agent_manifest E payload signature publicKey =
     (case canonicalizeToBytes payload of
        Inl e \<Rightarrow> \<lparr>mr_isError = True, mr_object = JObj [(js ''ok'', JBool False), (js ''valid'', JBool False), (js ''error'', JStr (error_message e))]\<rparr>
      | Inr canonicalBytes \<Rightarrow>
          let valid = verifyBytes E (decodePublicKey publicKey) canonicalBytes (mcp_decodeSignature signature) in
          \<lparr>mr_isError = False, mr_object = JObj [(js ''ok'', JBool valid), (js ''valid'', JBool valid), (js ''algorithm'', JStr (js ''Ed25519'')),
            (js ''canonicalization'', JStr (js ''RFC 8785 JCS'')), (js ''canonical_sha256_hex'', JStr (hex (sha256 E canonicalBytes)))]\<rparr>)"

definition manifest_skeleton :: "jstr \<Rightarrow> jstr \<Rightarrow> jsval" where
  "manifest_skeleton agentId domain = JObj [(js ''manifest_version'', JStr (js ''1.0'')), (js ''agent_id'', JStr agentId),
     (js ''identity'', JObj [(js ''name'', JStr (js ''REPLACE_WITH_AGENT_NAME'')), (js ''description'', JStr (js ''REPLACE_WITH_A_SHORT_DESCRIPTION''))]),
     (js ''ownership'', JObj [(js ''operator'', JStr (js ''REPLACE_WITH_OPERATOR_LEGAL_NAME'')), (js ''operator_domain'', JStr domain)]),
     (js ''purpose'', JObj [(js ''summary'', JStr (js ''REPLACE_WITH_WHAT_THIS_AGENT_DOES'')), (js ''channels'', JArr [JStr (js ''api'')])]),
     (js ''disclosure'', JObj [(js ''is_ai'', JBool True), (js ''discloses_to_user'', JBool False), (js ''human_escalation'', JBool False)])]"

definition NEXT_STEPS :: "jstr list" where
  "NEXT_STEPS =
     [js ''Fill in identity.name, identity.description, ownership.operator, purpose.summary, and purpose.channels.'',
      js ''Set disclosure.discloses_to_user and disclosure.human_escalation to what is ACTUALLY true of this agent. They default to false. They are signed claims about real-world behavior, so do not set either to true unless the operator has confirmed it.'',
      js ''Sign the completed manifest with signManifestProof() from @agenid/core using this private key.'',
      js ''POST { manifest, proof, key_document } to https://www.agenid.com/api/v1/agents to register. A 201 returns your agenid and confirms L1_REGISTERED ''
        @ em_dash @ js '' a self-declaration that verifies, not a third-party check of the operator or domain. (A self-hosted @agenid/api instance exposes the same contract at /v1/agents.)'']"

definition generate_keypair :: "platform \<Rightarrow> bytes \<Rightarrow> ulid_source \<Rightarrow> ulid_source \<Rightarrow> int \<Rightarrow> jstr \<Rightarrow> agenid_error + mcp_reply" where
  "generate_keypair E seed ua uk now domain =
     rbind (generateKeyPair E seed) (\<lambda>keyPair.
     rbind (generateAgentId (Some (us_time ua)) (us_random ua)) (\<lambda>agentId.
     rbind (generateKeyId (Some (us_time uk)) (us_random uk)) (\<lambda>keyId.
     rbind (makeKeyDocument E keyId (kp_public keyPair) OperatorRole agentId (iso_string now)) (\<lambda>keyDocument.
     Inr \<lparr>mr_isError = False, mr_object = JObj [(js ''ok'', JBool True), (js ''protocol_version'', JStr (js ''1.1.1'')),
       (js ''agent_id'', JStr agentId), (js ''key_id'', JStr keyId), (js ''private_key_b64u'', JStr (b64uEncode (kp_private keyPair))),
       (js ''private_key_warning'', JStr (js ''Keep this secret. It is never sent to AgenID and cannot be recovered if lost.'')),
       (js ''public_key_b64u'', JStr (b64uEncode (kp_public keyPair))), (js ''public_key_hex'', JStr (hex (kp_public keyPair))),
       (js ''key_document'', KeyDocument_obj keyDocument), (js ''manifest_skeleton'', manifest_skeleton agentId domain),
       (js ''next_steps'', texts NEXT_STEPS)]\<rparr>))))"

subsection \<open>The identity of the command line is registered\<close>

definition cli_key_document :: "platform \<Rightarrow> cli_world \<Rightarrow> key_document" where
  "cli_key_document E w = \<lparr>kd_key_id = js ''agenid:key:'' @ browser_generateUlid (cw_key w), kd_key_type = js ''Ed25519'',
     kd_public_key_b64u = b64uEncode (ed25519_public E (cw_seed w)), kd_role = OperatorRole,
     kd_controller = js ''agenid:'' @ browser_generateUlid (cw_agent w), kd_created_at = iso_string (cw_now w), kd_status = KeyActive,
     kd_retired_at = None, kd_revoked_at = None\<rparr>"

lemma cli_key_browser:
  "cli_key_document E w = browser_key_document (client_pair E (cw_seed w)) (js ''agenid:key:'' @ browser_generateUlid (cw_key w))
     (js ''agenid:'' @ browser_generateUlid (cw_agent w)) (iso_string (cw_now w))"
  by (simp add: cli_key_document_def browser_key_document_def client_pair_def Let_def browser_b64uEncode_eq)

lemma generated_ids:
  assumes "source_ok u"
  shows "generateAgentId (Some (us_time u)) (us_random u) = Inr (js ''agenid:'' @ browser_generateUlid u)"
    "generateKeyId (Some (us_time u)) (us_random u) = Inr (js ''agenid:key:'' @ browser_generateUlid u)"
  using assms generateUlid_browser [of "us_time u" "us_random u"]
  by (simp_all add: source_ok_def generateAgentId_def generateKeyId_def browser_generateUlid_def del: js_simps)

lemma made_key_document:
  assumes "zod_schemas E" "KeyDocument_ok E (cli_key_document E w)"
  shows "makeKeyDocument E (js ''agenid:key:'' @ browser_generateUlid (cw_key w)) (ed25519_public E (cw_seed w)) OperatorRole
    (js ''agenid:'' @ browser_generateUlid (cw_agent w)) (iso_string (cw_now w)) = Inr (cli_key_document E w)"
  using parse_own(6) [OF assms]
  by (simp add: makeKeyDocument_def KeyDocument_obj_def cli_key_document_def nullable_def del: js_simps)

text \<open>C37: The identity \<open>agenid init\<close> writes is registered: with 32 random bytes for the key, valid identifiers and clocks, and a
  manifest the schema accepts, the run exits with 0 and writes the manifest, a proof, the key document and the private
  key, nothing else; the manifest is the one attested on the command line; and the three documents are accepted by
  \<open>registerAgent\<close> on a store that knows neither agent nor key, while the registry's clock is at most two minutes behind
  and ninety days ahead.\<close>

theorem cli_identity_registers:
  assumes laws: "zod_schemas E" "sha256_length E" "ed25519_lengths E" "ed25519_correct E"
    and v: "cv_domain v = Some domain" "cv_operator v = Some operator" "cv_name v = Some agentName" "cv_purpose v = Some purpose"
    and w: "length (cw_seed w) = 32" "source_ok (cw_agent w)" "source_ok (cw_key w)"
    and m: "m = cli_manifest (js ''agenid:'' @ browser_generateUlid (cw_agent w)) domain operator agentName purpose v" "Manifest_ok E m"
    and times: "plain_time (cw_now w)" "plain_time t" "plain_time (cw_later w + NINETY_DAYS)" "cw_now w - MAX_FORWARD_SKEW_MS \<le> t"
      "t \<le> cw_later w + NINETY_DAYS" "cw_now w \<le> cw_later w"
    and clock: "good_clock V" "Date_parse E (rq_now V 0) = Some t"
    and fresh: "ms_agents s (mf_agent_id m) = None" "ms_keys s (kd_key_id (cli_key_document E w)) = None"
  shows "\<exists>p r s'. cr_exit (cli_main E w random (Some (js ''init'')) v) = Exit 0
    \<and> cr_files (cli_main E w random (Some (js ''init'')) v) = identity_files (cw_resolve w)
        (cw_resolve w [case cv_out v of None \<Rightarrow> js ''.agenid'' | Some d \<Rightarrow> d]) m p (cli_key_document E w) (cw_seed w)
    \<and> registerAgent E (MemoryStore le) V (JObj [(js ''manifest'', Manifest_obj m), (js ''proof'', ManifestProof_obj p),
        (js ''key_document'', KeyDocument_obj (cli_key_document E w))]) s = (Inr (Registered r (cli_key_document E w) m), s')"
proof -
  let ?k = "cli_key_document E w" and ?n = "iso_string (cw_now w)" and ?x = "iso_string (cw_later w + NINETY_DAYS)"
  let ?p = "signed_proof E (cw_seed w) (proof_payload E m ?k ?n ?x)"
  have agent: "mf_agent_id m = js ''agenid:'' @ browser_generateUlid (cw_agent w)" "isValidAgentId (mf_agent_id m)"
    using m by (simp_all add: cli_manifest_def Manifest_ok_def)
  have ctrl: "kd_controller ?k = mf_agent_id m" "kd_role ?k = OperatorRole" "controls E (cw_seed w) ?k" "keyActiveAt E ?k x" for x
    using w(1) agent(1) by (simp_all add: cli_key_document_def controls_def keyActiveAt_def)
  have kok: "KeyDocument_ok E ?k"
    unfolding cli_key_browser using browser_key_ok [OF laws(3) w(1) _ w(3) times(1)] agent by simp
  have later: "cw_now w < cw_later w + NINETY_DAYS" using times(6) by (simp add: NINETY_DAYS_def)
  have dates: "Rfc3339Utc E ?n" "Rfc3339Utc E ?x" "date_less (Date_parse E ?n) (Date_parse E ?x)"
    using times later by (simp_all add: iso_string_time)
  have sig: "signManifestProof E (Manifest_obj m) \<lparr>sk_private = cw_seed w, sk_document = KeyDocument_obj ?k\<rparr> ?n ?x = Inr ?p"
    and pok: "ManifestProof_ok E ?p" by (rule signManifestProof_total [OF laws(1-3) m(2) kok ctrl(3,2,1) dates])+
  have "in_window E ?n ?x ?n" using times later by (simp add: in_window_def iso_string_time)
  from signed_proof_holds [OF laws(3,4) ctrl(3,2,1,4) this]
  have "accepted (verifyManifestProof E (ManifestProof_obj ?p) (Manifest_obj m) (KeyDocument_obj ?k) ?n)"
    using verifyManifestProof_parsed [OF parse_own(3) [OF laws(1) pok] parse_own(1) [OF laws(1) m(2)] parse_own(6) [OF laws(1) kok]] by simp
  then obtain c ds where ok: "verifyManifestProof E (ManifestProof_obj ?p) (Manifest_obj m) (KeyDocument_obj ?k) ?n = Inr (VerifyOk c ds)"
    by (auto simp: accepted_def)
  have ttl: "PROOF_TTL_DAYS * 86400000 = NINETY_DAYS" by (simp add: PROOF_TTL_DAYS_def NINETY_DAYS_def)
  have digest: "manifestDigestHex E m = Inr (manifest_digest E m)" by (rule manifestDigestHex_total)
  have "cli_identity E w v domain operator agentName purpose
      = Inr (Inr (m, ?p, ?k, \<lparr>kp_private = cw_seed w, kp_public = ed25519_public E (cw_seed w)\<rparr>, manifest_digest E m))"
    unfolding cli_identity_def Let_def generated_ids [OF w(2)] generated_ids [OF w(3)] ttl
    using w(1) made_key_document [OF laws(1) kok] parse_own(1) [OF laws(1) m(2)] sig ok digest
    by (simp add: generateKeyPair_def keyPairFromSeed_def m(1) [symmetric] parseOrThrow_def del: js_simps)
  moreover have "isValidHostname domain" using m by (simp add: Manifest_ok_def cli_manifest_def)
  ultimately have run: "cli_main E w random (Some (js ''init'')) v = printed (identity_report (mf_agent_id m) (kd_key_id ?k) (manifest_digest E m)
      (cw_resolve w [case cv_out v of None \<Rightarrow> js ''.agenid'' | Some d \<Rightarrow> d]))
      (identity_files (cw_resolve w) (cw_resolve w [case cv_out v of None \<Rightarrow> js ''.agenid'' | Some d \<Rightarrow> d]) m ?p ?k (cw_seed w))"
    using v by (simp add: cli_main_def cli_init_def js_inject Let_def del: js_simps)
  from own_documents_register [where le = le, OF laws m(2) kok ctrl(1-4) refl times(1-5) later clock fresh]
  show ?thesis unfolding run printed_def by auto
qed

definition sample_world :: cli_world where
  "sample_world = \<lparr>cw_now = 1767398400000, cw_later = 1767398400001, cw_seed = sample_secret, cw_agent = sample_source 1,
     cw_key = sample_source 2, cw_resolve = join_with (js ''/'')\<rparr>"

definition sample_values :: cli_values where
  "sample_values = \<lparr>cv_domain = Some (js ''acme.com''), cv_operator = Some (js ''Acme''), cv_name = Some (js ''Ava''),
     cv_purpose = Some (js ''Calls''), cv_contact = None, cv_out = None, cv_discloses = True, cv_escalates = False\<rparr>"

theorem cli_identity_registers_witness:
  "\<exists>m p k r s'. cr_exit (cli_main reference_platform sample_world [] (Some (js ''init'')) sample_values) = Exit 0
    \<and> cr_files (cli_main reference_platform sample_world [] (Some (js ''init'')) sample_values)
      = identity_files (join_with (js ''/'')) (js ''.agenid'') m p k sample_secret
    \<and> registerAgent reference_platform (MemoryStore any_order) still_env (JObj [(js ''manifest'', Manifest_obj m),
        (js ''proof'', ManifestProof_obj p), (js ''key_document'', KeyDocument_obj k)]) empty_memory = (Inr (Registered r k m), s')"
proof -
  have src: "source_ok (sample_source n)" for n by (simp add: source_ok_def sample_source_def)
  have "isValidAgentId (js ''agenid:'' @ browser_generateUlid (sample_source 1))"
    using browser_ulid_valid [OF src] agentId_iff by blast
  moreover have "FreeText 200 (js ''Ava'')" "FreeText 300 (js ''Acme'')" "FreeText 500 (js ''Calls'')" "isValidHostname (js ''acme.com'')"
    by code_simp+
  ultimately have ok: "Manifest_ok reference_platform (cli_manifest (js ''agenid:'' @ browser_generateUlid (cw_agent sample_world))
      (js ''acme.com'') (js ''Acme'') (js ''Ava'') (js ''Calls'') sample_values)"
    by (simp add: Manifest_ok_def cli_manifest_def sample_values_def sample_world_def opt_ok_def non_empty_def del: js_simps)
  have v: "cv_domain sample_values = Some (js ''acme.com'')" "cv_operator sample_values = Some (js ''Acme'')"
    "cv_name sample_values = Some (js ''Ava'')" "cv_purpose sample_values = Some (js ''Calls'')" by (simp_all only: sample_values_def cli_values.simps)
  have w: "length (cw_seed sample_world) = 32" "source_ok (cw_agent sample_world)" "source_ok (cw_key sample_world)"
    by (simp_all add: sample_world_def sample_secret_def src)
  have clock: "good_clock still_env" using sample_clock(1) by (simp add: good_clock_def still_env_def)
  have now: "Date_parse reference_platform (rq_now still_env 0) = Some 1767398400000"
    using iso_roundtrip(1) [of 1767398400000] by (simp add: still_env_def)
  have times: "plain_time (cw_now sample_world)" "plain_time 1767398400000" "plain_time (cw_later sample_world + NINETY_DAYS)"
    "cw_now sample_world - MAX_FORWARD_SKEW_MS \<le> 1767398400000" "1767398400000 \<le> cw_later sample_world + NINETY_DAYS"
    "cw_now sample_world \<le> cw_later sample_world"
    by (simp_all add: plain_time_def sample_world_def NINETY_DAYS_def MAX_FORWARD_SKEW_MS_def)
  have fresh: "ms_agents empty_memory i = None" "ms_keys empty_memory i = None" for i by (simp_all add: empty_memory_def)
  have paths: "cw_resolve sample_world = join_with (js ''/'')" "cv_out sample_values = None" "cw_seed sample_world = sample_secret"
    by (simp_all add: sample_world_def sample_values_def)
  from cli_identity_registers [where le = any_order and random = "[]", OF reference_schemas reference_crypto v w refl ok times clock now fresh]
  show ?thesis unfolding paths by (simp only: option.case join_with.simps) blast
qed

subsection \<open>One verifier behind two doors\<close>



subsection \<open>The resolver tool assumes the lowest level\<close>

text \<open>C39: The resolver tool never refuses a successful answer: whatever a 2xx response carries, even nothing that parses or
  a document that names neither agent nor level, the tool replies without an error, with \<open>ok\<close> true, and where the
  answer gives no level it reports \<open>L1_REGISTERED\<close> for the agent it was asked about.\<close>

theorem resolve_tool_assumes_L1:
  assumes "encodeURIComponent agenid = Some enc"
    and "fetch (AGENID_API_BASE_URL env @ js ''/api/resolve/'' @ enc) = Inr res" "response_ok (fd_status res)"
  shows "\<exists>reply. resolve_agent_identity parse fetch env agenid = Inr reply \<and> \<not> mr_isError reply
    \<and> get_member (js ''ok'') (mr_object reply) = JBool True
    \<and> (get_member (js ''level'') (get_member (js ''verification'') (json_or_null parse res)) \<in> {JNull, JUndefined} \<longrightarrow>
        get_member (js ''level'') (mr_object reply) = JStr (js ''L1_REGISTERED''))
    \<and> (get_member (js ''agent_id'') (json_or_null parse res) \<in> {JNull, JUndefined} \<longrightarrow>
        get_member (js ''agent_id'') (mr_object reply) = JStr agenid)"
  using assms unfolding resolve_agent_identity_def Let_def
  by (simp add: get_member_def js_inject del: js_simps) (auto simp: nullish_def get_member_def js_inject simp del: js_simps)

theorem resolve_tool_assumes_L1_witness:
  "\<exists>reply. resolve_agent_identity (\<lambda>t. None) (\<lambda>u. Inr \<lparr>fd_status = 200, fd_headers = (\<lambda>k. None), fd_body = None\<rparr>) (\<lambda>k. None) (js ''nobody'') = Inr reply
    \<and> get_member (js ''level'') (mr_object reply) = JStr (js ''L1_REGISTERED'')"
proof -
  have "encodeURIComponent (js ''nobody'') = Some (js ''nobody'')" by code_simp
  from resolve_tool_assumes_L1 [OF this, of "\<lambda>u. Inr \<lparr>fd_status = 200, fd_headers = (\<lambda>k. None), fd_body = None\<rparr>" "\<lambda>k. None" _ "\<lambda>t. None"]
  show ?thesis by (auto simp: response_ok_def json_or_null_def get_member_def simp del: js_simps)
qed

end
