(* ===== verification/Listings.thy ===== *)
theory Listings
  imports Clients
begin

section \<open>The compatibility registry and the brand permissions\<close>

text \<open>
  \<open>packages/web/lib/ecosystem.ts\<close> and \<open>lib/brand-permissions.ts\<close>: what the site may claim about other companies.  Both
  read records from files, refuse those that break the rules and derive what is shown.  The files are an argument, as
  their names and parsed contents; a refusal is the message of the error that stops the build.
\<close>

subsection \<open>Checks both validators make\<close>

text \<open>\<open>typeof raw === "object"\<close>, not null and not an array: its own members.\<close>

definition object_members :: "jsval \<Rightarrow> (jstr \<times> jsval) list option" where
  "object_members v = (case v of JObj ms \<Rightarrow> Some ms | JInstance c ms \<Rightarrow> Some ms | _ \<Rightarrow> None)"

definition unknown_key :: "jstr list \<Rightarrow> jstr list \<Rightarrow> jstr option" where
  "unknown_key allowed ks = find (\<lambda>k. k \<notin> set allowed) ks"

definition require :: "bool \<Rightarrow> 'e \<Rightarrow> ('e + 'a) \<Rightarrow> 'e + 'a" where
  "require b e rest = (if b then rest else Inl e)"

lemma require_if [code_unfold]: "require b e rest = (if b then rest else Inl e)"
  by (simp add: require_def)

lemma require_Inr [simp]: "require b e r = Inr x \<longleftrightarrow> b \<and> r = Inr x"
  by (simp add: require_def)

text \<open>\<open>/^\d{4}-\d{2}-\d{2}$/\<close>.\<close>

definition date_text :: "jstr \<Rightarrow> bool" where
  "date_text s \<longleftrightarrow> length s = 10 \<and> list_all is_digit (take 4 s) \<and> s ! 4 = jc CHR ''-'' \<and> list_all is_digit (take 2 (drop 5 s))
     \<and> s ! 7 = jc CHR ''-'' \<and> list_all is_digit (drop 8 s)"

subsection \<open>The compatibility registry\<close>

record ecosystem_category =
  ec_id :: jstr
  ec_label :: jstr
  ec_blurb :: jstr

definition ECOSYSTEM_CATEGORIES :: "ecosystem_category list" where
  "ECOSYSTEM_CATEGORIES =
     [\<lparr>ec_id = js ''voice'', ec_label = js ''Voice'', ec_blurb = js ''Voice agent platforms where the identity rides the call.''\<rparr>,
      \<lparr>ec_id = js ''models'', ec_label = js ''Models'', ec_blurb = js ''Model providers. Identity sits above the model, never inside it.''\<rparr>,
      \<lparr>ec_id = js ''infrastructure'', ec_label = js ''Infrastructure'', ec_blurb = js ''Where key documents, resolvers, and runtimes are hosted.''\<rparr>,
      \<lparr>ec_id = js ''frameworks'', ec_label = js ''Frameworks'', ec_blurb = js ''Orchestration layers that pass identity between agents and tools.''\<rparr>,
      \<lparr>ec_id = js ''enterprise'', ec_label = js ''Enterprise Identity'', ec_blurb = js ''IAM systems AgenID composes with rather than replaces.''\<rparr>,
      \<lparr>ec_id = js ''action'', ec_label = js ''Action'', ec_blurb = js ''Where a verified agent'' @ quote_mark @ js ''s decision becomes a real-world effect.''\<rparr>]"

definition CATEGORY_IDS :: "jstr list" where
  "CATEGORY_IDS = map ec_id ECOSYSTEM_CATEGORIES"

datatype ecosystem_status = Planned | Compatible | VerifiedIntegration | OfficialPartner

fun status_key :: "ecosystem_status \<Rightarrow> jstr" where
  "status_key Planned = js ''planned''"
| "status_key Compatible = js ''compatible''"
| "status_key VerifiedIntegration = js ''verified-integration''"
| "status_key OfficialPartner = js ''official-partner''"

definition ecosystem_statuses :: "ecosystem_status list" where
  "ecosystem_statuses = [Planned, Compatible, VerifiedIntegration, OfficialPartner]"

record status_row =
  sr_label :: jstr
  sr_definition :: jstr
  sr_verified :: bool
  sr_partner :: bool
  sr_requiresEvidence :: bool

fun ECOSYSTEM_STATUSES :: "ecosystem_status \<Rightarrow> status_row" where
  "ECOSYSTEM_STATUSES Planned = \<lparr>sr_label = js ''Planned'', sr_definition = js ''AgenID intends to support this and does not yet. This is a statement of intent with no technical claim attached '' @ em_dash
     @ js '' nothing works today. Not asserted for any entry yet.'', sr_verified = False, sr_partner = False, sr_requiresEvidence = False\<rparr>"
| "ECOSYSTEM_STATUSES Compatible = \<lparr>sr_label = js ''Compatible'', sr_definition = js ''Identity can be carried through this platform today using its existing, documented API surface. No AgenID-specific code is required from the platform, and none is claimed to exist.'',
     sr_verified = False, sr_partner = False, sr_requiresEvidence = False\<rparr>"
| "ECOSYSTEM_STATUSES VerifiedIntegration = \<lparr>sr_label = js ''Verified Integration'', sr_definition = js ''AgenID has executed the integration end to end and published the result. Not asserted for any entry yet.'',
     sr_verified = True, sr_partner = False, sr_requiresEvidence = True\<rparr>"
| "ECOSYSTEM_STATUSES OfficialPartner = \<lparr>sr_label = js ''Official Partner'', sr_definition = js ''A partnership is on record with the platform. Not asserted for any entry yet.'',
     sr_verified = True, sr_partner = True, sr_requiresEvidence = True\<rparr>"

text \<open>The names an object literal inherits: \<open>k in table\<close> holds for them too.\<close>

definition INHERITED :: "jstr list" where
  "INHERITED = [js ''constructor'', js ''__defineGetter__'', js ''__defineSetter__'', js ''hasOwnProperty'', js ''__lookupGetter__'',
     js ''__lookupSetter__'', js ''isPrototypeOf'', js ''propertyIsEnumerable'', js ''toString'', js ''valueOf'', js ''__proto__'', js ''toLocaleString'']"

definition status_of_key :: "jstr \<Rightarrow> ecosystem_status option" where
  "status_of_key k = find (\<lambda>s. status_key s = k) ecosystem_statuses"

record ecosystem_entry =
  ee_id :: jstr
  ee_name :: jstr
  ee_abbr :: jstr
  ee_category :: jstr
  ee_description :: jstr
  ee_website :: jstr
  ee_status :: ecosystem_status
  ee_integration_type :: jstr
  ee_verified :: bool
  ee_partner :: bool
  ee_last_verified :: jstr
  ee_compatibility_note :: jstr
  ee_capabilities :: "jstr list option"
  ee_featured :: bool
  ee_logo_svg :: "jstr option"
  ee_docs :: "jstr option"
  ee_evidence :: "jstr option"
  ee_aliases :: "jstr list option"

definition ALLOWED_KEYS :: "jstr list" where
  "ALLOWED_KEYS = map js [''id'', ''name'', ''abbr'', ''category'', ''description'', ''website'', ''status'', ''integration_type'',
     ''verified'', ''partner'', ''last_verified'', ''compatibility_note'', ''capabilities'', ''featured'', ''logo_svg'', ''docs'', ''evidence'', ''aliases'']"

text \<open>\<open>/^[a-z0-9]+(?:-[a-z0-9]+)*$/\<close>.\<close>

definition id_text :: "jstr \<Rightarrow> bool" where
  "id_text s \<longleftrightarrow> list_all (\<lambda>p. p \<noteq> [] \<and> list_all (\<lambda>c. is_lower c \<or> is_digit c) p) (split_on (jc CHR ''-'') s)"

definition registry_fail :: "jstr \<Rightarrow> jstr \<Rightarrow> jstr" where
  "registry_fail file msg = js ''ecosystem registry: '' @ file @ js '': '' @ msg"

definition entry_str :: "jstr \<Rightarrow> jsval \<Rightarrow> string \<Rightarrow> (jstr \<Rightarrow> bool) \<Rightarrow> jstr + jstr" where
  "entry_str file entry k re =
     (case get_member (js k) entry of
        JStr v \<Rightarrow> if trim v = [] then Inl (registry_fail file (quoted (js k) @ js '' must be a non-empty string''))
          else if \<not> re v then Inl (registry_fail file (quoted (js k) @ js '' has an invalid format: '' @ quote v))
          else Inr v
      | _ \<Rightarrow> Inl (registry_fail file (quoted (js k) @ js '' must be a non-empty string'')))"

definition any_text :: "jstr \<Rightarrow> bool" where
  "any_text s \<longleftrightarrow> True"

definition entry_bool :: "jstr \<Rightarrow> jsval \<Rightarrow> string \<Rightarrow> jstr + bool" where
  "entry_bool file entry k =
     (case get_member (js k) entry of JBool b \<Rightarrow> Inr b | _ \<Rightarrow> Inl (registry_fail file (quoted (js k) @ js '' must be a boolean'')))"

definition bool_text :: "bool \<Rightarrow> jstr" where
  "bool_text b = (if b then js ''true'' else js ''false'')"

text \<open>The status and its table row; an inherited name has no flags, which is reported at the first of them.\<close>

definition entry_status :: "jstr \<Rightarrow> jsval \<Rightarrow> jstr + (jstr \<times> ecosystem_status option)" where
  "entry_status file entry =
     rbind (entry_str file entry ''status'' any_text) (\<lambda>k.
       (case status_of_key k of Some s \<Rightarrow> Inr (k, Some s)
        | None \<Rightarrow> if k \<in> set INHERITED then Inr (k, None)
            else Inl (registry_fail file (js ''\"status\" must be one of '' @ join_with (js '', '') (map status_key ecosystem_statuses)))))"

definition check_flags :: "jstr \<Rightarrow> jstr \<Rightarrow> ecosystem_status option \<Rightarrow> bool \<Rightarrow> bool \<Rightarrow> jstr + ecosystem_status" where
  "check_flags file key status verified partner =
     (case status of
        None \<Rightarrow> Inl (registry_fail file (js ''\"verified\" must be undefined for status '' @ quoted key))
      | Some s \<Rightarrow>
          let expected = ECOSYSTEM_STATUSES s in
          require (verified = sr_verified expected)
            (registry_fail file (js ''\"verified\" must be '' @ bool_text (sr_verified expected) @ js '' for status '' @ quoted key))
          (require (partner = sr_partner expected)
            (registry_fail file (js ''\"partner\" must be '' @ bool_text (sr_partner expected) @ js '' for status '' @ quoted key))
          (Inr s)))"

definition check_evidence :: "jstr \<Rightarrow> jstr \<Rightarrow> ecosystem_status \<Rightarrow> jsval \<Rightarrow> jstr + unit" where
  "check_evidence file key s entry =
     (let evidence = get_member (js ''evidence'') entry in
      if sr_requiresEvidence (ECOSYSTEM_STATUSES s)
      then (case evidence of JStr v \<Rightarrow> require (20 \<le> length (trim v))
              (registry_fail file (js ''\"evidence\" is required for status '' @ quoted key @ js '' and must name what makes the claim true'')) (Inr ())
            | _ \<Rightarrow> Inl (registry_fail file (js ''\"evidence\" is required for status '' @ quoted key @ js '' and must name what makes the claim true'')))
      else require (evidence = JUndefined)
        (registry_fail file (js ''\"evidence\" is meaningless for status '' @ quoted key @ js '' '' @ em_dash @ js '' remove it or raise the status'')) (Inr ()))"

fun check_capabilities :: "jstr \<Rightarrow> jsval list \<Rightarrow> jstr + jstr list" where
  "check_capabilities file [] = Inr []"
| "check_capabilities file (c # cs) =
     (case c of
        JStr v \<Rightarrow>
          if length (trim v) < 3 then Inl (registry_fail file (js ''every capability must be a non-trivial string''))
          else if 80 < length v then Inl (registry_fail file (js ''capability too long to read as a tag: '' @ quote v))
          else rbind (check_capabilities file cs) (\<lambda>vs. Inr (v # vs))
      | _ \<Rightarrow> Inl (registry_fail file (js ''every capability must be a non-trivial string'')))"

definition entry_capabilities :: "jstr \<Rightarrow> jsval \<Rightarrow> bool \<Rightarrow> jstr + jstr list option" where
  "entry_capabilities file entry featured =
     (case get_member (js ''capabilities'') entry of
        JUndefined \<Rightarrow> require (\<not> featured)
          (registry_fail file (js ''\"capabilities\" is required on a featured entry '' @ em_dash @ js '' it is what the ecosystem graphic shows'')) (Inr None)
      | JArr caps \<Rightarrow>
          require (caps \<noteq> []) (registry_fail file (js ''\"capabilities\" must be a non-empty array''))
          (require (length caps \<le> 6) (registry_fail file (js ''\"capabilities\" must be at most 6 items '' @ em_dash @ js '' this is a summary, not a spec sheet''))
          (rbind (check_capabilities file caps) (\<lambda>vs.
             require (distinct vs) (registry_fail file (js ''\"capabilities\" contains a duplicate'')) (Inr (Some vs)))))
      | _ \<Rightarrow> Inl (registry_fail file (js ''\"capabilities\" must be a non-empty array'')))"

definition starts :: "string \<Rightarrow> jstr \<Rightarrow> bool" where
  "starts p s \<longleftrightarrow> strip_prefix (js p) s \<noteq> None"

definition optional_str :: "jstr \<Rightarrow> jsval \<Rightarrow> string \<Rightarrow> jstr + jstr option" where
  "optional_str file entry k = (if get_member (js k) entry = JUndefined then Inr None else map_sum id Some (entry_str file entry k any_text))"

definition entry_logo :: "jstr \<Rightarrow> jsval \<Rightarrow> jstr + jstr option" where
  "entry_logo file entry =
     rbind (optional_str file entry ''logo_svg'') (\<lambda>p.
       case p of None \<Rightarrow> Inr None
       | Some s \<Rightarrow> require (starts ''/assets/ecosystem/'' s \<and> ends_with (js ''.svg'') s)
           (registry_fail file (js ''\"logo_svg\" must be a /assets/ecosystem/**.svg path'')) (Inr (Some s)))"

fun check_aliases :: "jstr \<Rightarrow> jstr \<Rightarrow> jsval list \<Rightarrow> jstr + jstr list" where
  "check_aliases file name [] = Inr []"
| "check_aliases file name (a # as) =
     (case a of
        JStr v \<Rightarrow>
          if length (trim v) < 2 then Inl (registry_fail file (js ''every alias must be a real brand name''))
          else if v = name then Inl (registry_fail file (js ''\"aliases\" must not repeat \"name\"''))
          else rbind (check_aliases file name as) (\<lambda>vs. Inr (v # vs))
      | _ \<Rightarrow> Inl (registry_fail file (js ''every alias must be a real brand name'')))"

definition entry_aliases :: "jstr \<Rightarrow> jsval \<Rightarrow> jstr \<Rightarrow> jstr + jstr list option" where
  "entry_aliases file entry name =
     (case get_member (js ''aliases'') entry of
        JUndefined \<Rightarrow> Inr None
      | JArr as \<Rightarrow>
          require (as \<noteq> []) (registry_fail file (js ''\"aliases\" must be a non-empty array''))
          (require (length as \<le> 4) (registry_fail file (js ''\"aliases\" must be at most 4 '' @ em_dash @ js '' this is a name map, not a keyword list''))
          (rbind (check_aliases file name as) (\<lambda>vs.
             require (distinct vs) (registry_fail file (js ''\"aliases\" contains a duplicate'')) (Inr (Some vs)))))
      | _ \<Rightarrow> Inl (registry_fail file (js ''\"aliases\" must be a non-empty array'')))"

definition not_an_object :: jstr where
  "not_an_object = js ''must be a JSON object''"

definition entry_category :: "jstr \<Rightarrow> jsval \<Rightarrow> jstr + jstr" where
  "entry_category file entry =
     rbind (entry_str file entry ''category'' any_text) (\<lambda>c.
       require (c \<in> set CATEGORY_IDS) (registry_fail file (js ''\"category\" must be one of '' @ join_with (js '', '') CATEGORY_IDS)) (Inr c))"

definition entry_website :: "jstr \<Rightarrow> jsval \<Rightarrow> jstr + jstr" where
  "entry_website file entry =
     rbind (entry_str file entry ''website'' any_text) (\<lambda>w.
       require (starts ''https://'' w) (registry_fail file (js ''\"website\" must be an https:// URL'')) (Inr w))"

definition entry_last_verified :: "'r runtime_scheme \<Rightarrow> jstr \<Rightarrow> jsval \<Rightarrow> jstr + jstr" where
  "entry_last_verified E file entry =
     rbind (entry_str file entry ''last_verified'' date_text) (\<lambda>d.
       require (Date_parse E (d @ js ''T00:00:00Z'') \<noteq> None) (registry_fail file (js ''\"last_verified\" is not a real date'')) (Inr d))"

definition entry_note :: "jstr \<Rightarrow> jsval \<Rightarrow> jstr + jstr" where
  "entry_note file entry =
     rbind (entry_str file entry ''compatibility_note'' any_text) (\<lambda>n.
       require (40 \<le> length n) (registry_fail file (js ''\"compatibility_note\" must actually say what compatible means here'')) (Inr n))"

definition entry_abbr :: "jstr \<Rightarrow> jsval \<Rightarrow> jstr + jstr" where
  "entry_abbr file entry =
     rbind (entry_str file entry ''abbr'' any_text) (\<lambda>a.
       require (length (code_points a) \<le> 3) (registry_fail file (js ''\"abbr\" must be 1-3 characters'')) (Inr a))"

text \<open>The optional members, and the rule on what is featured.\<close>

definition entry_options :: "jstr \<Rightarrow> jsval \<Rightarrow> ecosystem_entry \<Rightarrow> jstr + ecosystem_entry" where
  "entry_options file entry e =
     rbind (entry_capabilities file entry (ee_featured e)) (\<lambda>capabilities.
     rbind (entry_logo file entry) (\<lambda>logo.
     rbind (optional_str file entry ''docs'') (\<lambda>docs.
     rbind (optional_str file entry ''evidence'') (\<lambda>evidence.
     rbind (entry_aliases file entry (ee_name e)) (\<lambda>aliases.
     require (\<not> (ee_featured e \<and> ee_status e = Planned))
       (registry_fail file (js ''\"planned\" entries must not be featured '' @ em_dash @ js '' a roadmap item does not belong in the ecosystem graphic''))
       (Inr (e\<lparr>ee_capabilities := capabilities, ee_logo_svg := logo, ee_docs := docs, ee_evidence := evidence, ee_aliases := aliases\<rparr>)))))))"

text \<open>The required members after the honesty contract.\<close>

definition entry_rest ::
  "'r runtime_scheme \<Rightarrow> jstr \<Rightarrow> jsval \<Rightarrow> jstr \<Rightarrow> jstr \<Rightarrow> ecosystem_status \<Rightarrow> jstr \<Rightarrow> bool \<Rightarrow> bool \<Rightarrow> jstr + ecosystem_entry" where
  "entry_rest E file entry ident category s website verified partner =
     rbind (entry_last_verified E file entry) (\<lambda>last_verified.
     rbind (entry_note file entry) (\<lambda>note.
     rbind (entry_abbr file entry) (\<lambda>abbr.
     rbind (entry_str file entry ''name'' any_text) (\<lambda>name.
     rbind (entry_str file entry ''description'' any_text) (\<lambda>description.
     rbind (entry_str file entry ''integration_type'' any_text) (\<lambda>integration.
     rbind (entry_bool file entry ''featured'') (\<lambda>featured.
     entry_options file entry
       \<lparr>ee_id = ident, ee_name = name, ee_abbr = abbr, ee_category = category, ee_description = description, ee_website = website,
        ee_status = s, ee_integration_type = integration, ee_verified = verified, ee_partner = partner,
        ee_last_verified = last_verified, ee_compatibility_note = note, ee_capabilities = None, ee_featured = featured,
        ee_logo_svg = None, ee_docs = None, ee_evidence = None, ee_aliases = None\<rparr>)))))))"

definition validateEntry :: "'r runtime_scheme \<Rightarrow> jsval \<Rightarrow> jstr \<Rightarrow> jstr + ecosystem_entry" where
  "validateEntry E raw file =
     (case object_members raw of
        None \<Rightarrow> Inl (registry_fail file not_an_object)
      | Some ms \<Rightarrow>
          (case unknown_key ALLOWED_KEYS (map fst ms) of
             Some k \<Rightarrow> Inl (registry_fail file (js ''unknown field '' @ quoted k))
           | None \<Rightarrow>
               (let entry = JObj ms in
                rbind (entry_str file entry ''id'' id_text) (\<lambda>ident.
                rbind (entry_category file entry) (\<lambda>category.
                rbind (entry_status file entry) (\<lambda>(key, status).
                rbind (entry_website file entry) (\<lambda>website.
                rbind (entry_bool file entry ''verified'') (\<lambda>verified.
                rbind (entry_bool file entry ''partner'') (\<lambda>partner.
                rbind (check_flags file key status verified partner) (\<lambda>s.
                rbind (check_evidence file key s entry) (\<lambda>_.
                entry_rest E file entry ident category s website verified partner)))))))))))"

subsection \<open>The registry and what is shown of it\<close>

text \<open>
  What the platform decides about texts: \<open>toLowerCase\<close>, \<open>localeCompare\<close> (not positive) and the case folding of a regular
  expression with the flag \<open>i\<close>.  A directory is its file names with what \<open>JSON.parse\<close> makes of each file, \<open>None\<close> when it
  throws; the module's cache holds the first result, which the files determine.
\<close>

record text_rules =
  tx_lower :: "jstr \<Rightarrow> jstr"
  tx_compare :: "jstr \<Rightarrow> jstr \<Rightarrow> bool"
  tx_canon :: "code_unit \<Rightarrow> code_unit"

type_synonym json_files = "(jstr \<times> jsval option) list"

datatype listing_error = Not_JSON jstr | Listing_Refused jstr

abbreviation refuse :: "(jstr + 'a) \<Rightarrow> listing_error + 'a" where
  "refuse r \<equiv> map_sum Listing_Refused (\<lambda>x. x) r"

definition json_name :: "jstr \<Rightarrow> bool" where
  "json_name f \<longleftrightarrow> ends_with (js ''.json'') f"

fun read_entries :: "'r runtime_scheme \<Rightarrow> jstr list \<Rightarrow> json_files \<Rightarrow> listing_error + ecosystem_entry list" where
  "read_entries E seen [] = Inr []"
| "read_entries E seen ((f, parsed) # fs) =
     (case parsed of
        None \<Rightarrow> Inl (Not_JSON f)
      | Some raw \<Rightarrow>
          rbind (refuse (validateEntry E raw f)) (\<lambda>e.
          require (ee_id e = take (length f - 5) f) (Listing_Refused (registry_fail f (js ''\"id\" ('' @ ee_id e @ js '') must match the filename'')))
          (require (ee_id e \<notin> set seen) (Listing_Refused (registry_fail f (js ''duplicate id '' @ quoted (ee_id e))))
          (rbind (read_entries E (ee_id e # seen) fs) (\<lambda>es. Inr (e # es))))))"

definition names_of :: "ecosystem_entry \<Rightarrow> jstr list" where
  "names_of e = ee_name e # (case ee_aliases e of None \<Rightarrow> [] | Some as \<Rightarrow> as)"

fun name_map :: "text_rules \<Rightarrow> (jstr \<times> jstr) list \<Rightarrow> (jstr \<times> jstr) list \<Rightarrow> jstr + (jstr \<times> jstr) list" where
  "name_map T names [] = Inr names"
| "name_map T names ((i, n) # rest) =
     (let key = tx_lower T n; prior = or_empty (map_of names key) in
      require (prior = []) (registry_fail (i @ js ''.json'') (quoted n @ js '' already resolves to '' @ quoted prior))
        (name_map T (AList.update key i names) rest))"

definition owned_names :: "ecosystem_entry list \<Rightarrow> (jstr \<times> jstr) list" where
  "owned_names es = concat (map (\<lambda>e. map (Pair (ee_id e)) (names_of e)) es)"

text \<open>\<open>indexOf\<close> of a member of the list; the categories compared are valid ones.\<close>

fun position_in :: "'a \<Rightarrow> 'a list \<Rightarrow> nat" where
  "position_in x [] = 0"
| "position_in x (y # ys) = (if x = y then 0 else Suc (position_in x ys))"

definition entry_le :: "text_rules \<Rightarrow> ecosystem_entry \<Rightarrow> ecosystem_entry \<Rightarrow> bool" where
  "entry_le T a b =
     (let i = position_in (ee_category a) CATEGORY_IDS; j = position_in (ee_category b) CATEGORY_IDS in
      i < j \<or> i = j \<and> tx_compare T (ee_name a) (ee_name b))"

definition getEcosystem :: "'r runtime_scheme \<Rightarrow> text_rules \<Rightarrow> json_files option \<Rightarrow> listing_error + ecosystem_entry list" where
  "getEcosystem E T dir =
     (case dir of
        None \<Rightarrow> Inr []
      | Some files \<Rightarrow>
          rbind (read_entries E [] (sort_key fst (filter (json_name \<circ> fst) files))) (\<lambda>es.
          rbind (refuse (name_map T [] (owned_names es))) (\<lambda>_.
          Inr (sort_by (entry_le T) es))))"

text \<open>\<open>(^|\s)term($|\s)\<close> with the flag \<open>i\<close>: somewhere in the name, from a position at its start or after white space.\<close>

fun word_from :: "text_rules \<Rightarrow> jstr \<Rightarrow> bool \<Rightarrow> jstr \<Rightarrow> bool" where
  "word_from T t free s =
     ((free \<and> map (tx_canon T) (take (length t) s) = map (tx_canon T) t
        \<and> (case drop (length t) s of [] \<Rightarrow> True | c # _ \<Rightarrow> is_space c))
      \<or> (case s of [] \<Rightarrow> False | c # cs \<Rightarrow> word_from T t (is_space c) cs))"

definition resolvePlatformName ::
  "'r runtime_scheme \<Rightarrow> text_rules \<Rightarrow> json_files option \<Rightarrow> jstr \<Rightarrow> listing_error + ecosystem_entry option" where
  "resolvePlatformName E T dir term =
     (let t = tx_lower T (trim term) in
      if t = [] then Inr None
      else rbind (getEcosystem E T dir) (\<lambda>all.
        Inr (case find (\<lambda>e. t \<in> set (map (tx_lower T) (names_of e))) all of
               Some e \<Rightarrow> Some e
             | None \<Rightarrow> find (\<lambda>e. word_from T t True (ee_name e)) all)))"

definition getFeatured :: "'r runtime_scheme \<Rightarrow> text_rules \<Rightarrow> json_files option \<Rightarrow> listing_error + ecosystem_entry list" where
  "getFeatured E T dir = rbind (getEcosystem E T dir) (\<lambda>es. Inr (filter ee_featured es))"

datatype ecosystem_relationship = NoRelationship | PatternDocumented | PartnerRelationship

fun ECOSYSTEM_RELATIONSHIPS :: "ecosystem_relationship \<Rightarrow> jstr \<times> jstr" where
  "ECOSYSTEM_RELATIONSHIPS NoRelationship =
     (js ''No relationship'', js ''Listed on technical grounds only. The platform has no involvement with AgenID.'')"
| "ECOSYSTEM_RELATIONSHIPS PatternDocumented =
     (js ''Pattern documented'', js ''AgenID has published a written integration brief describing how identity travels through this platform. The brief is AgenID'' @ quote_mark
        @ js ''s own work; the platform has no involvement with it and ships no AgenID code.'')"
| "ECOSYSTEM_RELATIONSHIPS PartnerRelationship = (js ''Partner'', js ''A partnership is on record with the platform.'')"

definition relationshipOf :: "ecosystem_entry \<Rightarrow> ecosystem_relationship" where
  "relationshipOf e =
     (if ee_status e = OfficialPartner then PartnerRelationship
      else if or_empty (ee_docs e) \<noteq> [] then PatternDocumented else NoRelationship)"

subsection \<open>The graphic\<close>

type_synonym category_group = "ecosystem_category \<times> ecosystem_entry list"

definition by_category :: "ecosystem_entry list \<Rightarrow> category_group list" where
  "by_category es = map (\<lambda>c. (c, filter (\<lambda>e. ee_category e = ec_id c) es)) ECOSYSTEM_CATEGORIES"

definition getByCategory :: "'r runtime_scheme \<Rightarrow> text_rules \<Rightarrow> json_files option \<Rightarrow> listing_error + category_group list" where
  "getByCategory E T dir = rbind (getEcosystem E T dir) (\<lambda>es. Inr (by_category es))"

definition CLOUD_ORDER :: "jstr list" where
  "CLOUD_ORDER = map js [''models'', ''voice'', ''infrastructure'', ''action'', ''frameworks'', ''enterprise'']"

text \<open>\<open>cloud_groups\<close> is the body of \<open>getCloudClusters\<close> once the registry is read; \<open>byId\<close> is the \<open>Map\<close> of the groups.\<close>

definition cloud_groups :: "category_group list \<Rightarrow> category_group list" where
  "cloud_groups groups =
     (let byId = map (\<lambda>g. (ec_id (fst g), g)) groups;
          ids = CLOUD_ORDER @ filter (\<lambda>i. i \<notin> set CLOUD_ORDER) (map fst byId) in
      map (\<lambda>g. (fst g, filter ee_featured (snd g)))
        (filter (\<lambda>g. list_ex ee_featured (snd g)) (List.map_filter (map_of byId) ids)))"

definition getCloudClusters :: "'r runtime_scheme \<Rightarrow> text_rules \<Rightarrow> json_files option \<Rightarrow> listing_error + category_group list" where
  "getCloudClusters E T dir = rbind (getByCategory E T dir) (\<lambda>groups. Inr (cloud_groups groups))"

record cloud_node =
  cn_id :: jstr
  cn_name :: jstr
  cn_abbr :: jstr
  cn_status :: ecosystem_status
  cn_statusLabel :: jstr
  cn_statusDefinition :: jstr
  cn_relationshipLabel :: jstr
  cn_relationshipDefinition :: jstr
  cn_integration_type :: jstr
  cn_compatibility_note :: jstr
  cn_capabilities :: "jstr list"
  cn_docs :: "jstr option"

definition cloud_node_of :: "ecosystem_entry \<Rightarrow> cloud_node" where
  "cloud_node_of e =
     (let rel = ECOSYSTEM_RELATIONSHIPS (relationshipOf e) in
      \<lparr>cn_id = ee_id e, cn_name = ee_name e, cn_abbr = ee_abbr e, cn_status = ee_status e,
       cn_statusLabel = sr_label (ECOSYSTEM_STATUSES (ee_status e)), cn_statusDefinition = sr_definition (ECOSYSTEM_STATUSES (ee_status e)),
       cn_relationshipLabel = fst rel, cn_relationshipDefinition = snd rel, cn_integration_type = ee_integration_type e,
       cn_compatibility_note = ee_compatibility_note e,
       cn_capabilities = (case ee_capabilities e of None \<Rightarrow> [] | Some cs \<Rightarrow> cs),
       cn_docs = (if or_empty (ee_docs e) \<noteq> [] then ee_docs e else None)\<rparr>)"

definition buildCloudClusters ::
  "'r runtime_scheme \<Rightarrow> text_rules \<Rightarrow> json_files option \<Rightarrow> listing_error + (ecosystem_category \<times> cloud_node list) list" where
  "buildCloudClusters E T dir =
     rbind (getCloudClusters E T dir) (\<lambda>groups. Inr (map (\<lambda>g. (fst g, map cloud_node_of (snd g))) groups))"

text \<open>The path is relative to \<open>public/\<close>; \<open>svg_files\<close> reads a file there, \<open>None\<close> when there is none.\<close>

definition readLogoSvg :: "(jstr \<Rightarrow> jstr option) \<Rightarrow> ecosystem_entry \<Rightarrow> jstr option" where
  "readLogoSvg svg_files e =
     (case ee_logo_svg e of
        None \<Rightarrow> None
      | Some p \<Rightarrow> if p = [] then None
          else svg_files (case strip_prefix (js ''/'') p of None \<Rightarrow> p | Some r \<Rightarrow> r))"

subsection \<open>Brand permissions\<close>

text \<open>
  \<open>svg\<close>, \<open>logo_use\<close> and \<open>recolor\<close> stay texts: the first is compared with a list, the other two are looked up with
  \<open>in\<close>, which also holds of the names a table inherits.
\<close>

definition LOGO_USE_POSITIONS :: "(jstr \<times> jstr) list" where
  "LOGO_USE_POSITIONS =
     [(js ''requires-permission'', js ''Requires written permission''),
      (js ''no-published-policy'', js ''No published policy''),
      (js ''permitted-with-conditions'', js ''Permitted, conditionally'')]"

definition RECOLOR_POSITIONS :: "jstr list" where
  "RECOLOR_POSITIONS = map js [''prohibited'', ''silent'', ''permitted'']"

datatype mark_policy = TypographicOnly | Licensed

record brand_license =
  bl_granted_by :: jstr
  bl_reference :: jstr
  bl_granted_on :: jstr
  bl_permits :: jstr

record brand_permission =
  bp_id :: jstr
  bp_provider :: jstr
  bp_registry_id :: "jstr option"
  bp_official_source :: jstr
  bp_reviewed :: jstr
  bp_svg :: jstr
  bp_logo_use :: jstr
  bp_recolor :: jstr
  bp_controlling_quote :: jstr
  bp_quote_source :: jstr
  bp_license :: "brand_license option"
  bp_note :: "jstr option"

definition markPolicyFor :: "brand_permission \<Rightarrow> mark_policy" where
  "markPolicyFor p =
     (if bp_logo_use p \<noteq> js ''permitted-with-conditions'' then TypographicOnly
      else if bp_license p = None then TypographicOnly else Licensed)"

definition permission_fail :: "jstr \<Rightarrow> jstr \<Rightarrow> jstr" where
  "permission_fail i msg = js ''brand permissions: '' @ i @ js '': '' @ msg"

definition permission_keys :: "jstr list" where
  "permission_keys = map js [''id'', ''provider'', ''registry_id'', ''official_source'', ''reviewed'', ''svg'', ''logo_use'',
     ''recolor'', ''controlling_quote'', ''quote_source'', ''license'', ''note'']"

definition license_keys :: "jstr list" where
  "license_keys = map js [''granted_by'', ''reference'', ''granted_on'', ''permits'']"

definition perm_str :: "jstr \<Rightarrow> jsval \<Rightarrow> string \<Rightarrow> nat \<Rightarrow> jstr + jstr" where
  "perm_str i v k low =
     (case get_member (js k) v of
        JStr s \<Rightarrow> require (low \<le> length (trim s)) (permission_fail i (quoted (js k) @ js '' must be a string of at least '' @ dec low @ js '' chars'')) (Inr s)
      | _ \<Rightarrow> Inl (permission_fail i (quoted (js k) @ js '' must be a string of at least '' @ dec low @ js '' chars'')))"

definition position_known :: "jstr list \<Rightarrow> jstr \<Rightarrow> bool" where
  "position_known table k \<longleftrightarrow> k \<in> set table \<or> k \<in> set INHERITED"

definition license_str :: "jstr \<Rightarrow> jsval \<Rightarrow> jstr \<Rightarrow> jstr + jstr" where
  "license_str i l k =
     (case get_member k l of
        JStr s \<Rightarrow> require (3 \<le> length (trim s)) (permission_fail i (js ''license: '' @ quoted k @ js '' is required and must be substantive'')) (Inr s)
      | _ \<Rightarrow> Inl (permission_fail i (js ''license: '' @ quoted k @ js '' is required and must be substantive'')))"

definition perm_license :: "jstr \<Rightarrow> jsval \<Rightarrow> jstr \<Rightarrow> jstr + brand_license option" where
  "perm_license i v logo_use =
     (let l = get_member (js ''license'') v in
      if l = JUndefined then Inr None
      else (case object_members l of
        None \<Rightarrow> Inl (permission_fail i (js ''\"license\" must be an object''))
      | Some ms \<Rightarrow>
          (case unknown_key license_keys (map fst ms) of
             Some k \<Rightarrow> Inl (permission_fail i (js ''license: unknown key '' @ quoted k))
           | None \<Rightarrow>
               rbind (license_str i (JObj ms) (js ''granted_by'')) (\<lambda>granted_by.
               rbind (license_str i (JObj ms) (js ''reference'')) (\<lambda>reference.
               rbind (license_str i (JObj ms) (js ''granted_on'')) (\<lambda>granted_on.
               rbind (license_str i (JObj ms) (js ''permits'')) (\<lambda>permits.
               require (date_text granted_on) (permission_fail i (js ''license: \"granted_on\" must be YYYY-MM-DD''))
               (require (logo_use \<noteq> js ''requires-permission'')
                 (permission_fail i (js ''a license is recorded but logo_use is still \"requires-permission\" '' @ em_dash @ js '' raise the position or remove the license''))
               (Inr (Some \<lparr>bl_granted_by = granted_by, bl_reference = reference, bl_granted_on = granted_on, bl_permits = permits\<rparr>))))))))))"

definition perm_https :: "jstr \<Rightarrow> string \<Rightarrow> jstr \<Rightarrow> (jstr + 'a) \<Rightarrow> jstr + 'a" where
  "perm_https i k v = require (starts ''https://'' v) (permission_fail i (quoted (js k) @ js '' must be an https URL''))"

text \<open>The record once its three vocabulary members and its date have passed.\<close>

definition perm_rest :: "jstr \<Rightarrow> jsval \<Rightarrow> jstr \<Rightarrow> jstr \<Rightarrow> jstr \<Rightarrow> jstr \<Rightarrow> jstr + brand_permission" where
  "perm_rest i v svg logo_use recolor reviewed =
     rbind (perm_str i v ''controlling_quote'' 30) (\<lambda>controlling_quote.
     rbind (perm_str i v ''quote_source'' 1) (\<lambda>quote_source.
     rbind (perm_str i v ''official_source'' 1) (\<lambda>official_source.
     perm_https i ''official_source'' official_source
     (perm_https i ''quote_source'' quote_source
     (rbind (if get_member (js ''registry_id'') v = JNull then Inr None else map_sum id Some (perm_str i v ''registry_id'' 1)) (\<lambda>registry_id.
     rbind (perm_str i v ''id'' 1) (\<lambda>ident.
     rbind (perm_str i v ''provider'' 1) (\<lambda>provider.
     rbind (perm_license i v logo_use) (\<lambda>license.
     rbind (if get_member (js ''note'') v = JUndefined then Inr None else map_sum id Some (perm_str i v ''note'' 1)) (\<lambda>note.
     Inr \<lparr>bp_id = ident, bp_provider = provider, bp_registry_id = registry_id, bp_official_source = official_source,
          bp_reviewed = reviewed, bp_svg = svg, bp_logo_use = logo_use, bp_recolor = recolor, bp_controlling_quote = controlling_quote,
          bp_quote_source = quote_source, bp_license = license, bp_note = note\<rparr>))))))))))"

definition validatePermission :: "jsval \<Rightarrow> jstr \<Rightarrow> jstr + brand_permission" where
  "validatePermission raw i =
     (case object_members raw of
        None \<Rightarrow> Inl (permission_fail i (js ''must be an object''))
      | Some ms \<Rightarrow>
          (case unknown_key permission_keys (map fst ms) of
             Some k \<Rightarrow> Inl (permission_fail i (js ''unknown key '' @ quoted k))
           | None \<Rightarrow>
               (let v = JObj ms in
                rbind (perm_str i v ''svg'' 1) (\<lambda>svg.
                require (svg \<in> set (map js [''public'', ''gated'', ''none'', ''unverified''])) (permission_fail i (js ''\"svg\" is not a known value: '' @ svg))
                (rbind (perm_str i v ''logo_use'' 1) (\<lambda>logo_use.
                require (position_known (map fst LOGO_USE_POSITIONS) logo_use) (permission_fail i (js ''\"logo_use\" is not a known position: '' @ logo_use))
                (rbind (perm_str i v ''recolor'' 1) (\<lambda>recolor.
                require (position_known RECOLOR_POSITIONS recolor) (permission_fail i (js ''\"recolor\" is not a known position: '' @ recolor))
                (rbind (perm_str i v ''reviewed'' 1) (\<lambda>reviewed.
                require (date_text reviewed) (permission_fail i (js ''\"reviewed\" must be YYYY-MM-DD''))
                (perm_rest i v svg logo_use recolor reviewed)))))))))))"

text \<open>\<open>r?.id ?? "<unknown>"\<close> in a message; \<open>show_value\<close> is the text of a value that is not a string.\<close>

definition permission_label :: "(jsval \<Rightarrow> jstr) \<Rightarrow> jsval \<Rightarrow> jstr" where
  "permission_label show_value r =
     (case get_member (js ''id'') r of JUndefined \<Rightarrow> js ''<unknown>'' | JNull \<Rightarrow> js ''<unknown>'' | JStr s \<Rightarrow> s | v \<Rightarrow> show_value v)"

fun first_repeated :: "jstr list \<Rightarrow> jstr list \<Rightarrow> jstr option" where
  "first_repeated seen [] = None"
| "first_repeated seen (i # is) = (if i \<in> set seen then Some i else first_repeated (i # seen) is)"

definition getBrandPermissions :: "(jsval \<Rightarrow> jstr) \<Rightarrow> jsval option \<Rightarrow> listing_error + brand_permission list" where
  "getBrandPermissions show_value parsed =
     (case parsed of
        None \<Rightarrow> Inl (Not_JSON (js ''brand-permissions.json''))
      | Some (JArr rs) \<Rightarrow>
          rbind (refuse (map_result (\<lambda>r. validatePermission r (permission_label show_value r)) rs)) (\<lambda>ps.
          (case first_repeated [] (map bp_id ps) of
             Some i \<Rightarrow> Inl (Listing_Refused (js ''brand permissions: duplicate id '' @ quoted i))
           | None \<Rightarrow> Inr ps))
      | Some v \<Rightarrow> Inl (Listing_Refused (js ''brand permissions: data file must be an array'')))"

definition permissionForRegistryId :: "(jsval \<Rightarrow> jstr) \<Rightarrow> jsval option \<Rightarrow> jstr \<Rightarrow> listing_error + brand_permission option" where
  "permissionForRegistryId show_value parsed registryId =
     rbind (getBrandPermissions show_value parsed) (\<lambda>ps. Inr (find (\<lambda>p. bp_registry_id p = Some registryId) ps))"

subsection \<open>What an accepted record satisfies\<close>

lemma refuse_Inr [simp]: "refuse r = Inr x \<longleftrightarrow> r = Inr x"
  by (cases r) simp_all

lemma entry_str_Inr [simp]: "entry_str file entry k re = Inr v \<longleftrightarrow> get_member (js k) entry = JStr v \<and> trim v \<noteq> [] \<and> re v"
  by (auto simp: entry_str_def split: jsval.split)

lemma optional_str_Inr:
  "optional_str file entry k = Inr v \<longleftrightarrow>
     (case v of None \<Rightarrow> get_member (js k) entry = JUndefined
      | Some s \<Rightarrow> get_member (js k) entry = JStr s \<and> trim s \<noteq> [])"
  by (cases "entry_str file entry k any_text"; cases v)
    (auto simp: optional_str_def entry_str_def any_text_def split: jsval.splits if_splits)

lemma check_flags_Inr:
  "check_flags file key status verified partner = Inr s \<longleftrightarrow>
     status = Some s \<and> verified = sr_verified (ECOSYSTEM_STATUSES s) \<and> partner = sr_partner (ECOSYSTEM_STATUSES s)"
  by (auto simp: check_flags_def Let_def split: option.split)

lemma check_evidence_Inr:
  "check_evidence file key s entry = Inr u \<longleftrightarrow>
     (if sr_requiresEvidence (ECOSYSTEM_STATUSES s) then \<exists>v. get_member (js ''evidence'') entry = JStr v \<and> 20 \<le> length (trim v)
      else get_member (js ''evidence'') entry = JUndefined)"
  by (auto simp: check_evidence_def Let_def split: jsval.split)

lemma check_capabilities_length: "check_capabilities f cs = Inr vs \<Longrightarrow> length vs = length cs"
  by (induction f cs arbitrary: vs rule: check_capabilities.induct)
    (auto simp: rbind_Inr_iff simp del: js_simps split: jsval.splits if_splits)

lemma entry_capabilities_Inr:
  assumes "entry_capabilities f entry True = Inr vs"
  shows "\<exists>cs. vs = Some cs \<and> cs \<noteq> []"
proof (cases "get_member (js ''capabilities'') entry")
  case (JArr caps)
  with assms obtain cs where "caps \<noteq> []" "check_capabilities f caps = Inr cs" "vs = Some cs"
    unfolding entry_capabilities_def by (auto simp: rbind_Inr_iff simp del: js_simps)
  then show ?thesis using check_capabilities_length by fastforce
qed (use assms in \<open>simp_all add: entry_capabilities_def del: js_simps\<close>)

lemma id_text_Nil: "id_text s \<Longrightarrow> s \<noteq> []"
  by (auto simp: id_text_def)

lemma entry_options_Inr:
  assumes "entry_options file entry e = Inr e'"
  shows "\<exists>capabilities logo docs evidence aliases. e' = e\<lparr>ee_capabilities := capabilities, ee_logo_svg := logo, ee_docs := docs, ee_evidence := evidence, ee_aliases := aliases\<rparr>
     \<and> entry_capabilities file entry (ee_featured e) = Inr capabilities
     \<and> optional_str file entry ''evidence'' = Inr evidence \<and> \<not> (ee_featured e \<and> ee_status e = Planned)"
  using assms unfolding entry_options_def rbind_Inr_iff require_Inr by blast

text \<open>The honesty contract, for one entry.\<close>

lemma validateEntry_honest:
  assumes "validateEntry E raw file = Inr e"
  shows "ee_verified e = sr_verified (ECOSYSTEM_STATUSES (ee_status e))"
    and "ee_partner e = sr_partner (ECOSYSTEM_STATUSES (ee_status e))"
    and "if sr_requiresEvidence (ECOSYSTEM_STATUSES (ee_status e)) then \<exists>v. ee_evidence e = Some v \<and> 20 \<le> length (trim v) else ee_evidence e = None"
    and "ee_featured e \<Longrightarrow> ee_status e \<noteq> Planned \<and> (\<exists>cs. ee_capabilities e = Some cs \<and> cs \<noteq> [])"
    and "ee_id e \<noteq> []"
    and "ee_category e \<in> set CATEGORY_IDS"
proof -
  obtain entry ident category key status website verified partner s u where
    e: "entry_str file entry ''id'' id_text = Inr ident" "entry_category file entry = Inr category"
      "check_flags file key status verified partner = Inr s" "check_evidence file key s entry = Inr u"
      "entry_rest E file entry ident category s website verified partner = Inr e"
    using assms unfolding validateEntry_def Let_def
    by (auto simp del: entry_str_Inr simp: rbind_Inr_iff split: option.splits)
  obtain e0 where e0: "entry_options file entry e0 = Inr e" "ee_id e0 = ident" "ee_category e0 = category" "ee_status e0 = s"
      "ee_verified e0 = verified" "ee_partner e0 = partner"
    using e(5) unfolding entry_rest_def rbind_Inr_iff by force
  obtain capabilities logo docs evidence aliases where o:
    "e = e0\<lparr>ee_capabilities := capabilities, ee_logo_svg := logo, ee_docs := docs, ee_evidence := evidence, ee_aliases := aliases\<rparr>"
    "entry_capabilities file entry (ee_featured e0) = Inr capabilities" "optional_str file entry ''evidence'' = Inr evidence"
    "\<not> (ee_featured e0 \<and> ee_status e0 = Planned)"
    using entry_options_Inr [OF e0(1)] by blast
  show "ee_verified e = sr_verified (ECOSYSTEM_STATUSES (ee_status e))" "ee_partner e = sr_partner (ECOSYSTEM_STATUSES (ee_status e))"
    using e(3) e0 o(1) by (simp_all add: check_flags_Inr)
  show "if sr_requiresEvidence (ECOSYSTEM_STATUSES (ee_status e)) then \<exists>v. ee_evidence e = Some v \<and> 20 \<le> length (trim v) else ee_evidence e = None"
    using e(4) o(1,3) e0(4) by (auto simp: check_evidence_Inr optional_str_Inr split: if_splits option.splits)
  show "ee_featured e \<Longrightarrow> ee_status e \<noteq> Planned \<and> (\<exists>cs. ee_capabilities e = Some cs \<and> cs \<noteq> [])"
    using o entry_capabilities_Inr [of _ entry capabilities] by auto
  show "ee_id e \<noteq> []" using e(1) e0(2) o(1) id_text_Nil by auto
  show "ee_category e \<in> set CATEGORY_IDS" using e(2) e0(3) o(1) by (auto simp: entry_category_def rbind_Inr_iff)
qed

lemma read_entries_Inr:
  assumes "read_entries E seen fs = Inr es"
  shows "distinct (map ee_id es) \<and> set (map ee_id es) \<inter> set seen = {} \<and> (\<forall>e\<in>set es. \<exists>f raw. (f, Some raw) \<in> set fs \<and> validateEntry E raw f = Inr e)"
  using assms
proof (induction fs arbitrary: seen es)
  case (Cons p fs)
  obtain f parsed where p: "p = (f, parsed)" by fastforce
  with Cons.prems obtain raw e es' where e: "parsed = Some raw" "validateEntry E raw f = Inr e" "ee_id e \<notin> set seen"
      "read_entries E (ee_id e # seen) fs = Inr es'" "es = e # es'"
    by (auto simp: rbind_Inr_iff simp del: js_simps split: option.splits)
  have IH: "distinct (map ee_id es')" "set (map ee_id es') \<inter> set (ee_id e # seen) = {}"
      "\<forall>e\<in>set es'. \<exists>f raw. (f, Some raw) \<in> set fs \<and> validateEntry E raw f = Inr e"
    using Cons.IH [OF e(4)] by blast+
  show ?case
  proof (intro conjI ballI)
    show "distinct (map ee_id es)" "set (map ee_id es) \<inter> set seen = {}" using IH(1,2) e(3,5) by auto
    show "\<exists>f raw. (f, Some raw) \<in> set (p # fs) \<and> validateEntry E raw f = Inr a" if "a \<in> set es" for a
      using that e(1,2,5) p IH(3) by (metis list.set_intros(1,2) set_ConsD)
  qed
qed simp

lemma update_fresh: "k \<notin> fst ` set al \<Longrightarrow> AList.update k v al = al @ [(k, v)]"
  by (induction al) auto

lemma name_map_Inr:
  assumes "name_map T names ps = Inr names'" and "\<forall>(k, i)\<in>set names. i \<noteq> []" and "\<forall>(i, n)\<in>set ps. i \<noteq> []"
  shows "distinct (map (tx_lower T \<circ> snd) ps) \<and> (tx_lower T \<circ> snd) ` set ps \<inter> fst ` set names = {}"
  using assms
proof (induction ps arbitrary: names)
  case (Cons p rest)
  obtain i n where p: "p = (i, n)" by fastforce
  let ?key = "tx_lower T n"
  have prior: "or_empty (map_of names ?key) = []" and rest: "name_map T (AList.update ?key i names) rest = Inr names'"
    using Cons.prems(1) unfolding p by (simp_all add: Let_def del: js_simps)
  have fresh: "?key \<notin> fst ` set names"
  proof
    assume "?key \<in> fst ` set names"
    then obtain j where "map_of names ?key = Some j" by (metis map_of_eq_None_iff not_None_eq)
    with Cons.prems(2) prior show False by (auto simp: or_empty_def dest!: map_of_SomeD)
  qed
  have "\<forall>(k, j)\<in>set (names @ [(?key, i)]). j \<noteq> []" using Cons.prems(2,3) p by auto
  from Cons.IH [OF rest [unfolded update_fresh [OF fresh]] this] Cons.prems(3) fresh show ?case
    by (auto simp: p)
qed simp

lemma set_owned_names: "(i, n) \<in> set (owned_names es) \<longleftrightarrow> (\<exists>e\<in>set es. i = ee_id e \<and> n \<in> set (names_of e))"
  by (auto simp: owned_names_def)

lemma distinct_map_same: "distinct (map f xs) \<Longrightarrow> x \<in> set xs \<Longrightarrow> y \<in> set xs \<Longrightarrow> f x = f y \<Longrightarrow> x = y"
  by (simp add: distinct_map inj_on_def)

lemma getEcosystem_Inr:
  assumes "getEcosystem E T dir = Inr es"
  obtains xs where "mset es = mset xs" "distinct (map ee_id xs)" "distinct (map (tx_lower T \<circ> snd) (owned_names xs))"
    "\<And>e. e \<in> set xs \<Longrightarrow> \<exists>file raw. validateEntry E raw file = Inr e"
proof (cases dir)
  case None
  with assms that [of "[]"] show ?thesis by (simp add: getEcosystem_def owned_names_def)
next
  case (Some files)
  with assms obtain xs names where xs: "read_entries E [] (sort_key fst (filter (json_name \<circ> fst) files)) = Inr xs"
      "name_map T [] (owned_names xs) = Inr names" "es = sort_by (entry_le T) xs"
    by (auto simp: getEcosystem_def rbind_Inr_iff)
  note r = read_entries_Inr [OF xs(1)]
  then have v: "\<exists>file raw. validateEntry E raw file = Inr e" if "e \<in> set xs" for e using that by blast
  have "\<forall>(i, n)\<in>set (owned_names xs). i \<noteq> []" using v validateEntry_honest(5) by (fastforce simp: set_owned_names)
  then have "distinct (map (tx_lower T \<circ> snd) (owned_names xs))" using name_map_Inr [OF xs(2)] by simp
  with r v xs(3) show ?thesis by (intro that [of xs]) simp_all
qed

lemma ecosystem_names_distinct:
  assumes "getEcosystem E T dir = Inr es" "e \<in> set es" "e' \<in> set es" "n \<in> set (names_of e)" "n' \<in> set (names_of e')"
    and "tx_lower T n = tx_lower T n'"
  shows "e = e'"
proof -
  obtain xs where xs: "mset es = mset xs" "distinct (map ee_id xs)" "distinct (map (tx_lower T \<circ> snd) (owned_names xs))"
    using getEcosystem_Inr [OF assms(1)] by blast
  then have mem: "e \<in> set xs" "e' \<in> set xs" using assms(2,3) by (metis set_mset_mset)+
  then have "(ee_id e, n) = (ee_id e', n')"
    using assms(4-6) by (intro distinct_map_same [OF xs(3)]) (auto simp: set_owned_names)
  with mem show ?thesis using distinct_map_same [OF xs(2)] by simp
qed

lemma platform_name_governed:
  assumes "getEcosystem E T dir = Inr es" "e \<in> set es" "n \<in> set (names_of e)" "trim n = n" "tx_lower T n \<noteq> []"
  shows "resolvePlatformName E T dir n = Inr (Some e)"
proof -
  let ?P = "\<lambda>e. tx_lower T n \<in> set (map (tx_lower T) (names_of e))"
  have P: "?P e" using assms(3) by simp
  then obtain e' where f: "find ?P es = Some e'" using assms(2) by (cases "find ?P es") (auto simp: find_None_iff)
  then have "e' \<in> set es" "?P e'" by (auto simp: find_Some_iff)
  then have "e' = e" using ecosystem_names_distinct [OF assms(1)] assms(2,3) by fastforce
  with f assms show ?thesis by (simp add: resolvePlatformName_def Let_def)
qed

lemma mset_filter_categories:
  assumes "\<forall>e\<in>set es. ee_category e \<in> set cs" "distinct cs"
  shows "mset (concat (map (\<lambda>c. filter (\<lambda>e. ee_category e = c) es) cs)) = mset es"
  using assms
proof (induction es)
  case (Cons e es)
  have "mset (concat (map (\<lambda>c. filter (\<lambda>x. ee_category x = c) (e # es)) cs))
      = mset (concat (map (\<lambda>c. filter (\<lambda>x. ee_category x = c) es) cs)) + (if ee_category e \<in> set cs then {#e#} else {#})"
    using Cons.prems(2) by (induction cs) auto
  with Cons show ?case by simp
qed (simp add: map_replicate_const)

lemma mset_map_filter: "mset xs = mset ys \<Longrightarrow> mset (List.map_filter f xs) = mset (List.map_filter f ys)"
  by (simp add: List.map_filter_def mset_map mset_filter)

lemma mset_concat_perm: "mset xss = mset yss \<Longrightarrow> mset (concat xss) = mset (concat yss)"
  by (metis mset_concat mset_map sum_mset_sum_list)

lemma map_filter_keys: "\<forall>(k, v)\<in>set kvs. f k = Some v \<Longrightarrow> List.map_filter f (map fst kvs) = map snd kvs"
  by (induction kvs) (auto simp: map_filter_simps)

lemma map_filter_map_of_keys: "distinct (map fst kvs) \<Longrightarrow> List.map_filter (map_of kvs) (map fst kvs) = map snd kvs"
  by (intro map_filter_keys) auto

lemma category_ids: "distinct CATEGORY_IDS" "mset CLOUD_ORDER = mset CATEGORY_IDS"
proof -
  show d: "distinct CATEGORY_IDS" by code_simp
  have "distinct CLOUD_ORDER" "set CLOUD_ORDER = set CATEGORY_IDS" by code_simp+
  with d show "mset CLOUD_ORDER = mset CATEGORY_IDS" using set_eq_iff_mset_eq_distinct by blast
qed

lemma featured_concat:
  "concat (map snd (map (\<lambda>g. (fst g, filter P (snd g))) (filter (\<lambda>g. list_ex P (snd g)) gs))) = filter P (concat (map snd gs))"
  by (induction gs) (auto simp: list_ex_iff intro!: filter_False)

lemma cloud_groups_by_category:
  assumes "\<forall>e\<in>set es. ee_category e \<in> set CATEGORY_IDS"
  shows "mset (concat (map snd (cloud_groups (by_category es)))) = mset (filter ee_featured es)"
proof -
  let ?byId = "map (\<lambda>g. (ec_id (fst g), g)) (by_category es)"
  have keys: "map fst ?byId = CATEGORY_IDS" by (simp add: by_category_def CATEGORY_IDS_def)
  then have "filter (\<lambda>i. i \<notin> set CLOUD_ORDER) (map fst ?byId) = []"
    using category_ids(2) by (metis (mono_tags, lifting) filter_False mset_eq_setD)
  then have c: "concat (map snd (cloud_groups (by_category es)))
      = filter ee_featured (concat (map snd (List.map_filter (map_of ?byId) CLOUD_ORDER)))"
    unfolding cloud_groups_def Let_def featured_concat by simp
  have "mset (List.map_filter (map_of ?byId) CLOUD_ORDER) = mset (map snd ?byId)"
    using map_filter_map_of_keys [of ?byId] category_ids(1) unfolding keys
    by (subst mset_map_filter [OF category_ids(2)]) simp
  then have "image_mset snd (mset (List.map_filter (map_of ?byId) CLOUD_ORDER)) = image_mset snd (mset (map snd ?byId))" by (rule arg_cong)
  then have "mset (map snd (List.map_filter (map_of ?byId) CLOUD_ORDER)) = mset (map snd (by_category es))"
    by (simp add: comp_def image_mset.compositionality)
  moreover have "map snd (by_category es) = map (\<lambda>c. filter (\<lambda>e. ee_category e = c) es) CATEGORY_IDS"
    by (simp add: by_category_def CATEGORY_IDS_def)
  ultimately have "mset (map snd (List.map_filter (map_of ?byId) CLOUD_ORDER)) = mset (map (\<lambda>c. filter (\<lambda>e. ee_category e = c) es) CATEGORY_IDS)"
    by (rule trans [OF _ arg_cong [where f = mset]])
  from mset_concat_perm [OF this] have "mset (concat (map snd (List.map_filter (map_of ?byId) CLOUD_ORDER))) = mset es"
    by (rule trans) (rule mset_filter_categories [OF assms category_ids(1)])
  then show ?thesis using c by (simp add: mset_filter)
qed

lemma cloud_shows_featured:
  assumes "getEcosystem E T dir = Inr es"
  shows "\<exists>groups. buildCloudClusters E T dir = Inr groups
     \<and> mset (concat (map snd groups)) = mset (map cloud_node_of (filter ee_featured es))"
proof -
  obtain xs where "mset es = mset xs" "\<And>e. e \<in> set xs \<Longrightarrow> \<exists>file raw. validateEntry E raw file = Inr e"
    using getEcosystem_Inr [OF assms] by metis
  then have "\<forall>e\<in>set es. ee_category e \<in> set CATEGORY_IDS" using validateEntry_honest(6) by (metis set_mset_mset)
  note cloud_groups_by_category [OF this]
  then have "image_mset cloud_node_of (mset (concat (map snd (cloud_groups (by_category es))))) = mset (map cloud_node_of (filter ee_featured es))"
    by simp
  moreover have "mset (concat (map snd (map (\<lambda>g. (fst g, map cloud_node_of (snd g))) gs)))
      = image_mset cloud_node_of (mset (concat (map snd gs)))" for gs :: "category_group list"
    by (induction gs) auto
  ultimately show ?thesis using assms by (simp add: buildCloudClusters_def getCloudClusters_def getByCategory_def)
qed

subsection \<open>The properties\<close>


definition sample_listing :: jsval where
  "sample_listing = JObj
     [(js ''id'', JStr (js ''openai'')), (js ''name'', JStr (js ''OpenAI'')), (js ''abbr'', JStr (js ''OA'')),
      (js ''category'', JStr (js ''models'')), (js ''description'', JStr (js ''GPT model family'')),
      (js ''website'', JStr (js ''https://openai.com'')), (js ''status'', JStr (js ''verified-integration'')),
      (js ''integration_type'', JStr (js ''Model-agnostic'')), (js ''verified'', JBool True), (js ''partner'', JBool False),
      (js ''last_verified'', JStr (js ''2026-09-13'')),
      (js ''compatibility_note'', JStr (js ''The identifier is carried by the operator, not by the model API.'')),
      (js ''capabilities'', JArr [JStr (js ''Identity is independent of the vendor'')]), (js ''featured'', JBool True),
      (js ''evidence'', JStr (js ''End-to-end run of 2026-09-13'')), (js ''aliases'', JArr [JStr (js ''GPT'')])]"

definition sample_listing_dir :: json_files where
  "sample_listing_dir = [(js ''README.md'', None), (js ''openai.json'', Some sample_listing)]"

definition sample_text_rules :: text_rules where
  "sample_text_rules = \<lparr>tx_lower = toLowerCase, tx_compare = (\<le>), tx_canon = lower_latin1\<rparr>"

lemma sample_listing_loads:
  "case getEcosystem reference_runtime sample_text_rules (Some sample_listing_dir) of
     Inr [e] \<Rightarrow> ee_status e = VerifiedIntegration \<and> ee_featured e \<and> names_of e = [js ''OpenAI'', js ''GPT''] | _ \<Rightarrow> False"
  by code_simp


subsection \<open>The brand records\<close>

lemma perm_license_Inr:
  assumes "perm_license i v logo_use = Inr (Some l)"
  shows "date_text (bl_granted_on l) \<and> 3 \<le> length (trim (bl_granted_by l)) \<and> 3 \<le> length (trim (bl_reference l))
    \<and> 3 \<le> length (trim (bl_permits l)) \<and> logo_use \<noteq> js ''requires-permission''"
proof -
  have str: "license_str i' m k = Inr s \<Longrightarrow> 3 \<le> length (trim s)" for i' m k s
    by (auto simp: license_str_def simp del: js_simps split: jsval.splits)
  show ?thesis
    using assms unfolding perm_license_def Let_def
    by (auto simp: rbind_Inr_iff simp del: js_simps split: if_splits option.splits intro: str)
qed

text \<open>
  Artwork is licensed only where the position is an affirmative one and a dated grant names who gave it, where it is
  recorded and what it permits.
\<close>

lemma licensed_mark_recorded:
  assumes "validatePermission raw i = Inr p" and "markPolicyFor p = Licensed"
  shows "bp_logo_use p = js ''permitted-with-conditions'' \<and> (\<exists>l. bp_license p = Some l \<and> date_text (bl_granted_on l)
    \<and> 3 \<le> length (trim (bl_granted_by l)) \<and> 3 \<le> length (trim (bl_reference l)) \<and> 3 \<le> length (trim (bl_permits l)))"
proof -
  obtain v svg logo_use recolor reviewed where "perm_rest i v svg logo_use recolor reviewed = Inr p"
    using assms(1) unfolding validatePermission_def Let_def
    by (auto simp: rbind_Inr_iff simp del: js_simps split: option.splits)
  then obtain u where "perm_license i v u = Inr (bp_license p)"
    unfolding perm_rest_def perm_https_def rbind_Inr_iff require_Inr by force
  then show ?thesis
    using assms(2) perm_license_Inr [of i v u] by (auto simp: markPolicyFor_def simp del: js_simps split: if_splits)
qed

text \<open>A position looked up with \<open>in\<close> may be a name the table inherits: the record is accepted with no such position.\<close>

definition sample_permission :: "string \<Rightarrow> jsval" where
  "sample_permission use = JObj
     [(js ''id'', JStr (js ''openai'')), (js ''provider'', JStr (js ''OpenAI'')), (js ''registry_id'', JStr (js ''openai'')),
      (js ''official_source'', JStr (js ''https://openai.com/brand/'')), (js ''reviewed'', JStr (js ''2026-09-20'')),
      (js ''svg'', JStr (js ''public'')), (js ''logo_use'', JStr (js use)), (js ''recolor'', JStr (js ''silent'')),
      (js ''controlling_quote'', JStr (js ''Ensure each logo uses its approved color format.'')),
      (js ''quote_source'', JStr (js ''https://openai.com/brand/''))]"

lemma inherited_position_accepted:
  "case validatePermission (sample_permission ''toString'') [] of Inr p \<Rightarrow> map_of LOGO_USE_POSITIONS (bp_logo_use p) = None | Inl _ \<Rightarrow> False"
  "case validatePermission (sample_permission ''granted'') [] of Inr p \<Rightarrow> False | Inl _ \<Rightarrow> True"
  by code_simp+

lemma first_repeated_None: "first_repeated seen is = None \<longleftrightarrow> distinct is \<and> set is \<inter> set seen = {}"
  by (induction seen "is" rule: first_repeated.induct) auto

lemma brand_permissions_unique:
  "getBrandPermissions show_value parsed = Inr ps \<Longrightarrow> distinct (map bp_id ps)"
  by (auto simp: getBrandPermissions_def rbind_Inr_iff first_repeated_None simp del: js_simps split: option.splits jsval.splits)

end
