(* ===== verification/Spec2Isabelle.thy ===== *)
theory Spec2Isabelle
  imports Listings
begin

text \<open>
  AgenID: a registry of AI agents.  An operator describes an agent in a manifest, signs a proof over its canonical bytes
  with an Ed25519 key and registers both; an authority may add signed assertions; anyone resolves an agent, fetches its
  keys and verifies.  Principals sign grants and revocations, from which a verifier decides whether an agent may act.
  This development models the TypeScript of \<open>packages/core\<close>, \<open>packages/api\<close>, \<open>packages/cli\<close>, \<open>packages/mcp-server\<close> and the server and signing code of
  \<open>packages/web\<close>, and proves what makes it correct.

  \<^bold>\<open>How the code is modelled.\<close>  A JavaScript string is a list of 16-bit words, a byte array a list of 8-bit words, a value of
  type \<open>unknown\<close> a \<open>jsval\<close>; a finite number is the triple its text is made of.  A function that may throw returns a sum,
  an asynchronous handler is a function from a state to a result and a state (\<open>io\<close>), in which the calls of the store
  are the steps.  Records have the members of the source's types; \<open>X_obj\<close> is the JSON of a record and \<open>X_ok\<close> the checks of
  its schema.  32-bit shifts (ULIDs) are on \<open>32 word\<close>.  Times are integers, \<open>None\<close> where JavaScript has \<open>NaN\<close>.

  \<^bold>\<open>The theories, and what they model.\<close>
  \<^item> Language: \<open>AgenID_Prelude\<close> (strings, results, numerals), \<open>JS_Value\<close> (values and their JSON text), \<open>Encodings\<close> (UTF-8,
    hex, base64url), \<open>Percent\<close> (\<open>encodeURIComponent\<close> and its inverse), \<open>JS_Date\<close> (\<open>Date.parse\<close>, \<open>toISOString\<close>).
  \<^item> Core, \<open>packages/core/src\<close>: \<open>Errors\<close> (\<open>errors.ts\<close>), \<open>JCS\<close> (\<open>jcs.ts\<close>), \<open>Identifier\<close> (\<open>identifier.ts\<close>), \<open>Schemas\<close>
    (\<open>schemas.ts\<close>), \<open>Authorization\<close> (\<open>authorization.ts\<close>), \<open>Crypto\<close> (\<open>crypto.ts\<close>), \<open>Authorization_Verify\<close>
    (\<open>authorization-verify.ts\<close>).  \<open>Platform\<close> is the interface to the packages below, \<open>Reference_Platform\<close> an executable
    instance of it and \<open>Samples\<close> documents on that instance.
  \<^item> Registry, \<open>packages/api/src\<close>: \<open>Registry_Store\<close> (\<open>store.ts\<close>), \<open>Supabase_Store\<close> (\<open>supabase-store.ts\<close>, with the
    lemmas of \<open>JSON_Members\<close>), \<open>Key_Discovery\<close> (\<open>raw-key-target.ts\<close>, \<open>serve-key.ts\<close>), \<open>Registry_Api\<close>
    (\<open>registration-time.ts\<close>, \<open>envelope.ts\<close>), \<open>Registry_App\<close> (\<open>app.ts\<close>: one definition per route);
    \<open>Registry_Invariants\<close> and \<open>Registry_Properties\<close> hold the proofs about them.
  \<^item> Web, \<open>packages/web\<close>: \<open>Rate_Limit\<close> (\<open>lib/rate-limit.ts\<close>, \<open>lib/same-origin.ts\<close>), \<open>Trust_Presentation\<close>
    (\<open>lib/trust-presentation.ts\<close>), \<open>Web_Registry\<close> (\<open>lib/register.ts\<close>, \<open>app/api/v1/agents\<close>), \<open>Web_Routes\<close> (\<open>lib/api.ts\<close>,
    \<open>lib/serve-key.ts\<close>, the routes that resolve, bind, declare and verify, the text of the badge), \<open>Web_Properties\<close>
    (proofs), \<open>Directory\<close> (\<open>lib/directory.ts\<close> and its route), \<open>Browser_Signing\<close> (\<open>lib/client-crypto.ts\<close>),
    \<open>Domain_Control\<close> (\<open>lib/domain-connect.ts\<close>, \<open>lib/dns-probe.ts\<close>, \<open>lib/key-discovery.ts\<close>, \<open>lib/keys-document.ts\<close>,
    \<open>app/api/verify-dns\<close>, \<open>app/api/domain/status\<close>), \<open>Retell_Onboarding\<close> (\<open>lib/retell-manifest.ts\<close>,
    \<open>app/api/retell/agents\<close>).
  \<^item> \<open>Clients\<close>: the command line of \<open>packages/cli\<close> and the MCP tools of \<open>packages/mcp-server\<close>.
  \<^item> \<open>Listings\<close>: the compatibility registry (\<open>lib/ecosystem.ts\<close>: validation, loading, name resolution, the data of the
    graphic) and the brand records (\<open>lib/brand-permissions.ts\<close>).  The files are an argument: names and parsed contents.

  \<^bold>\<open>Parameters and their laws.\<close>  Code that is not in the repository is an argument.  \<open>platform\<close> has SHA-256, Ed25519 and one
  zod parser per schema; \<open>zod_schemas\<close> says that a parser accepts a JSON document exactly when it is the object of a record
  that passes the written checks, \<open>ed25519_correct\<close> that a signature verifies under its key, \<open>ed25519_lengths\<close> and
  \<open>sha256_length\<close> the sizes; unforgeability and collision resistance are never assumed, and where a statement needs the
  latter it names the two documents with one digest.  \<open>runtime\<close> has the engine's reading of dates that are not RFC 3339 and
  zod's e-mail pattern, \<open>text_rules\<close> the letter case and collation of names, \<open>limiter_db\<close> the database procedures of the rate limiter, \<open>network\<close> the resolver, \<open>fetch\<close>, the URL
  constructor and \<open>JSON.parse\<close>.  Random bytes, clock readings and environment variables are arguments.

  \<^bold>\<open>Interfaces.\<close>  Three locales state what a client relies on, each interpreted on the model's own definitions.
  \<open>registry\<close> (in \<open>Registry_Store\<close>): the store operations and their laws over an abstract view; \<open>MemoryStore\<close> is one
  (\<open>memory\<close>), and \<open>SupabaseStore\<close> is one over any client that behaves as Postgres does (\<open>supabase_refines_registry\<close>).
  \<open>postgres\<close> (in \<open>Supabase_Store\<close>): the queries of the client over four tables, interpreted on executable tables
  (\<open>reference_db\<close>).  \<open>directory\<close> (in \<open>Directory\<close>): the listing store, interpreted on its in-memory version
  (\<open>memory_listings\<close>).  The handlers themselves are plain definitions over a record of operations.

  \<^bold>\<open>What is proved.\<close>
  \<^item> Canonicalization: canonical bytes are equal exactly for documents equal up to the order of members, the validator
    accepts exactly what the serializer can write, and the written form is the compact text with sorted members.  So a
    signature over bytes is a signature over a document.
  \<^item> Identifiers and keys: round trips of ULIDs and of the wire forms of key identifiers; which request target serves which
    key, exactly.
  \<^item> Verification: what is signed with the published key verifies within its window; a proof binds one manifest; key roles do
    not substitute for each other; no verifier throws; an unparseable instant switches the window off (a finding).
  \<^item> Authorization: the decision is exactly the written rule; revocations of the principal end permissions, those of others
    are inert.
  \<^item> The registry: an abstract registry moves by four kinds of steps (\<open>registry_step\<close>), every handler over every store that
    keeps the laws only makes such steps (one lemma per handler, by the locale's laws), hence no history of requests
    changes or removes what was written and all that was written was verified; registration is characterized exactly; two
    interleaved registrations, or a failing key write, break what sequential requests keep (findings).
  \<^item> The web application: its registration agrees with Fastify's on status, error and store; an envelope is presented as
    verified only when its assertions were; the limiter's floor holds; consents are never replayed and an operator can
    always delist; what the browser signs is registered; domain control is reported exactly when DNS publishes the value;
    the file handed to an operator is the file accepted; the relay to Retell touches nothing for foreign pages.
  \<^item> The clients: what the command line writes is registered; the MCP verifier and the web's agree; its resolver assumes a
    level nobody stated (a finding).
  \<^item> The listings: flags, evidence and what is shown of another company follow the recorded status, a name governs one entry,
    the graphic shows the featured entries once each; artwork is licensed only with a recorded, dated grant.

  \<^bold>\<open>Bounds and termination.\<close>  No definition uses fuel.  Recursions are structural or end by a measure: \<open>decodeURIComponent\<close> and
  the template substitution by the length of the text, the UTF-8 decoder by twice the bytes left plus one for a pending
  sequence (a byte out of range is read again), the bit buffer of ULIDs by the bits left.  The bounded reader of key
  documents is shown to leave a body, even an endless one, after at most 65,537 non-empty chunks.

  \<^bold>\<open>Not modelled, and why.\<close>
  \<^item> Pages and components (\<open>.tsx\<close>), \<open>badge.js\<close> (a script sent as text), the drawing of the SVG badge (floating-point
    widths), styles: rendering.
  \<^item> \<open>lib/content\<close>, \<open>lib/scenarios\<close>, \<open>lib/partners.ts\<close>, \<open>app/api/v1/openapi.json\<close>, \<open>app/sitemap.ts\<close>, \<open>lib/seo.ts\<close>,
    \<open>lib/markdown.ts\<close>, the feed: texts and data of the site, with no protocol behaviour.
  \<^item> \<open>server.ts\<close>, \<open>lib/supabase.ts\<close>, \<open>proxy.ts\<close>, \<open>next.config.ts\<close>: start-up and configuration of frameworks.
  \<^item> Tests, SQL migrations and scripts; the SQL functions appear as laws of \<open>limiter_db\<close> and \<open>postgres\<close>.
  \<^item> Log lines.  The text of zod's messages is whatever the parser parameter returns.  \<open>toLowerCase\<close> is defined on Latin-1,
    which is all that header values, host names and DNS names contain; brand names use the parameter.
\<close>

end
